(* ===== verification/JS_Prelude.thy ===== *)
theory JS_Prelude
  imports Complex_Main
begin

text \<open>
  What the Falcone sources use of JavaScript and of SQL, shared by every component theory.

  \<^item> \<^bold>\<open>Errors.\<close> A JavaScript exception is a value of \<open>js_error\<close> (its \<open>code\<close>, its
    \<open>statusCode\<close> and its \<open>message\<close>); a function that may throw returns \<open>js_error + 'a\<close>, and
    \<open>bindE\<close> is the sequencing of such calls.
  \<^item> \<^bold>\<open>Missing values.\<close> \<open>undefined\<close> and \<open>null\<close> are \<open>None\<close>: the sources read
    optional fields through \<open>??\<close> and truth tests, which do not tell the two apart.
  \<^item> \<^bold>\<open>Strings\<close> are \<open>string\<close> (lists of 8-bit characters), with \<open>split\<close>, \<open>trim\<close>,
    \<open>includes\<close>, \<open>startsWith\<close>, \<open>Number\<close> and \<open>parseInt\<close> written out.
  \<^item> \<^bold>\<open>Numbers\<close> are exact: integers where the source keeps integers, and \<open>jsnum\<close> (a
    rational, an infinity or NaN) where it converts strings. Rounding to 64-bit floats is not
    modelled.
  \<^item> \<^bold>\<open>Times\<close> are milliseconds since the epoch (\<open>int\<close>); the ISO strings the sources store
    are their printed form.
  \<^item> \<^bold>\<open>Tables\<close> are lists of rows; an \<open>UPDATE ... WHERE\<close> is \<open>updWhere\<close>.
\<close>

named_theorems js_simps \<open>unfolding rules for the JavaScript primitives\<close>

section \<open>Errors and results\<close>

datatype js_error =
  JsError (err_code: "string option") (err_status: "int option") (err_message: string)

type_synonym 'a result = "js_error + 'a"
type_synonym time = int

definition bindE :: "'e + 'a \<Rightarrow> ('a \<Rightarrow> 'e + 'b) \<Rightarrow> 'e + 'b" where
  "bindE m f = (case m of Inl e \<Rightarrow> Inl e | Inr x \<Rightarrow> f x)"

lemma bindE_Inl [simp]: "bindE (Inl e) f = Inl e"
  by (simp add: bindE_def)

lemma bindE_Inr [simp]: "bindE (Inr x) f = f x"
  by (simp add: bindE_def)

lemma bindE_eq_Inr: "bindE m f = Inr y \<longleftrightarrow> (\<exists>x. m = Inr x \<and> f x = Inr y)"
  by (cases m) auto

lemma bindE_eq_Inl: "bindE m f = Inl e \<longleftrightarrow> m = Inl e \<or> (\<exists>x. m = Inr x \<and> f x = Inl e)"
  by (cases m) auto

lemma bindE_assoc: "bindE (bindE m f) g = bindE m (\<lambda>x. bindE (f x) g)"
  by (cases m) auto

text \<open>\<open>throwIf b e\<close> is the guard \<open>if (b) throw e;\<close> in front of the rest of a body.\<close>

definition throwIf :: "bool \<Rightarrow> 'e \<Rightarrow> 'e + unit" where
  "throwIf b e = (if b then Inl e else Inr ())"

lemma throwIf_eq_Inr [simp]: "throwIf b e = Inr u \<longleftrightarrow> \<not> b"
  by (simp add: throwIf_def)

lemma throwIf_eq_Inl [simp]: "throwIf b e = Inl e' \<longleftrightarrow> b \<and> e' = e"
  by (auto simp: throwIf_def)

lemma throwIf_simps [simp]: "throwIf False e = Inr ()" "throwIf True e = Inl e"
  by (simp_all add: throwIf_def)

lemma bindE_throwIf_Inr [simp]: "bindE (throwIf b e) f = Inr y \<longleftrightarrow> \<not> b \<and> f () = Inr y"
  by (auto simp: throwIf_def)

section \<open>Missing values: the operators ?? and || and the truth test\<close>

definition coalesce :: "'a option \<Rightarrow> 'a \<Rightarrow> 'a" where
  "coalesce x d = (case x of None \<Rightarrow> d | Some v \<Rightarrow> v)"

definition orElse :: "'a option \<Rightarrow> 'a option \<Rightarrow> 'a option" where
  "orElse x y = (case x of None \<Rightarrow> y | Some v \<Rightarrow> Some v)"

lemma coalesce_simps [simp]: "coalesce None d = d" "coalesce (Some v) d = v"
  by (simp_all add: coalesce_def)

lemma orElse_simps [simp]: "orElse None y = y" "orElse (Some v) y = Some v"
  "orElse x None = x"
  by (simp_all add: orElse_def split: option.splits)

text \<open>A string is truthy when it is present and not empty.\<close>

fun truthyS :: "string option \<Rightarrow> bool" where
  "truthyS None = False"
| "truthyS (Some s) = (s \<noteq> [])"

lemma truthyS_iff: "truthyS x \<longleftrightarrow> (\<exists>s. x = Some s \<and> s \<noteq> [])"
  by (cases x) auto

section \<open>Strings\<close>

abbreviation chr :: "char \<Rightarrow> nat" where
  "chr c \<equiv> of_char c"

definition is_ws :: "char \<Rightarrow> bool" where
  "is_ws c \<longleftrightarrow> chr c \<in> {9, 10, 11, 12, 13, 32}"

definition is_digit :: "char \<Rightarrow> bool" where
  "is_digit c \<longleftrightarrow> 48 \<le> chr c \<and> chr c \<le> 57"

definition is_lower :: "char \<Rightarrow> bool" where
  "is_lower c \<longleftrightarrow> 97 \<le> chr c \<and> chr c \<le> 122"

definition is_upper :: "char \<Rightarrow> bool" where
  "is_upper c \<longleftrightarrow> 65 \<le> chr c \<and> chr c \<le> 90"

text \<open>The same tests on the bits of a character, for evaluation.\<close>

lemma is_digit_code [code]:
  "is_digit (Char b0 b1 b2 b3 b4 b5 b6 b7) \<longleftrightarrow> \<not> b7 \<and> \<not> b6 \<and> b5 \<and> b4 \<and> (b3 \<longrightarrow> \<not> b2 \<and> \<not> b1)"
  by (cases b0; cases b1; cases b2; cases b3; cases b4; cases b5; cases b6; cases b7)
     (simp_all add: is_digit_def)

lemma is_lower_code [code]:
  "is_lower (Char b0 b1 b2 b3 b4 b5 b6 b7) \<longleftrightarrow>
     \<not> b7 \<and> b6 \<and> b5 \<and> (b0 \<or> b1 \<or> b2 \<or> b3 \<or> b4) \<and> \<not> (b4 \<and> b3 \<and> (b2 \<or> b1 \<and> b0))"
  by (cases b0; cases b1; cases b2; cases b3; cases b4; cases b5; cases b6; cases b7)
     (simp_all add: is_lower_def)

lemma is_upper_code [code]:
  "is_upper (Char b0 b1 b2 b3 b4 b5 b6 b7) \<longleftrightarrow>
     \<not> b7 \<and> b6 \<and> \<not> b5 \<and> (b0 \<or> b1 \<or> b2 \<or> b3 \<or> b4) \<and> \<not> (b4 \<and> b3 \<and> (b2 \<or> b1 \<and> b0))"
  by (cases b0; cases b1; cases b2; cases b3; cases b4; cases b5; cases b6; cases b7)
     (simp_all add: is_upper_def)

lemma is_ws_code [code]:
  "is_ws (Char b0 b1 b2 b3 b4 b5 b6 b7) \<longleftrightarrow>
     \<not> b7 \<and> \<not> b6 \<and> \<not> b4 \<and>
     (if b5 then \<not> b0 \<and> \<not> b1 \<and> \<not> b2 \<and> \<not> b3 else b3 \<and> (b0 \<or> b1 \<or> b2) \<and> \<not> (b2 \<and> b1))"
  by (cases b0; cases b1; cases b2; cases b3; cases b4; cases b5; cases b6; cases b7)
     (simp_all add: is_ws_def)

definition toLower :: "char \<Rightarrow> char" where
  "toLower c = (if is_upper c then char_of (chr c + 32 :: nat) else c)"

definition js_toLowerCase :: "string \<Rightarrow> string" where
  "js_toLowerCase s = map toLower s"

definition js_trim :: "string \<Rightarrow> string" where
  "js_trim s = rev (dropWhile is_ws (rev (dropWhile is_ws s)))"

text \<open>\<open>s.split(c)\<close> for a one-character separator.\<close>

fun js_split :: "char \<Rightarrow> string \<Rightarrow> string list" where
  "js_split c [] = [[]]"
| "js_split c (x # xs) =
     (if x = c then [] # js_split c xs
      else (case js_split c xs of [] \<Rightarrow> [[x]] | y # ys \<Rightarrow> (x # y) # ys))"

text \<open>\<open>s.split(/\s+/)\<close>: every maximal run of white space is one separator.\<close>

function js_split_ws :: "string \<Rightarrow> string list" where
  "js_split_ws [] = [[]]"
| "js_split_ws (x # xs) =
     (if is_ws x then [] # js_split_ws (dropWhile is_ws xs)
      else (case js_split_ws xs of [] \<Rightarrow> [[x]] | y # ys \<Rightarrow> (x # y) # ys))"
  by pat_completeness auto
termination
  by (relation "measure length") (auto simp: le_imp_less_Suc length_dropWhile_le)

fun js_join :: "string \<Rightarrow> string list \<Rightarrow> string" where
  "js_join sep [] = []"
| "js_join sep [x] = x"
| "js_join sep (x # y # ys) = x @ sep @ js_join sep (y # ys)"

fun js_startsWith :: "string \<Rightarrow> string \<Rightarrow> bool" where
  "js_startsWith s [] = True"
| "js_startsWith [] (p # ps) = False"
| "js_startsWith (x # xs) (p # ps) = (x = p \<and> js_startsWith xs ps)"

fun js_includes :: "string \<Rightarrow> string \<Rightarrow> bool" where
  "js_includes [] p = (p = [])"
| "js_includes (x # xs) p = (js_startsWith (x # xs) p \<or> js_includes xs p)"

lemma js_split_not_Nil [simp]: "js_split c s \<noteq> []"
  by (induction s) (auto split: list.splits)

lemma js_split_ws_not_Nil [simp]: "js_split_ws s \<noteq> []"
  by (induction s rule: js_split_ws.induct) (auto split: list.splits)

lemma js_split_single: "c \<notin> set s \<Longrightarrow> js_split c s = [s]"
  by (induction s) auto

lemma js_split_no_sep: "t \<in> set (js_split c s) \<Longrightarrow> c \<notin> set t"
proof (induction s arbitrary: t)
  case Nil
  then show ?case by simp
next
  case (Cons x xs)
  then show ?case
    by (cases "js_split c xs") (auto split: if_splits)
qed

lemma js_join_Cons: "ys \<noteq> [] \<Longrightarrow> js_join sep (x # ys) = x @ sep @ js_join sep ys"
  by (cases ys) auto

lemma js_join_hd: "js_join sep ((x # y) # ys) = x # js_join sep (y # ys)"
  by (cases ys) auto

text \<open>Joining what \<open>split\<close> cut gives the string back.\<close>

lemma js_join_split: "js_join [c] (js_split c s) = s"
proof (induction s)
  case Nil
  then show ?case by simp
next
  case (Cons x xs)
  obtain y ys where sp: "js_split c xs = y # ys"
    by (cases "js_split c xs") auto
  with Cons show ?case
    by (auto simp: js_join_hd js_join_Cons)
qed

lemma js_split_join:
  "xs \<noteq> [] \<Longrightarrow> (\<And>x. x \<in> set xs \<Longrightarrow> c \<notin> set x) \<Longrightarrow> js_split c (js_join [c] xs) = xs"
proof (induction "[c]" xs rule: js_join.induct)
  case 1
  then show ?case by simp
next
  case (2 x)
  then show ?case by (simp add: js_split_single)
next
  case (3 x y ys)
  have step: "js_split c (z @ [c] @ w) = z # js_split c w" if "c \<notin> set z" for z w
    using that by (induction z) auto
  from 3 show ?case by (simp add: step [simplified])
qed

lemma js_startsWith_iff: "js_startsWith s p \<longleftrightarrow> (\<exists>r. s = p @ r)"
  by (induction s p rule: js_startsWith.induct) auto

lemma js_includes_iff: "js_includes s p \<longleftrightarrow> (\<exists>a b. s = a @ p @ b)"
proof (induction s)
  case Nil
  then show ?case by auto
next
  case (Cons x xs)
  have "(\<exists>a b. x # xs = a @ p @ b) \<longleftrightarrow> (\<exists>b. x # xs = p @ b) \<or> (\<exists>a b. xs = a @ p @ b)"
    by (metis append_Cons append_Nil neq_Nil_conv list.inject)
  with Cons show ?case by (simp add: js_startsWith_iff)
qed

lemma js_includes_char: "js_includes s [c] \<longleftrightarrow> c \<in> set s"
  by (auto simp: js_includes_iff in_set_conv_decomp)

section \<open>Printing and reading numbers\<close>

definition digit_char :: "nat \<Rightarrow> char" where
  "digit_char d = char_of (48 + d)"

fun show_nat :: "nat \<Rightarrow> string" where
  "show_nat n = (if n < 10 then [digit_char n] else show_nat (n div 10) @ [digit_char (n mod 10)])"

declare show_nat.simps [simp del]

definition show_int :: "int \<Rightarrow> string" where
  "show_int i = (if i < 0 then CHR ''-'' # show_nat (nat (- i)) else show_nat (nat i))"

text \<open>The digit of a character in base 36, \<open>None\<close> for any other character.\<close>

definition digit_val :: "char \<Rightarrow> nat option" where
  "digit_val c =
     (if is_digit c then Some (chr c - 48)
      else if is_lower c then Some (chr c - 87)
      else if is_upper c then Some (chr c - 55)
      else None)"

definition is_digit_in :: "nat \<Rightarrow> char \<Rightarrow> bool" where
  "is_digit_in b c = (case digit_val c of None \<Rightarrow> False | Some d \<Rightarrow> d < b)"

fun read_digits :: "nat \<Rightarrow> string \<Rightarrow> nat \<Rightarrow> nat" where
  "read_digits b [] acc = acc"
| "read_digits b (c # cs) acc = read_digits b cs (acc * b + coalesce (digit_val c) 0)"

datatype jsnum = Fin rat | NaN | Infty bool

definition jsInt :: "int \<Rightarrow> jsnum" where
  "jsInt i = Fin (of_int i)"

fun isInteger :: "jsnum \<Rightarrow> bool" where
  "isInteger (Fin r) = (of_int (floor r) = r)"
| "isInteger NaN = False"
| "isInteger (Infty _) = False"

fun toInt :: "jsnum \<Rightarrow> int" where
  "toInt (Fin r) = floor r"
| "toInt NaN = 0"
| "toInt (Infty _) = 0"

text \<open>\<open>a < b\<close> on numbers; every comparison with NaN is false.\<close>

fun js_less :: "jsnum \<Rightarrow> jsnum \<Rightarrow> bool" where
  "js_less (Fin a) (Fin b) = (a < b)"
| "js_less (Fin a) (Infty p) = p"
| "js_less (Infty p) (Fin b) = (\<not> p)"
| "js_less (Infty p) (Infty q) = (\<not> p \<and> q)"
| "js_less NaN _ = False"
| "js_less _ NaN = False"

text \<open>\<open>a + b\<close> on numbers.\<close>

fun js_add :: "jsnum \<Rightarrow> jsnum \<Rightarrow> jsnum" where
  "js_add (Fin a) (Fin b) = Fin (a + b)"
| "js_add (Fin a) (Infty p) = Infty p"
| "js_add (Infty p) (Fin b) = Infty p"
| "js_add (Infty p) (Infty q) = (if p = q then Infty p else NaN)"
| "js_add _ _ = NaN"

lemma js_less_jsInt [simp]: "js_less (jsInt a) (jsInt b) \<longleftrightarrow> a < b"
  by (simp add: jsInt_def)

text \<open>\<open>String(x)\<close> of a number, at most 20 decimals.\<close>

definition pad_digits :: "nat \<Rightarrow> string \<Rightarrow> string" where
  "pad_digits k s = replicate (k - length s) (CHR ''0'') @ s"

definition decimals :: "rat \<Rightarrow> nat" where
  "decimals r = (case find (\<lambda>k. isInteger (Fin (r * 10 ^ k))) [1..<21] of None \<Rightarrow> 20 | Some k \<Rightarrow> k)"

fun show_num :: "jsnum \<Rightarrow> string" where
  "show_num (Fin r) =
     (if isInteger (Fin r) then show_int (floor r)
      else (let k = decimals r; n = nat (floor (abs r * 10 ^ k))
            in (if r < 0 then ''-'' else '''') @ show_nat (n div 10 ^ k) @ ''.'' @
               pad_digits k (show_nat (n mod 10 ^ k))))"
| "show_num NaN = ''NaN''"
| "show_num (Infty p) = (if p then ''Infinity'' else ''-Infinity'')"

lemma isInteger_jsInt [simp]: "isInteger (jsInt i)" "toInt (jsInt i) = i"
  by (simp_all add: jsInt_def)

lemma isInteger_iff: "isInteger x \<longleftrightarrow> (\<exists>i. x = jsInt i)"
proof (cases x)
  case (Fin r)
  have "of_int (floor r) = r \<longleftrightarrow> (\<exists>i. r = of_int i)"
    by (metis floor_of_int)
  with Fin show ?thesis by (simp add: jsInt_def)
qed (simp_all add: jsInt_def)

text \<open>\<open>parseInt(s, 10)\<close>: leading white space, a sign, then the longest run of digits.\<close>

definition js_parseInt10 :: "string \<Rightarrow> int option" where
  "js_parseInt10 s =
     (let t = dropWhile is_ws s;
          neg = (t \<noteq> [] \<and> hd t = CHR ''-'');
          u = (if t \<noteq> [] \<and> (hd t = CHR ''-'' \<or> hd t = CHR ''+'') then tl t else t);
          ds = takeWhile is_digit u
      in if ds = [] then None
         else Some (if neg then - int (read_digits 10 ds 0) else int (read_digits 10 ds 0)))"

text \<open>The unsigned decimal literals of \<open>Number(s)\<close>: digits, a fraction, an exponent.\<close>

definition parse_exponent :: "string \<Rightarrow> int option" where
  "parse_exponent s =
     (if s = [] then Some 0
      else if hd s = CHR ''e'' \<or> hd s = CHR ''E'' then
        (let t = tl s;
             neg = (t \<noteq> [] \<and> hd t = CHR ''-'');
             u = (if t \<noteq> [] \<and> (hd t = CHR ''-'' \<or> hd t = CHR ''+'') then tl t else t)
         in if u \<noteq> [] \<and> list_all is_digit u
            then Some (if neg then - int (read_digits 10 u 0) else int (read_digits 10 u 0))
            else None)
      else None)"

definition parse_decimal :: "string \<Rightarrow> rat option" where
  "parse_decimal s =
     (let ip = takeWhile is_digit s;
          r1 = dropWhile is_digit s;
          hasdot = (r1 \<noteq> [] \<and> hd r1 = CHR ''.'');
          fp = (if hasdot then takeWhile is_digit (tl r1) else []);
          r2 = (if hasdot then dropWhile is_digit (tl r1) else r1)
      in if ip = [] \<and> fp = [] then None
         else case parse_exponent r2 of
           None \<Rightarrow> None
         | Some e \<Rightarrow>
             (let m = of_nat (read_digits 10 (ip @ fp) 0) :: rat;
                  k = e - int (length fp)
              in Some (if 0 \<le> k then m * 10 ^ nat k else m / 10 ^ nat (- k))))"

definition radix_literal :: "nat \<Rightarrow> string \<Rightarrow> jsnum" where
  "radix_literal b ds =
     (if ds \<noteq> [] \<and> list_all (is_digit_in b) ds then Fin (of_nat (read_digits b ds 0)) else NaN)"

text \<open>\<open>Number(s)\<close> for a string: the empty string is 0, a radix prefix takes no sign.\<close>

definition js_Number :: "string \<Rightarrow> jsnum" where
  "js_Number s =
     (let t = js_trim s; p = js_toLowerCase (take 2 t) in
      if t = [] then Fin 0
      else if p = ''0x'' then radix_literal 16 (drop 2 t)
      else if p = ''0o'' then radix_literal 8 (drop 2 t)
      else if p = ''0b'' then radix_literal 2 (drop 2 t)
      else
        (let neg = (hd t = CHR ''-'');
             u = (if hd t = CHR ''-'' \<or> hd t = CHR ''+'' then tl t else t)
         in if u = ''Infinity'' then Infty (\<not> neg)
            else case parse_decimal u of
              None \<Rightarrow> NaN
            | Some r \<Rightarrow> Fin (if neg then - r else r)))"

lemmas number_defs [js_simps] =
  js_Number_def radix_literal_def parse_decimal_def parse_exponent_def js_parseInt10_def
  js_trim_def js_toLowerCase_def toLower_def is_ws_def is_digit_def is_lower_def is_upper_def
  is_digit_in_def digit_val_def Let_def

lemma js_Number_examples:
  "js_Number '''' = Fin 0" "js_Number ''15'' = Fin 15" "js_Number ''-3'' = Fin (- 3)"
  "js_Number ''0x1f'' = Fin 31" "js_Number ''1e2'' = Fin 100" "js_Number ''5-'' = NaN"
  by (simp_all add: js_simps)

section \<open>Tables\<close>

text \<open>\<open>UPDATE t SET f WHERE p\<close>.\<close>

definition updWhere :: "('r \<Rightarrow> bool) \<Rightarrow> ('r \<Rightarrow> 'r) \<Rightarrow> 'r list \<Rightarrow> 'r list" where
  "updWhere p f xs = map (\<lambda>r. if p r then f r else r) xs"

text \<open>The rows an \<open>UPDATE ... RETURNING *\<close> gives back.\<close>

definition returning :: "('r \<Rightarrow> bool) \<Rightarrow> ('r \<Rightarrow> 'r) \<Rightarrow> 'r list \<Rightarrow> 'r list" where
  "returning p f xs = map f (filter p xs)"

lemma length_updWhere [simp]: "length (updWhere p f xs) = length xs"
  by (simp add: updWhere_def)

lemma updWhere_Nil [simp]: "updWhere p f [] = []"
  by (simp add: updWhere_def)

lemma updWhere_Cons [simp]:
  "updWhere p f (x # xs) = (if p x then f x else x) # updWhere p f xs"
  by (simp add: updWhere_def)

lemma updWhere_append [simp]: "updWhere p f (xs @ ys) = updWhere p f xs @ updWhere p f ys"
  by (simp add: updWhere_def)

lemma set_updWhere: "set (updWhere p f xs) = (\<lambda>r. if p r then f r else r) ` set xs"
  by (simp add: updWhere_def)

lemma ball_updWhere:
  "(\<forall>r \<in> set (updWhere p f xs). Q r) \<longleftrightarrow> (\<forall>r \<in> set xs. if p r then Q (f r) else Q r)"
  by (auto simp: set_updWhere)

lemma bex_updWhere:
  "(\<exists>r \<in> set (updWhere p f xs). Q r) \<longleftrightarrow> (\<exists>r \<in> set xs. if p r then Q (f r) else Q r)"
  by (auto simp: set_updWhere)

lemma updWhere_none: "(\<And>x. x \<in> set xs \<Longrightarrow> \<not> p x) \<Longrightarrow> updWhere p f xs = xs"
  by (induction xs) auto

lemma map_updWhere_same: "(\<And>x. p x \<Longrightarrow> g (f x) = g x) \<Longrightarrow> map g (updWhere p f xs) = map g xs"
  by (induction xs) auto

lemma image_updWhere_same: "(\<And>x. p x \<Longrightarrow> g (f x) = g x) \<Longrightarrow> g ` set (updWhere p f xs) = g ` set xs"
  using map_updWhere_same [of p g f xs] by (metis list.set_map)

lemma nth_updWhere: "i < length xs \<Longrightarrow> updWhere p f xs ! i = (if p (xs ! i) then f (xs ! i) else xs ! i)"
  by (simp add: updWhere_def)

lemma filter_updWhere_disjoint:
  assumes "\<And>x. p x \<Longrightarrow> \<not> q x" and "\<And>x. p x \<Longrightarrow> \<not> q (f x)"
  shows "filter q (updWhere p f xs) = filter q xs"
  using assms by (induction xs) auto

lemma filter_updWhere_frame:
  assumes "\<And>x. x \<in> set xs \<Longrightarrow> p x \<Longrightarrow> \<not> q x" and "\<And>x. x \<in> set xs \<Longrightarrow> p x \<Longrightarrow> \<not> q (f x)"
  shows "filter q (updWhere p f xs) = filter q xs"
  using assms by (induction xs) auto

lemma length_filter_updWhere_le:
  assumes "\<And>x. x \<in> set xs \<Longrightarrow> p x \<Longrightarrow> q (f x) \<Longrightarrow> q x"
  shows "length (filter q (updWhere p f xs)) \<le> length (filter q xs)"
  using assms by (induction xs) (auto simp: le_SucI)

text \<open>A key update touches one row at most, so a count grows by one at most.\<close>

lemma length_filter_updWhere_key:
  assumes "distinct (map k xs)"
  shows "length (filter q (updWhere (\<lambda>x. k x = a) f xs)) \<le> Suc (length (filter q xs))"
  using assms
proof (induction xs)
  case Nil
  then show ?case by simp
next
  case (Cons x xs)
  show ?case
  proof (cases "k x = a")
    case True
    with Cons.prems have "updWhere (\<lambda>x. k x = a) f xs = xs"
      by (intro updWhere_none) (auto simp: rev_image_eqI)
    with True show ?thesis by simp
  next
    case False
    with Cons show ?thesis by simp
  qed
qed

lemma in_updWhereE:
  assumes "y \<in> set (updWhere p f xs)"
  obtains x where "x \<in> set xs" "y = (if p x then f x else x)"
  using assms by (auto simp: set_updWhere)

text \<open>\<open>rows[0]\<close> of a \<open>SELECT\<close>.\<close>

lemma find_Some_iff_in: "find p xs = Some x \<Longrightarrow> x \<in> set xs \<and> p x"
  by (induction xs) (auto split: if_splits)

lemma find_None_iff_all: "find p xs = None \<longleftrightarrow> (\<forall>x \<in> set xs. \<not> p x)"
  by (auto simp: find_None_iff)

lemma find_updWhere_key:
  assumes "\<And>x. p x \<Longrightarrow> p (f x)"
  shows "find p (updWhere p f xs) = map_option f (find p xs)"
  using assms by (induction xs) auto

lemma find_updWhere_other:
  assumes "\<And>x. p x \<Longrightarrow> \<not> q x" and "\<And>x. p x \<Longrightarrow> \<not> q (f x)"
  shows "find q (updWhere p f xs) = find q xs"
  using assms by (induction xs) auto

lemma distinct_map_inj: "distinct (map g xs) \<Longrightarrow> x \<in> set xs \<Longrightarrow> y \<in> set xs \<Longrightarrow> g x = g y \<Longrightarrow> x = y"
  by (induction xs) (auto simp: rev_image_eqI)

end
