(* ===== verification/Lifecycle.thy ===== *)
theory Lifecycle
  imports JS_Prelude
begin

text \<open>
  The interfaces several components share.

  \<^item> \<open>lifecycle\<close>: a status machine given by its table of allowed transitions, whose terminal
    statuses have no way out (async operations, scheduled jobs, plans).
  \<^item> \<open>ranked_lifecycle\<close>: a status machine whose transitions always go down a rank, so that it has
    no cycle and every run of it is bounded.
  \<^item> \<open>row_update\<close>: an \<open>UPDATE ... WHERE key = k\<close> whose assignment keeps the key.
  \<^item> \<open>admission\<close>: a quota test in front of an insertion.
  \<^item> \<open>next_run\<close>: a source of run times that only moves forward.
\<close>

section \<open>Status machines\<close>

locale lifecycle =
  fixes allowed :: "'s \<Rightarrow> 's \<Rightarrow> bool"
    and terminal :: "'s \<Rightarrow> bool"
  assumes terminal_stuck: "terminal s \<Longrightarrow> \<not> allowed s t"
begin

lemma terminal_absorbing: "allowed\<^sup>*\<^sup>* s t \<Longrightarrow> terminal s \<Longrightarrow> t = s"
  by (induction rule: rtranclp_induct) (auto dest: terminal_stuck)

end

locale ranked_lifecycle = lifecycle +
  fixes rank :: "'s \<Rightarrow> nat"
  assumes rank_decreases: "allowed s t \<Longrightarrow> rank t < rank s"
begin

lemma run_bounded: "(allowed ^^ n) s t \<Longrightarrow> n + rank t \<le> rank s"
proof (induction n arbitrary: t)
  case 0
  then show ?case by simp
next
  case (Suc n)
  then obtain u where "(allowed ^^ n) s u" and "allowed u t"
    by auto
  with Suc.IH [of u] rank_decreases [of u t] show ?case by simp
qed

lemma no_cycle: "allowed\<^sup>+\<^sup>+ s t \<Longrightarrow> s \<noteq> t"
proof -
  assume "allowed\<^sup>+\<^sup>+ s t"
  then have "rank t < rank s"
    by (induction rule: tranclp_induct) (auto dest: rank_decreases)
  then show "s \<noteq> t" by auto
qed

end

section \<open>Rows updated by key\<close>

locale row_update =
  fixes key :: "'r \<Rightarrow> 'k"
    and upd :: "'a \<Rightarrow> 'r \<Rightarrow> 'r"
  assumes key_upd: "key (upd a r) = key r"
begin

lemma keys_kept: "map key (updWhere (\<lambda>r. key r = k) (upd a) rows) = map key rows"
  by (rule map_updWhere_same) (simp add: key_upd)

lemma distinct_kept:
  "distinct (map key rows) \<Longrightarrow> distinct (map key (updWhere (\<lambda>r. key r = k) (upd a) rows))"
  by (simp add: keys_kept)

lemma lookup_updated:
  "find (\<lambda>r. key r = k) (updWhere (\<lambda>r. key r = k) (upd a) rows)
     = map_option (upd a) (find (\<lambda>r. key r = k) rows)"
  by (rule find_updWhere_key) (simp add: key_upd)

lemma lookup_other:
  "k' \<noteq> k \<Longrightarrow>
   find (\<lambda>r. key r = k') (updWhere (\<lambda>r. key r = k) (upd a) rows) = find (\<lambda>r. key r = k') rows"
  by (rule find_updWhere_other) (auto simp: key_upd)

lemma row_other:
  "r \<in> set rows \<Longrightarrow> key r \<noteq> k \<Longrightarrow> r \<in> set (updWhere (\<lambda>r. key r = k) (upd a) rows)"
  by (force simp: set_updWhere)

end

section \<open>Admission by quota\<close>

locale admission =
  fixes admits :: "int \<Rightarrow> int \<Rightarrow> bool"
  assumes admits_iff: "admits used limit \<longleftrightarrow> used < limit"
begin

lemma admitted_within: "admits used limit \<Longrightarrow> used + 1 \<le> limit"
  by (simp add: admits_iff)

lemma refused_at_limit: "limit \<le> used \<Longrightarrow> \<not> admits used limit"
  by (simp add: admits_iff)

end

section \<open>Run times that move forward\<close>

text \<open>A list of run times each of which is the next one after its predecessor.\<close>

fun follows :: "(time \<Rightarrow> time result) \<Rightarrow> time \<Rightarrow> time list \<Rightarrow> bool" where
  "follows nxt t [] = True"
| "follows nxt t (r # rs) = (nxt t = Inr r \<and> follows nxt r rs)"

locale next_run =
  fixes nxt :: "'x \<Rightarrow> time \<Rightarrow> time result"
  assumes nxt_later: "nxt x t = Inr r \<Longrightarrow> t < r"
begin

lemma follows_increasing: "follows (nxt x) t rs \<Longrightarrow> sorted_wrt (<) (t # rs)"
proof (induction rs arbitrary: t)
  case Nil
  then show ?case by simp
next
  case (Cons r rs)
  then have "t < r" and "sorted_wrt (<) (r # rs)"
    by (auto dest: nxt_later)
  then show ?case by auto
qed

lemma follows_distinct: "follows (nxt x) t rs \<Longrightarrow> distinct rs"
  using follows_increasing [of x t rs] by (simp add: strict_sorted_iff)

end

end
