(* ===== verification/Cron.thy ===== *)
theory Cron
  imports Lifecycle
begin

text \<open>
  \<open>packages/scheduling-engine/src/cron-validator.mjs\<close>: the five-field cron expressions of the
  scheduling engine, parsed to five lists of values, and the search for the next run by
  stepping minute after minute through at most 366 days.

  Dates are UTC. A time is a number of milliseconds; its minute, hour, day, month and weekday
  are those of the proleptic Gregorian calendar, as \<open>Date.prototype.getUTC*\<close> gives them.
\<close>

section \<open>Calendar fields of a time\<close>

definition ms_per_day :: int where
  "ms_per_day = 86400000"

definition getUTCMinutes :: "time \<Rightarrow> int" where
  "getUTCMinutes t = (t div 60000) mod 60"

definition getUTCHours :: "time \<Rightarrow> int" where
  "getUTCHours t = (t div 3600000) mod 24"

definition getUTCDay :: "time \<Rightarrow> int" where
  "getUTCDay t = (t div ms_per_day + 4) mod 7"

text \<open>
  Day and month from the day number, counted in 400-year cycles that start on 1 March: the day of
  the cycle, the year of the cycle and the day of that year give the month by the rule
  \<open>(5 * doy + 2) div 153\<close>.
\<close>

definition civil_from_days :: "int \<Rightarrow> int \<times> int \<times> int" where
  "civil_from_days z0 =
     (let z = z0 + 719468;
          era = z div 146097;
          doe = z mod 146097;
          yoe = (doe - doe div 1460 + doe div 36524 - doe div 146096) div 365;
          doy = doe - (365 * yoe + yoe div 4 - yoe div 100);
          mp = (5 * doy + 2) div 153;
          d = doy - (153 * mp + 2) div 5 + 1;
          m = (if mp < 10 then mp + 3 else mp - 9);
          y = yoe + era * 400 + (if m \<le> 2 then 1 else 0)
      in (y, m, d))"

definition getUTCDate :: "time \<Rightarrow> int" where
  "getUTCDate t = snd (snd (civil_from_days (t div ms_per_day)))"

definition getUTCMonth :: "time \<Rightarrow> int" where
  "getUTCMonth t = fst (snd (civil_from_days (t div ms_per_day))) - 1"

lemmas calendar_defs =
  ms_per_day_def getUTCMinutes_def getUTCHours_def getUTCDay_def civil_from_days_def
  getUTCDate_def getUTCMonth_def

lemma calendar_examples:
  "civil_from_days 0 = (1970, 1, 1)"
  "civil_from_days 19782 = (2024, 2, 29)"
  "civil_from_days 20454 = (2026, 1, 1)"
  "civil_from_days (- 1) = (1969, 12, 31)"
  "getUTCDay 0 = 4"
  by code_simp+

lemma getUTCDay_range: "0 \<le> getUTCDay t \<and> getUTCDay t \<le> 6"
  by (simp add: getUTCDay_def)

section \<open>Parsing\<close>

definition FIELD_RANGES :: "(int \<times> int) list" where
  "FIELD_RANGES = [(0, 59), (0, 23), (1, 31), (1, 12), (0, 7)]"

text \<open>The loop \<open>for (current = rangeStart; current <= rangeEnd; current += step)\<close>.\<close>

function range_steps :: "int \<Rightarrow> int \<Rightarrow> int \<Rightarrow> int list" where
  "range_steps current rangeEnd step =
     (if current \<le> rangeEnd \<and> 0 < step
      then current # range_steps (current + step) rangeEnd step else [])"
  by pat_completeness auto
termination
  by (relation "measure (\<lambda>(c, e, s). nat (e - c + 1))") auto

declare range_steps.simps [simp del]

definition quoted :: "string \<Rightarrow> string" where
  "quoted s = [CHR 0x22] @ s @ [CHR 0x22]"

text \<open>One comma-separated token of a field: \<open>base\<close> or \<open>base/step\<close>.\<close>

definition expandToken :: "string \<Rightarrow> int \<Rightarrow> int \<Rightarrow> string \<Rightarrow> int list result" where
  "expandToken part mn mx token =
     (let bs = js_split (CHR ''/'') token;
          base = hd bs;
          stepRaw = (if 1 < length bs then Some (bs ! 1) else None);
          step = (if truthyS stepRaw then js_Number (the stepRaw) else jsInt 1)
      in if \<not> isInteger step \<or> toInt step \<le> 0
         then Inl (JsError None None (''Invalid step value in cron field '' @ quoted part))
         else
           (let (rangeStart, rangeEnd) =
                  (if base \<noteq> [] \<and> base \<noteq> ''*''
                   then if js_includes base ''-''
                        then (let xs = map js_Number (js_split (CHR ''-'') base) in (xs ! 0, xs ! 1))
                        else (js_Number base, js_Number base)
                   else (jsInt mn, jsInt mx))
            in if \<not> isInteger rangeStart \<or> \<not> isInteger rangeEnd
                  \<or> toInt rangeStart < mn \<or> mx < toInt rangeEnd \<or> toInt rangeEnd < toInt rangeStart
               then Inl (JsError None None (''Invalid range in cron field '' @ quoted part))
               else Inr (range_steps (toInt rangeStart) (toInt rangeEnd) (toInt step))))"

text \<open>The token loop: values go into a \<open>Set\<close>, the first bad token throws.\<close>

fun expandTokens :: "string \<Rightarrow> int \<Rightarrow> int \<Rightarrow> string list \<Rightarrow> int list \<Rightarrow> int list result" where
  "expandTokens part mn mx [] values = Inr values"
| "expandTokens part mn mx (token # tokens) values =
     bindE (expandToken part mn mx token) (\<lambda>vs. expandTokens part mn mx tokens (values @ vs))"

definition expandPart :: "string \<Rightarrow> int \<Rightarrow> int \<Rightarrow> int list result" where
  "expandPart part mn mx =
     (if part = ''*'' then Inr [mn..mx]
      else bindE (expandTokens part mn mx (js_split (CHR '','') part) [])
             (\<lambda>values. Inr (sort (remdups values))))"

fun expandFields :: "string list \<Rightarrow> (int \<times> int) list \<Rightarrow> int list list result" where
  "expandFields (field # fields) ((mn, mx) # ranges) =
     bindE (expandPart field mn mx) (\<lambda>v. bindE (expandFields fields ranges) (\<lambda>vs. Inr (v # vs)))"
| "expandFields _ _ = Inr []"

definition parse :: "string \<Rightarrow> int list list result" where
  "parse expr =
     (let fields = js_split_ws (js_trim expr) in
      if length fields = 6
      then Inl (JsError None None
             ''Cron expression must use exactly 5 fields; seconds precision is not supported.'')
      else if length fields \<noteq> 5
      then Inl (JsError None None ''Cron expression must use exactly 5 fields.'')
      else expandFields fields FIELD_RANGES)"

definition matches :: "time \<Rightarrow> int list list \<Rightarrow> bool" where
  "matches date parsed =
     (case parsed of
        [minutes, hours, days, months, weekdays] \<Rightarrow>
          getUTCMinutes date \<in> set minutes \<and> getUTCHours date \<in> set hours
          \<and> getUTCDate date \<in> set days \<and> getUTCMonth date + 1 \<in> set months
          \<and> (let weekday = getUTCDay date in (if weekday = 0 then 0 else weekday) \<in> set weekdays)
      | _ \<Rightarrow> False)"

definition validateCronExpression :: "string \<Rightarrow> bool \<times> string option" where
  "validateCronExpression expr =
     (case parse expr of
        Inr _ \<Rightarrow> (True, None)
      | Inl e \<Rightarrow> (False, Some (err_message e)))"

section \<open>The next run\<close>

definition cron_window :: int where
  "cron_window = 60 * 24 * 366"

function cron_search :: "int list list \<Rightarrow> int \<Rightarrow> time \<Rightarrow> time option" where
  "cron_search parsed index probe =
     (if index < cron_window
      then if matches probe parsed then Some probe
           else cron_search parsed (index + 1) (probe + 60000)
      else None)"
  by pat_completeness auto
termination
  by (relation "measure (\<lambda>(p, i, t). nat (cron_window - i))") auto

declare cron_search.simps [simp del]

definition nextRunAt :: "string \<Rightarrow> time \<Rightarrow> time result" where
  "nextRunAt expr fromDate =
     bindE (parse expr) (\<lambda>parsed.
       (let probe = fromDate - fromDate mod 60000 + 60000 in
        case cron_search parsed 0 probe of
          Some t \<Rightarrow> Inr t
        | None \<Rightarrow> Inl (JsError None None ''Unable to resolve next cron execution within one year.'')))"

text \<open>\<open>2026-01-01T00:00:00.000Z\<close>.\<close>

definition interval_epoch :: time where
  "interval_epoch = 1767225600000"

definition minimumIntervalSeconds :: "string \<Rightarrow> int result" where
  "minimumIntervalSeconds expr =
     bindE (nextRunAt expr interval_epoch) (\<lambda>first.
     bindE (nextRunAt expr first) (\<lambda>second.
     bindE (nextRunAt expr second) (\<lambda>third.
       Inr (min ((second - first) div 1000) ((third - second) div 1000)))))"

text \<open>The floor is a number that may be NaN when the environment supplies it.\<close>

definition assertAboveFloor :: "string \<Rightarrow> jsnum \<Rightarrow> bool result" where
  "assertAboveFloor expr floorSeconds =
     bindE (minimumIntervalSeconds expr) (\<lambda>minimum.
       if js_less (jsInt minimum) floorSeconds
       then Inl (JsError None None (''Cron expression resolves every '' @ show_int minimum
                 @ '' seconds, below floor '' @ show_num floorSeconds @ ''.''))
       else Inr True)"

section \<open>What parsing gives\<close>

lemma range_steps_bounds: "x \<in> set (range_steps c e s) \<Longrightarrow> c \<le> x \<and> x \<le> e"
proof (induction c e s rule: range_steps.induct)
  case (1 c e s)
  then show ?case
    by (subst (asm) range_steps.simps) (fastforce split: if_splits)
qed

lemma range_steps_nonempty: "c \<le> e \<Longrightarrow> 0 < s \<Longrightarrow> range_steps c e s \<noteq> []"
  by (subst range_steps.simps) simp

lemma expandToken_sound:
  assumes "expandToken part mn mx token = Inr vs"
  shows "vs \<noteq> [] \<and> set vs \<subseteq> {mn..mx}"
proof -
  from assms obtain a b s where vs: "vs = range_steps a b s"
      and "0 < s" "mn \<le> a" "b \<le> mx" "a \<le> b"
    by (auto simp: expandToken_def Let_def not_le not_less split: if_splits prod.splits)
  then show ?thesis
    using range_steps_nonempty [of a b s] by (auto dest!: range_steps_bounds)
qed

lemma expandTokens_sound:
  "expandTokens part mn mx tokens acc = Inr vs \<Longrightarrow> set acc \<subseteq> {mn..mx} \<Longrightarrow>
   set vs \<subseteq> {mn..mx} \<and> (acc \<noteq> [] \<or> tokens \<noteq> [] \<longrightarrow> vs \<noteq> [])"
proof (induction tokens arbitrary: acc)
  case Nil
  then show ?case by simp
next
  case (Cons token tokens)
  then obtain ws where ws: "expandToken part mn mx token = Inr ws"
      and rest: "expandTokens part mn mx tokens (acc @ ws) = Inr vs"
    by (auto simp: bindE_eq_Inr)
  from expandToken_sound [OF ws] Cons.prems(2) have "set (acc @ ws) \<subseteq> {mn..mx}" and "acc @ ws \<noteq> []"
    by auto
  with Cons.IH [OF rest] show ?case by blast
qed

lemma expandPart_sound:
  assumes "expandPart part mn mx = Inr vs" and "mn \<le> mx"
  shows "sorted vs \<and> distinct vs \<and> vs \<noteq> [] \<and> set vs \<subseteq> {mn..mx}"
proof (cases "part = ''*''")
  case True
  with assms show ?thesis by (auto simp: expandPart_def)
next
  case False
  with assms obtain ws where ws: "expandTokens part mn mx (js_split (CHR '','') part) [] = Inr ws"
      and vs: "vs = sort (remdups ws)"
    by (auto simp: expandPart_def bindE_eq_Inr)
  from expandTokens_sound [OF ws] have "set ws \<subseteq> {mn..mx} \<and> ws \<noteq> []"
    by simp
  moreover from this have "vs \<noteq> []"
    using vs by (metis set_empty set_remdups set_sort)
  ultimately show ?thesis using vs by simp
qed

lemma expandFields_sound:
  "expandFields fields ranges = Inr parsed \<Longrightarrow> length fields = length ranges \<Longrightarrow>
   (\<forall>(mn, mx) \<in> set ranges. mn \<le> mx) \<Longrightarrow>
   list_all2 (\<lambda>(mn, mx) vs. sorted vs \<and> distinct vs \<and> vs \<noteq> [] \<and> set vs \<subseteq> {mn..mx}) ranges parsed"
proof (induction fields ranges arbitrary: parsed rule: expandFields.induct)
  case (1 field fields mn mx ranges)
  then show ?case
    using expandPart_sound by (fastforce simp: bindE_eq_Inr)
qed auto

lemma parse_sound:
  assumes "parse expr = Inr parsed"
  shows "list_all2 (\<lambda>(mn, mx) vs. sorted vs \<and> distinct vs \<and> vs \<noteq> [] \<and> set vs \<subseteq> {mn..mx})
           FIELD_RANGES parsed"
proof -
  from assms have len: "length (js_split_ws (js_trim expr)) = 5"
      and ex: "expandFields (js_split_ws (js_trim expr)) FIELD_RANGES = Inr parsed"
    by (auto simp: parse_def Let_def split: if_splits)
  show ?thesis
    by (rule expandFields_sound [OF ex]) (use len in \<open>auto simp: FIELD_RANGES_def\<close>)
qed

lemma parse_length: "parse expr = Inr parsed \<Longrightarrow> length parsed = 5"
  by (drule parse_sound, drule list_all2_lengthD) (simp add: FIELD_RANGES_def)

section \<open>What the search finds\<close>

lemma cron_search_Some:
  "cron_search p i t = Some r \<longleftrightarrow>
   (\<exists>k. 0 \<le> k \<and> i + k < cron_window \<and> r = t + 60000 * k \<and> matches r p
        \<and> (\<forall>j. 0 \<le> j \<and> j < k \<longrightarrow> \<not> matches (t + 60000 * j) p))"
proof (induction p i t rule: cron_search.induct)
  case (1 p i t)
  show ?case
  proof (cases "i < cron_window \<and> \<not> matches t p")
    case False
    then show ?thesis
      by (subst cron_search.simps) (auto intro!: exI [of _ 0])
  next
    case True
    then have rec: "cron_search p i t = cron_search p (i + 1) (t + 60000)"
      by (subst cron_search.simps) simp
    let ?P = "\<lambda>i t k. 0 \<le> k \<and> i + k < cron_window \<and> r = t + 60000 * k \<and> matches r p
                \<and> (\<forall>j. 0 \<le> j \<and> j < k \<longrightarrow> \<not> matches (t + 60000 * j) p)"
    have shift: "?P (i + 1) (t + 60000) k \<Longrightarrow> ?P i t (k + 1)" for k
    proof -
      assume h: "?P (i + 1) (t + 60000) k"
      have "\<not> matches (t + 60000 * j) p" if "0 \<le> j" "j < k + 1" for j
        using h True that by (cases "j = 0") (auto dest!: spec [of _ "j - 1"] simp: algebra_simps)
      with h show ?thesis by (auto simp: algebra_simps)
    qed
    have unshift: "?P i t k \<Longrightarrow> ?P (i + 1) (t + 60000) (k - 1)" for k
    proof -
      assume h: "?P i t k"
      with True have "k \<noteq> 0" by auto
      moreover have "\<not> matches (t + 60000 + 60000 * j) p" if "0 \<le> j" "j < k - 1" for j
        using h that by (auto dest!: spec [of _ "j + 1"] simp: algebra_simps)
      ultimately show ?thesis using h by (auto simp: algebra_simps)
    qed
    have IH: "cron_search p (i + 1) (t + 60000) = Some r \<longleftrightarrow> (\<exists>k. ?P (i + 1) (t + 60000) k)"
      by (rule 1) (use True in simp_all)
    show ?thesis
      unfolding rec IH
      by (rule iffI; erule exE; rule exI, erule shift unshift)
  qed
qed

lemma cron_search_None:
  "cron_search p i t = None \<longleftrightarrow> (\<forall>k. 0 \<le> k \<and> i + k < cron_window \<longrightarrow> \<not> matches (t + 60000 * k) p)"
proof (induction p i t rule: cron_search.induct)
  case (1 p i t)
  show ?case
  proof (cases "i < cron_window \<and> \<not> matches t p")
    case False
    then show ?thesis
      by (subst cron_search.simps) (auto dest: spec [of _ 0])
  next
    case True
    then have rec: "cron_search p i t = cron_search p (i + 1) (t + 60000)"
      by (subst cron_search.simps) simp
    have "(\<forall>k. 0 \<le> k \<and> i + k < cron_window \<longrightarrow> \<not> matches (t + 60000 * k) p) \<longleftrightarrow>
          (\<forall>k. 0 \<le> k \<and> i + 1 + k < cron_window \<longrightarrow> \<not> matches (t + 60000 + 60000 * k) p)"
      (is "?L \<longleftrightarrow> ?R")
    proof
      show ?R if ?L
      proof (intro allI impI)
        fix k assume k: "0 \<le> k \<and> i + 1 + k < cron_window"
        show "\<not> matches (t + 60000 + 60000 * k) p"
          using that [THEN spec, of "k + 1"] k by (simp add: algebra_simps)
      qed
      show ?L if ?R
      proof (intro allI impI)
        fix k assume k: "0 \<le> k \<and> i + k < cron_window"
        show "\<not> matches (t + 60000 * k) p"
          using that [THEN spec, of "k - 1"] True k by (cases "k = 0") (auto simp: algebra_simps)
      qed
    qed
    with 1 True rec show ?thesis by simp
  qed
qed

lemma minute_marks:
  fixes t r :: int
  shows "(\<exists>k. 0 \<le> k \<and> r = t - t mod 60000 + 60000 + 60000 * k) \<longleftrightarrow> t < r \<and> r mod 60000 = 0"
proof
  assume "\<exists>k. 0 \<le> k \<and> r = t - t mod 60000 + 60000 + 60000 * k"
  then obtain k where k: "0 \<le> k" and r: "r = t - t mod 60000 + 60000 + 60000 * k"
    by blast
  have "t - t mod 60000 = 60000 * (t div 60000)"
    by (simp add: minus_mod_eq_mult_div)
  with r have "r = 60000 * (t div 60000 + 1 + k)"
    by simp
  moreover have "t mod 60000 < 60000"
    by simp
  ultimately show "t < r \<and> r mod 60000 = 0"
    using r k by simp
next
  assume h: "t < r \<and> r mod 60000 = 0"
  define k where "k = r div 60000 - t div 60000 - 1"
  have r: "r = 60000 * (r div 60000)"
    using h mult_div_mod_eq [of 60000 r] by simp
  have t: "t = 60000 * (t div 60000) + t mod 60000"
    by simp
  have "0 \<le> t mod 60000"
    by simp
  with h r t have "60000 * (t div 60000) < 60000 * (r div 60000)"
    by linarith
  then have "0 \<le> k"
    by (simp add: k_def)
  moreover have "r = t - t mod 60000 + 60000 + 60000 * k"
    using r t by (simp add: k_def algebra_simps)
  ultimately show "\<exists>k. 0 \<le> k \<and> r = t - t mod 60000 + 60000 + 60000 * k"
    by blast
qed

text \<open>Minute marks counted from a base: the least mark with a property, and the absence of one.\<close>

lemma least_mark_iff:
  fixes f :: "int \<Rightarrow> int"
  assumes mark: "\<And>u. M u \<longleftrightarrow> (\<exists>k. 0 \<le> k \<and> u = f k)" and mono: "\<And>j k. f j < f k \<longleftrightarrow> j < k"
  shows "M r \<and> P r \<and> r < f n \<and> (\<forall>u. M u \<and> u < r \<longrightarrow> \<not> P u) \<longleftrightarrow>
         (\<exists>k. 0 \<le> k \<and> k < n \<and> r = f k \<and> P r \<and> (\<forall>j. 0 \<le> j \<and> j < k \<longrightarrow> \<not> P (f j)))"
    (is "?L \<longleftrightarrow> ?R")
proof
  assume L: ?L
  then obtain k where k: "0 \<le> k" "r = f k"
    by (auto simp: mark)
  with L mono have "k < n"
    by simp
  moreover have "\<not> P (f j)" if "0 \<le> j" "j < k" for j
  proof -
    from that(1) have "M (f j)" by (auto simp: mark)
    with L that(2) k(2) mono show ?thesis by simp
  qed
  ultimately show ?R using k L by blast
next
  assume ?R
  then show ?L by (auto simp: mark mono)
qed

lemma no_mark_iff:
  fixes f :: "int \<Rightarrow> int"
  assumes mark: "\<And>u. M u \<longleftrightarrow> (\<exists>k. 0 \<le> k \<and> u = f k)" and mono: "\<And>j k. f j < f k \<longleftrightarrow> j < k"
  shows "(\<forall>u. M u \<and> u < f n \<longrightarrow> \<not> P u) \<longleftrightarrow> (\<forall>k. 0 \<le> k \<and> k < n \<longrightarrow> \<not> P (f k))"
  unfolding mark by (auto simp: mono)

lemma nextRunAt_parsed:
  assumes "parse expr = Inr p"
  shows "nextRunAt expr t = Inr r \<longleftrightarrow> cron_search p 0 (t - t mod 60000 + 60000) = Some r"
  using assms by (auto simp: nextRunAt_def Let_def split: option.splits)

lemma nextRunAt_later: "nextRunAt expr t = Inr r \<Longrightarrow> t < r"
proof -
  assume a: "nextRunAt expr t = Inr r"
  then obtain p where "parse expr = Inr p"
    by (auto simp: nextRunAt_def bindE_eq_Inr)
  with a have "\<exists>k. 0 \<le> k \<and> r = t - t mod 60000 + 60000 + 60000 * k"
    by (auto simp: nextRunAt_parsed cron_search_Some)
  then show "t < r" using minute_marks by blast
qed

interpretation cron: next_run nextRunAt
  by unfold_locales (rule nextRunAt_later)

section \<open>Properties\<close>

text \<open>
  C1 (functional): for a cron expression that parses, \<open>nextRunAt\<close> returns exactly the first full
  minute strictly after the given time whose fields match, provided it lies within the window of
  366 days; and it throws exactly when no minute of that window matches.
\<close>

theorem nextRunAt_first_match:
  assumes "parse expr = Inr p"
  shows "(nextRunAt expr t = Inr r \<longleftrightarrow>
            t < r \<and> r mod 60000 = 0 \<and> matches r p
            \<and> r < t - t mod 60000 + 60000 + 60000 * cron_window
            \<and> (\<forall>u. t < u \<and> u < r \<and> u mod 60000 = 0 \<longrightarrow> \<not> matches u p))
         \<and> ((\<exists>e. nextRunAt expr t = Inl e) \<longleftrightarrow>
            (\<forall>u. t < u \<and> u mod 60000 = 0 \<and> u < t - t mod 60000 + 60000 + 60000 * cron_window
                 \<longrightarrow> \<not> matches u p))"
proof -
  define f where "f k = t - t mod 60000 + 60000 + 60000 * k" for k :: int
  define M where "M u \<longleftrightarrow> t < u \<and> u mod 60000 = 0" for u
  have mark: "M u \<longleftrightarrow> (\<exists>k. 0 \<le> k \<and> u = f k)" for u
    unfolding M_def f_def by (rule minute_marks [symmetric])
  have mono: "f j < f k \<longleftrightarrow> j < k" for j k
    by (simp add: f_def)
  have f0: "t - t mod 60000 + 60000 = f 0"
    by (simp add: f_def)
  have found: "nextRunAt expr t = Inr r \<longleftrightarrow>
      M r \<and> matches r p \<and> r < f cron_window \<and> (\<forall>u. M u \<and> u < r \<longrightarrow> \<not> matches u p)"
    unfolding least_mark_iff [where f = f and M = M and P = "\<lambda>u. matches u p" and r = r
        and n = cron_window, OF mark mono]
    by (simp add: nextRunAt_parsed [OF assms] cron_search_Some f_def)
  have "(\<exists>e. nextRunAt expr t = Inl e) \<longleftrightarrow> cron_search p 0 (f 0) = None"
    using assms by (auto simp: nextRunAt_def f_def Let_def split: option.splits)
  also have "\<dots> \<longleftrightarrow> (\<forall>u. M u \<and> u < f cron_window \<longrightarrow> \<not> matches u p)"
    unfolding no_mark_iff [where f = f and M = M and P = "\<lambda>u. matches u p"
        and n = cron_window, OF mark mono] by (simp add: cron_search_None f_def)
  finally show ?thesis
    using found unfolding M_def f_def by (simp only: conj_assoc conj_commute conj_left_commute)
qed

theorem nextRunAt_first_match_witness:
  "\<exists>p. parse ''30 12 * * *'' = Inr p \<and> nextRunAt ''30 12 * * *'' 44880000 = Inr 45000000
     \<and> matches 45000000 p
     \<and> (\<forall>u. 44880000 < u \<and> u < 45000000 \<and> u mod 60000 = 0 \<longrightarrow> \<not> matches u p)"
proof -
  have p: "parse ''30 12 * * *'' = Inr [[30], [12], [1..31], [1..12], [0..7]]"
    by code_simp
  have n: "nextRunAt ''30 12 * * *'' 44880000 = Inr 45000000"
    by code_simp
  show ?thesis
    using nextRunAt_first_match [OF p, of 44880000 45000000] p n by blast
qed

text \<open>
  C2 (invariant): an expression that parses gives five lists, one per field, each sorted, free of
  duplicates, not empty and inside the field's range.
\<close>

theorem parse_fields_in_range:
  assumes "parse expr = Inr parsed"
  shows "length parsed = length FIELD_RANGES \<and>
         (\<forall>i < length FIELD_RANGES.
            sorted (parsed ! i) \<and> distinct (parsed ! i) \<and> parsed ! i \<noteq> []
            \<and> set (parsed ! i) \<subseteq> {fst (FIELD_RANGES ! i)..snd (FIELD_RANGES ! i)})"
  using parse_sound [OF assms] by (auto simp: list_all2_conv_all_nth split_beta)

theorem parse_fields_in_range_witness:
  "\<exists>parsed. parse ''*/15 0-6/3 1 * 5,1'' = Inr parsed \<and> length parsed = length FIELD_RANGES
     \<and> set (parsed ! 4) \<subseteq> {0..7}"
proof -
  have p: "parse ''*/15 0-6/3 1 * 5,1'' = Inr [[0, 15, 30, 45], [0, 3, 6], [1], [1..12], [1, 5]]"
    by code_simp
  show ?thesis
    using parse_fields_in_range [OF p] p by (auto simp: FIELD_RANGES_def)
qed

text \<open>
  C3 (error): weekday 7 is inside the accepted range of the weekday field, but \<open>getUTCDay\<close> is
  never 7, so an expression whose weekday field allows 7 only is reported valid and yet
  \<open>nextRunAt\<close> throws from every start time.
\<close>

theorem weekday_seven_never_runs:
  assumes "parse expr = Inr [minutes, hours, days, months, [7]]"
  shows "validateCronExpression expr = (True, None) \<and> (\<forall>t. \<exists>e. nextRunAt expr t = Inl e)"
proof -
  have "\<not> matches u [minutes, hours, days, months, [7]]" for u
    using getUTCDay_range [of u] by (auto simp: matches_def Let_def)
  then have "cron_search [minutes, hours, days, months, [7]] 0 t = None" for t
    by (simp add: cron_search_None)
  with assms show ?thesis
    by (simp add: validateCronExpression_def nextRunAt_def Let_def)
qed

theorem weekday_seven_never_runs_witness:
  "validateCronExpression ''0 3 * * 7'' = (True, None) \<and> (\<exists>e. nextRunAt ''0 3 * * 7'' 0 = Inl e)"
proof -
  have p: "parse ''0 3 * * 7'' = Inr [[0], [3], [1..31], [1..12], [7]]"
    by code_simp
  show ?thesis
    using weekday_seven_never_runs [OF p] by blast
qed

text \<open>
  The interval floor is checked on the first two gaps after 2026-01-01 only. The
  expression below passes a floor of three minutes, yet two of its runs are two minutes apart.
\<close>

theorem floor_checks_two_gaps_only:
  "assertAboveFloor ''1,4,7,9 * * * *'' (jsInt 180) = Inr True
   \<and> nextRunAt ''1,4,7,9 * * * *'' (interval_epoch + 4 * 60000) = Inr (interval_epoch + 7 * 60000)
   \<and> nextRunAt ''1,4,7,9 * * * *'' (interval_epoch + 7 * 60000) = Inr (interval_epoch + 9 * 60000)"
  by (intro conjI; code_simp)

end
