(* ===== verification/Sched_Model.thy ===== *)
theory Sched_Model
  imports Cron
begin

text \<open>
  The data model of the scheduling engine: \<open>packages/scheduling-engine/src/job-model.mjs\<close>,
  \<open>execution-model.mjs\<close>, \<open>quota.mjs\<close>, \<open>config-model.mjs\<close> and \<open>audit.mjs\<close>.

  The three tables of the engine are lists of rows; \<open>SELECT ... rows[0]\<close> is \<open>find\<close>, an
  \<open>UPDATE\<close> is \<open>updWhere\<close>, an \<open>INSERT\<close> appends. A JSON payload is an opaque string.
  The wall clock (\<open>new Date()\<close>, \<open>now()\<close>) is an argument \<open>now\<close>.
\<close>

section \<open>Rows\<close>

record job =
  j_id :: string
  j_tenant_id :: string
  j_workspace_id :: string
  j_name :: string
  j_cron_expression :: string
  j_target_action :: string
  j_payload :: string
  j_status :: string
  j_consecutive_failure_count :: int
  j_max_consecutive_failures :: int
  j_next_run_at :: "time option"
  j_last_triggered_at :: "time option"
  j_created_by :: string
  j_created_at :: time
  j_updated_at :: time
  j_deleted_at :: "time option"

record execution =
  x_id :: string
  x_job_id :: string
  x_tenant_id :: string
  x_workspace_id :: string
  x_status :: string
  x_scheduled_at :: time
  x_started_at :: "time option"
  x_finished_at :: "time option"
  x_duration_ms :: "int option"
  x_error_summary :: "string option"
  x_correlation_id :: "string option"
  x_created_at :: time

record sched_config =
  c_tenant_id :: string
  c_workspace_id :: "string option"
  c_scheduling_enabled :: bool
  c_max_active_jobs :: jsnum
  c_min_interval_seconds :: jsnum
  c_max_consecutive_failures :: jsnum

record audit_event =
  a_tenantId :: string
  a_workspaceId :: string
  a_actorId :: string
  a_action :: string
  a_resourceId :: string
  a_timestamp :: time

record sched_db =
  jobs :: "job list"
  execs :: "execution list"
  configs :: "sched_config list"
  audit :: "audit_event list"

text \<open>The environment variables the engine reads.\<close>

record sched_env =
  SCHEDULING_ENABLED_BY_DEFAULT :: "string option"
  SCHEDULING_DEFAULT_MAX_ACTIVE_JOBS :: "string option"
  SCHEDULING_DEFAULT_MIN_INTERVAL_SECONDS :: "string option"
  SCHEDULING_DEFAULT_MAX_CONSECUTIVE_FAILURES :: "string option"
  SCHEDULING_ENGINE_ENABLED :: "string option"
  SCHEDULING_MISSED_WINDOW_CAP :: "string option"

definition envNumber :: "string option \<Rightarrow> int \<Rightarrow> jsnum" where
  "envNumber v d = (case v of None \<Rightarrow> jsInt d | Some s \<Rightarrow> js_Number s)"

section \<open>Audit events\<close>

definition buildEvent :: "string \<Rightarrow> string \<Rightarrow> string \<Rightarrow> string \<Rightarrow> string \<Rightarrow> time \<Rightarrow> audit_event" where
  "buildEvent action tenantId workspaceId actorId resourceId now =
     \<lparr>a_tenantId = tenantId, a_workspaceId = workspaceId, a_actorId = actorId,
      a_action = action, a_resourceId = resourceId, a_timestamp = now\<rparr>"

definition publish :: "audit_event \<Rightarrow> sched_db \<Rightarrow> sched_db" where
  "publish e db = db\<lparr>audit := audit db @ [e]\<rparr>"

section \<open>Job model\<close>

definition VALID_TRANSITIONS :: "string \<Rightarrow> string list option" where
  "VALID_TRANSITIONS s =
     map_of [(''active'', [''paused'', ''errored'', ''deleted'']),
             (''paused'', [''active'', ''deleted'']),
             (''errored'', [''deleted'']),
             (''deleted'', [])] s"

record job_input =
  in_id :: "string option"
  in_name :: "string option"
  in_cronExpression :: "string option"
  in_targetAction :: "string option"
  in_payload :: "string option"
  in_status :: "string option"
  in_consecutiveFailureCount :: "int option"
  in_maxConsecutiveFailures :: "int option"
  in_nextRunAt :: "time option"
  in_lastTriggeredAt :: "time option"
  in_createdAt :: "time option"
  in_updatedAt :: "time option"
  in_deletedAt :: "time option"

record job_context =
  ctx_tenantId :: string
  ctx_workspaceId :: string
  ctx_actorId :: string
  ctx_maxConsecutiveFailures :: jsnum

text \<open>
  \<open>buildJobRecord\<close> with \<open>context.now\<close> and \<open>context.fromDate\<close> absent, as its only caller
  leaves them: both are the wall clock. The record is built before the columns are checked, so a
  missing name or target action is still \<open>None\<close> here and kept apart from the row.
\<close>

definition buildJobRecord ::
  "string \<Rightarrow> time \<Rightarrow> job_input \<Rightarrow> job_context \<Rightarrow> (job \<times> string option \<times> string option) result" where
  "buildJobRecord uuid now input ctx =
     bindE (case in_nextRunAt input of
              Some t \<Rightarrow> Inr t
            | None \<Rightarrow> (case in_cronExpression input of
                None \<Rightarrow> Inl (JsError None None ''Cannot read properties of undefined'')
              | Some cron \<Rightarrow> nextRunAt cron now)) (\<lambda>next.
     Inr (\<lparr>j_id = coalesce (in_id input) uuid,
           j_tenant_id = ctx_tenantId ctx,
           j_workspace_id = ctx_workspaceId ctx,
           j_name = coalesce (in_name input) [],
           j_cron_expression = coalesce (in_cronExpression input) [],
           j_target_action = coalesce (in_targetAction input) [],
           j_payload = coalesce (in_payload input) ''{}'',
           j_status = coalesce (in_status input) ''active'',
           j_consecutive_failure_count = coalesce (in_consecutiveFailureCount input) 0,
           j_max_consecutive_failures = coalesce (in_maxConsecutiveFailures input) 5,
           j_next_run_at = Some next,
           j_last_triggered_at = in_lastTriggeredAt input,
           j_created_by = ctx_actorId ctx,
           j_created_at = coalesce (in_createdAt input) now,
           j_updated_at = coalesce (in_updatedAt input) now,
           j_deleted_at = in_deletedAt input\<rparr>, in_name input, in_targetAction input))"

definition canTransition :: "string \<Rightarrow> string \<Rightarrow> bool" where
  "canTransition currentStatus targetStatus =
     (case VALID_TRANSITIONS currentStatus of None \<Rightarrow> False | Some ts \<Rightarrow> targetStatus \<in> set ts)"

definition applyTransition :: "time \<Rightarrow> job \<Rightarrow> string \<Rightarrow> job result" where
  "applyTransition now job targetStatus =
     (if \<not> canTransition (j_status job) targetStatus
      then Inl (JsError None None (''Invalid job status transition from '' @ j_status job
                @ '' to '' @ targetStatus @ ''.''))
      else Inr (job\<lparr>j_status := targetStatus,
                    j_deleted_at := (if targetStatus = ''deleted'' then Some now else j_deleted_at job),
                    j_updated_at := now\<rparr>))"

definition incrementFailureCount :: "time \<Rightarrow> job \<Rightarrow> job" where
  "incrementFailureCount now job =
     (let n = j_consecutive_failure_count job + 1;
          status = (if j_max_consecutive_failures job \<le> n then ''errored'' else j_status job)
      in job\<lparr>j_consecutive_failure_count := n, j_status := status, j_updated_at := now\<rparr>)"

definition resetFailureCount :: "time \<Rightarrow> job \<Rightarrow> job" where
  "resetFailureCount now job = job\<lparr>j_consecutive_failure_count := 0, j_updated_at := now\<rparr>"

definition applyNextRunAt :: "time \<Rightarrow> job \<Rightarrow> string \<Rightarrow> job result" where
  "applyNextRunAt now job expr =
     bindE (nextRunAt expr now) (\<lambda>next.
       Inr (job\<lparr>j_cron_expression := expr, j_next_run_at := Some next, j_updated_at := now\<rparr>))"

section \<open>Execution model\<close>

definition buildExecutionRecord ::
  "string \<Rightarrow> time \<Rightarrow> job \<Rightarrow> time \<Rightarrow> string option \<Rightarrow> execution" where
  "buildExecutionRecord uuid now job scheduledAt correlationId =
     \<lparr>x_id = uuid, x_job_id = j_id job, x_tenant_id = j_tenant_id job,
      x_workspace_id = j_workspace_id job, x_status = ''running'', x_scheduled_at = scheduledAt,
      x_started_at = None, x_finished_at = None, x_duration_ms = None, x_error_summary = None,
      x_correlation_id = correlationId, x_created_at = now\<rparr>"

definition buildMissedExecutionRecord ::
  "string \<Rightarrow> string \<Rightarrow> time \<Rightarrow> job \<Rightarrow> time \<Rightarrow> execution" where
  "buildMissedExecutionRecord uuid correlationUuid now job scheduledAt =
     (buildExecutionRecord uuid now job scheduledAt (Some correlationUuid))\<lparr>x_status := ''missed''\<rparr>"

text \<open>What the invoked action returns: \<open>ok\<close>, \<open>error\<close>, \<open>timeout\<close>, \<open>timeoutMs\<close>.\<close>

record invoke_result =
  r_ok :: "bool option"
  r_error :: "string option"
  r_timeout :: bool
  r_timeoutMs :: "int option"

definition resolveOutcome :: "time \<Rightarrow> time \<Rightarrow> invoke_result option \<Rightarrow> string" where
  "resolveOutcome startedAt finishedAt res =
     (case res of
        None \<Rightarrow> ''succeeded''
      | Some r \<Rightarrow>
          if r_timeout r \<or> (case r_timeoutMs r of None \<Rightarrow> False
                             | Some ms \<Rightarrow> ms < finishedAt - startedAt)
          then ''timed_out''
          else if r_ok r = Some False \<or> truthyS (r_error r) then ''failed''
          else ''succeeded'')"

definition finalizeExecution :: "time \<Rightarrow> execution \<Rightarrow> string \<Rightarrow> string option \<Rightarrow> execution" where
  "finalizeExecution now rec outcome errorSummary =
     (let startedAt = coalesce (x_started_at rec) now
      in rec\<lparr>x_status := outcome, x_finished_at := Some now,
             x_duration_ms := Some (max 0 (now - startedAt)), x_error_summary := errorSummary\<rparr>)"

section \<open>Quota\<close>

definition checkJobCreationQuota :: "jsnum \<Rightarrow> jsnum \<Rightarrow> bool \<times> string option" where
  "checkJobCreationQuota currentActiveCount maxActiveJobs =
     (let allowed = js_less currentActiveCount maxActiveJobs in
      (allowed,
       if allowed then None
       else Some (''Workspace has reached the maximum number of active scheduled jobs (''
                  @ show_num maxActiveJobs @ '').'')))"

definition checkResumeQuota :: "jsnum \<Rightarrow> jsnum \<Rightarrow> bool \<times> string option" where
  "checkResumeQuota currentActiveCount maxActiveJobs =
     checkJobCreationQuota currentActiveCount maxActiveJobs"

definition assertCronFloor :: "string \<Rightarrow> jsnum \<Rightarrow> bool result" where
  "assertCronFloor expr minIntervalSeconds = assertAboveFloor expr minIntervalSeconds"

definition is_active_in :: "string \<Rightarrow> string \<Rightarrow> job \<Rightarrow> bool" where
  "is_active_in tenantId workspaceId r \<longleftrightarrow>
     j_tenant_id r = tenantId \<and> j_workspace_id r = workspaceId
     \<and> j_status r = ''active'' \<and> j_deleted_at r = None"

definition getActiveJobCount :: "sched_db \<Rightarrow> string \<Rightarrow> string \<Rightarrow> int" where
  "getActiveJobCount db tenantId workspaceId =
     int (length (filter (is_active_in tenantId workspaceId) (jobs db)))"

record default_limits =
  maxActiveJobs :: jsnum
  minIntervalSeconds :: jsnum
  maxConsecutiveFailures :: jsnum

definition readDefaultLimits :: "sched_env \<Rightarrow> default_limits" where
  "readDefaultLimits env =
     \<lparr>maxActiveJobs = envNumber (SCHEDULING_DEFAULT_MAX_ACTIVE_JOBS env) 10,
      minIntervalSeconds = envNumber (SCHEDULING_DEFAULT_MIN_INTERVAL_SECONDS env) 60,
      maxConsecutiveFailures = envNumber (SCHEDULING_DEFAULT_MAX_CONSECUTIVE_FAILURES env) 5\<rparr>"

section \<open>Configuration\<close>

definition getConfig :: "sched_env \<Rightarrow> sched_db \<Rightarrow> string \<Rightarrow> string \<Rightarrow> sched_config" where
  "getConfig env db tenantId workspaceId =
     (let fallback = readDefaultLimits env in
      case find (\<lambda>c. c_tenant_id c = tenantId \<and> c_workspace_id c = Some workspaceId) (configs db) of
        Some c \<Rightarrow> c
      | None \<Rightarrow>
          (case find (\<lambda>c. c_tenant_id c = tenantId \<and> c_workspace_id c = None) (configs db) of
             Some c \<Rightarrow> c
           | None \<Rightarrow>
               \<lparr>c_tenant_id = tenantId, c_workspace_id = Some workspaceId,
                c_scheduling_enabled =
                  (coalesce (SCHEDULING_ENABLED_BY_DEFAULT env) ''false'' = ''true''),
                c_max_active_jobs = maxActiveJobs fallback,
                c_min_interval_seconds = minIntervalSeconds fallback,
                c_max_consecutive_failures = maxConsecutiveFailures fallback\<rparr>))"

record config_patch =
  p_schedulingEnabled :: "bool option"
  p_maxActiveJobs :: "jsnum option"
  p_minIntervalSeconds :: "jsnum option"
  p_maxConsecutiveFailures :: "jsnum option"

text \<open>
  \<open>upsertConfig\<close>: the columns are \<open>INT NOT NULL\<close>, so a value that is no integer makes the
  statement fail with SQLSTATE 22P02 and nothing is stored.
\<close>

definition upsertConfig ::
  "sched_env \<Rightarrow> sched_db \<Rightarrow> string \<Rightarrow> string \<Rightarrow> config_patch \<Rightarrow> (sched_db \<times> sched_config) result" where
  "upsertConfig env db tenantId workspaceId patch =
     (let current = getConfig env db tenantId workspaceId;
          row = \<lparr>c_tenant_id = tenantId, c_workspace_id = Some workspaceId,
                 c_scheduling_enabled = coalesce (p_schedulingEnabled patch) (c_scheduling_enabled current),
                 c_max_active_jobs = coalesce (p_maxActiveJobs patch) (c_max_active_jobs current),
                 c_min_interval_seconds = coalesce (p_minIntervalSeconds patch) (c_min_interval_seconds current),
                 c_max_consecutive_failures =
                   coalesce (p_maxConsecutiveFailures patch) (c_max_consecutive_failures current)\<rparr>;
          same = (\<lambda>c. c_tenant_id c = tenantId \<and> c_workspace_id c = Some workspaceId)
      in if \<not> isInteger (c_max_active_jobs row) \<or> \<not> isInteger (c_min_interval_seconds row)
            \<or> \<not> isInteger (c_max_consecutive_failures row)
         then Inl (JsError (Some ''22P02'') None ''invalid input syntax for type integer'')
         else Inr (db\<lparr>configs := (if \<exists>c \<in> set (configs db). same c
                                  then updWhere same (\<lambda>_. row) (configs db)
                                  else configs db @ [row])\<rparr>, row))"

definition isSchedulingEnabled :: "sched_config \<Rightarrow> bool" where
  "isSchedulingEnabled config = c_scheduling_enabled config"

definition getActiveJobsToSuspend :: "sched_db \<Rightarrow> string \<Rightarrow> string \<Rightarrow> string list" where
  "getActiveJobsToSuspend db tenantId workspaceId =
     map j_id (filter (is_active_in tenantId workspaceId) (jobs db))"

end
