(* ===== verification/Sched_Actions.thy ===== *)
theory Sched_Actions
  imports Sched_Model "HOL-Library.Char_ord" "HOL-Library.List_Lexorder"
begin

text \<open>
  The three entry points of the scheduling engine: the management API
  (\<open>packages/scheduling-engine/actions/scheduling-management.mjs\<close>), the periodic trigger
  (\<open>scheduling-trigger.mjs\<close>) and the job runner (\<open>scheduling-job-runner.mjs\<close>).

  Each route of the API is one definition; \<open>main\<close> dispatches to them in the order of the code
  and turns what they throw into a response. Every route that throws does so before its first
  write, so a throwing route leaves the tables as they were. What stands outside the engine is an
  argument: the target-action validator, the invoked action (which may also change the tables
  while it runs), fresh identifiers, the clock, and \<open>sameTs\<close>, the result of comparing an ISO
  string with the value the database driver returns for a timestamp column by \<open>===\<close>.
\<close>

section \<open>Requests and responses\<close>

record headers =
  h_x_tenant_id :: "string option"
  h_x_workspace_id :: "string option"
  h_x_auth_subject :: "string option"
  h_x_actor_roles :: "string option"

record identity =
  i_tenantId :: string
  i_workspaceId :: string
  i_actorId :: string
  i_roles :: "string list"

record job_view =
  v_jobId :: string
  v_name :: string
  v_cronExpression :: string
  v_targetAction :: string
  v_payload :: string
  v_status :: string
  v_nextRunAt :: "time option"
  v_lastTriggeredAt :: "time option"
  v_consecutiveFailureCount :: int
  v_createdAt :: time
  v_updatedAt :: time

record sched_summary =
  s_activeJobs :: int
  s_pausedJobs :: int
  s_erroredJobs :: int
  s_deletedJobs :: int
  s_quotaLimit :: jsnum
  s_quotaUsed :: int
  s_schedulingEnabled :: bool

datatype sched_body =
  NullBody
| ErrorBody (eb_code: string) (eb_message: string)
| ConfigBody bool jsnum jsnum jsnum
| SummaryBody sched_summary
| JobBody job_view
| JobsBody "job_view list"
| ExecutionsBody "execution list"

record sched_response =
  statusCode :: int
  body :: sched_body

record sched_request =
  q_headers :: headers
  q_method :: "string option"
  q_path :: "string option"
  q_job :: job_input
  q_patch :: config_patch
  q_status :: "string option"
  q_limit :: "string option"

definition response :: "int \<Rightarrow> sched_body \<Rightarrow> sched_response" where
  "response code b = \<lparr>statusCode = code, body = b\<rparr>"

definition errorResponse :: "int \<Rightarrow> string \<Rightarrow> string \<Rightarrow> sched_response" where
  "errorResponse code c m = response code (ErrorBody c m)"

definition parseRoles :: "string option \<Rightarrow> string list" where
  "parseRoles value =
     (case value of None \<Rightarrow> []
      | Some s \<Rightarrow> filter (\<lambda>r. r \<noteq> []) (map js_trim (js_split (CHR '','') s)))"

definition parseIdentity :: "headers \<Rightarrow> identity option" where
  "parseIdentity hs =
     (if \<not> truthyS (h_x_tenant_id hs) \<or> \<not> truthyS (h_x_workspace_id hs) then None
      else Some \<lparr>i_tenantId = the (h_x_tenant_id hs), i_workspaceId = the (h_x_workspace_id hs),
                 i_actorId = coalesce (h_x_auth_subject hs) ''system'',
                 i_roles = parseRoles (h_x_actor_roles hs)\<rparr>)"

definition mapJob :: "job \<Rightarrow> job_view" where
  "mapJob job =
     \<lparr>v_jobId = j_id job, v_name = j_name job, v_cronExpression = j_cron_expression job,
      v_targetAction = j_target_action job, v_payload = j_payload job, v_status = j_status job,
      v_nextRunAt = j_next_run_at job, v_lastTriggeredAt = j_last_triggered_at job,
      v_consecutiveFailureCount = j_consecutive_failure_count job,
      v_createdAt = j_created_at job, v_updatedAt = j_updated_at job\<rparr>"

text \<open>\<open>requireTargetAction\<close>: an injected validator, if there is one, must accept the action.\<close>

definition requireTargetAction ::
  "(string option \<Rightarrow> string \<Rightarrow> bool) option \<Rightarrow> string option \<Rightarrow> string \<Rightarrow> unit result" where
  "requireTargetAction validate targetAction workspaceId =
     (case validate of
        None \<Rightarrow> Inr ()
      | Some v \<Rightarrow> if v targetAction workspaceId then Inr ()
                   else Inl (JsError (Some ''INVALID_TARGET_ACTION'') (Some 400) ''Target action is invalid.''))"

definition segments_of :: "string \<Rightarrow> string list" where
  "segments_of path =
     filter (\<lambda>s. s \<noteq> [])
       (js_split (CHR ''/'')
         (if js_startsWith path ''/v1/scheduling'' then drop 14 path else path))"

definition seg :: "string list \<Rightarrow> nat \<Rightarrow> string option" where
  "seg xs i = (if i < length xs then Some (xs ! i) else None)"

section \<open>Row selection\<close>

definition owned :: "identity \<Rightarrow> job \<Rightarrow> bool" where
  "owned who r \<longleftrightarrow> j_tenant_id r = i_tenantId who \<and> j_workspace_id r = i_workspaceId who"

text \<open>\<open>SELECT * FROM scheduled_jobs WHERE id = .. AND tenant_id = .. AND workspace_id = .. AND
  deleted_at IS NULL\<close>; an absent path segment is SQL NULL and matches nothing.\<close>

definition selectJob :: "sched_db \<Rightarrow> identity \<Rightarrow> string option \<Rightarrow> job option" where
  "selectJob db who jid =
     find (\<lambda>r. Some (j_id r) = jid \<and> owned who r \<and> j_deleted_at r = None) (jobs db)"

definition updateJob :: "sched_db \<Rightarrow> string \<Rightarrow> (job \<Rightarrow> job) \<Rightarrow> sched_db" where
  "updateJob db jid f = db\<lparr>jobs := updWhere (\<lambda>r. j_id r = jid) f (jobs db)\<rparr>"

section \<open>Routes\<close>

definition config_body :: "sched_config \<Rightarrow> sched_body" where
  "config_body c = ConfigBody (c_scheduling_enabled c) (c_max_active_jobs c)
     (c_min_interval_seconds c) (c_max_consecutive_failures c)"

definition getConfigRoute :: "sched_env \<Rightarrow> sched_db \<Rightarrow> identity \<Rightarrow> sched_response" where
  "getConfigRoute env db who =
     response 200 (config_body (getConfig env db (i_tenantId who) (i_workspaceId who)))"

definition pauseAll :: "time \<Rightarrow> sched_db \<Rightarrow> string list \<Rightarrow> sched_db" where
  "pauseAll now db ids =
     db\<lparr>jobs := updWhere (\<lambda>r. j_id r \<in> set ids)
                  (\<lambda>r. r\<lparr>j_status := ''paused'', j_updated_at := now\<rparr>) (jobs db)\<rparr>"

definition patchConfigRoute ::
  "sched_env \<Rightarrow> time \<Rightarrow> sched_db \<Rightarrow> identity \<Rightarrow> config_patch \<Rightarrow> (sched_db \<times> sched_response) result" where
  "patchConfigRoute env now db who patch =
     bindE (upsertConfig env db (i_tenantId who) (i_workspaceId who) patch) (\<lambda>(db1, config).
     (let ids = getActiveJobsToSuspend db1 (i_tenantId who) (i_workspaceId who);
          db2 = (if p_schedulingEnabled patch = Some False \<and> ids \<noteq> [] then pauseAll now db1 ids else db1);
          ev = buildEvent ''capability.toggled'' (i_tenantId who) (i_workspaceId who) (i_actorId who)
                 (i_tenantId who @ '':'' @ i_workspaceId who) now
      in Inr (publish ev db2, response 200 (config_body config))))"

definition status_count :: "sched_db \<Rightarrow> identity \<Rightarrow> string \<Rightarrow> int" where
  "status_count db who st = int (length (filter (\<lambda>r. owned who r \<and> j_status r = st) (jobs db)))"

definition summaryRoute :: "sched_env \<Rightarrow> sched_db \<Rightarrow> identity \<Rightarrow> sched_response" where
  "summaryRoute env db who =
     (let config = getConfig env db (i_tenantId who) (i_workspaceId who) in
      response 200 (SummaryBody
        \<lparr>s_activeJobs = status_count db who ''active'',
         s_pausedJobs = status_count db who ''paused'',
         s_erroredJobs = status_count db who ''errored'',
         s_deletedJobs = status_count db who ''deleted'',
         s_quotaLimit = c_max_active_jobs config,
         s_quotaUsed = status_count db who ''active'',
         s_schedulingEnabled = c_scheduling_enabled config\<rparr>))"

text \<open>
  \<open>INSERT INTO scheduled_jobs\<close>: \<open>last_triggered_at\<close> and \<open>deleted_at\<close> are not among the
  inserted columns and start as NULL; \<open>name\<close> and \<open>target_action\<close> are NOT NULL; \<open>id\<close> is
  the primary key.
\<close>

definition insertJob ::
  "sched_db \<Rightarrow> job \<times> string option \<times> string option \<Rightarrow> (sched_db \<times> job) result" where
  "insertJob db p =
     (case p of (record', name, targetAction) \<Rightarrow>
      let row = record'\<lparr>j_last_triggered_at := None, j_deleted_at := None\<rparr>
      in if name = None \<or> targetAction = None
         then Inl (JsError (Some ''23502'') None ''null value violates not-null constraint'')
         else if j_id row \<in> j_id ` set (jobs db)
         then Inl (JsError (Some ''23505'') None ''duplicate key value violates unique constraint'')
         else Inr (db\<lparr>jobs := jobs db @ [row]\<rparr>, row))"

definition createJobRoute ::
  "sched_env \<Rightarrow> time \<Rightarrow> string \<Rightarrow> (string option \<Rightarrow> string \<Rightarrow> bool) option
     \<Rightarrow> sched_db \<Rightarrow> identity \<Rightarrow> job_input \<Rightarrow> (sched_db \<times> sched_response) result" where
  "createJobRoute env now uuid validate db who input =
     (let config = getConfig env db (i_tenantId who) (i_workspaceId who);
          validation = (case in_cronExpression input of
                          None \<Rightarrow> (False, Some ''Cannot read properties of undefined'')
                        | Some cron \<Rightarrow> validateCronExpression cron);
          cron = coalesce (in_cronExpression input) []
      in if \<not> isSchedulingEnabled config
         then Inr (db, errorResponse 403 ''SCHEDULING_DISABLED''
                ''Scheduling capability is disabled for this workspace.'')
         else if \<not> fst validation
         then Inr (db, errorResponse 400 ''INVALID_CRON_EXPRESSION'' (coalesce (snd validation) []))
         else case assertCronFloor cron (c_min_interval_seconds config) of
           Inl err \<Rightarrow> Inr (db, errorResponse 422 ''CRON_BELOW_FLOOR'' (err_message err))
         | Inr _ \<Rightarrow>
             bindE (requireTargetAction validate (in_targetAction input) (i_workspaceId who)) (\<lambda>_.
             (let activeCount = getActiveJobCount db (i_tenantId who) (i_workspaceId who);
                  quota = checkJobCreationQuota (jsInt activeCount) (c_max_active_jobs config)
              in if \<not> fst quota
                 then Inr (publish (buildEvent ''quota.exceeded'' (i_tenantId who) (i_workspaceId who)
                                      (i_actorId who) (i_workspaceId who) now) db,
                           errorResponse 409 ''QUOTA_EXCEEDED'' (coalesce (snd quota) []))
                 else
                   bindE (buildJobRecord uuid now input
                            \<lparr>ctx_tenantId = i_tenantId who, ctx_workspaceId = i_workspaceId who,
                             ctx_actorId = i_actorId who,
                             ctx_maxConsecutiveFailures = c_max_consecutive_failures config\<rparr>) (\<lambda>rec.
                   bindE (insertJob db rec) (\<lambda>(db1, row).
                     Inr (publish (buildEvent ''job.created'' (i_tenantId who) (i_workspaceId who)
                                     (i_actorId who) (j_id row) now) db1,
                          response 201 (JobBody (mapJob row))))))))"

text \<open>
  \<open>Math.min(Number(limit ?? 100), 100)\<close> as a \<open>LIMIT\<close>: the database refuses a value that is no
  integer and a negative one.
\<close>

definition page_limit :: "string option \<Rightarrow> nat result" where
  "page_limit l =
     (let n = envNumber l 100 in
      if js_less (jsInt 100) n then Inr 100
      else if \<not> isInteger n
      then Inl (JsError (Some ''22P02'') None ''invalid input syntax for type bigint'')
      else if toInt n < 0 then Inl (JsError (Some ''2201W'') None ''LIMIT must not be negative'')
      else Inr (nat (toInt n)))"

definition listJobsRoute ::
  "sched_db \<Rightarrow> identity \<Rightarrow> string option \<Rightarrow> string option \<Rightarrow> sched_response result" where
  "listJobsRoute db who statusFilter limit =
     (if truthyS statusFilter \<and> VALID_TRANSITIONS (the statusFilter) = None
      then Inr (errorResponse 400 ''INVALID_STATUS''
             ''Invalid status value. Allowed values: active, paused, errored, deleted.'')
      else bindE (page_limit limit) (\<lambda>n.
        Inr (response 200 (JobsBody (map mapJob (take n (sort_key j_id
          (filter (\<lambda>r. owned who r \<and> j_deleted_at r = None
                        \<and> (truthyS statusFilter \<longrightarrow> Some (j_status r) = statusFilter)) (jobs db)))))))))"

definition notFound :: "string \<Rightarrow> sched_response" where
  "notFound m = errorResponse 404 ''NOT_FOUND'' m"

definition pauseJobRoute ::
  "time \<Rightarrow> sched_db \<Rightarrow> identity \<Rightarrow> string option \<Rightarrow> (sched_db \<times> sched_response) result" where
  "pauseJobRoute now db who jid =
     (case selectJob db who jid of
        None \<Rightarrow> Inr (db, notFound ''Job not found.'')
      | Some current \<Rightarrow>
          if j_status current \<noteq> ''active''
          then Inr (db, errorResponse 409 ''JOB_NOT_ACTIVE'' ''Job is not active.'')
          else bindE (applyTransition now current ''paused'') (\<lambda>next.
            (let upd = (\<lambda>r. r\<lparr>j_status := j_status next, j_updated_at := j_updated_at next\<rparr>);
                 db1 = updateJob db (j_id current) upd
             in Inr (publish (buildEvent ''job.paused'' (i_tenantId who) (i_workspaceId who)
                                (i_actorId who) (j_id current) now) db1,
                     response 200 (JobBody (mapJob (upd current)))))))"

definition resumeJobRoute ::
  "sched_env \<Rightarrow> time \<Rightarrow> sched_db \<Rightarrow> identity \<Rightarrow> string option \<Rightarrow> (sched_db \<times> sched_response) result" where
  "resumeJobRoute env now db who jid =
     (case selectJob db who jid of
        None \<Rightarrow> Inr (db, notFound ''Job not found.'')
      | Some current \<Rightarrow>
          if j_status current \<noteq> ''paused''
          then Inr (db, errorResponse 409 ''JOB_NOT_PAUSED'' ''Job is not paused.'')
          else
            (let config = getConfig env db (i_tenantId who) (i_workspaceId who);
                 activeCount = getActiveJobCount db (i_tenantId who) (i_workspaceId who);
                 quota = checkResumeQuota (jsInt activeCount) (c_max_active_jobs config)
             in if \<not> isSchedulingEnabled config
                then Inr (db, errorResponse 403 ''SCHEDULING_DISABLED''
                       ''Scheduling capability is disabled for this workspace.'')
                else if \<not> fst quota
                then Inr (db, errorResponse 409 ''QUOTA_EXCEEDED'' (coalesce (snd quota) []))
                else
                  bindE (applyTransition now current ''active'') (\<lambda>activated.
                  bindE (applyNextRunAt now activated (j_cron_expression activated)) (\<lambda>next.
                  (let upd = (\<lambda>r. r\<lparr>j_status := j_status next, j_next_run_at := j_next_run_at next,
                                    j_updated_at := j_updated_at next\<rparr>);
                       db1 = updateJob db (j_id current) upd
                   in Inr (publish (buildEvent ''job.resumed'' (i_tenantId who) (i_workspaceId who)
                                      (i_actorId who) (j_id current) now) db1,
                           response 200 (JobBody (mapJob (upd current)))))))))"

definition getJobRoute :: "sched_db \<Rightarrow> identity \<Rightarrow> string option \<Rightarrow> sched_response" where
  "getJobRoute db who jid =
     (case selectJob db who jid of
        None \<Rightarrow> notFound ''Job not found.''
      | Some job \<Rightarrow> response 200 (JobBody (mapJob job)))"

text \<open>\<open>ORDER BY scheduled_at DESC\<close>.\<close>

definition listExecutionsRoute ::
  "sched_db \<Rightarrow> identity \<Rightarrow> string option \<Rightarrow> string option \<Rightarrow> sched_response result" where
  "listExecutionsRoute db who jid limit =
     bindE (page_limit limit) (\<lambda>n.
       Inr (response 200 (ExecutionsBody (take n
         (sort_key (\<lambda>x. - x_scheduled_at x)
           (filter (\<lambda>x. Some (x_job_id x) = jid \<and> x_tenant_id x = i_tenantId who
                         \<and> x_workspace_id x = i_workspaceId who) (execs db)))))))"

definition patchJobRoute ::
  "sched_env \<Rightarrow> time \<Rightarrow> (string option \<Rightarrow> string \<Rightarrow> bool) option
     \<Rightarrow> sched_db \<Rightarrow> identity \<Rightarrow> string option \<Rightarrow> job_input \<Rightarrow> (sched_db \<times> sched_response) result" where
  "patchJobRoute env now validate db who jid input =
     (case selectJob db who jid of
        None \<Rightarrow> Inr (db, notFound ''Job not found.'')
      | Some current \<Rightarrow>
          (let hasCron = truthyS (in_cronExpression input);
               cron = coalesce (in_cronExpression input) [];
               validation = validateCronExpression cron;
               config = getConfig env db (i_tenantId who) (i_workspaceId who)
           in if hasCron \<and> \<not> fst validation
              then Inr (db, errorResponse 400 ''INVALID_CRON_EXPRESSION'' (coalesce (snd validation) []))
              else case (if hasCron then assertCronFloor cron (c_min_interval_seconds config) else Inr True) of
                Inl err \<Rightarrow> Inr (db, errorResponse 422 ''CRON_BELOW_FLOOR'' (err_message err))
              | Inr _ \<Rightarrow>
                  bindE (if truthyS (in_targetAction input)
                         then requireTargetAction validate (in_targetAction input) (i_workspaceId who)
                         else Inr ()) (\<lambda>_.
                  bindE (if hasCron then applyNextRunAt now current cron else Inr current) (\<lambda>next.
                  (let upd = (\<lambda>r. r\<lparr>j_name := coalesce (in_name input) (j_name current),
                                    j_cron_expression := coalesce (in_cronExpression input) (j_cron_expression current),
                                    j_target_action := coalesce (in_targetAction input) (j_target_action current),
                                    j_payload := coalesce (in_payload input) (j_payload current),
                                    j_next_run_at := j_next_run_at next,
                                    j_updated_at := now\<rparr>);
                       db1 = updateJob db (j_id current) upd
                   in Inr (publish (buildEvent ''job.updated'' (i_tenantId who) (i_workspaceId who)
                                      (i_actorId who) (j_id current) now) db1,
                           response 200 (JobBody (mapJob (upd current)))))))))"

definition deleteJobRoute ::
  "time \<Rightarrow> sched_db \<Rightarrow> identity \<Rightarrow> string option \<Rightarrow> sched_db \<times> sched_response" where
  "deleteJobRoute now db who jid =
     (let p = (\<lambda>r. Some (j_id r) = jid \<and> owned who r) in
      if \<not> (\<exists>r \<in> set (jobs db). p r) then (db, notFound ''Job not found.'')
      else
        (publish (buildEvent ''job.deleted'' (i_tenantId who) (i_workspaceId who) (i_actorId who)
                    (coalesce jid []) now)
           (db\<lparr>jobs := updWhere p (\<lambda>r. r\<lparr>j_status := ''deleted'', j_deleted_at := Some now,
                                          j_updated_at := now\<rparr>) (jobs db)\<rparr>),
         response 204 NullBody))"

section \<open>The management entry point\<close>

definition dispatch ::
  "sched_env \<Rightarrow> time \<Rightarrow> string \<Rightarrow> (string option \<Rightarrow> string \<Rightarrow> bool) option
     \<Rightarrow> sched_db \<Rightarrow> identity \<Rightarrow> sched_request \<Rightarrow> (sched_db \<times> sched_response) result" where
  "dispatch env now uuid validate db who req =
     (let meth = coalesce (q_method req) ''GET'';
          segs = segments_of (coalesce (q_path req) ''/v1/scheduling/jobs'');
          jid = seg segs 1
      in if seg segs 0 = Some ''config'' \<and> meth = ''GET'' then Inr (db, getConfigRoute env db who)
         else if seg segs 0 = Some ''config'' \<and> meth = ''PATCH''
         then patchConfigRoute env now db who (q_patch req)
         else if seg segs 0 = Some ''summary'' \<and> meth = ''GET'' then Inr (db, summaryRoute env db who)
         else if seg segs 0 = Some ''jobs'' \<and> meth = ''POST'' \<and> length segs = 1
         then createJobRoute env now uuid validate db who (q_job req)
         else if seg segs 0 = Some ''jobs'' \<and> meth = ''GET'' \<and> length segs = 1
         then bindE (listJobsRoute db who (q_status req) (q_limit req)) (\<lambda>r. Inr (db, r))
         else if seg segs 0 = Some ''jobs'' \<and> seg segs 2 = Some ''pause'' \<and> meth = ''POST''
         then pauseJobRoute now db who jid
         else if seg segs 0 = Some ''jobs'' \<and> seg segs 2 = Some ''resume'' \<and> meth = ''POST''
         then resumeJobRoute env now db who jid
         else if seg segs 0 = Some ''jobs'' \<and> length segs = 2 \<and> meth = ''GET''
         then Inr (db, getJobRoute db who jid)
         else if seg segs 0 = Some ''jobs'' \<and> seg segs 2 = Some ''executions'' \<and> meth = ''GET''
         then bindE (listExecutionsRoute db who jid (q_limit req)) (\<lambda>r. Inr (db, r))
         else if seg segs 0 = Some ''jobs'' \<and> length segs = 2 \<and> meth = ''PATCH''
         then patchJobRoute env now validate db who jid (q_job req)
         else if seg segs 0 = Some ''jobs'' \<and> length segs = 2 \<and> meth = ''DELETE''
         then Inr (deleteJobRoute now db who jid)
         else Inr (db, notFound ''Route not found.''))"

definition management_main ::
  "sched_env \<Rightarrow> time \<Rightarrow> string \<Rightarrow> (string option \<Rightarrow> string \<Rightarrow> bool) option
     \<Rightarrow> sched_db \<Rightarrow> sched_request \<Rightarrow> sched_db \<times> sched_response" where
  "management_main env now uuid validate db req =
     (case parseIdentity (q_headers req) of
        None \<Rightarrow> (db, errorResponse 401 ''UNAUTHENTICATED''
          ''Valid gateway-derived identity headers (X-Tenant-Id, X-Workspace-Id) are required.'')
      | Some who \<Rightarrow>
          (case dispatch env now uuid validate db who req of
             Inr r \<Rightarrow> r
           | Inl e \<Rightarrow> (db, errorResponse (coalesce (err_status e) 500)
                             (coalesce (err_code e) ''INTERNAL_ERROR'') (err_message e))))"

section \<open>The trigger\<close>

text \<open>
  The loop that looks for missed runs: at most \<open>missedCap\<close> candidates, from the last triggered
  time on, until a candidate reaches \<open>now\<close> or equals the job's next run. It stops the whole
  trigger when \<open>nextRunAt\<close> throws. \<open>fuel\<close> is the room left under \<open>missedCap\<close>.
\<close>

fun missed_loop ::
  "(time \<Rightarrow> time option \<Rightarrow> bool) \<Rightarrow> job \<Rightarrow> time \<Rightarrow> nat \<Rightarrow> time \<Rightarrow> time list result" where
  "missed_loop sameTs job now 0 probe = Inr []"
| "missed_loop sameTs job now (Suc fuel) probe =
     bindE (nextRunAt (j_cron_expression job) probe) (\<lambda>candidate.
       if now \<le> candidate \<or> sameTs candidate (j_next_run_at job) then Inr []
       else bindE (missed_loop sameTs job now fuel candidate) (\<lambda>rest. Inr (candidate # rest)))"

text \<open>\<open>INSERT INTO scheduled_executions ... ON CONFLICT (job_id, scheduled_at) DO NOTHING\<close>.\<close>

definition insertExecution :: "execution \<Rightarrow> execution list \<Rightarrow> execution list \<times> bool" where
  "insertExecution x xs =
     (if \<exists>y \<in> set xs. x_job_id y = x_job_id x \<and> x_scheduled_at y = x_scheduled_at x
      then (xs, False) else (xs @ [x], True))"

text \<open>
  \<open>missed.length < missedCap\<close> as a bound on the number of rounds: a finite cap bounds it by
  itself, NaN and minus infinity allow none, and without a cap the loop ends at \<open>now\<close>, which it
  reaches within one round per minute since \<open>probe\<close>.
\<close>

definition cap_rounds :: "jsnum \<Rightarrow> time \<Rightarrow> time \<Rightarrow> nat" where
  "cap_rounds cap probe now =
     (case cap of
        Fin r \<Rightarrow> nat (ceiling r)
      | NaN \<Rightarrow> 0
      | Infty p \<Rightarrow> if p then nat ((now - probe) div 60000 + 2) else 0)"

fun record_missed ::
  "(nat \<Rightarrow> string) \<Rightarrow> time \<Rightarrow> job \<Rightarrow> time list \<Rightarrow> sched_db \<Rightarrow> sched_db" where
  "record_missed fresh now job [] db = db"
| "record_missed fresh now job (scheduledAt # rest) db =
     (let n = length (execs db);
          rec = buildMissedExecutionRecord (fresh n) (fresh n) now job scheduledAt;
          db1 = db\<lparr>execs := fst (insertExecution rec (execs db))\<rparr>
      in record_missed fresh now job rest
           (publish (buildEvent ''execution.missed'' (j_tenant_id job) (j_workspace_id job)
                       ''system'' (j_id job) now) db1))"

text \<open>
  One due job. The runner is invoked between the insertion of the execution and the advance of
  \<open>next_run_at\<close>; it is a state change given by the argument \<open>invokeRunner\<close>. The result is the
  new state, whether the job was triggered, and what was thrown if anything was.
\<close>

definition trigger_job ::
  "(time \<Rightarrow> time option \<Rightarrow> bool) \<Rightarrow> (nat \<Rightarrow> string) \<Rightarrow> (job \<Rightarrow> string \<Rightarrow> sched_db \<Rightarrow> sched_db)
     \<Rightarrow> string option \<Rightarrow> jsnum \<Rightarrow> time \<Rightarrow> job \<Rightarrow> sched_db \<Rightarrow> sched_db \<times> bool result" where
  "trigger_job sameTs fresh invokeRunner correlationId missedCap now job db =
     (case (case j_last_triggered_at job of
              None \<Rightarrow> Inr []
            | Some t \<Rightarrow> missed_loop sameTs job now (cap_rounds missedCap t now) t) of
        Inl e \<Rightarrow> (db, Inl e)
      | Inr missed \<Rightarrow>
          (let db1 = record_missed fresh now job missed db;
               due = coalesce (j_next_run_at job) 0;
               xid = fresh (length (execs db1));
               ins = insertExecution (buildExecutionRecord xid now job due correlationId) (execs db1)
           in if \<not> snd ins then (db1, Inr False)
              else
                (let db2 = invokeRunner job xid (db1\<lparr>execs := fst ins\<rparr>)
                 in case nextRunAt (j_cron_expression job) due of
                      Inl e \<Rightarrow> (db2, Inl e)
                    | Inr next \<Rightarrow>
                        (updateJob db2 (j_id job)
                           (\<lambda>r. r\<lparr>j_last_triggered_at := Some due, j_next_run_at := Some next,
                                  j_updated_at := now\<rparr>), Inr True))))"

fun trigger_loop ::
  "(time \<Rightarrow> time option \<Rightarrow> bool) \<Rightarrow> (nat \<Rightarrow> string) \<Rightarrow> (job \<Rightarrow> string \<Rightarrow> sched_db \<Rightarrow> sched_db)
     \<Rightarrow> string option \<Rightarrow> jsnum \<Rightarrow> time \<Rightarrow> job list \<Rightarrow> int \<Rightarrow> sched_db \<Rightarrow> sched_db \<times> int result" where
  "trigger_loop sameTs fresh invokeRunner correlationId missedCap now [] triggered db = (db, Inr triggered)"
| "trigger_loop sameTs fresh invokeRunner correlationId missedCap now (job # rest) triggered db =
     (case trigger_job sameTs fresh invokeRunner correlationId missedCap now job db of
        (db1, Inl e) \<Rightarrow> (db1, Inl e)
      | (db1, Inr fired) \<Rightarrow>
          trigger_loop sameTs fresh invokeRunner correlationId missedCap now rest
            (if fired then triggered + 1 else triggered) db1)"

definition is_due :: "time \<Rightarrow> job \<Rightarrow> bool" where
  "is_due now r \<longleftrightarrow> j_status r = ''active'' \<and> j_deleted_at r = None
     \<and> (case j_next_run_at r of None \<Rightarrow> False | Some t \<Rightarrow> t \<le> now)"

definition dueJobs :: "time \<Rightarrow> sched_db \<Rightarrow> job list" where
  "dueJobs now db = sort_key (\<lambda>r. coalesce (j_next_run_at r) 0) (filter (is_due now) (jobs db))"

definition trigger_main ::
  "(time \<Rightarrow> time option \<Rightarrow> bool) \<Rightarrow> (nat \<Rightarrow> string) \<Rightarrow> (job \<Rightarrow> string \<Rightarrow> sched_db \<Rightarrow> sched_db)
     \<Rightarrow> string option \<Rightarrow> sched_env \<Rightarrow> time \<Rightarrow> sched_db \<Rightarrow> sched_db \<times> int result" where
  "trigger_main sameTs fresh invokeRunner correlationId env now db =
     (if coalesce (SCHEDULING_ENGINE_ENABLED env) ''true'' = ''false'' then (db, Inr 0)
      else trigger_loop sameTs fresh invokeRunner correlationId
             (envNumber (SCHEDULING_MISSED_WINDOW_CAP env) 10) now (dueJobs now db) 0 db)"

section \<open>The runner\<close>

datatype runner_outcome = Skipped | AlreadyClaimed | Ran (ran_outcome: string)

text \<open>
  What the runner does once the invoked action has come back, with the job row it read before the
  invocation, the execution it claimed and the tables as they are now.
\<close>

definition invoked_result :: "string + invoke_result option \<Rightarrow> invoke_result option" where
  "invoked_result out =
     (case out of
        Inl m \<Rightarrow> Some \<lparr>r_ok = Some False, r_error = Some m, r_timeout = False, r_timeoutMs = None\<rparr>
      | Inr r \<Rightarrow> r)"

definition invoked_error :: "string + invoke_result option \<Rightarrow> string option" where
  "invoked_error out =
     (case out of Inl m \<Rightarrow> Some m | Inr None \<Rightarrow> None | Inr (Some r) \<Rightarrow> r_error r)"

definition runner_finalize ::
  "time \<Rightarrow> string \<Rightarrow> execution \<Rightarrow> string \<Rightarrow> string option \<Rightarrow> sched_db \<Rightarrow> sched_db" where
  "runner_finalize finishedAt executionId started outcome errorSummary db =
     (let fin = finalizeExecution finishedAt started outcome errorSummary
      in db\<lparr>execs := updWhere (\<lambda>y. x_id y = executionId)
               (\<lambda>y. y\<lparr>x_status := x_status fin, x_finished_at := x_finished_at fin,
                      x_duration_ms := x_duration_ms fin,
                      x_error_summary := x_error_summary fin\<rparr>) (execs db)\<rparr>)"

definition runner_settle ::
  "time \<Rightarrow> string \<Rightarrow> job \<Rightarrow> string \<Rightarrow> sched_db \<Rightarrow> sched_db" where
  "runner_settle finishedAt executionId job outcome db =
     (let ev = (\<lambda>action rid. buildEvent action (j_tenant_id job) (j_workspace_id job)
                  ''system'' rid finishedAt)
      in if outcome = ''succeeded''
         then publish (ev ''execution.succeeded'' executionId)
                (updateJob db (j_id job)
                   (\<lambda>r. r\<lparr>j_consecutive_failure_count := 0, j_updated_at := finishedAt\<rparr>))
         else
           (let nextJob = incrementFailureCount finishedAt job;
                db4 = updateJob db (j_id job)
                        (\<lambda>r. r\<lparr>j_consecutive_failure_count := j_consecutive_failure_count nextJob,
                               j_status := j_status nextJob, j_updated_at := finishedAt\<rparr>);
                db5 = publish (ev (if outcome = ''timed_out'' then ''execution.timed_out''
                                   else ''execution.failed'') executionId) db4
            in if j_status nextJob = ''errored''
               then publish (ev ''job.errored'' (j_id job)) db5 else db5))"

text \<open>
  \<open>invoke\<close> is the invoked action: what it returns or throws, and the state of the tables when it
  comes back (other requests may have been served meanwhile).
\<close>

definition claimable :: "string \<Rightarrow> execution \<Rightarrow> bool" where
  "claimable executionId x \<longleftrightarrow> x_id x = executionId \<and> x_started_at x = None"

definition runner_main ::
  "(job \<Rightarrow> sched_db \<Rightarrow> sched_db \<times> (string + invoke_result option)) \<Rightarrow> time \<Rightarrow> time
     \<Rightarrow> string \<Rightarrow> string \<Rightarrow> sched_db \<Rightarrow> sched_db \<times> runner_outcome" where
  "runner_main invoke startedAt finishedAt jobId executionId db =
     (case find (\<lambda>r. j_id r = jobId) (jobs db) of
        None \<Rightarrow> (db, Skipped)
      | Some job \<Rightarrow>
          if j_status job \<noteq> ''active'' \<or> j_deleted_at job \<noteq> None then (db, Skipped)
          else
            (case find (claimable executionId) (execs db) of
               None \<Rightarrow> (db, AlreadyClaimed)
             | Some x \<Rightarrow>
                 (let db1 = db\<lparr>execs := updWhere (claimable executionId)
                                (\<lambda>x. x\<lparr>x_started_at := Some startedAt\<rparr>) (execs db)\<rparr>;
                      started = x\<lparr>x_started_at := Some startedAt\<rparr>;
                      (db2, out) = invoke job db1;
                      outcome = resolveOutcome startedAt finishedAt (invoked_result out);
                      db3 = runner_finalize finishedAt executionId started outcome (invoked_error out) db2
                  in (runner_settle finishedAt executionId job outcome db3, Ran outcome))))"

end
