(* ===== verification/Sched_Props.thy ===== *)
theory Sched_Props
  imports Sched_Actions
begin

text \<open>
  What the scheduling engine guarantees: the status machine of jobs, isolation of tenants and
  workspaces, the quota of active jobs, one execution per job and scheduled time, one run per
  execution, and the points where the code does something else than it means to.
\<close>

section \<open>The status machine\<close>

interpretation job_status: lifecycle canTransition "\<lambda>s. s = ''deleted''"
  by unfold_locales (simp add: canTransition_def VALID_TRANSITIONS_def)

interpretation job_quota: admission "\<lambda>used limit. fst (checkJobCreationQuota (jsInt used) (jsInt limit))"
  by unfold_locales (simp add: checkJobCreationQuota_def Let_def)

section \<open>Row frames\<close>

definition ids_distinct :: "sched_db \<Rightarrow> bool" where
  "ids_distinct db \<longleftrightarrow> distinct (map j_id (jobs db))"

definition others :: "identity \<Rightarrow> sched_db \<Rightarrow> job list" where
  "others who db = filter (\<lambda>r. \<not> owned who r) (jobs db)"

text \<open>The part of the state the routes of one caller must leave alone, with the key invariant.\<close>

definition framed :: "identity \<Rightarrow> sched_db \<Rightarrow> sched_db \<Rightarrow> bool" where
  "framed who db db' \<longleftrightarrow> others who db' = others who db \<and> ids_distinct db' \<and> execs db' = execs db"

lemma framed_refl: "ids_distinct db \<Longrightarrow> framed who db db"
  by (simp add: framed_def)

lemma jobs_publish [simp]: "jobs (publish e db) = jobs db" "execs (publish e db) = execs db"
  "configs (publish e db) = configs db"
  by (simp_all add: publish_def)

lemma framed_publish [simp]: "framed who db (publish e db') \<longleftrightarrow> framed who db db'"
  by (simp add: framed_def others_def ids_distinct_def)

lemma selectJob_Some:
  "selectJob db who jid = Some r \<Longrightarrow>
   r \<in> set (jobs db) \<and> owned who r \<and> Some (j_id r) = jid \<and> j_deleted_at r = None"
  unfolding selectJob_def by (drule find_Some_iff_in) auto

lemma framed_updateJob:
  assumes "ids_distinct db" and "cur \<in> set (jobs db)" and "owned who cur"
    and keep: "\<And>r. j_id (f r) = j_id r" "\<And>r. owned who (f r) = owned who r"
  shows "framed who db (updateJob db (j_id cur) f)"
proof -
  have same: "x = cur" if "x \<in> set (jobs db)" "j_id x = j_id cur" for x
    using assms(1,2) that unfolding ids_distinct_def by (blast intro: distinct_map_inj)
  have "filter (\<lambda>r. \<not> owned who r) (updWhere (\<lambda>r. j_id r = j_id cur) f (jobs db))
        = filter (\<lambda>r. \<not> owned who r) (jobs db)"
    by (rule filter_updWhere_frame) (use same assms(3) keep in auto)
  moreover have "map j_id (updWhere (\<lambda>r. j_id r = j_id cur) f (jobs db)) = map j_id (jobs db)"
    by (rule map_updWhere_same) (simp add: keep)
  ultimately show ?thesis
    using assms(1) by (simp add: framed_def others_def ids_distinct_def updateJob_def)
qed

section \<open>Every route keeps the frame\<close>

lemma framed_pauseAll:
  assumes "ids_distinct db"
  shows "framed who db (pauseAll now db (getActiveJobsToSuspend db (i_tenantId who) (i_workspaceId who)))"
proof -
  have own: "owned who x" if "x \<in> set (jobs db)"
      "j_id x \<in> set (getActiveJobsToSuspend db (i_tenantId who) (i_workspaceId who))" for x
  proof -
    from that(2) obtain y where y: "y \<in> set (jobs db)" "is_active_in (i_tenantId who) (i_workspaceId who) y"
        "j_id y = j_id x"
      by (auto simp: getActiveJobsToSuspend_def)
    with assms that(1) have "y = x"
      unfolding ids_distinct_def by (blast intro: distinct_map_inj)
    with y show ?thesis by (simp add: is_active_in_def owned_def)
  qed
  have "filter (\<lambda>r. \<not> owned who r)
          (updWhere (\<lambda>r. j_id r \<in> set (getActiveJobsToSuspend db (i_tenantId who) (i_workspaceId who)))
             (\<lambda>r. r\<lparr>j_status := ''paused'', j_updated_at := now\<rparr>) (jobs db))
        = filter (\<lambda>r. \<not> owned who r) (jobs db)"
    by (rule filter_updWhere_frame) (use own in \<open>auto simp: owned_def\<close>)
  with assms show ?thesis
    by (simp add: framed_def others_def ids_distinct_def pauseAll_def map_updWhere_same)
qed

lemma upsertConfig_jobs:
  "upsertConfig env db t w patch = Inr (db', c) \<Longrightarrow> jobs db' = jobs db \<and> execs db' = execs db"
  by (auto simp: upsertConfig_def Let_def split: if_splits)

lemma framed_patchConfig:
  assumes "ids_distinct db" and "patchConfigRoute env now db who patch = Inr (db', resp)"
  shows "framed who db db'"
proof -
  from assms(2) obtain db1 c where
      up: "upsertConfig env db (i_tenantId who) (i_workspaceId who) patch = Inr (db1, c)"
    by (auto simp: patchConfigRoute_def bindE_eq_Inr)
  from upsertConfig_jobs [OF up] assms(1) have "ids_distinct db1"
    by (simp add: ids_distinct_def)
  moreover obtain e where "db' = publish e db1 \<or>
      db' = publish e (pauseAll now db1
              (getActiveJobsToSuspend db1 (i_tenantId who) (i_workspaceId who)))"
    using assms(2) up unfolding patchConfigRoute_def bindE_def Let_def
    by (simp split: if_splits) blast+
  ultimately have "framed who db1 db'"
    by (metis framed_publish framed_refl framed_pauseAll)
  with upsertConfig_jobs [OF up] show ?thesis
    by (simp add: framed_def others_def)
qed

lemma insertJob_Inr:
  assumes "insertJob db p = Inr (db', row)"
  shows "jobs db' = jobs db @ [row] \<and> execs db' = execs db \<and> j_id row \<notin> j_id ` set (jobs db)
         \<and> configs db' = configs db"
  using assms by (auto simp: insertJob_def Let_def split: prod.splits if_splits)

lemma insertJob_row:
  assumes "insertJob db p = Inr (db', row)"
  shows "row = (fst p)\<lparr>j_last_triggered_at := None, j_deleted_at := None\<rparr>"
  using assms by (auto simp: insertJob_def Let_def split: prod.splits if_splits)

lemma buildJobRecord_scope:
  assumes "buildJobRecord uuid now input ctx = Inr p"
  shows "j_tenant_id (fst p) = ctx_tenantId ctx \<and> j_workspace_id (fst p) = ctx_workspaceId ctx
         \<and> j_max_consecutive_failures (fst p) = coalesce (in_maxConsecutiveFailures input) 5
         \<and> j_status (fst p) = coalesce (in_status input) ''active''"
  using assms by (auto simp: buildJobRecord_def bindE_eq_Inr)

text \<open>A created job: the quota was not exhausted, and the new row is the caller's own.\<close>

lemma createJob_cases:
  assumes "createJobRoute env now uuid validate db who input = Inr (db', resp)"
  obtains (refused) "jobs db' = jobs db" "execs db' = execs db" "statusCode resp \<noteq> 201"
        "configs db' = configs db"
  | (created) row where "jobs db' = jobs db @ [row]" "execs db' = execs db" "owned who row"
        "j_id row \<notin> j_id ` set (jobs db)" "configs db' = configs db"
        "js_less (jsInt (getActiveJobCount db (i_tenantId who) (i_workspaceId who)))
                 (c_max_active_jobs (getConfig env db (i_tenantId who) (i_workspaceId who)))"
        "isSchedulingEnabled (getConfig env db (i_tenantId who) (i_workspaceId who))"
        "j_max_consecutive_failures row = coalesce (in_maxConsecutiveFailures input) 5"
        "resp = response 201 (JobBody (mapJob row))"
proof -
  have "(jobs db' = jobs db \<and> execs db' = execs db \<and> statusCode resp \<noteq> 201 \<and> configs db' = configs db) \<or>
        (\<exists>p row db1. insertJob db p = Inr (db1, row)
          \<and> buildJobRecord uuid now input
                            \<lparr>ctx_tenantId = i_tenantId who, ctx_workspaceId = i_workspaceId who,
                             ctx_actorId = i_actorId who,
                             ctx_maxConsecutiveFailures = c_max_consecutive_failures
                                (getConfig env db (i_tenantId who) (i_workspaceId who))\<rparr> = Inr p
          \<and> jobs db' = jobs db1 \<and> execs db' = execs db1 \<and> configs db' = configs db1
          \<and> js_less (jsInt (getActiveJobCount db (i_tenantId who) (i_workspaceId who)))
                 (c_max_active_jobs (getConfig env db (i_tenantId who) (i_workspaceId who)))
          \<and> isSchedulingEnabled (getConfig env db (i_tenantId who) (i_workspaceId who))
          \<and> resp = response 201 (JobBody (mapJob row)))"
    using assms
    by (auto simp: createJobRoute_def Let_def bindE_eq_Inr checkJobCreationQuota_def
        errorResponse_def response_def split: if_splits sum.splits)
  then show thesis
  proof (elim disjE exE conjE)
    assume "jobs db' = jobs db" "execs db' = execs db" "statusCode resp \<noteq> 201" "configs db' = configs db"
    then show thesis by (rule refused)
  next
    fix p row db1
    assume i: "insertJob db p = Inr (db1, row)"
      and b: "buildJobRecord uuid now input
                            \<lparr>ctx_tenantId = i_tenantId who, ctx_workspaceId = i_workspaceId who,
                             ctx_actorId = i_actorId who,
                             ctx_maxConsecutiveFailures = c_max_consecutive_failures
                                (getConfig env db (i_tenantId who) (i_workspaceId who))\<rparr> = Inr p"
      and e: "jobs db' = jobs db1" "execs db' = execs db1" "configs db' = configs db1"
      and q: "js_less (jsInt (getActiveJobCount db (i_tenantId who) (i_workspaceId who)))
                 (c_max_active_jobs (getConfig env db (i_tenantId who) (i_workspaceId who)))"
      and en: "isSchedulingEnabled (getConfig env db (i_tenantId who) (i_workspaceId who))"
      and r: "resp = response 201 (JobBody (mapJob row))"
    from insertJob_Inr [OF i] insertJob_row [OF i] buildJobRecord_scope [OF b] e q en r
    show thesis
      by (intro created [of row]) (auto simp: owned_def)
  qed
qed

lemma framed_createJob:
  assumes "ids_distinct db" and "createJobRoute env now uuid validate db who input = Inr (db', resp)"
  shows "framed who db db'"
  using assms(2)
proof (cases rule: createJob_cases)
  case refused
  with assms(1) show ?thesis by (simp add: framed_def others_def ids_distinct_def)
next
  case (created row)
  with assms(1) show ?thesis by (simp add: framed_def others_def ids_distinct_def)
qed

lemma framed_pauseJob:
  assumes "ids_distinct db" and "pauseJobRoute now db who jid = Inr (db', resp)"
  shows "framed who db db'"
proof (cases "selectJob db who jid")
  case None
  with assms show ?thesis by (simp add: pauseJobRoute_def framed_refl)
next
  case (Some cur)
  with assms(2) show ?thesis
    using assms(1) framed_updateJob [OF assms(1), of cur who] selectJob_Some [OF Some]
    by (auto simp: pauseJobRoute_def Let_def bindE_eq_Inr owned_def
        split: if_splits intro: framed_refl)
qed

lemma framed_resumeJob:
  assumes "ids_distinct db" and "resumeJobRoute env now db who jid = Inr (db', resp)"
  shows "framed who db db'"
proof (cases "selectJob db who jid")
  case None
  with assms show ?thesis by (simp add: resumeJobRoute_def framed_refl)
next
  case (Some cur)
  with assms(2) show ?thesis
    using assms(1) framed_updateJob [OF assms(1), of cur who] selectJob_Some [OF Some]
    by (auto simp: resumeJobRoute_def Let_def bindE_eq_Inr owned_def
        split: if_splits intro: framed_refl)
qed

lemma framed_patchJob:
  assumes "ids_distinct db" and "patchJobRoute env now validate db who jid input = Inr (db', resp)"
  shows "framed who db db'"
proof (cases "selectJob db who jid")
  case None
  with assms show ?thesis by (simp add: patchJobRoute_def framed_refl)
next
  case (Some cur)
  with assms(2) show ?thesis
    using assms(1) framed_updateJob [OF assms(1), of cur who] selectJob_Some [OF Some]
    by (auto simp: patchJobRoute_def Let_def bindE_eq_Inr owned_def
        split: if_splits sum.splits intro: framed_refl)
qed

lemma framed_deleteJob:
  assumes "ids_distinct db"
  shows "framed who db (fst (deleteJobRoute now db who jid))"
proof -
  let ?f = "\<lambda>r. r\<lparr>j_status := ''deleted'', j_deleted_at := Some now, j_updated_at := now\<rparr>"
  let ?p = "\<lambda>r. Some (j_id r) = jid \<and> owned who r"
  have "filter (\<lambda>r. \<not> owned who r) (updWhere ?p ?f (jobs db)) = filter (\<lambda>r. \<not> owned who r) (jobs db)"
    by (rule filter_updWhere_frame) (auto simp: owned_def)
  moreover have "map j_id (updWhere ?p ?f (jobs db)) = map j_id (jobs db)"
    by (rule map_updWhere_same) simp
  ultimately show ?thesis
    using assms by (auto simp: deleteJobRoute_def Let_def framed_def others_def ids_distinct_def)
qed

lemmas route_frames =
  framed_patchConfig framed_createJob framed_pauseJob framed_resumeJob framed_patchJob

lemma framed_dispatch:
  assumes "ids_distinct db" and "dispatch env now uuid validate db who req = Inr (db', resp)"
  shows "framed who db db'"
  using assms(2) route_frames [OF assms(1)] framed_refl [OF assms(1)]
    framed_deleteJob [OF assms(1), of who now "seg (segments_of (coalesce (q_path req) ''/v1/scheduling/jobs'')) 1"]
  by (auto simp: dispatch_def Let_def bindE_eq_Inr split: if_splits)

section \<open>Active jobs under the quota\<close>

abbreviation active_count :: "identity \<Rightarrow> sched_db \<Rightarrow> int" where
  "active_count who db \<equiv> getActiveJobCount db (i_tenantId who) (i_workspaceId who)"

abbreviation config_of :: "sched_env \<Rightarrow> identity \<Rightarrow> sched_db \<Rightarrow> sched_config" where
  "config_of env who db \<equiv> getConfig env db (i_tenantId who) (i_workspaceId who)"

lemma active_count_publish [simp]: "active_count who (publish e db) = active_count who db"
  by (simp add: getActiveJobCount_def)

lemma active_count_update_le:
  assumes "\<And>r. is_active_in (i_tenantId who) (i_workspaceId who) (f r)
             \<Longrightarrow> is_active_in (i_tenantId who) (i_workspaceId who) r"
  shows "active_count who (updateJob db k f) \<le> active_count who db"
  unfolding getActiveJobCount_def updateJob_def
  by (simp add: length_filter_updWhere_le assms)

lemma active_count_update_Suc:
  "ids_distinct db \<Longrightarrow> active_count who (updateJob db k f) \<le> active_count who db + 1"
  unfolding getActiveJobCount_def updateJob_def ids_distinct_def
  using length_filter_updWhere_key [of j_id "jobs db"
      "is_active_in (i_tenantId who) (i_workspaceId who)" k f] by simp

lemma quota_createJob:
  assumes "createJobRoute env now uuid validate db who input = Inr (db', resp)"
    and "c_max_active_jobs (config_of env who db) = jsInt m" and "active_count who db \<le> m"
  shows "active_count who db' \<le> m"
  using assms(1)
proof (cases rule: createJob_cases)
  case refused
  with assms(3) show ?thesis by (simp add: getActiveJobCount_def)
next
  case (created row)
  with assms(2) have "active_count who db < m"
    by simp
  with created show ?thesis by (simp add: getActiveJobCount_def)
qed

lemma quota_pauseJob:
  assumes "pauseJobRoute now db who jid = Inr (db', resp)"
  shows "active_count who db' \<le> active_count who db"
proof (cases "selectJob db who jid")
  case None
  with assms show ?thesis by (simp add: pauseJobRoute_def)
next
  case (Some cur)
  show ?thesis
    using assms Some
    by (auto simp: pauseJobRoute_def applyTransition_def Let_def bindE_eq_Inr is_active_in_def
        intro!: active_count_update_le split: if_splits)
qed

lemma quota_resumeJob:
  assumes "resumeJobRoute env now db who jid = Inr (db', resp)" and "ids_distinct db"
    and "c_max_active_jobs (config_of env who db) = jsInt m" and "active_count who db \<le> m"
  shows "active_count who db' \<le> m"
proof -
  consider "jobs db' = jobs db"
    | f k e where "db' = publish e (updateJob db k f)" "active_count who db < m"
    using assms(1,3)
    by (auto simp: resumeJobRoute_def Let_def bindE_eq_Inr checkResumeQuota_def
        checkJobCreationQuota_def split: option.splits if_splits)
  then show ?thesis
  proof cases
    case 1
    with assms(4) show ?thesis by (simp add: getActiveJobCount_def)
  next
    case 2
    with active_count_update_Suc [OF assms(2), where who = who and k = k and f = f] show ?thesis
      by simp
  qed
qed

lemma quota_patchJob:
  assumes "patchJobRoute env now validate db who jid input = Inr (db', resp)"
  shows "active_count who db' \<le> active_count who db"
proof (cases "selectJob db who jid")
  case None
  with assms show ?thesis by (simp add: patchJobRoute_def)
next
  case (Some cur)
  show ?thesis
    using assms Some
    by (auto simp: patchJobRoute_def Let_def bindE_eq_Inr is_active_in_def
        intro!: active_count_update_le split: if_splits sum.splits)
qed

lemma quota_deleteJob: "active_count who (fst (deleteJobRoute now db who jid)) \<le> active_count who db"
  unfolding deleteJobRoute_def Let_def getActiveJobCount_def
  by (auto simp: is_active_in_def intro!: length_filter_updWhere_le)

lemma quota_dispatch:
  assumes "dispatch env now uuid validate db who req = Inr (db', resp)" and "ids_distinct db"
    and "c_max_active_jobs (config_of env who db) = jsInt m" and "active_count who db \<le> m"
    and "seg (segments_of (coalesce (q_path req) ''/v1/scheduling/jobs'')) 0 \<noteq> Some ''config''"
  shows "active_count who db' \<le> m"
proof -
  note le = order_trans [OF _ assms(4)]
  show ?thesis
    using assms(1,4,5) quota_createJob [OF _ assms(3,4)] quota_resumeJob [OF _ assms(2-4)]
      le [OF quota_pauseJob] le [OF quota_patchJob] le [OF quota_deleteJob]
    by (auto simp: dispatch_def Let_def bindE_eq_Inr split: if_splits) (metis fst_conv)+
qed

end
