(* ===== verification/Sched_Runs.thy ===== *)
theory Sched_Runs
  imports Sched_Props
begin

text \<open>
  The trigger and the runner: at most one execution per job and scheduled time, at most one run
  per execution, which runs are recorded as missed, how a job advances, and the properties of the
  scheduling engine.
\<close>

section \<open>One execution per job and scheduled time\<close>

definition slot :: "execution \<Rightarrow> string \<times> time" where
  "slot x = (x_job_id x, x_scheduled_at x)"

definition slots_unique :: "sched_db \<Rightarrow> bool" where
  "slots_unique db \<longleftrightarrow> distinct (map slot (execs db))"

lemma slots_insert: "distinct (map slot xs) \<Longrightarrow> distinct (map slot (fst (insertExecution x xs)))"
  by (auto simp: insertExecution_def slot_def)

lemma slots_publish [simp]: "slots_unique (publish e db) = slots_unique db"
  by (simp add: slots_unique_def)

lemma execs_updateJob [simp]: "execs (updateJob db k f) = execs db"
  by (simp add: updateJob_def)

lemma slots_updateJob [simp]: "slots_unique (updateJob db k f) = slots_unique db"
  by (simp add: slots_unique_def)

lemma slots_updWhere:
  "(\<And>x. slot (g x) = slot x) \<Longrightarrow>
   slots_unique (db\<lparr>execs := updWhere p g (execs db)\<rparr>) = slots_unique db"
  by (simp add: slots_unique_def map_updWhere_same)

lemma slots_record_missed: "slots_unique db \<Longrightarrow> slots_unique (record_missed fresh now job ts db)"
proof (induction ts arbitrary: db)
  case Nil
  then show ?case by simp
next
  case (Cons t ts)
  then show ?case
    by (simp add: Let_def slots_unique_def slots_insert)
qed

lemma jobs_record_missed [simp]: "jobs (record_missed fresh now job ts db) = jobs db"
  by (induction ts arbitrary: db) (auto simp: Let_def)

lemma slots_trigger_job:
  assumes run: "\<And>job xid db. slots_unique db \<Longrightarrow> slots_unique (invokeRunner job xid db)"
    and "slots_unique db"
  shows "slots_unique (fst (trigger_job sameTs fresh invokeRunner corr cap now job db))"
proof -
  have ins: "slots_unique (d\<lparr>execs := fst (insertExecution x (execs d))\<rparr>)" if "slots_unique d" for d x
    using that by (simp add: slots_unique_def slots_insert)
  show ?thesis
    unfolding trigger_job_def Let_def
    by (auto simp: slots_record_missed assms ins split: sum.splits option.splits)
qed

lemma slots_trigger_loop:
  assumes run: "\<And>job xid db. slots_unique db \<Longrightarrow> slots_unique (invokeRunner job xid db)"
  shows "slots_unique db \<Longrightarrow>
    slots_unique (fst (trigger_loop sameTs fresh invokeRunner corr cap now due n db))"
proof (induction due arbitrary: n db)
  case Nil
  then show ?case by simp
next
  case (Cons job due)
  have "slots_unique (fst (trigger_job sameTs fresh invokeRunner corr cap now job db))"
    by (rule slots_trigger_job [OF run Cons.prems])
  with Cons.IH show ?case
    by (auto split: prod.splits sum.splits)
qed

section \<open>One run per execution\<close>

lemma execs_settle [simp]: "execs (runner_settle f xid job oc db) = execs db"
  by (simp add: runner_settle_def Let_def)

text \<open>How a run goes: the job and the execution it found, and what the action left behind.\<close>

lemma runner_cases:
  obtains (skipped) "runner_main invoke s f jid xid db = (db, Skipped)"
  | (taken) "runner_main invoke s f jid xid db = (db, AlreadyClaimed)"
      "find (claimable xid) (execs db) = None"
  | (ran) job x db2 out oc where
      "find (\<lambda>r. j_id r = jid) (jobs db) = Some job" "j_status job = ''active''"
      "find (claimable xid) (execs db) = Some x"
      "invoke job (db\<lparr>execs := updWhere (claimable xid) (\<lambda>x. x\<lparr>x_started_at := Some s\<rparr>) (execs db)\<rparr>)
         = (db2, out)"
      "oc = resolveOutcome s f (invoked_result out)"
      "runner_main invoke s f jid xid db =
         (runner_settle f xid job oc
            (runner_finalize f xid (x\<lparr>x_started_at := Some s\<rparr>) oc (invoked_error out) db2), Ran oc)"
proof (cases "find (\<lambda>r. j_id r = jid) (jobs db)")
  case None
  then show thesis by (intro skipped) (simp add: runner_main_def)
next
  case (Some job)
  show thesis
  proof (cases "j_status job \<noteq> ''active'' \<or> j_deleted_at job \<noteq> None")
    case True
    with Some show thesis by (intro skipped) (simp add: runner_main_def)
  next
    case False
    show thesis
    proof (cases "find (claimable xid) (execs db)")
      case None
      with False \<open>find _ (jobs db) = _\<close> show thesis by (intro taken) (simp_all add: runner_main_def)
    next
      case (Some x)
      obtain db2 out where "invoke job
          (db\<lparr>execs := updWhere (claimable xid) (\<lambda>x. x\<lparr>x_started_at := Some s\<rparr>) (execs db)\<rparr>) = (db2, out)"
        by (cases "invoke job
          (db\<lparr>execs := updWhere (claimable xid) (\<lambda>x. x\<lparr>x_started_at := Some s\<rparr>) (execs db)\<rparr>)")
      with False Some \<open>find _ (jobs db) = _\<close> show thesis
        by (intro ran [of job x db2 out]) (simp_all add: runner_main_def Let_def)
    qed
  qed
qed

lemma slots_runner:
  assumes "\<And>job db. slots_unique db \<Longrightarrow> slots_unique (fst (invoke job db))" and "slots_unique db"
  shows "slots_unique (fst (runner_main invoke s f jid xid db))"
proof (cases rule: runner_cases [of invoke s f jid xid db])
  case (ran job x db2 out oc)
  let ?db1 = "db\<lparr>execs := updWhere (claimable xid) (\<lambda>x. x\<lparr>x_started_at := Some s\<rparr>) (execs db)\<rparr>"
  have "slots_unique ?db1"
    using assms(2) by (simp add: slots_updWhere slot_def)
  with assms(1) [of ?db1 job] ran(4) have "slots_unique db2"
    by simp
  then have "slots_unique (runner_finalize f xid x' oc' err db2)" for x' oc' err
    by (simp add: runner_finalize_def Let_def slots_updWhere slot_def)
  then show ?thesis
    unfolding ran(6) by (simp add: slots_unique_def)
qed (use assms in simp_all)

text \<open>An execution is claimed when every row with its identifier has a start time.\<close>

definition claimed :: "string \<Rightarrow> sched_db \<Rightarrow> bool" where
  "claimed xid db \<longleftrightarrow> (\<forall>x \<in> set (execs db). x_id x = xid \<longrightarrow> x_started_at x \<noteq> None)"

lemma claimed_no_claim: "claimed xid db \<longleftrightarrow> find (claimable xid) (execs db) = None"
  by (auto simp: claimed_def claimable_def find_None_iff)

lemma claim_claims:
  "claimed xid (db\<lparr>execs := updWhere (claimable xid) (\<lambda>x. x\<lparr>x_started_at := Some s\<rparr>) (execs db)\<rparr>)"
  by (simp add: claimed_def ball_updWhere claimable_def)

lemma claimed_finalize: "claimed xid db \<Longrightarrow> claimed xid (runner_finalize f yid x oc err db)"
  by (simp add: claimed_def runner_finalize_def Let_def ball_updWhere)

lemma runner_claims:
  assumes keep: "\<And>job d. claimed xid d \<Longrightarrow> claimed xid (fst (invoke job d))"
    and "runner_main invoke s f jid xid db = (db', Ran out)"
  shows "claimed xid db'"
proof (cases rule: runner_cases [of invoke s f jid xid db])
  case (ran job x db2 out' oc)
  have "claimed xid db2"
    using keep [OF claim_claims, of job s db] ran(4) by simp
  then have "claimed xid (runner_finalize f xid x' oc' err db2)" for x' oc' err
    by (rule claimed_finalize)
  with ran(6) assms(2) show ?thesis
    by (auto simp: claimed_def)
qed (use assms(2) in simp_all)

lemma runner_not_claimed:
  "claimed xid db \<Longrightarrow> fst (runner_main invoke s f jid xid db) = db
     \<and> snd (runner_main invoke s f jid xid db) \<in> {Skipped, AlreadyClaimed}"
  by (cases rule: runner_cases [of invoke s f jid xid db]) (simp_all add: claimed_no_claim)

section \<open>Missed runs\<close>

lemma missed_loop_follows:
  "missed_loop sameTs job now n probe = Inr ts \<Longrightarrow>
   follows (nextRunAt (j_cron_expression job)) probe ts \<and> length ts \<le> n
   \<and> (\<forall>t \<in> set ts. t < now \<and> \<not> sameTs t (j_next_run_at job))"
proof (induction n arbitrary: probe ts)
  case 0
  then show ?case by simp
next
  case (Suc n)
  from Suc.prems show ?case
    by (auto simp: bindE_eq_Inr split: if_splits dest!: Suc.IH)
qed


section \<open>Properties\<close>

text \<open>
  C5 (safety): whatever request a caller sends to the management API, the jobs of every other
  tenant or workspace, all executions and the uniqueness of job identifiers are left untouched.
\<close>

theorem management_isolation:
  assumes "ids_distinct db" and "parseIdentity (q_headers req) = Some who"
    and "management_main env now uuid validate db req = (db', resp)"
  shows "others who db' = others who db \<and> execs db' = execs db \<and> ids_distinct db'"
proof (cases "dispatch env now uuid validate db who req")
  case (Inl e)
  with assms show ?thesis by (simp add: management_main_def)
next
  case (Inr r)
  with assms have "framed who db db'"
    by (intro framed_dispatch [of db env now uuid validate who req db' resp])
       (simp_all add: management_main_def)
  then show ?thesis by (simp add: framed_def)
qed

definition sample_headers :: headers where
  "sample_headers = \<lparr>h_x_tenant_id = Some ''t1'', h_x_workspace_id = Some ''w1'',
     h_x_auth_subject = Some ''ann'', h_x_actor_roles = None\<rparr>"

definition sample_input :: job_input where
  "sample_input = \<lparr>in_id = None, in_name = Some ''nightly'', in_cronExpression = Some ''*/5 * * * *'',
     in_targetAction = Some ''report'', in_payload = None, in_status = None,
     in_consecutiveFailureCount = None, in_maxConsecutiveFailures = None, in_nextRunAt = None,
     in_lastTriggeredAt = None, in_createdAt = None, in_updatedAt = None, in_deletedAt = None\<rparr>"

definition sample_request :: "string \<Rightarrow> string \<Rightarrow> sched_request" where
  "sample_request meth path = \<lparr>q_headers = sample_headers, q_method = Some meth, q_path = Some path,
     q_job = sample_input,
     q_patch = \<lparr>p_schedulingEnabled = Some False, p_maxActiveJobs = None,
                p_minIntervalSeconds = None, p_maxConsecutiveFailures = None\<rparr>,
     q_status = None, q_limit = None\<rparr>"

definition sample_env :: sched_env where
  "sample_env = \<lparr>SCHEDULING_ENABLED_BY_DEFAULT = Some ''true'', SCHEDULING_DEFAULT_MAX_ACTIVE_JOBS = Some ''2'',
     SCHEDULING_DEFAULT_MIN_INTERVAL_SECONDS = None, SCHEDULING_DEFAULT_MAX_CONSECUTIVE_FAILURES = Some ''9'',
     SCHEDULING_ENGINE_ENABLED = None, SCHEDULING_MISSED_WINDOW_CAP = None\<rparr>"

definition sample_job :: "string \<Rightarrow> string \<Rightarrow> job" where
  "sample_job jid tenant = \<lparr>j_id = jid, j_tenant_id = tenant, j_workspace_id = ''w1'', j_name = ''n'',
     j_cron_expression = ''30 12 * * *'', j_target_action = ''report'', j_payload = ''{}'',
     j_status = ''active'', j_consecutive_failure_count = 0, j_max_consecutive_failures = 5,
     j_next_run_at = Some 45000000, j_last_triggered_at = None, j_created_by = ''ann'',
     j_created_at = 0, j_updated_at = 0, j_deleted_at = None\<rparr>"

definition sample_db :: sched_db where
  "sample_db = \<lparr>jobs = [sample_job ''a'' ''t1'', sample_job ''b'' ''t2''], execs = [], configs = [], audit = []\<rparr>"

lemmas sample_defs = sample_headers_def sample_input_def sample_request_def sample_env_def
  sample_job_def sample_db_def

definition sample_who :: identity where
  "sample_who = \<lparr>i_tenantId = ''t1'', i_workspaceId = ''w1'', i_actorId = ''ann'', i_roles = []\<rparr>"

lemma sample_identity: "parseIdentity (q_headers (sample_request m p)) = Some sample_who"
  by (simp add: parseIdentity_def sample_defs sample_who_def parseRoles_def)

lemma sample_ids: "ids_distinct sample_db"
  by code_simp

theorem management_isolation_witness:
  "\<exists>db' resp. management_main sample_env 44880000 ''u1'' None sample_db
       (sample_request ''DELETE'' ''/v1/scheduling/jobs/a'') = (db', resp)
     \<and> statusCode resp = 204 \<and> others sample_who db' = others sample_who sample_db"
proof -
  let ?r = "management_main sample_env 44880000 ''u1'' None sample_db
       (sample_request ''DELETE'' ''/v1/scheduling/jobs/a'')"
  have "statusCode (snd ?r) = 204"
    by code_simp
  moreover have "others sample_who (fst ?r) = others sample_who sample_db"
    using management_isolation [OF sample_ids sample_identity, where db' = "fst ?r" and resp = "snd ?r"]
    by simp
  ultimately show ?thesis by (metis prod.collapse)
qed



lemma getConfig_upsert:
  assumes "upsertConfig env db t w patch = Inr (db1, c)"
  shows "getConfig env db1 t w = c"
proof -
  let ?same = "\<lambda>c. c_tenant_id c = t \<and> c_workspace_id c = Some w"
  have c: "?same c"
    using assms by (auto simp: upsertConfig_def Let_def split: if_splits)
  have db1: "configs db1 = (if \<exists>c \<in> set (configs db). ?same c then updWhere ?same (\<lambda>_. c) (configs db)
                            else configs db @ [c])"
    using assms by (auto simp: upsertConfig_def Let_def split: if_splits)
  have upd: "\<exists>y \<in> set xs. ?same y \<Longrightarrow> find ?same (updWhere ?same (\<lambda>_. c) xs) = Some c" for xs
    using c by (induction xs) (auto simp: updWhere_def)
  have app: "\<not> (\<exists>y \<in> set xs. ?same y) \<Longrightarrow> find ?same (xs @ [c]) = Some c" for xs
    using c by (induction xs) auto
  have "find ?same (configs db1) = Some c"
    using upd app db1 by presburger
  then show ?thesis by (simp add: getConfig_def Let_def)
qed

lemma getConfig_same: "configs d = configs db \<Longrightarrow> getConfig env d t w = getConfig env db t w"
  by (simp only: getConfig_def)

lemma pauseAll_none_active:
  "getActiveJobCount (pauseAll now db (getActiveJobsToSuspend db t w)) t w = 0"
proof -
  have "\<not> is_active_in t w r" if "r \<in> set (jobs (pauseAll now db (getActiveJobsToSuspend db t w)))" for r
  proof -
    from that obtain q where q: "q \<in> set (jobs db)"
        "r = (if j_id q \<in> set (getActiveJobsToSuspend db t w)
              then q\<lparr>j_status := ''paused'', j_updated_at := now\<rparr> else q)"
      by (auto simp: pauseAll_def set_updWhere)
    show ?thesis
    proof (cases "is_active_in t w q")
      case True
      with q(1) have "j_id q \<in> set (getActiveJobsToSuspend db t w)"
        by (auto simp: getActiveJobsToSuspend_def)
      with q(2) show ?thesis by (simp add: is_active_in_def)
    next
      case False
      with q(2) show ?thesis by (simp add: is_active_in_def)
    qed
  qed
  then show ?thesis by (simp add: getActiveJobCount_def filter_empty_conv)
qed

text \<open>
  C7 (functional): turning scheduling off through the configuration route leaves the workspace
  without an active job, and afterwards job creation is answered with 403 and resuming never
  changes the job table.
\<close>

theorem disabling_suspends_all:
  assumes "p_schedulingEnabled patch = Some False"
    and "patchConfigRoute env now db who patch = Inr (db', resp)"
  shows "getActiveJobCount db' (i_tenantId who) (i_workspaceId who) = 0
    \<and> createJobRoute env later uuid validate db' who input
        = Inr (db', errorResponse 403 ''SCHEDULING_DISABLED''
                      ''Scheduling capability is disabled for this workspace.'')
    \<and> (\<forall>db'' r. resumeJobRoute env later db' who jid = Inr (db'', r) \<longrightarrow> db'' = db')"
proof -
  let ?t = "i_tenantId who" and ?w = "i_workspaceId who"
  from assms(2) obtain db1 c where up: "upsertConfig env db ?t ?w patch = Inr (db1, c)"
    by (auto simp: patchConfigRoute_def bindE_eq_Inr)
  define ids where "ids = getActiveJobsToSuspend db1 ?t ?w"
  obtain e where db': "db' = publish e (if ids \<noteq> [] then pauseAll now db1 ids else db1)"
    using assms up unfolding patchConfigRoute_def ids_def by (auto simp: bindE_def Let_def)
  have "configs db' = configs db1"
    by (simp add: db' pauseAll_def)
  from getConfig_same [OF this] have "getConfig env db' ?t ?w = c"
    using getConfig_upsert [OF up] by simp
  moreover have "\<not> c_scheduling_enabled c"
    using up assms(1) by (auto simp: upsertConfig_def Let_def split: if_splits)
  moreover have "getActiveJobCount db1 ?t ?w = 0" if "ids = []"
    using that by (simp add: ids_def getActiveJobsToSuspend_def getActiveJobCount_def)
  ultimately show ?thesis
    using pauseAll_none_active [of now db1 ?t ?w]
    by (auto simp: db' ids_def createJobRoute_def resumeJobRoute_def isSchedulingEnabled_def
        Let_def split: option.splits if_splits)
qed

theorem disabling_suspends_all_witness:
  "\<exists>db' resp. patchConfigRoute sample_env 7 sample_db sample_who (q_patch (sample_request ''PATCH'' ''/''))
       = Inr (db', resp)
     \<and> getActiveJobCount sample_db ''t1'' ''w1'' = 1 \<and> getActiveJobCount db' ''t1'' ''w1'' = 0"
proof -
  let ?r = "patchConfigRoute sample_env 7 sample_db sample_who (q_patch (sample_request ''PATCH'' ''/''))"
  have "\<not> isl ?r"
    by code_simp
  then obtain db' resp where r: "?r = Inr (db', resp)"
    by (cases ?r) auto
  have "getActiveJobCount sample_db ''t1'' ''w1'' = 1"
    by code_simp
  moreover have "p_schedulingEnabled (q_patch (sample_request ''PATCH'' ''/'')) = Some False"
    by (simp add: sample_request_def)
  ultimately show ?thesis
    using disabling_suspends_all [OF _ r] r by (auto simp: sample_who_def)
qed

text \<open>
  C8 (invariant): the trigger, with the runner it invokes, never leaves two executions for one
  job and scheduled time, whatever the invoked actions do as long as they respect the same
  constraint.
\<close>

theorem trigger_keeps_slots_unique:
  assumes "\<And>job d. slots_unique d \<Longrightarrow> slots_unique (fst (invoke job d))" and "slots_unique db"
  shows "slots_unique (fst (trigger_main sameTs fresh
           (\<lambda>job xid d. fst (runner_main invoke s f (j_id job) xid d)) corr env now db))"
  using slots_trigger_loop [OF slots_runner [OF assms(1)] assms(2)] assms(2)
  by (simp add: trigger_main_def)

definition sample_invoke :: "job \<Rightarrow> sched_db \<Rightarrow> sched_db \<times> (string + invoke_result option)" where
  "sample_invoke job d = (d, Inl ''boom'')"

definition sample_fresh :: "nat \<Rightarrow> string" where
  "sample_fresh n = ''x'' @ show_nat n"

definition sample_tick :: "sched_db \<times> int result" where
  "sample_tick = trigger_main (\<lambda>c n. n = Some c) sample_fresh
     (\<lambda>job xid d. fst (runner_main sample_invoke 1 2 (j_id job) xid d)) None sample_env 45000000
     (sample_db\<lparr>jobs := [(sample_job ''a'' ''t1'')\<lparr>j_cron_expression := ''*/5 * * * *''\<rparr>]\<rparr>)"

theorem trigger_keeps_slots_unique_witness:
  "snd sample_tick = Inr 1 \<and> slots_unique (fst sample_tick)
   \<and> map x_status (execs (fst sample_tick)) = [''failed'']"
proof -
  have "slots_unique (fst sample_tick)"
    unfolding sample_tick_def
    by (rule trigger_keeps_slots_unique) (simp_all add: sample_invoke_def slots_unique_def sample_db_def)
  moreover have "snd sample_tick = Inr 1 \<and> map x_status (execs (fst sample_tick)) = [''failed'']"
    by code_simp
  ultimately show ?thesis by simp
qed

text \<open>
  C9 (functional): the runs recorded as missed are exactly consecutive run times of the job's
  expression after its last trigger, strictly increasing, all before now, none of them the
  pending run, and no more than the cap.
\<close>

theorem missed_runs_are_consecutive:
  assumes "missed_loop sameTs job now (cap_rounds (jsInt cap) since now) since = Inr missed"
  shows "follows (nextRunAt (j_cron_expression job)) since missed
    \<and> sorted_wrt (<) (since # missed)
    \<and> (\<forall>t \<in> set missed. t < now \<and> \<not> sameTs t (j_next_run_at job))
    \<and> int (length missed) \<le> max 0 cap"
proof -
  from missed_loop_follows [OF assms] have
      f: "follows (nextRunAt (j_cron_expression job)) since missed"
    and l: "length missed \<le> nat cap"
    and b: "\<forall>t \<in> set missed. t < now \<and> \<not> sameTs t (j_next_run_at job)"
    by (auto simp: cap_rounds_def jsInt_def)
  from cron.follows_increasing [OF f] f l b show ?thesis
    by auto
qed

theorem missed_runs_are_consecutive_witness:
  "\<exists>missed. missed_loop (\<lambda>c n. n = Some c)
       ((sample_job ''a'' ''t1'')\<lparr>j_cron_expression := ''*/5 * * * *'', j_next_run_at := Some 1200000\<rparr>)
       9000000 (cap_rounds (jsInt 10) 300000 9000000) 300000 = Inr missed
     \<and> missed = [600000, 900000] \<and> sorted_wrt (<) (300000 # missed)"
proof -
  have m: "missed_loop (\<lambda>c n. n = Some c)
       ((sample_job ''a'' ''t1'')\<lparr>j_cron_expression := ''*/5 * * * *'', j_next_run_at := Some 1200000\<rparr>)
       9000000 (cap_rounds (jsInt 10) 300000 9000000) 300000 = Inr [600000, 900000]"
    by code_simp
  from missed_runs_are_consecutive [OF m] m show ?thesis by blast
qed

text \<open>
  C10 (safety): an execution runs at most once. After a run of it, every later invocation of the
  runner for the same execution, by whatever job and at whatever time, is skipped and changes
  nothing, provided the invoked action does not itself reset start times.
\<close>

theorem execution_runs_once:
  assumes "\<And>job d. claimed xid d \<Longrightarrow> claimed xid (fst (invoke job d))"
    and "runner_main invoke s f jid xid db = (db', Ran out)"
  shows "fst (runner_main invoke' s' f' jid' xid db') = db'
    \<and> snd (runner_main invoke' s' f' jid' xid db') \<in> {Skipped, AlreadyClaimed}"
  by (rule runner_not_claimed [OF runner_claims [OF assms]])

definition sample_running :: sched_db where
  "sample_running = sample_db\<lparr>execs :=
     [buildExecutionRecord ''x0'' 0 (sample_job ''a'' ''t1'') 45000000 None]\<rparr>"

theorem execution_runs_once_witness:
  "\<exists>db'. runner_main sample_invoke 1 2 ''a'' ''x0'' sample_running = (db', Ran ''failed'')
     \<and> fst (runner_main sample_invoke 3 4 ''a'' ''x0'' db') = db'"
proof -
  let ?r = "runner_main sample_invoke 1 2 ''a'' ''x0'' sample_running"
  have "snd ?r = Ran ''failed''"
    by code_simp
  then obtain db' where r: "?r = (db', Ran ''failed'')"
    by (metis prod.collapse)
  with execution_runs_once [OF _ r] show ?thesis
    by (simp add: sample_invoke_def)
qed

section \<open>How a job advances\<close>

lemma insertExecution_True:
  "insertExecution x xs = (ys, True) \<Longrightarrow> ys = xs @ [x] \<and> slot x \<notin> slot ` set xs"
  by (auto simp: insertExecution_def slot_def split: if_splits)

lemma insertExecution_keeps: "set xs \<subseteq> set (fst (insertExecution x xs))"
  by (auto simp: insertExecution_def)

lemma insertExecution_slot: "slot x \<in> slot ` set (fst (insertExecution x xs))"
  by (auto simp: insertExecution_def slot_def image_iff) metis

lemma record_missed_keeps: "set (execs db) \<subseteq> set (execs (record_missed fresh now job ts db))"
proof (induction ts arbitrary: db)
  case Nil
  then show ?case by simp
next
  case (Cons t ts)
  let ?db1 = "publish (buildEvent ''execution.missed'' (j_tenant_id job) (j_workspace_id job) ''system'' (j_id job) now)
      (db\<lparr>execs := fst (insertExecution (buildMissedExecutionRecord (fresh (length (execs db)))
         (fresh (length (execs db))) now job t) (execs db))\<rparr>)"
  have "set (execs db) \<subseteq> set (execs ?db1)"
    by (simp add: insertExecution_keeps)
  with Cons.IH [of ?db1] show ?case
    by (auto simp: Let_def)
qed

lemma record_missed_slot:
  "(j_id job, t) \<in> slot ` set (execs (record_missed fresh now job (t # ts) db))"
proof -
  let ?x = "buildMissedExecutionRecord (fresh (length (execs db))) (fresh (length (execs db))) now job t"
  let ?db1 = "publish (buildEvent ''execution.missed'' (j_tenant_id job) (j_workspace_id job) ''system'' (j_id job) now)
      (db\<lparr>execs := fst (insertExecution ?x (execs db))\<rparr>)"
  have "slot ?x = (j_id job, t)"
    by (simp add: slot_def buildMissedExecutionRecord_def buildExecutionRecord_def)
  then have "(j_id job, t) \<in> slot ` set (execs ?db1)"
    using insertExecution_slot [of ?x "execs db"] by simp
  with record_missed_keeps [of ?db1 fresh now job ts] show ?thesis
    by (simp add: Let_def) blast
qed

lemma insertExecution_taken:
  "slot x \<in> slot ` set xs \<Longrightarrow> insertExecution x xs = (xs, False)"
  by (auto simp: insertExecution_def slot_def)

text \<open>
  C11 (functional): a job the trigger counts as triggered got a fresh execution for the pending
  time, inserted before the runner was invoked, and afterwards its pending time is the last
  trigger and its next run lies strictly later.
\<close>

theorem triggered_job_advances:
  assumes "j_next_run_at job = Some due"
    and "trigger_job sameTs fresh invokeRunner corr cap now job db = (db', Inr True)"
  shows "(\<exists>d xid. (j_id job, due) \<notin> slot ` set (execs db)
            \<and> (\<exists>x \<in> set (execs d). x_id x = xid \<and> slot x = (j_id job, due) \<and> x_status x = ''running'')
            \<and> execs db' = execs (invokeRunner job xid d))
    \<and> (\<forall>r \<in> set (jobs db'). j_id r = j_id job \<longrightarrow>
         j_last_triggered_at r = Some due \<and> (\<exists>n. j_next_run_at r = Some n \<and> due < n))"
proof -
  from assms obtain missed where m: "(case j_last_triggered_at job of None \<Rightarrow> Inr []
            | Some t \<Rightarrow> missed_loop sameTs job now (cap_rounds cap t now) t) = Inr missed"
    by (auto simp: trigger_job_def split: sum.splits)
  define db1 where "db1 = record_missed fresh now job missed db"
  define xid where "xid = fresh (length (execs db1))"
  define x where "x = buildExecutionRecord xid now job due corr"
  define d where "d = db1\<lparr>execs := fst (insertExecution x (execs db1))\<rparr>"
  have unfold: "trigger_job sameTs fresh invokeRunner corr cap now job db =
      (if \<not> snd (insertExecution x (execs db1)) then (db1, Inr False)
       else case nextRunAt (j_cron_expression job) due of
              Inl e \<Rightarrow> (invokeRunner job xid d, Inl e)
            | Inr n \<Rightarrow> (updateJob (invokeRunner job xid d) (j_id job)
                           (\<lambda>r. r\<lparr>j_last_triggered_at := Some due, j_next_run_at := Some n,
                                  j_updated_at := now\<rparr>), Inr True))"
    unfolding trigger_job_def m Let_def d_def x_def xid_def db1_def
    by (simp add: assms(1) split: sum.split)
  with assms(2) obtain n where ins: "snd (insertExecution x (execs db1))"
    and n: "nextRunAt (j_cron_expression job) due = Inr n"
    and db': "db' = updateJob (invokeRunner job xid d) (j_id job)
                      (\<lambda>r. r\<lparr>j_last_triggered_at := Some due, j_next_run_at := Some n, j_updated_at := now\<rparr>)"
    by (auto split: if_splits sum.splits)
  have sx: "slot x = (j_id job, due)" "x_status x = ''running''" "x_id x = xid"
    by (simp_all add: x_def buildExecutionRecord_def slot_def)
  from ins have "insertExecution x (execs db1) = (fst (insertExecution x (execs db1)), True)"
    by (metis prod.collapse)
  from insertExecution_True [OF this] have dx: "x \<in> set (execs d)" and "slot x \<notin> slot ` set (execs db1)"
    by (simp_all add: d_def)
  moreover have "set (execs db) \<subseteq> set (execs db1)"
    unfolding db1_def by (rule record_missed_keeps)
  ultimately have "(j_id job, due) \<notin> slot ` set (execs db)"
    using sx(1) by auto
  moreover have "\<exists>x \<in> set (execs d). x_id x = xid \<and> slot x = (j_id job, due) \<and> x_status x = ''running''"
    using dx sx by blast
  moreover have "execs db' = execs (invokeRunner job xid d)"
    by (simp add: db')
  moreover have "due < n"
    by (rule cron.nxt_later [OF n])
  then have "\<forall>r \<in> set (jobs db'). j_id r = j_id job \<longrightarrow>
         j_last_triggered_at r = Some due \<and> (\<exists>n. j_next_run_at r = Some n \<and> due < n)"
    by (simp add: db' updateJob_def ball_updWhere)
  ultimately show ?thesis by blast
qed

theorem triggered_job_advances_witness:
  "\<exists>db'. trigger_job (\<lambda>c n. n = Some c) sample_fresh (\<lambda>job xid d. d) None (jsInt 10) 46000000
       ((sample_job ''a'' ''t1'')\<lparr>j_cron_expression := ''*/5 * * * *''\<rparr>) sample_db = (db', Inr True)
     \<and> (\<forall>r \<in> set (jobs db'). j_id r = ''a'' \<longrightarrow>
         j_last_triggered_at r = Some 45000000 \<and> (\<exists>n. j_next_run_at r = Some n \<and> 45000000 < n))"
proof -
  let ?j = "(sample_job ''a'' ''t1'')\<lparr>j_cron_expression := ''*/5 * * * *''\<rparr>"
  let ?r = "trigger_job (\<lambda>c n. n = Some c) sample_fresh (\<lambda>job xid d. d) None (jsInt 10) 46000000 ?j sample_db"
  have j: "j_next_run_at ?j = Some 45000000" "j_id ?j = ''a''"
    by (simp_all add: sample_job_def)
  have "snd ?r = Inr True"
    by code_simp
  then obtain db' where r: "?r = (db', Inr True)"
    by (metis prod.collapse)
  from triggered_job_advances [OF j(1) r] r j(2) show ?thesis
    by simp
qed

text \<open>
  The loop that looks for missed runs stops at the pending run only if the ISO
  string it computes and the value the driver returns for \<open>next_run_at\<close> compare equal by
  \<open>===\<close>. If they never do, a job that is late by any time and was triggered before is recorded
  as missed at its pending time, is not triggered, and keeps its row, so the same happens again at
  every later tick.
\<close>

theorem late_job_starves_without_equal_timestamps:
  assumes "j_last_triggered_at job = Some t" and "nextRunAt (j_cron_expression job) t = Inr due"
    and "j_next_run_at job = Some due" and "due < now" and "1 \<le> cap"
  shows "jobs (fst (trigger_job (\<lambda>_ _. False) fresh invokeRunner corr (jsInt cap) now job db)) = jobs db
    \<and> snd (trigger_job (\<lambda>_ _. False) fresh invokeRunner corr (jsInt cap) now job db) \<noteq> Inr True"
proof -
  obtain k where k: "cap_rounds (jsInt cap) t now = Suc k"
    using assms(5) by (cases "cap_rounds (jsInt cap) t now") (auto simp: cap_rounds_def jsInt_def)
  show ?thesis
  proof (cases "missed_loop (\<lambda>_ _. False) job now k due")
    case (Inl e)
    then show ?thesis
      using assms k by (simp add: trigger_job_def)
  next
    case (Inr rest)
    define db1 where "db1 = record_missed fresh now job (due # rest) db"
    have missed: "missed_loop (\<lambda>_ _. False) job now (Suc k) t = Inr (due # rest)"
      using Inr assms by simp
    have "insertExecution (buildExecutionRecord xid now job due corr) (execs db1) = (execs db1, False)" for xid
    proof (rule insertExecution_taken)
      have "slot (buildExecutionRecord xid now job due corr) = (j_id job, due)"
        by (simp add: slot_def buildExecutionRecord_def)
      then show "slot (buildExecutionRecord xid now job due corr) \<in> slot ` set (execs db1)"
        unfolding db1_def using record_missed_slot by metis
    qed
    then have "trigger_job (\<lambda>_ _. False) fresh invokeRunner corr (jsInt cap) now job db = (db1, Inr False)"
      unfolding trigger_job_def using assms(1,3) missed k
      by (simp add: Let_def db1_def del: missed_loop.simps record_missed.simps)
    moreover have "jobs db1 = jobs db"
      unfolding db1_def by (rule jobs_record_missed)
    ultimately show ?thesis by simp
  qed
qed

theorem late_job_starves_without_equal_timestamps_witness:
  "jobs (fst (trigger_job (\<lambda>_ _. False) sample_fresh (\<lambda>job xid d. d) None (jsInt 10) 650000
       ((sample_job ''a'' ''t1'')\<lparr>j_cron_expression := ''*/5 * * * *'',
          j_last_triggered_at := Some 300000, j_next_run_at := Some 600000\<rparr>) sample_db)) = jobs sample_db"
proof -
  let ?j = "(sample_job ''a'' ''t1'')\<lparr>j_cron_expression := ''*/5 * * * *'',
          j_last_triggered_at := Some 300000, j_next_run_at := Some 600000\<rparr>"
  have "nextRunAt (j_cron_expression ?j) 300000 = Inr 600000"
    by code_simp
  then show ?thesis
    using late_job_starves_without_equal_timestamps [of ?j 300000 600000 650000 10] by simp
qed

text \<open>
  C13 (safety): a run that does not succeed writes the job's status from the row read before the
  action ran, so a job paused or deleted meanwhile ends up active or errored again.
\<close>

theorem failing_run_overwrites_status:
  assumes "runner_main invoke s f jid xid db = (db', Ran oc)" and "oc \<noteq> ''succeeded''"
  shows "\<forall>r \<in> set (jobs db'). j_id r = jid \<longrightarrow> j_status r \<in> {''active'', ''errored''}"
proof (cases rule: runner_cases [of invoke s f jid xid db])
  case (ran job x db2 out oc')
  from ran(1) have jid: "j_id job = jid"
    by (drule_tac find_Some_iff_in) simp
  have "j_status (incrementFailureCount f job) \<in> {''active'', ''errored''}"
    using ran(2) by (simp add: incrementFailureCount_def Let_def)
  then have "\<forall>r \<in> set (jobs (runner_settle f xid job oc d)). j_id r = jid
      \<longrightarrow> j_status r \<in> {''active'', ''errored''}" for d
    using assms(2) jid
    by (simp add: runner_settle_def Let_def updateJob_def ball_updWhere) blast
  with ran(6) assms(1) show ?thesis by simp
qed (use assms(1) in simp_all)

definition pausing_invoke :: "job \<Rightarrow> sched_db \<Rightarrow> sched_db \<times> (string + invoke_result option)" where
  "pausing_invoke job d =
     (case pauseJobRoute 1 d sample_who (Some (j_id job)) of
        Inl _ \<Rightarrow> (d, Inl ''boom'') | Inr p \<Rightarrow> (fst p, Inl ''boom''))"

theorem failing_run_overwrites_status_witness:
  "map j_status (jobs (fst (pausing_invoke (sample_job ''a'' ''t1'') sample_running))) = [''paused'', ''active'']
   \<and> (\<exists>db'. runner_main pausing_invoke 1 2 ''a'' ''x0'' sample_running = (db', Ran ''failed'')
        \<and> map j_id (jobs db') = [''a'', ''b'']
        \<and> (\<forall>r \<in> set (jobs db'). j_id r = ''a'' \<longrightarrow> j_status r \<in> {''active'', ''errored''}))"
proof -
  let ?r = "runner_main pausing_invoke 1 2 ''a'' ''x0'' sample_running"
  have "snd ?r = Ran ''failed''" and ids: "map j_id (jobs (fst ?r)) = [''a'', ''b'']"
    by code_simp+
  then obtain db' where r: "?r = (db', Ran ''failed'')"
    by (metis prod.collapse)
  moreover have "map j_status (jobs (fst (pausing_invoke (sample_job ''a'' ''t1'') sample_running)))
      = [''paused'', ''active'']"
    by code_simp
  ultimately show ?thesis
    using failing_run_overwrites_status [OF r] ids by simp
qed

text \<open>
  A job created without its own failure limit always gets 5, whatever the workspace
  configuration says: the route passes the configured limit on, and \<open>buildJobRecord\<close> does not
  read it.
\<close>

theorem configured_failure_limit_ignored:
  assumes "createJobRoute env now uuid validate db who input = Inr (db', resp)"
    and "statusCode resp = 201" and "in_maxConsecutiveFailures input = None"
  shows "\<exists>row. jobs db' = jobs db @ [row] \<and> j_max_consecutive_failures row = 5"
  using assms(1)
proof (cases rule: createJob_cases)
  case refused
  with assms(2) show ?thesis by simp
next
  case (created row)
  with assms(3) show ?thesis by simp
qed

theorem configured_failure_limit_ignored_witness:
  "c_max_consecutive_failures (getConfig sample_env sample_db ''t1'' ''w1'') = jsInt 9
   \<and> (\<exists>db' resp row. createJobRoute sample_env 44880000 ''u1'' None sample_db sample_who sample_input = Inr (db', resp)
        \<and> jobs db' = jobs sample_db @ [row] \<and> j_max_consecutive_failures row = 5)"
proof -
  let ?r = "createJobRoute sample_env 44880000 ''u1'' None sample_db sample_who sample_input"
  have "(case ?r of Inl _ \<Rightarrow> False | Inr p \<Rightarrow> statusCode (snd p) = 201)"
    by code_simp
  then obtain db' resp where r: "?r = Inr (db', resp)" and "statusCode resp = 201"
    by (auto split: sum.splits)
  moreover have "in_maxConsecutiveFailures sample_input = None"
    by (simp add: sample_input_def)
  moreover have "c_max_consecutive_failures (getConfig sample_env sample_db ''t1'' ''w1'') = jsInt 9"
    by code_simp
  ultimately show ?thesis
    using configured_failure_limit_ignored [OF r] by blast
qed

end
