(* ===== verification/JS_Json.thy ===== *)
theory JS_Json
  imports JS_Prelude "HOL-Library.Char_ord" "HOL-Library.List_Lexorder" "HOL-Library.Multiset"
begin

text \<open>
  JSON values as the code handles them: an object is the list of its entries in enumeration order
  (array-index keys first, ascending; the others in order of insertion), \<open>JUndefined\<close> is
  JavaScript's \<open>undefined\<close>. \<open>js_stringify\<close> is \<open>JSON.stringify\<close>.
\<close>

datatype json =
  JUndefined
| JNull
| JBool bool
| JNum jsnum
| JStr string
| JArr "json list"
| JObj "(string \<times> json) list"

section \<open>Objects\<close>

definition index_of_key :: "string \<Rightarrow> nat option" where
  "index_of_key k =
     (if k = ''0'' then Some 0
      else if k \<noteq> [] \<and> list_all is_digit k \<and> k ! 0 \<noteq> CHR ''0'' \<and> read_digits 10 k 0 < 4294967295
      then Some (read_digits 10 k 0) else None)"

fun obj_insert :: "string \<Rightarrow> 'v \<Rightarrow> nat \<Rightarrow> (string \<times> 'v) list \<Rightarrow> (string \<times> 'v) list" where
  "obj_insert k v i [] = [(k, v)]"
| "obj_insert k v i ((k', v') # rest) =
     (case index_of_key k' of
        None \<Rightarrow> (k, v) # (k', v') # rest
      | Some j \<Rightarrow> if i < j then (k, v) # (k', v') # rest else (k', v') # obj_insert k v i rest)"

text \<open>\<open>acc[key] = value\<close>.\<close>

definition obj_set :: "(string \<times> 'v) list \<Rightarrow> string \<times> 'v \<Rightarrow> (string \<times> 'v) list" where
  "obj_set acc kv =
     (if fst kv \<in> fst ` set acc then map (\<lambda>e. if fst e = fst kv then kv else e) acc
      else case index_of_key (fst kv) of
             None \<Rightarrow> acc @ [kv]
           | Some i \<Rightarrow> obj_insert (fst kv) (snd kv) i acc)"

definition obj_get :: "(string \<times> json) list \<Rightarrow> string \<Rightarrow> json" where
  "obj_get kvs k = coalesce (map_of kvs k) JUndefined"

section \<open>Printing\<close>

definition hex_digit :: "nat \<Rightarrow> char" where
  "hex_digit d = (if d < 10 then char_of (48 + d) else char_of (87 + d))"

definition is_control :: "char \<Rightarrow> bool" where
  "is_control c \<longleftrightarrow> chr c < 32"

lemma is_control_code [code]: "is_control (Char b0 b1 b2 b3 b4 b5 b6 b7) \<longleftrightarrow> \<not> b5 \<and> \<not> b6 \<and> \<not> b7"
  by (cases b0; cases b1; cases b2; cases b3; cases b4; cases b5; cases b6; cases b7)
     (simp_all add: is_control_def)

definition escape_char :: "char \<Rightarrow> string" where
  "escape_char c =
     (if c = CHR 34 then [CHR 92, CHR 34]
      else if c = CHR 92 then [CHR 92, CHR 92]
      else if c = CHR 8 then [CHR 92, CHR ''b'']
      else if c = CHR 9 then [CHR 92, CHR ''t'']
      else if c = CHR 10 then [CHR 92, CHR ''n'']
      else if c = CHR 12 then [CHR 92, CHR ''f'']
      else if c = CHR 13 then [CHR 92, CHR ''r'']
      else if is_control c
      then [CHR 92, CHR ''u'', CHR ''0'', CHR ''0'', hex_digit (chr c div 16), hex_digit (chr c mod 16)]
      else [c])"

definition js_quote :: "string \<Rightarrow> string" where
  "js_quote s = [CHR 34] @ concat (map escape_char s) @ [CHR 34]"

fun js_stringify :: "json \<Rightarrow> string" where
  "js_stringify JUndefined = ''null''"
| "js_stringify JNull = ''null''"
| "js_stringify (JBool b) = (if b then ''true'' else ''false'')"
| "js_stringify (JNum (Fin r)) = show_num (Fin r)"
| "js_stringify (JNum NaN) = ''null''"
| "js_stringify (JNum (Infty p)) = ''null''"
| "js_stringify (JStr s) = js_quote s"
| "js_stringify (JArr xs) = ''['' @ js_join '','' (map js_stringify xs) @ '']''"
| "js_stringify (JObj kvs) =
     ''{'' @ js_join '',''
        (map (\<lambda>(k, v). js_quote k @ '':'' @ js_stringify v) (filter (\<lambda>kv. snd kv \<noteq> JUndefined) kvs)) @ ''}''"

section \<open>Sorting by key\<close>

lemma sort_key_permuted:
  assumes "mset xs = mset ys" and "distinct (map fst xs)"
  shows "sort_key fst xs = sort_key fst (ys :: (string \<times> 'v) list)"
proof (rule properties_for_sort_key)
  have d: "distinct (map fst ys)"
    using assms by (metis mset_eq_imp_distinct_iff mset_map)
  show "mset (sort_key fst ys) = mset xs"
    using assms(1) by simp
  show "sorted (map fst (sort_key fst ys))"
    by simp
  fix k :: "string \<times> 'v"
  have one: "filter (\<lambda>x. fst k = fst x) zs = [k]" if "distinct (map fst zs)" "k \<in> set zs" for zs
    using that by (induction zs) (force simp: filter_empty_conv)+
  assume "k \<in> set (sort_key fst ys)"
  then have "k \<in> set ys" "k \<in> set xs"
    using assms(1) by (auto dest: mset_eq_setD)
  then show "filter (\<lambda>x. fst k = fst x) (sort_key fst ys) = filter (\<lambda>x. fst k = fst x) xs"
    using one [of "sort_key fst ys"] one [OF assms(2)] d
    by (simp add: distinct_map)
qed

end
