(* ===== verification/Async_Model.thy ===== *)
theory Async_Model
  imports Lifecycle JS_Json
begin

text \<open>
  The models of the asynchronous operations of the provisioning orchestrator
  (\<open>packages/provisioning-orchestrator/src/models\<close>): the status machine, creation and transition
  of an operation, classification of failures, idempotency keys, retry attempts, retry overrides,
  manual-intervention flags and retry profiles.

  \<open>Date.now()\<close>, \<open>randomUUID()\<close> and environment variables are arguments. Two characters outside
  ASCII occur in messages; they are written as their UTF-8 bytes.
\<close>

section \<open>States\<close>

definition OP_TRANSITIONS :: "string \<Rightarrow> string list option" where
  "OP_TRANSITIONS s =
     map_of [(''pending'', [''running'', ''cancelled'']),
             (''running'', [''completed'', ''failed'', ''timed_out'', ''cancelling'']),
             (''cancelling'', [''cancelled'', ''failed'']),
             (''completed'', []),
             (''failed'', []),
             (''timed_out'', []),
             (''cancelled'', [])] s"

definition TERMINAL_STATES :: "string list" where
  "TERMINAL_STATES = [''completed'', ''failed'', ''timed_out'', ''cancelled'']"

definition CANCELLABLE_STATES :: "string list" where
  "CANCELLABLE_STATES = [''pending'', ''running'']"

definition isTerminal :: "string \<Rightarrow> bool" where
  "isTerminal status \<longleftrightarrow> status \<in> set TERMINAL_STATES"

definition isCancellableState :: "string \<Rightarrow> bool" where
  "isCancellableState status \<longleftrightarrow> status \<in> set CANCELLABLE_STATES"

definition allowed_targets :: "string \<Rightarrow> string list" where
  "allowed_targets current = coalesce (OP_TRANSITIONS current) []"

definition arrow :: string where
  "arrow = [CHR 0xE2, CHR 0x86, CHR 0x92]"

definition validation_error :: "string \<Rightarrow> js_error" where
  "validation_error m = JsError (Some ''VALIDATION_ERROR'') None m"

definition validateTransition :: "string \<Rightarrow> string \<Rightarrow> unit result" where
  "validateTransition current next =
     (let allowed = allowed_targets current;
          listed = js_join '', '' allowed
      in throwIf (next \<notin> set allowed)
           (JsError (Some ''INVALID_TRANSITION'') None
              (''Invalid transition: '' @ current @ '' '' @ arrow @ '' '' @ next @ ''. Allowed: [''
               @ (if listed = [] then ''none'' else listed) @ '']'')))"

section \<open>Operations\<close>

record error_summary =
  es_code :: string
  es_message :: string
  es_failedStep :: "string option"

record operation =
  o_id :: string
  o_tenant_id :: string
  o_actor_id :: string
  o_actor_type :: string
  o_workspace_id :: "string option"
  o_operation_type :: string
  o_status :: string
  o_error_summary :: "error_summary option"
  o_cancellation_reason :: "string option"
  o_cancelled_by :: "string option"
  o_timeout_policy_snapshot :: "string option"
  o_policy_applied_at :: "time option"
  o_correlation_id :: string
  o_idempotency_key :: "string option"
  o_saga_id :: "string option"
  o_attempt_count :: int
  o_max_retries :: "int option"
  o_failure_category :: "string option"
  o_failure_error_code :: "string option"
  o_failure_description :: "string option"
  o_failure_suggested_actions :: "string list option"
  o_manual_intervention_required :: bool
  o_created_at :: time
  o_updated_at :: time

record operation_input =
  oi_operation_id :: "string option"
  oi_tenant_id :: "string option"
  oi_actor_id :: "string option"
  oi_actor_type :: "string option"
  oi_workspace_id :: "string option"
  oi_operation_type :: "string option"
  oi_status :: "string option"
  oi_error_summary :: "error_summary option"
  oi_cancellation_reason :: "string option"
  oi_cancelled_by :: "string option"
  oi_timeout_policy_snapshot :: "string option"
  oi_policy_applied_at :: "time option"
  oi_correlation_id :: "string option"
  oi_idempotency_key :: "string option"
  oi_saga_id :: "string option"
  oi_attempt_count :: "jsnum option"
  oi_max_retries :: "jsnum option"
  oi_created_at :: "time option"
  oi_updated_at :: "time option"

definition ACTOR_TYPES :: "string list" where
  "ACTOR_TYPES = [''workspace_admin'', ''tenant_owner'', ''superadmin'', ''tenant_member'']"

text \<open>\<open>Date.now().toString(36)\<close>.\<close>

definition digit36 :: "nat \<Rightarrow> char" where
  "digit36 d = (if d < 10 then char_of (48 + d) else char_of (87 + d))"

fun show_base36 :: "nat \<Rightarrow> string" where
  "show_base36 n = (if n < 36 then [digit36 n] else show_base36 (n div 36) @ [digit36 (n mod 36)])"

declare show_base36.simps [simp del]

definition generateCorrelationId :: "time \<Rightarrow> string \<Rightarrow> string \<Rightarrow> string" where
  "generateCorrelationId now uuid tenantId =
     ''op:'' @ tenantId @ '':'' @ show_base36 (nat now) @ '':''
     @ take 8 (filter (\<lambda>c. c \<noteq> CHR ''-'') uuid)"

definition is_hex :: "char \<Rightarrow> bool" where
  "is_hex c \<longleftrightarrow> is_digit c \<or> (97 \<le> chr c \<and> chr c \<le> 102)"

definition is_ident_char :: "char \<Rightarrow> bool" where
  "is_ident_char c \<longleftrightarrow> is_lower c \<or> is_upper c \<or> is_digit c \<or> c = CHR ''_'' \<or> c = CHR ''-''"

text \<open>
  \<open>CORRELATION_ID_PATTERN = /^[a-z]+:[A-Za-z0-9_-]+:[0-9a-z]+:[a-f0-9]{8}$/\<close>: no class contains
  the colon, so the pattern is a condition on the parts between the colons.
\<close>

definition isValidCorrelationId :: "string \<Rightarrow> bool" where
  "isValidCorrelationId v =
     (case js_split (CHR '':'') v of
        [a, b, c, d] \<Rightarrow>
          a \<noteq> [] \<and> list_all is_lower a \<and> b \<noteq> [] \<and> list_all is_ident_char b
          \<and> c \<noteq> [] \<and> list_all (\<lambda>x. is_digit x \<or> is_lower x) c
          \<and> length d = 8 \<and> list_all is_hex d
      | _ \<Rightarrow> False)"

definition createOperation :: "time \<Rightarrow> string \<Rightarrow> operation_input \<Rightarrow> operation result" where
  "createOperation now uuid input =
     bindE (throwIf (\<not> truthyS (oi_tenant_id input)) (validation_error ''Missing required field: tenant_id'')) (\<lambda>_.
     bindE (throwIf (\<not> truthyS (oi_actor_id input)) (validation_error ''Missing required field: actor_id'')) (\<lambda>_.
     bindE (throwIf (\<not> truthyS (oi_actor_type input)) (validation_error ''Missing required field: actor_type'')) (\<lambda>_.
     bindE (throwIf (\<not> truthyS (oi_operation_type input)) (validation_error ''Missing required field: operation_type'')) (\<lambda>_.
     bindE (throwIf (the (oi_actor_type input) \<notin> set ACTOR_TYPES)
              (validation_error (''Invalid actor_type: '' @ the (oi_actor_type input)))) (\<lambda>_.
     bindE (throwIf (case oi_max_retries input of None \<Rightarrow> False
                     | Some n \<Rightarrow> \<not> isInteger n \<or> js_less n (jsInt 1))
              (validation_error ''max_retries must be an integer greater than or equal to 1'')) (\<lambda>_.
     Inr \<lparr>o_id = coalesce (oi_operation_id input) uuid,
          o_tenant_id = the (oi_tenant_id input),
          o_actor_id = the (oi_actor_id input),
          o_actor_type = the (oi_actor_type input),
          o_workspace_id = oi_workspace_id input,
          o_operation_type = the (oi_operation_type input),
          o_status = coalesce (oi_status input) ''pending'',
          o_error_summary = oi_error_summary input,
          o_cancellation_reason = oi_cancellation_reason input,
          o_cancelled_by = oi_cancelled_by input,
          o_timeout_policy_snapshot = oi_timeout_policy_snapshot input,
          o_policy_applied_at = oi_policy_applied_at input,
          o_correlation_id = coalesce (oi_correlation_id input)
                               (generateCorrelationId now uuid (the (oi_tenant_id input))),
          o_idempotency_key = oi_idempotency_key input,
          o_saga_id = oi_saga_id input,
          o_attempt_count = (case oi_attempt_count input of None \<Rightarrow> 0
                             | Some n \<Rightarrow> if isInteger n then toInt n else 0),
          o_max_retries = map_option toInt (oi_max_retries input),
          o_failure_category = None, o_failure_error_code = None, o_failure_description = None,
          o_failure_suggested_actions = None, o_manual_intervention_required = False,
          o_created_at = coalesce (oi_created_at input) now,
          o_updated_at = coalesce (oi_updated_at input) now\<rparr>))))))"

section \<open>Sensitive messages\<close>

text \<open>\<open>pattern.test(s)\<close> for a pattern that is not anchored: it matches at some suffix.\<close>

fun some_suffix :: "(string \<Rightarrow> bool) \<Rightarrow> string \<Rightarrow> bool" where
  "some_suffix p [] = p []"
| "some_suffix p (x # xs) = (p (x # xs) \<or> some_suffix p xs)"

text \<open>\<open>(?:api[_-]?key|token|secret|password)\s*[=:]\<close>.\<close>

definition credential_words :: "string list" where
  "credential_words = [''api_key'', ''api-key'', ''apikey'', ''token'', ''secret'', ''password'']"

definition assigned_at :: "string \<Rightarrow> bool" where
  "assigned_at s = (case dropWhile is_ws s of [] \<Rightarrow> False | c # _ \<Rightarrow> c = CHR ''='' \<or> c = CHR '':'')"

definition credential_at :: "string \<Rightarrow> bool" where
  "credential_at s =
     list_ex (\<lambda>w. js_startsWith s w \<and> assigned_at (drop (length w) s)) credential_words"

text \<open>
  \<open>(?:\/[^\s]+){2,}\<close>: a slash, at least one more character, a second slash and at least one
  more, all without white space.
\<close>

definition path_at :: "string \<Rightarrow> bool" where
  "path_at s =
     (case s of
        [] \<Rightarrow> False
      | c # rest \<Rightarrow>
          c = CHR ''/'' \<and>
          (case takeWhile (\<lambda>x. \<not> is_ws x) rest of
             [] \<Rightarrow> False
           | _ # tail \<Rightarrow> (case dropWhile (\<lambda>x. x \<noteq> CHR ''/'') tail of
                            [] \<Rightarrow> False | _ # after \<Rightarrow> after \<noteq> [])))"

text \<open>\<open>\bat\s+.+\(.+\)\<close>, a line of a stack trace; \<open>.\<close> is any character of the line.\<close>

definition line_of :: "string \<Rightarrow> string" where
  "line_of s = takeWhile (\<lambda>c. chr c \<noteq> 10 \<and> chr c \<noteq> 13) s"

definition paren_then :: "string \<Rightarrow> bool" where
  "paren_then s = (case s of [] \<Rightarrow> False
     | c # rest \<Rightarrow> c = CHR ''('' \<and> (case rest of [] \<Rightarrow> False | _ # tail \<Rightarrow> CHR '')'' \<in> set tail))"

definition frame_at :: "string \<Rightarrow> bool" where
  "frame_at s =
     (js_startsWith s ''at'' \<and>
      (case drop 2 s of
         [] \<Rightarrow> False
       | c # rest \<Rightarrow> is_ws c \<and>
           some_suffix (\<lambda>t. (case line_of t of [] \<Rightarrow> False | _ # tail \<Rightarrow> some_suffix paren_then tail)
                            \<and> list_all is_ws (take (length rest - length t) rest)) rest))"

definition is_word_char :: "char \<Rightarrow> bool" where
  "is_word_char c \<longleftrightarrow> is_lower c \<or> is_upper c \<or> is_digit c \<or> c = CHR ''_''"

fun frame_in :: "bool \<Rightarrow> string \<Rightarrow> bool" where
  "frame_in after_word [] = False"
| "frame_in after_word (x # xs) =
     ((\<not> after_word \<and> frame_at (x # xs)) \<or> frame_in (is_word_char x) xs)"

definition is_sensitive :: "string \<Rightarrow> bool" where
  "is_sensitive m =
     (let low = js_toLowerCase m in
      js_includes low ''postgres://'' \<or> js_includes low ''postgresql://''
      \<or> js_includes low ''mongodb://'' \<or> js_includes low ''mongodb+srv://''
      \<or> some_suffix credential_at low \<or> some_suffix path_at m \<or> frame_in False m)"

definition validateErrorSummary :: "error_summary option \<Rightarrow> unit result" where
  "validateErrorSummary es =
     (case es of
        None \<Rightarrow> Inl (validation_error ''error_summary is required when transitioning to failed'')
      | Some e \<Rightarrow>
          if es_code e = [] \<or> es_message e = []
          then Inl (validation_error ''error_summary.code and error_summary.message are required'')
          else if is_sensitive (es_message e)
          then Inl (validation_error ''error_summary.message contains sensitive content'')
          else Inr ())"

definition normalizeErrorSummary :: "error_summary \<Rightarrow> error_summary" where
  "normalizeErrorSummary e = e\<lparr>es_message := js_trim (es_message e)\<rparr>"

record transition_input =
  ti_new_status :: "string option"
  ti_error_summary :: "error_summary option"
  ti_cancellation_reason :: "string option"
  ti_cancelled_by :: "string option"

definition applyOpTransition :: "time \<Rightarrow> operation \<Rightarrow> transition_input \<Rightarrow> operation result" where
  "applyOpTransition now op input =
     bindE (throwIf (o_status op = []) (validation_error ''operation.status is required'')) (\<lambda>_.
     bindE (throwIf (\<not> truthyS (ti_new_status input)) (validation_error ''new_status is required'')) (\<lambda>_.
     (let next = the (ti_new_status input) in
      bindE (validateTransition (o_status op) next) (\<lambda>_.
      bindE (if next = ''failed'' then validateErrorSummary (ti_error_summary input) else Inr ()) (\<lambda>_.
      Inr (op\<lparr>o_status := next,
              o_error_summary := (if next = ''failed'' then map_option normalizeErrorSummary (ti_error_summary input)
                                  else None),
              o_cancellation_reason :=
                (if next = ''timed_out'' then Some ''timeout exceeded''
                 else if next = ''cancelling'' then ti_cancellation_reason input
                 else o_cancellation_reason op),
              o_cancelled_by := (if next = ''cancelling'' then ti_cancelled_by input else o_cancelled_by op),
              o_updated_at := now\<rparr>))))))"

definition isCancellable :: "string \<Rightarrow> bool" where
  "isCancellable status \<longleftrightarrow> status \<in> set CANCELLABLE_STATES"

section \<open>Failure classification\<close>

definition FAILURE_CATEGORIES :: "string list" where
  "FAILURE_CATEGORIES = [''transient'', ''permanent'', ''requires_intervention'', ''unknown'']"

record classification =
  cl_category :: string
  cl_errorCode :: "string option"
  cl_description :: string
  cl_suggestedActions :: "string list"

definition normalizeErrorCode :: "string option \<Rightarrow> string option" where
  "normalizeErrorCode errorCode =
     (case errorCode of None \<Rightarrow> None
      | Some s \<Rightarrow> if js_trim s = [] then None else Some (js_trim s))"

definition validateCategory :: "string \<Rightarrow> unit result" where
  "validateCategory category =
     throwIf (category \<notin> set FAILURE_CATEGORIES)
       (validation_error (''Unsupported failure category: '' @ category))"

definition FailureClassification ::
  "string \<Rightarrow> string option \<Rightarrow> string \<Rightarrow> string list \<Rightarrow> classification result" where
  "FailureClassification category errorCode description suggestedActions =
     bindE (validateCategory category) (\<lambda>_.
     bindE (throwIf (js_trim description = []) (validation_error ''description is required'')) (\<lambda>_.
     Inr \<lparr>cl_category = category, cl_errorCode = normalizeErrorCode errorCode,
          cl_description = js_trim description, cl_suggestedActions = suggestedActions\<rparr>))"

record failure_mapping =
  fm_errorCode :: "string option"
  fm_operationType :: "string option"
  fm_category :: string
  fm_description :: string
  fm_suggestedActions :: "string list"
  fm_priority :: jsnum

fun finite_or :: "rat \<Rightarrow> jsnum \<Rightarrow> rat" where
  "finite_or d (Fin r) = r"
| "finite_or d NaN = d"
| "finite_or d (Infty p) = d"

text \<open>The rows of \<open>failure_code_mappings\<close>, sorted by priority and then by position.\<close>

definition loadMappingCache :: "failure_mapping list \<Rightarrow> failure_mapping list" where
  "loadMappingCache rows =
     sort_key (\<lambda>r. finite_or 100 (fm_priority r))
       (filter (\<lambda>r. fm_errorCode r \<noteq> None)
         (map (\<lambda>r. r\<lparr>fm_errorCode := normalizeErrorCode (fm_errorCode r),
                     fm_priority := Fin (finite_or 100 (fm_priority r))\<rparr>) rows))"

definition buildUnknownClassification :: "string option \<Rightarrow> classification result" where
  "buildUnknownClassification errorCode =
     FailureClassification ''unknown'' errorCode ''Failure could not be classified automatically.''
       [''Inspect logs and escalate for manual review if the failure persists.'']"

definition classifyByErrorCode ::
  "string option \<Rightarrow> string option \<Rightarrow> failure_mapping list \<Rightarrow> classification result" where
  "classifyByErrorCode errorCode operationType mappingCache =
     (case normalizeErrorCode errorCode of
        None \<Rightarrow> buildUnknownClassification None
      | Some code \<Rightarrow>
          (let exact = find (\<lambda>e. fm_errorCode e = Some code \<and> fm_operationType e = operationType) mappingCache;
               generic = find (\<lambda>e. fm_errorCode e = Some code \<and> fm_operationType e = None) mappingCache
           in case orElse exact generic of
                None \<Rightarrow> buildUnknownClassification (Some code)
              | Some m \<Rightarrow> FailureClassification (fm_category m) (Some code) (fm_description m)
                            (fm_suggestedActions m)))"

section \<open>Idempotency keys\<close>

record async_env =
  IDEMPOTENCY_KEY_MAX_LENGTH :: "string option"
  IDEMPOTENCY_KEY_TTL_HOURS :: "string option"
  OPERATION_DEFAULT_MAX_RETRIES :: "string option"
  INTERVENTION_NOTIFICATION_DEBOUNCE_MINUTES :: "string option"

text \<open>\<open>Number.parseInt(value ?? default, 10)\<close>, with the default again if it is not positive.\<close>

definition positive_or :: "int \<Rightarrow> string option \<Rightarrow> int" where
  "positive_or d value =
     (case js_parseInt10 (coalesce value (show_int d)) of
        None \<Rightarrow> d | Some n \<Rightarrow> if 0 < n then n else d)"

definition resolveMaxLength :: "async_env \<Rightarrow> int" where
  "resolveMaxLength env = positive_or 128 (IDEMPOTENCY_KEY_MAX_LENGTH env)"

definition resolveTtlHours :: "async_env \<Rightarrow> string option \<Rightarrow> int" where
  "resolveTtlHours env value = positive_or 48 (orElse value (IDEMPOTENCY_KEY_TTL_HOURS env))"

definition validateKeyFormat :: "async_env \<Rightarrow> string \<Rightarrow> string result" where
  "validateKeyFormat env key =
     (if length key < 1 \<or> resolveMaxLength env < int (length key) \<or> \<not> list_all is_ident_char key
      then Inl (validation_error ''Idempotency key exceeds maximum length or contains invalid characters'')
      else Inr key)"

fun normalizeParams :: "json \<Rightarrow> json" where
  "normalizeParams (JArr xs) = JArr (map normalizeParams xs)"
| "normalizeParams (JObj kvs) =
     JObj (foldl obj_set [] (sort_key fst
       (map (\<lambda>(k, v). (k, normalizeParams v)) (filter (\<lambda>kv. snd kv \<noteq> JUndefined) kvs))))"
| "normalizeParams JUndefined = JNull"
| "normalizeParams JNull = JNull"
| "normalizeParams (JBool b) = JBool b"
| "normalizeParams (JNum n) = JNum n"
| "normalizeParams (JStr s) = JStr s"

text \<open>\<open>sha256\<close> is the digest of \<open>node:crypto\<close>, as a function from text to hexadecimal text.\<close>

definition hashParams :: "(string \<Rightarrow> string) \<Rightarrow> json \<Rightarrow> string" where
  "hashParams sha256 params = sha256 (js_stringify (normalizeParams params))"

record key_record =
  k_record_id :: string
  k_tenant_id :: string
  k_idempotency_key :: string
  k_operation_id :: string
  k_operation_type :: string
  k_params_hash :: string
  k_created_at :: time
  k_expires_at :: time

record key_input =
  ki_record_id :: "string option"
  ki_tenant_id :: "string option"
  ki_idempotency_key :: "string option"
  ki_operation_id :: "string option"
  ki_operation_type :: "string option"
  ki_params_hash :: "string option"
  ki_params :: "json option"
  ki_created_at :: "time option"
  ki_ttl_hours :: "string option"
  ki_expires_at :: "time option"

definition requireField :: "string option \<Rightarrow> string \<Rightarrow> unit result" where
  "requireField v field = throwIf (\<not> truthyS v) (validation_error (''Missing required field: '' @ field))"

definition createIdempotencyKeyRecord ::
  "(string \<Rightarrow> string) \<Rightarrow> async_env \<Rightarrow> time \<Rightarrow> string \<Rightarrow> key_input \<Rightarrow> key_record result" where
  "createIdempotencyKeyRecord sha256 env now uuid input =
     bindE (requireField (ki_tenant_id input) ''tenant_id'') (\<lambda>_.
     bindE (requireField (ki_idempotency_key input) ''idempotency_key'') (\<lambda>_.
     bindE (requireField (ki_operation_id input) ''operation_id'') (\<lambda>_.
     bindE (requireField (ki_operation_type input) ''operation_type'') (\<lambda>_.
     bindE (validateKeyFormat env (the (ki_idempotency_key input))) (\<lambda>_.
     (let createdAt = coalesce (ki_created_at input) now;
          ttlHours = resolveTtlHours env (ki_ttl_hours input)
      in Inr \<lparr>k_record_id = coalesce (ki_record_id input) uuid,
              k_tenant_id = the (ki_tenant_id input),
              k_idempotency_key = the (ki_idempotency_key input),
              k_operation_id = the (ki_operation_id input),
              k_operation_type = the (ki_operation_type input),
              k_params_hash = (case ki_params_hash input of Some h \<Rightarrow> h
                               | None \<Rightarrow> hashParams sha256 (coalesce (ki_params input) (JObj []))),
              k_created_at = createdAt,
              k_expires_at = coalesce (ki_expires_at input) (createdAt + ttlHours * 60 * 60 * 1000)\<rparr>))))))"

definition isExpired :: "key_record \<Rightarrow> time \<Rightarrow> bool" where
  "isExpired r now \<longleftrightarrow> k_expires_at r \<le> now"

section \<open>Retry attempts, overrides and flags\<close>

record attempt =
  at_attempt_id :: string
  at_operation_id :: string
  at_tenant_id :: string
  at_attempt_number :: int
  at_correlation_id :: string
  at_actor_id :: string
  at_actor_type :: string
  at_status :: string
  at_created_at :: time
  at_completed_at :: "time option"

record attempt_input =
  ai_operation_id :: "string option"
  ai_tenant_id :: "string option"
  ai_actor_id :: "string option"
  ai_actor_type :: "string option"
  ai_attempt_number :: jsnum
  ai_status :: "string option"

definition ATTEMPT_STATUSES :: "string list" where
  "ATTEMPT_STATUSES = [''pending'', ''running'', ''completed'', ''failed'']"

definition validateAttemptNumber :: "jsnum \<Rightarrow> int result" where
  "validateAttemptNumber value =
     (if \<not> isInteger value \<or> js_less value (jsInt 1)
      then Inl (validation_error ''attempt_number must be an integer greater than 0'')
      else Inr (toInt value))"

text \<open>\<open>createRetryAttempt\<close> for callers that leave the identifiers and times to the model.\<close>

definition createRetryAttempt :: "time \<Rightarrow> string \<Rightarrow> attempt_input \<Rightarrow> attempt result" where
  "createRetryAttempt now uuid input =
     bindE (requireField (ai_operation_id input) ''operation_id'') (\<lambda>_.
     bindE (requireField (ai_tenant_id input) ''tenant_id'') (\<lambda>_.
     bindE (requireField (ai_actor_id input) ''actor_id'') (\<lambda>_.
     bindE (requireField (ai_actor_type input) ''actor_type'') (\<lambda>_.
     bindE (throwIf (the (ai_actor_type input) \<notin> set ACTOR_TYPES)
              (validation_error (''Invalid actor_type: '' @ the (ai_actor_type input)))) (\<lambda>_.
     bindE (validateAttemptNumber (ai_attempt_number input)) (\<lambda>n.
     bindE (throwIf (coalesce (ai_status input) ''pending'' \<notin> set ATTEMPT_STATUSES)
              (validation_error (''Invalid status: '' @ coalesce (ai_status input) ''pending''))) (\<lambda>_.
     Inr \<lparr>at_attempt_id = uuid, at_operation_id = the (ai_operation_id input),
          at_tenant_id = the (ai_tenant_id input), at_attempt_number = n,
          at_correlation_id = generateCorrelationId now uuid (the (ai_tenant_id input)),
          at_actor_id = the (ai_actor_id input), at_actor_type = the (ai_actor_type input),
          at_status = coalesce (ai_status input) ''pending'', at_created_at = now,
          at_completed_at = None\<rparr>)))))))"

record override =
  ov_overrideId :: string
  ov_operationId :: string
  ov_flagId :: string
  ov_tenantId :: string
  ov_superadminId :: string
  ov_justification :: string
  ov_attemptNumber :: int
  ov_status :: string
  ov_createdAt :: time
  ov_completedAt :: "time option"

definition RetryOverride ::
  "time \<Rightarrow> string \<Rightarrow> string \<Rightarrow> string \<Rightarrow> string \<Rightarrow> string option \<Rightarrow> string option \<Rightarrow> int \<Rightarrow> override result" where
  "RetryOverride now uuid operationId flagId tenantId superadminId justification attemptNumber =
     (let j = js_trim (coalesce justification []) in
      bindE (throwIf (\<not> truthyS superadminId) (validation_error ''superadminId is required'')) (\<lambda>_.
      bindE (throwIf (length j < 10)
               (validation_error ''justification must be at least 10 characters long'')) (\<lambda>_.
      Inr \<lparr>ov_overrideId = uuid, ov_operationId = operationId, ov_flagId = flagId,
           ov_tenantId = tenantId, ov_superadminId = the superadminId, ov_justification = j,
           ov_attemptNumber = attemptNumber, ov_status = ''pending'', ov_createdAt = now,
           ov_completedAt = None\<rparr>)))"

record flag =
  f_flagId :: string
  f_operationId :: string
  f_tenantId :: string
  f_actorId :: string
  f_reason :: string
  f_attemptCountAtFlag :: int
  f_lastErrorCode :: "string option"
  f_lastErrorSummary :: "string option"
  f_status :: string
  f_lastNotificationAt :: "time option"
  f_createdAt :: time
  f_resolvedAt :: "time option"
  f_resolvedBy :: "string option"
  f_resolutionMethod :: "string option"

definition ManualInterventionFlag ::
  "time \<Rightarrow> string \<Rightarrow> string \<Rightarrow> string \<Rightarrow> string \<Rightarrow> string \<Rightarrow> int \<Rightarrow> string option \<Rightarrow> string option \<Rightarrow> flag result" where
  "ManualInterventionFlag now uuid operationId tenantId actorId reason attemptCountAtFlag
     lastErrorCode lastErrorSummary =
     bindE (throwIf (operationId = []) (validation_error ''operationId is required'')) (\<lambda>_.
     Inr \<lparr>f_flagId = uuid, f_operationId = operationId, f_tenantId = tenantId, f_actorId = actorId,
          f_reason = reason, f_attemptCountAtFlag = attemptCountAtFlag,
          f_lastErrorCode = lastErrorCode, f_lastErrorSummary = lastErrorSummary,
          f_status = ''pending'', f_lastNotificationAt = None, f_createdAt = now,
          f_resolvedAt = None, f_resolvedBy = None, f_resolutionMethod = None\<rparr>)"

definition shouldDebounceNotification :: "time \<Rightarrow> flag \<Rightarrow> int \<Rightarrow> bool" where
  "shouldDebounceNotification now flag debounceMinutes =
     (case f_lastNotificationAt flag of
        None \<Rightarrow> False
      | Some t \<Rightarrow> 0 < debounceMinutes \<and> now - t < debounceMinutes * 60000)"

section \<open>Retry profiles\<close>

record retry_profile =
  rp_operationType :: string
  rp_maxRetries :: jsnum
  rp_backoffStrategy :: string
  rp_backoffBaseSeconds :: jsnum
  rp_interventionConditions :: json
  rp_failureCategories :: json
  rp_isDefault :: bool

record profile_fields =
  pf_operationType :: "string option"
  pf_maxRetries :: "jsnum option"
  pf_backoffStrategy :: "string option"
  pf_backoffBaseSeconds :: "jsnum option"
  pf_interventionConditions :: "json option"
  pf_failureCategories :: "json option"
  pf_isDefault :: "bool option"

definition DEFAULT_OPERATION_TYPE :: string where
  "DEFAULT_OPERATION_TYPE = ''__default__''"

definition ALLOWED_BACKOFF_STRATEGIES :: "string list" where
  "ALLOWED_BACKOFF_STRATEGIES = [''fixed'', ''linear'', ''exponential'']"

definition RetrySemanticProfile :: "profile_fields \<Rightarrow> retry_profile result" where
  "RetrySemanticProfile f =
     (let operationType = coalesce (pf_operationType f) DEFAULT_OPERATION_TYPE;
          strategy = coalesce (pf_backoffStrategy f) ''exponential''
      in bindE (throwIf (js_trim operationType = []) (validation_error ''operationType is required'')) (\<lambda>_.
         bindE (throwIf (strategy \<notin> set ALLOWED_BACKOFF_STRATEGIES)
                  (validation_error (''Unsupported backoffStrategy: '' @ strategy))) (\<lambda>_.
         Inr \<lparr>rp_operationType = operationType,
              rp_maxRetries = coalesce (pf_maxRetries f) (jsInt 5),
              rp_backoffStrategy = strategy,
              rp_backoffBaseSeconds = coalesce (pf_backoffBaseSeconds f) (jsInt 30),
              rp_interventionConditions =
                (case pf_interventionConditions f of Some (JArr xs) \<Rightarrow> JArr xs | _ \<Rightarrow> JArr []),
              rp_failureCategories =
                (case pf_failureCategories f of Some (JObj kvs) \<Rightarrow> JObj kvs | Some (JArr xs) \<Rightarrow> JArr xs
                 | _ \<Rightarrow> JObj []),
              rp_isDefault = coalesce (pf_isDefault f) (operationType = DEFAULT_OPERATION_TYPE)\<rparr>)))"

definition pick :: "profile_fields option \<Rightarrow> profile_fields option \<Rightarrow> (profile_fields \<Rightarrow> 'a option) \<Rightarrow> 'a option" where
  "pick specific default' sel =
     orElse (Option.bind specific sel) (Option.bind default' sel)"

definition resolveProfile :: "profile_fields option \<Rightarrow> profile_fields option \<Rightarrow> retry_profile result" where
  "resolveProfile specific default' =
     (if specific = None \<and> default' = None then Inl (validation_error ''default profile is required'')
      else RetrySemanticProfile
        \<lparr>pf_operationType = Some (coalesce (pick specific default' pf_operationType) DEFAULT_OPERATION_TYPE),
         pf_maxRetries = Some (coalesce (pick specific default' pf_maxRetries) (jsInt 5)),
         pf_backoffStrategy = Some (coalesce (pick specific default' pf_backoffStrategy) ''exponential''),
         pf_backoffBaseSeconds = Some (coalesce (pick specific default' pf_backoffBaseSeconds) (jsInt 30)),
         pf_interventionConditions =
           Some (coalesce (pick specific default' pf_interventionConditions) (JArr [])),
         pf_failureCategories = Some (coalesce (pick specific default' pf_failureCategories) (JObj [])),
         pf_isDefault = Some (coalesce (pick specific default' pf_isDefault) False)\<rparr>)"

end
