(* ===== verification/Async_Repo.thy ===== *)
theory Async_Repo
  imports Async_Model
begin

text \<open>
  The tables of the asynchronous operations and the functions that read and write them
  (\<open>packages/provisioning-orchestrator/src/repositories\<close>), with the events of
  \<open>events/async-operation-events.mjs\<close>.

  A transaction that is rolled back leaves the tables as they were: a function that throws inside
  \<open>BEGIN ... COMMIT\<close> returns the error and no new state. Unique constraints of the migrations
  073 to 078 are errors of the inserting statement. \<open>NOW()\<close> is the argument \<open>now\<close>.
\<close>

section \<open>Tables\<close>

record transition =
  tr_id :: string
  tr_operation_id :: string
  tr_tenant_id :: string
  tr_actor_id :: string
  tr_previous_status :: string
  tr_new_status :: string
  tr_transitioned_at :: time
  tr_metadata :: json

record policy =
  po_operation_type :: string
  po_timeout_minutes :: int
  po_orphan_threshold_minutes :: int
  po_cancelling_timeout_minutes :: int
  po_recovery_action :: string

record profile_row =
  pr_operation_type :: string
  pr_max_retries :: int
  pr_backoff_strategy :: string
  pr_backoff_base_seconds :: int
  pr_is_default :: bool

record async_event =
  ae_topic :: string
  ae_key :: string
  ae_fields :: "(string \<times> json) list"

record async_db =
  ops :: "operation list"
  transitions :: "transition list"
  keys :: "key_record list"
  attempts :: "attempt list"
  overrides :: "override list"
  flags :: "flag list"
  policies :: "policy list"
  profiles :: "profile_row list"
  mappings :: "failure_mapping list"
  mappingCache :: "failure_mapping list option"
  events :: "async_event list"

abbreviation opt_str :: "string option \<Rightarrow> json" where
  "opt_str v \<equiv> (case v of None \<Rightarrow> JNull | Some s \<Rightarrow> JStr s)"

abbreviation opt_int :: "int \<Rightarrow> json" where
  "opt_int n \<equiv> JNum (jsInt n)"

definition es_json :: "error_summary option \<Rightarrow> json" where
  "es_json es =
     (case es of None \<Rightarrow> JNull
      | Some e \<Rightarrow> JObj [(''code'', JStr (es_code e)), (''message'', JStr (es_message e)),
                         (''failedStep'', opt_str (es_failedStep e))])"

definition requireTenantId :: "string option \<Rightarrow> unit result" where
  "requireTenantId tenantId = throwIf (\<not> truthyS tenantId) (validation_error ''tenant_id is required'')"

definition requireActorId :: "string option \<Rightarrow> unit result" where
  "requireActorId actorId = throwIf (\<not> truthyS actorId) (validation_error ''actor_id is required'')"

definition not_found :: "string \<Rightarrow> js_error" where
  "not_found m = JsError (Some ''NOT_FOUND'') None m"

definition unique_violation :: js_error where
  "unique_violation = JsError (Some ''23505'') None ''duplicate key value violates unique constraint''"

section \<open>Operations\<close>

definition is_op :: "string option \<Rightarrow> string option \<Rightarrow> operation \<Rightarrow> bool" where
  "is_op oid tid r \<longleftrightarrow> Some (o_id r) = oid \<and> Some (o_tenant_id r) = tid"

definition ALL_STATUSES :: "string list" where
  "ALL_STATUSES = [''pending'', ''running'', ''completed'', ''failed'', ''timed_out'', ''cancelling'', ''cancelled'']"

definition persistOperation :: "async_db \<Rightarrow> operation \<Rightarrow> (async_db \<times> operation) result" where
  "persistOperation db op =
     bindE (requireTenantId (Some (o_tenant_id op))) (\<lambda>_.
     bindE (requireActorId (Some (o_actor_id op))) (\<lambda>_.
     bindE (throwIf (o_status op \<notin> set ALL_STATUSES)
              (JsError (Some ''23514'') None ''violates check constraint'')) (\<lambda>_.
     bindE (throwIf (o_id op \<in> o_id ` set (ops db)) unique_violation) (\<lambda>_.
     Inr (db\<lparr>ops := ops db @ [op]\<rparr>, op)))))"

definition findById :: "async_db \<Rightarrow> string option \<Rightarrow> string option \<Rightarrow> operation option result" where
  "findById db oid tid =
     bindE (requireTenantId tid) (\<lambda>_. Inr (find (is_op oid tid) (ops db)))"

definition findByIdAnyTenant :: "async_db \<Rightarrow> string option \<Rightarrow> operation option" where
  "findByIdAnyTenant db oid = find (\<lambda>r. Some (o_id r) = oid) (ops db)"

definition findByIdWithTenant :: "async_db \<Rightarrow> string option \<Rightarrow> string option \<Rightarrow> operation option result" where
  "findByIdWithTenant db oid tid = findById db oid tid"

text \<open>\<open>ORDER BY created_at DESC\<close>.\<close>

definition newest_first :: "operation list \<Rightarrow> operation list" where
  "newest_first rows = sort_key (\<lambda>r. - o_created_at r) rows"

definition findByIdempotencyKey :: "async_db \<Rightarrow> string option \<Rightarrow> string option \<Rightarrow> operation option result" where
  "findByIdempotencyKey db tid key =
     bindE (requireTenantId tid) (\<lambda>_.
       Inr (case newest_first (filter (\<lambda>r. Some (o_tenant_id r) = tid \<and> key \<noteq> None
                                            \<and> o_idempotency_key r = key) (ops db)) of
              [] \<Rightarrow> None | r # _ \<Rightarrow> Some r))"

definition page :: "nat \<Rightarrow> nat \<Rightarrow> operation list \<Rightarrow> operation list \<times> int" where
  "page limit offset rows = (take limit (drop offset (newest_first rows)), int (length rows))"

definition findByTenant ::
  "async_db \<Rightarrow> string option \<Rightarrow> string option \<Rightarrow> nat \<Rightarrow> nat \<Rightarrow> (operation list \<times> int) result" where
  "findByTenant db tid status limit offset =
     bindE (requireTenantId tid) (\<lambda>_.
       Inr (page limit offset
         (filter (\<lambda>r. Some (o_tenant_id r) = tid \<and> (truthyS status \<longrightarrow> Some (o_status r) = status)) (ops db))))"

definition findAll :: "async_db \<Rightarrow> string option \<Rightarrow> nat \<Rightarrow> nat \<Rightarrow> operation list \<times> int" where
  "findAll db status limit offset =
     page limit offset (filter (\<lambda>r. truthyS status \<longrightarrow> Some (o_status r) = status) (ops db))"

definition insertAsyncOperationTransition :: "async_db \<Rightarrow> transition \<Rightarrow> async_db" where
  "insertAsyncOperationTransition db t = db\<lparr>transitions := transitions db @ [t]\<rparr>"

definition updateOps :: "async_db \<Rightarrow> (operation \<Rightarrow> bool) \<Rightarrow> (operation \<Rightarrow> operation) \<Rightarrow> async_db" where
  "updateOps db p f = db\<lparr>ops := updWhere p f (ops db)\<rparr>"

definition atomicResetToRetry ::
  "time \<Rightarrow> async_db \<Rightarrow> string \<Rightarrow> string \<Rightarrow> string \<Rightarrow> (async_db \<times> operation option) result" where
  "atomicResetToRetry now db oid tid correlationId =
     bindE (requireTenantId (Some tid)) (\<lambda>_.
     (let p = (\<lambda>r. is_op (Some oid) (Some tid) r \<and> o_status r = ''failed'');
          f = (\<lambda>r. r\<lparr>o_status := ''pending'', o_attempt_count := o_attempt_count r + 1,
                     o_correlation_id := correlationId, o_error_summary := None, o_updated_at := now\<rparr>)
      in Inr (updateOps db p f, map_option f (find p (ops db)))))"

definition opt_entry :: "string \<Rightarrow> json \<Rightarrow> (string \<times> json) list" where
  "opt_entry k v = (case v of JNull \<Rightarrow> [] | JStr s \<Rightarrow> if s = [] then [] else [(k, v)] | _ \<Rightarrow> [(k, v)])"

definition status_write :: "operation \<Rightarrow> operation \<Rightarrow> operation" where
  "status_write u r =
     r\<lparr>o_status := o_status u, o_error_summary := o_error_summary u,
       o_cancellation_reason := o_cancellation_reason u, o_cancelled_by := o_cancelled_by u,
       o_updated_at := o_updated_at u\<rparr>"

definition transitionOperation ::
  "time \<Rightarrow> string \<Rightarrow> async_db \<Rightarrow> string option \<Rightarrow> string option \<Rightarrow> string option \<Rightarrow> transition_input
     \<Rightarrow> (async_db \<times> operation \<times> transition) result" where
  "transitionOperation now uuid db oid tid actorId input =
     bindE (requireTenantId tid) (\<lambda>_.
     bindE (requireActorId actorId) (\<lambda>_.
     (case find (is_op oid tid) (ops db) of
        None \<Rightarrow> Inl (not_found ''Operation not found'')
      | Some existing \<Rightarrow>
          bindE (applyOpTransition now existing input) (\<lambda>u.
          (let md = opt_entry ''error_summary'' (es_json (o_error_summary u))
                    @ opt_entry ''cancellation_reason'' (opt_str (o_cancellation_reason u))
                    @ opt_entry ''cancelled_by'' (opt_str (o_cancelled_by u));
               t = \<lparr>tr_id = uuid, tr_operation_id = o_id existing, tr_tenant_id = o_tenant_id existing,
                    tr_actor_id = the actorId, tr_previous_status = o_status existing,
                    tr_new_status = o_status u, tr_transitioned_at = o_updated_at u,
                    tr_metadata = (if md = [] then JNull else JObj md)\<rparr>
           in Inr (insertAsyncOperationTransition (updateOps db (is_op oid tid) (status_write u)) t,
                   status_write u existing, t))))))"

section \<open>Policies and candidates\<close>

definition findPolicyForType :: "async_db \<Rightarrow> string \<Rightarrow> policy option" where
  "findPolicyForType db operationType =
     orElse (find (\<lambda>p. po_operation_type p = operationType) (policies db))
            (find (\<lambda>p. po_operation_type p = ''*'') (policies db))"

text \<open>\<open>COALESCE(sp.x, fp.x)\<close> of \<open>buildPolicyJoin\<close>, with the default of the candidate query.\<close>

definition policy_minutes :: "async_db \<Rightarrow> operation \<Rightarrow> (policy \<Rightarrow> int) \<Rightarrow> int \<Rightarrow> int" where
  "policy_minutes db op sel d =
     coalesce (orElse (map_option sel (find (\<lambda>p. po_operation_type p = o_operation_type op) (policies db)))
                      (map_option sel (find (\<lambda>p. po_operation_type p = ''*'') (policies db)))) d"

definition candidates ::
  "string list \<Rightarrow> (policy \<Rightarrow> int) \<Rightarrow> int \<Rightarrow> time \<Rightarrow> async_db \<Rightarrow> operation list" where
  "candidates statuses sel d now db =
     sort_key o_updated_at
       (filter (\<lambda>r. o_status r \<in> set statuses \<and> o_updated_at r \<le> now - policy_minutes db r sel d * 60000)
         (ops db))"

definition findTimedOutCandidates :: "time \<Rightarrow> async_db \<Rightarrow> operation list" where
  "findTimedOutCandidates now db = candidates [''running''] po_timeout_minutes 60 now db"

definition findOrphanCandidates :: "time \<Rightarrow> async_db \<Rightarrow> operation list" where
  "findOrphanCandidates now db = candidates [''running'', ''pending''] po_orphan_threshold_minutes 30 now db"

definition findStaleCancellingCandidates :: "time \<Rightarrow> async_db \<Rightarrow> operation list" where
  "findStaleCancellingCandidates now db = candidates [''cancelling''] po_cancelling_timeout_minutes 5 now db"

definition atomicTransitionSystem ::
  "time \<Rightarrow> string \<Rightarrow> async_db \<Rightarrow> string \<Rightarrow> string \<Rightarrow> string \<Rightarrow> string \<Rightarrow> string option
     \<Rightarrow> (async_db \<times> operation \<times> transition) result" where
  "atomicTransitionSystem now uuid db oid tid new_status reason cancelled_by =
     bindE (requireTenantId (Some tid)) (\<lambda>_.
     (case find (is_op (Some oid) (Some tid)) (ops db) of
        None \<Rightarrow> Inl (not_found ''Operation not found'')
      | Some existing \<Rightarrow>
          bindE (applyOpTransition now existing
                   \<lparr>ti_new_status = Some new_status,
                    ti_error_summary = (if new_status = ''failed''
                      then Some \<lparr>es_code = ''ASYNC_OPERATION_RECOVERED'', es_message = reason,
                                 es_failedStep = Some ''system-recovery''\<rparr> else None),
                    ti_cancellation_reason = (if new_status = ''cancelling'' \<or> new_status = ''timed_out''
                      then Some reason else None),
                    ti_cancelled_by = (if truthyS cancelled_by then cancelled_by else None)\<rparr>) (\<lambda>u.
          (let w = u\<lparr>o_cancellation_reason := orElse (o_cancellation_reason u) (o_cancellation_reason existing),
                     o_cancelled_by := orElse (o_cancelled_by u) (o_cancelled_by existing)\<rparr>;
               md = [(''reason'', JStr reason)]
                    @ opt_entry ''error_summary'' (es_json (o_error_summary u))
                    @ opt_entry ''cancellation_reason'' (opt_str (o_cancellation_reason w))
                    @ opt_entry ''cancelled_by'' (opt_str (orElse (o_cancelled_by w) cancelled_by));
               t = \<lparr>tr_id = uuid, tr_operation_id = oid, tr_tenant_id = tid, tr_actor_id = ''system'',
                    tr_previous_status = o_status existing, tr_new_status = o_status u,
                    tr_transitioned_at = o_updated_at u, tr_metadata = JObj md\<rparr>
           in Inr (insertAsyncOperationTransition
                     (updateOps db (is_op (Some oid) (Some tid)) (status_write w)) t,
                   status_write w existing, t)))))"

definition updateFailureClassification ::
  "time \<Rightarrow> async_db \<Rightarrow> string \<Rightarrow> classification \<Rightarrow> string \<Rightarrow> async_db result" where
  "updateFailureClassification now db oid c tid =
     bindE (requireTenantId (Some tid)) (\<lambda>_.
       Inr (updateOps db (is_op (Some oid) (Some tid))
              (\<lambda>r. r\<lparr>o_failure_category := Some (cl_category c), o_failure_error_code := cl_errorCode c,
                     o_failure_description := Some (cl_description c),
                     o_failure_suggested_actions := Some (cl_suggestedActions c), o_updated_at := now\<rparr>)))"

definition setManualInterventionRequired ::
  "time \<Rightarrow> async_db \<Rightarrow> string \<Rightarrow> bool \<Rightarrow> string \<Rightarrow> async_db result" where
  "setManualInterventionRequired now db oid required tid =
     bindE (requireTenantId (Some tid)) (\<lambda>_.
       Inr (updateOps db (is_op (Some oid) (Some tid))
              (\<lambda>r. r\<lparr>o_manual_intervention_required := required, o_updated_at := now\<rparr>)))"

section \<open>Idempotency keys\<close>

definition same_key :: "string \<Rightarrow> string \<Rightarrow> key_record \<Rightarrow> bool" where
  "same_key tid key k \<longleftrightarrow> k_tenant_id k = tid \<and> k_idempotency_key k = key"

definition findActive :: "time \<Rightarrow> async_db \<Rightarrow> string \<Rightarrow> string \<Rightarrow> key_record option result" where
  "findActive now db tid key =
     bindE (requireTenantId (Some tid)) (\<lambda>_.
     bindE (throwIf (key = []) (validation_error ''idempotency_key is required'')) (\<lambda>_.
     Inr (find (\<lambda>k. same_key tid key k \<and> now < k_expires_at k) (keys db))))"

text \<open>
  \<open>INSERT ... ON CONFLICT (tenant_id, idempotency_key) DO UPDATE ... WHERE expires_at <= NOW()
  RETURNING *\<close>: no row comes back when the conflicting record has not expired.
\<close>

definition insertOrFind ::
  "time \<Rightarrow> async_db \<Rightarrow> key_record \<Rightarrow> (async_db \<times> key_record option \<times> bool) result" where
  "insertOrFind now db rec =
     bindE (requireTenantId (Some (k_tenant_id rec))) (\<lambda>_.
     bindE (throwIf (k_idempotency_key rec = []) (validation_error ''idempotency_key is required'')) (\<lambda>_.
     (let same = same_key (k_tenant_id rec) (k_idempotency_key rec) in
      case find same (keys db) of
        None \<Rightarrow> Inr (db\<lparr>keys := keys db @ [rec]\<rparr>, Some rec, True)
      | Some old \<Rightarrow>
          if k_expires_at old \<le> now
          then Inr (db\<lparr>keys := updWhere same (\<lambda>_. rec) (keys db)\<rparr>, Some rec, True)
          else bindE (findActive now db (k_tenant_id rec) (k_idempotency_key rec)) (\<lambda>existing.
                 Inr (db, existing,
                      map_option k_operation_id existing = Some (k_operation_id rec))))))"

section \<open>Attempts, flags, overrides, profiles\<close>

definition createAttempt :: "async_db \<Rightarrow> attempt \<Rightarrow> async_db result" where
  "createAttempt db a =
     bindE (requireTenantId (Some (at_tenant_id a))) (\<lambda>_.
     bindE (throwIf (\<exists>b \<in> set (attempts db). at_operation_id b = at_operation_id a
                      \<and> at_attempt_number b = at_attempt_number a) unique_violation) (\<lambda>_.
     Inr (db\<lparr>attempts := attempts db @ [a]\<rparr>)))"

definition findAttempts :: "async_db \<Rightarrow> string option \<Rightarrow> string option \<Rightarrow> attempt list result" where
  "findAttempts db oid tid =
     bindE (requireTenantId tid) (\<lambda>_.
       Inr (sort_key at_attempt_number
              (filter (\<lambda>a. Some (at_operation_id a) = oid \<and> Some (at_tenant_id a) = tid) (attempts db))))"

definition createManualInterventionFlag :: "async_db \<Rightarrow> flag \<Rightarrow> async_db result" where
  "createManualInterventionFlag db fl =
     (if f_operationId fl \<in> f_operationId ` set (flags db)
      then Inl (JsError (Some ''UNIQUE_VIOLATION'') None ''duplicate key value violates unique constraint'')
      else Inr (db\<lparr>flags := flags db @ [fl]\<rparr>))"

definition findFlagByOperationId :: "async_db \<Rightarrow> string option \<Rightarrow> flag option" where
  "findFlagByOperationId db oid =
     (case sort_key (\<lambda>fl. - f_createdAt fl) (filter (\<lambda>fl. Some (f_operationId fl) = oid) (flags db)) of
        [] \<Rightarrow> None | fl # _ \<Rightarrow> Some fl)"

definition findPendingByTenant :: "async_db \<Rightarrow> string \<Rightarrow> flag list" where
  "findPendingByTenant db tid =
     sort_key (\<lambda>fl. - f_createdAt fl) (filter (\<lambda>fl. f_tenantId fl = tid \<and> f_status fl = ''pending'') (flags db))"

definition resolveFlag :: "time \<Rightarrow> async_db \<Rightarrow> string \<Rightarrow> string \<Rightarrow> string \<Rightarrow> async_db" where
  "resolveFlag now db flagId resolvedBy resolutionMethod =
     db\<lparr>flags := updWhere (\<lambda>fl. f_flagId fl = flagId)
          (\<lambda>fl. fl\<lparr>f_status := ''resolved'', f_resolvedAt := Some now, f_resolvedBy := Some resolvedBy,
                   f_resolutionMethod := Some resolutionMethod\<rparr>) (flags db)\<rparr>"

definition updateLastNotificationAt :: "async_db \<Rightarrow> string \<Rightarrow> time \<Rightarrow> async_db" where
  "updateLastNotificationAt db flagId timestamp =
     db\<lparr>flags := updWhere (\<lambda>fl. f_flagId fl = flagId)
          (\<lambda>fl. fl\<lparr>f_lastNotificationAt := Some timestamp\<rparr>) (flags db)\<rparr>"

definition createIfNotInProgress :: "async_db \<Rightarrow> override \<Rightarrow> async_db \<times> override option" where
  "createIfNotInProgress db ov =
     (case sort_key (\<lambda>v. - ov_createdAt v)
             (filter (\<lambda>v. ov_operationId v = ov_operationId ov \<and> ov_status v = ''pending'') (overrides db)) of
        existing # _ \<Rightarrow> (db, Some existing)
      | [] \<Rightarrow> (db\<lparr>overrides := overrides db @ [ov]\<rparr>, None))"

definition findOverrideByOperationId :: "async_db \<Rightarrow> string \<Rightarrow> override option" where
  "findOverrideByOperationId db oid =
     (case sort_key (\<lambda>v. - ov_createdAt v) (filter (\<lambda>v. ov_operationId v = oid) (overrides db)) of
        [] \<Rightarrow> None | v # _ \<Rightarrow> Some v)"

definition completeOverride :: "time \<Rightarrow> async_db \<Rightarrow> string \<Rightarrow> string \<Rightarrow> async_db" where
  "completeOverride now db overrideId status =
     db\<lparr>overrides := updWhere (\<lambda>v. ov_overrideId v = overrideId)
          (\<lambda>v. v\<lparr>ov_status := status, ov_completedAt := Some now\<rparr>) (overrides db)\<rparr>"

definition findByOperationType :: "async_db \<Rightarrow> string \<Rightarrow> profile_row option" where
  "findByOperationType db t = find (\<lambda>p. pr_operation_type p = t) (profiles db)"

definition findDefault :: "async_db \<Rightarrow> profile_row option" where
  "findDefault db =
     orElse (find (\<lambda>p. pr_operation_type p = DEFAULT_OPERATION_TYPE) (profiles db))
            (find pr_is_default (profiles db))"

definition upsertProfile :: "async_db \<Rightarrow> profile_row \<Rightarrow> async_db" where
  "upsertProfile db p =
     db\<lparr>profiles := (if pr_operation_type p \<in> pr_operation_type ` set (profiles db)
                    then updWhere (\<lambda>q. pr_operation_type q = pr_operation_type p) (\<lambda>_. p) (profiles db)
                    else profiles db @ [p])\<rparr>"

end
