(* ===== verification/Async_Events.thy ===== *)
theory Async_Events
  imports Async_Repo
begin

text \<open>
  The events of the asynchronous operations (\<open>events/async-operation-events.mjs\<close>) and the required
  fields of their schemas in \<open>packages/internal-contracts/src\<close>. An event is its topic, its
  message key and its fields; a field with value \<open>undefined\<close> counts as missing. A producer is a
  function that says whether \<open>send\<close> resolves; without one an event is not published and that is
  no error.
\<close>

type_synonym producer = "(async_event \<Rightarrow> bool) option"

section \<open>Topics and schemas\<close>

definition STATE_CHANGED_TOPIC :: string where
  "STATE_CHANGED_TOPIC = ''console.async-operation.state-changed''"

definition DEDUPLICATED_TOPIC :: string where
  "DEDUPLICATED_TOPIC = ''console.async-operation.deduplicated''"

definition RETRY_REQUESTED_TOPIC :: string where
  "RETRY_REQUESTED_TOPIC = ''console.async-operation.retry-requested''"

definition CANCELLED_TOPIC :: string where
  "CANCELLED_TOPIC = ''console.async-operation.cancelled''"

definition TIMED_OUT_TOPIC :: string where
  "TIMED_OUT_TOPIC = ''console.async-operation.timed-out''"

definition RECOVERED_TOPIC :: string where
  "RECOVERED_TOPIC = ''console.async-operation.recovered''"

definition FAILURE_CLASSIFIED_TOPIC :: string where
  "FAILURE_CLASSIFIED_TOPIC = ''console.async-operation.failure-classified''"

definition MANUAL_INTERVENTION_TOPIC :: string where
  "MANUAL_INTERVENTION_TOPIC = ''console.async-operation.manual-intervention-required''"

definition RETRY_OVERRIDE_TOPIC :: string where
  "RETRY_OVERRIDE_TOPIC = ''console.async-operation.retry-override''"

definition INTERVENTION_NOTIFICATION_TOPIC :: string where
  "INTERVENTION_NOTIFICATION_TOPIC = ''console.async-operation.intervention-notification''"

lemmas topic_defs = STATE_CHANGED_TOPIC_def DEDUPLICATED_TOPIC_def RETRY_REQUESTED_TOPIC_def
  CANCELLED_TOPIC_def TIMED_OUT_TOPIC_def RECOVERED_TOPIC_def FAILURE_CLASSIFIED_TOPIC_def
  MANUAL_INTERVENTION_TOPIC_def RETRY_OVERRIDE_TOPIC_def INTERVENTION_NOTIFICATION_TOPIC_def

definition schema_required :: "string \<Rightarrow> string list" where
  "schema_required topic =
     (if topic = STATE_CHANGED_TOPIC then
        [''eventId'', ''eventType'', ''operationId'', ''tenantId'', ''actorId'', ''previousStatus'',
         ''newStatus'', ''occurredAt'', ''correlationId'']
      else if topic = DEDUPLICATED_TOPIC then
        [''eventId'', ''eventType'', ''operationId'', ''tenantId'', ''actorId'', ''actorType'',
         ''idempotencyKey'', ''paramsMismatch'', ''occurredAt'', ''correlationId'']
      else if topic = RETRY_REQUESTED_TOPIC then
        [''eventId'', ''eventType'', ''operationId'', ''tenantId'', ''actorId'', ''actorType'',
         ''attemptId'', ''attemptNumber'', ''previousCorrelationId'', ''newCorrelationId'', ''occurredAt'']
      else if topic = CANCELLED_TOPIC then
        [''eventId'', ''eventType'', ''operationId'', ''tenantId'', ''actorId'', ''cancelledBy'',
         ''previousStatus'', ''occurredAt'', ''correlationId'']
      else if topic = TIMED_OUT_TOPIC then
        [''eventId'', ''eventType'', ''operationId'', ''tenantId'', ''previousStatus'',
         ''timeoutReason'', ''occurredAt'', ''correlationId'']
      else if topic = RECOVERED_TOPIC then
        [''eventId'', ''eventType'', ''operationId'', ''tenantId'', ''previousStatus'',
         ''recoveryAction'', ''recoveryReason'', ''occurredAt'', ''correlationId'']
      else if topic = FAILURE_CLASSIFIED_TOPIC then
        [''eventId'', ''eventType'', ''operationId'', ''tenantId'', ''actorId'', ''failureCategory'',
         ''errorCode'', ''attemptCount'', ''maxRetries'', ''occurredAt'', ''correlationId'']
      else if topic = MANUAL_INTERVENTION_TOPIC then
        [''eventId'', ''eventType'', ''operationId'', ''flagId'', ''tenantId'', ''actorId'', ''reason'',
         ''attemptCountAtFlag'', ''lastErrorCode'', ''occurredAt'', ''correlationId'']
      else if topic = RETRY_OVERRIDE_TOPIC then
        [''eventId'', ''eventType'', ''overrideId'', ''operationId'', ''flagId'', ''tenantId'',
         ''superadminId'', ''justification'', ''attemptNumber'', ''newCorrelationId'', ''occurredAt'']
      else if topic = INTERVENTION_NOTIFICATION_TOPIC then
        [''eventId'', ''eventType'', ''operationId'', ''flagId'', ''tenantId'', ''recipientActorId'',
         ''recipientRole'', ''operationType'', ''failureSummary'', ''suggestedActions'', ''occurredAt'',
         ''correlationId'']
      else [])"

definition validateRequiredFields :: "async_event \<Rightarrow> string list \<Rightarrow> async_event result" where
  "validateRequiredFields event required =
     (case find (\<lambda>field. obj_get (ae_fields event) field = JUndefined) required of
        Some field \<Rightarrow> Inl (validation_error (''Missing required event field: '' @ field))
      | None \<Rightarrow> Inr event)"

section \<open>Builders\<close>

definition mk_event ::
  "string \<Rightarrow> string \<Rightarrow> string \<Rightarrow> string \<Rightarrow> string \<Rightarrow> time \<Rightarrow> (string \<times> json) list \<Rightarrow> async_event" where
  "mk_event uuid topic eventType operationId tenantId occurredAt rest =
     \<lparr>ae_topic = topic, ae_key = tenantId,
      ae_fields = [(''eventId'', JStr uuid), (''eventType'', JStr eventType),
                   (''operationId'', JStr operationId), (''tenantId'', JStr tenantId),
                   (''occurredAt'', opt_int occurredAt)] @ rest\<rparr>"

definition buildStateChangedEvent :: "string \<Rightarrow> operation \<Rightarrow> string \<Rightarrow> async_event" where
  "buildStateChangedEvent uuid op previousStatus =
     mk_event uuid STATE_CHANGED_TOPIC ''async_operation.state_changed'' (o_id op) (o_tenant_id op)
       (o_updated_at op)
       [(''workspaceId'', opt_str (o_workspace_id op)), (''actorId'', JStr (o_actor_id op)),
        (''actorType'', JStr (o_actor_type op)), (''operationType'', JStr (o_operation_type op)),
        (''previousStatus'', JStr previousStatus), (''newStatus'', JStr (o_status op)),
        (''errorSummary'', es_json (o_error_summary op)), (''correlationId'', JStr (o_correlation_id op))]"

definition buildDeduplicationEvent ::
  "string \<Rightarrow> time \<Rightarrow> operation \<Rightarrow> string \<Rightarrow> string \<Rightarrow> string \<Rightarrow> bool \<Rightarrow> string option \<Rightarrow> async_event" where
  "buildDeduplicationEvent uuid now op actorId actorType idempotencyKey paramsMismatch correlationId =
     mk_event uuid DEDUPLICATED_TOPIC ''async_operation.deduplicated'' (o_id op) (o_tenant_id op) now
       [(''actorId'', JStr actorId), (''actorType'', JStr actorType),
        (''idempotencyKey'', JStr idempotencyKey), (''paramsMismatch'', JBool paramsMismatch),
        (''correlationId'', JStr (coalesce correlationId (o_correlation_id op)))]"

definition buildRetryEvent ::
  "string \<Rightarrow> operation \<Rightarrow> attempt \<Rightarrow> string \<Rightarrow> string \<Rightarrow> string \<Rightarrow> async_event" where
  "buildRetryEvent uuid op att actorId actorType previousCorrelationId =
     mk_event uuid RETRY_REQUESTED_TOPIC ''async_operation.retry_requested'' (o_id op) (o_tenant_id op)
       (at_created_at att)
       [(''actorId'', JStr actorId), (''actorType'', JStr actorType),
        (''attemptId'', JStr (at_attempt_id att)), (''attemptNumber'', opt_int (at_attempt_number att)),
        (''previousCorrelationId'', JStr previousCorrelationId),
        (''newCorrelationId'', JStr (at_correlation_id att))]"

definition buildCancelledEvent :: "string \<Rightarrow> operation \<Rightarrow> string \<Rightarrow> string \<Rightarrow> async_event" where
  "buildCancelledEvent uuid op previousStatus cancelledBy =
     mk_event uuid CANCELLED_TOPIC ''async_operation.cancelled'' (o_id op) (o_tenant_id op) (o_updated_at op)
       [(''actorId'', JStr (o_actor_id op)), (''cancelledBy'', JStr cancelledBy),
        (''previousStatus'', JStr previousStatus), (''newStatus'', JStr (o_status op)),
        (''reason'', opt_str (o_cancellation_reason op)), (''correlationId'', JStr (o_correlation_id op))]"

definition buildTimedOutEvent :: "string \<Rightarrow> operation \<Rightarrow> string \<Rightarrow> async_event" where
  "buildTimedOutEvent uuid op previousStatus =
     mk_event uuid TIMED_OUT_TOPIC ''async_operation.timed_out'' (o_id op) (o_tenant_id op) (o_updated_at op)
       [(''actorId'', JStr ''system''), (''previousStatus'', JStr previousStatus),
        (''newStatus'', JStr (o_status op)),
        (''timeoutReason'', JStr (coalesce (o_cancellation_reason op) ''timeout exceeded'')),
        (''correlationId'', JStr (o_correlation_id op))]"

definition buildRecoveredEvent :: "string \<Rightarrow> operation \<Rightarrow> string \<Rightarrow> string \<Rightarrow> async_event" where
  "buildRecoveredEvent uuid op previousStatus recoveryReason =
     mk_event uuid RECOVERED_TOPIC ''async_operation.recovered'' (o_id op) (o_tenant_id op) (o_updated_at op)
       [(''actorId'', JStr ''system''), (''previousStatus'', JStr previousStatus),
        (''newStatus'', JStr ''failed''), (''recoveryAction'', JStr ''fail''),
        (''recoveryReason'', JStr recoveryReason), (''correlationId'', JStr (o_correlation_id op))]"

definition buildFailureClassifiedEvent ::
  "string \<Rightarrow> time \<Rightarrow> operation \<Rightarrow> classification \<Rightarrow> int \<Rightarrow> async_event" where
  "buildFailureClassifiedEvent uuid now op c maxRetries =
     mk_event uuid FAILURE_CLASSIFIED_TOPIC ''async_operation.failure_classified'' (o_id op) (o_tenant_id op) now
       [(''actorId'', JStr (o_actor_id op)), (''failureCategory'', JStr (cl_category c)),
        (''errorCode'', JStr (coalesce (cl_errorCode c) ''UNKNOWN'')),
        (''attemptCount'', opt_int (o_attempt_count op)), (''maxRetries'', opt_int maxRetries),
        (''correlationId'', JStr (o_correlation_id op))]"

definition buildManualInterventionRequiredEvent :: "string \<Rightarrow> time \<Rightarrow> operation \<Rightarrow> flag \<Rightarrow> async_event" where
  "buildManualInterventionRequiredEvent uuid now op fl =
     mk_event uuid MANUAL_INTERVENTION_TOPIC ''async_operation.manual_intervention_required'' (o_id op)
       (o_tenant_id op) now
       [(''flagId'', JStr (f_flagId fl)), (''actorId'', JStr (o_actor_id op)),
        (''reason'', JStr (f_reason fl)), (''attemptCountAtFlag'', opt_int (f_attemptCountAtFlag fl)),
        (''lastErrorCode'', JStr (coalesce (f_lastErrorCode fl) ''UNKNOWN'')),
        (''correlationId'', JStr (o_correlation_id op))]"

definition buildRetryOverrideEvent ::
  "string \<Rightarrow> time \<Rightarrow> operation \<Rightarrow> override \<Rightarrow> string \<Rightarrow> async_event" where
  "buildRetryOverrideEvent uuid now op ov newCorrelationId =
     mk_event uuid RETRY_OVERRIDE_TOPIC ''async_operation.retry_override'' (o_id op) (o_tenant_id op) now
       [(''overrideId'', JStr (ov_overrideId ov)), (''flagId'', JStr (ov_flagId ov)),
        (''superadminId'', JStr (ov_superadminId ov)), (''justification'', JStr (ov_justification ov)),
        (''attemptNumber'', opt_int (ov_attemptNumber ov)), (''newCorrelationId'', JStr newCorrelationId)]"

definition buildInterventionNotificationEvent ::
  "string \<Rightarrow> time \<Rightarrow> flag \<Rightarrow> string \<Rightarrow> string \<Rightarrow> string \<Rightarrow> string list \<Rightarrow> string \<Rightarrow> async_event" where
  "buildInterventionNotificationEvent uuid now fl actor role operationType actions correlationId =
     mk_event uuid INTERVENTION_NOTIFICATION_TOPIC ''async_operation.intervention_notification''
       (f_operationId fl) (f_tenantId fl) now
       [(''flagId'', JStr (f_flagId fl)), (''recipientActorId'', JStr actor),
        (''recipientRole'', JStr role), (''operationType'', JStr operationType),
        (''failureSummary'', JStr (coalesce (f_lastErrorSummary fl) ''Manual intervention required'')),
        (''suggestedActions'', JArr (map JStr actions)), (''correlationId'', JStr correlationId)]"

section \<open>Publishing\<close>

text \<open>The new state and whether the event went out, was skipped, or an error was thrown.\<close>

definition publishEvent :: "producer \<Rightarrow> async_event \<Rightarrow> async_db \<Rightarrow> async_db \<times> unit result" where
  "publishEvent producer event db =
     (case validateRequiredFields event (schema_required (ae_topic event)) of
        Inl e \<Rightarrow> (db, Inl e)
      | Inr ev \<Rightarrow>
          (case producer of
             None \<Rightarrow> (db, Inr ())
           | Some send \<Rightarrow>
               if send ev then (db\<lparr>events := events db @ [ev]\<rparr>, Inr ())
               else (db, Inl (JsError None None ''publish failed''))))"

lemma publishEvent_tables [simp]:
  "ops (fst (publishEvent p e db)) = ops db" "transitions (fst (publishEvent p e db)) = transitions db"
  "keys (fst (publishEvent p e db)) = keys db" "attempts (fst (publishEvent p e db)) = attempts db"
  "flags (fst (publishEvent p e db)) = flags db" "overrides (fst (publishEvent p e db)) = overrides db"
  "policies (fst (publishEvent p e db)) = policies db" "profiles (fst (publishEvent p e db)) = profiles db"
  "mappings (fst (publishEvent p e db)) = mappings db"
  "mappingCache (fst (publishEvent p e db)) = mappingCache db"
  by (auto simp: publishEvent_def split: sum.splits option.splits)

lemmas builder_defs = mk_event_def buildStateChangedEvent_def buildDeduplicationEvent_def
  buildRetryEvent_def buildCancelledEvent_def buildTimedOutEvent_def buildRecoveredEvent_def
  buildFailureClassifiedEvent_def buildManualInterventionRequiredEvent_def
  buildRetryOverrideEvent_def buildInterventionNotificationEvent_def

lemma validate_built:
  assumes "\<And>k. k \<in> set required \<Longrightarrow> obj_get (ae_fields e) k \<noteq> JUndefined"
  shows "validateRequiredFields e required = Inr e"
proof -
  have "find (\<lambda>field. obj_get (ae_fields e) field = JUndefined) required = None"
    using assms by (auto simp: find_None_iff)
  then show ?thesis by (simp add: validateRequiredFields_def)
qed

end
