(* ===== verification/Async_Actions.thy ===== *)
theory Async_Actions
  imports Async_Events
begin

text \<open>
  The actions of the asynchronous operations
  (\<open>packages/provisioning-orchestrator/src/actions/async-operation-*.mjs\<close> and
  \<open>caller-context.mjs\<close>): create, transition, cancel, retry, retry override, intervention
  notification and the two sweeps.

  An action takes the tables and returns the new tables and what it answered or threw. The
  identifiers it draws come from \<open>fresh\<close>. \<open>interleave\<close> of the create action is what other requests did
  to the tables between its first look at the idempotency key and its own transaction.
  Log lines and metrics are left out.
\<close>

section \<open>Caller identity\<close>

record caller =
  cc_actor_id :: "string option"
  cc_actor_type :: "string option"
  cc_tenantId :: "string option"
  cc_correlationId :: "string option"
  cc_tenant_status :: "string option"
  cc_tenant_active :: "bool option"

definition str_field :: "(string \<times> json) list \<Rightarrow> string \<Rightarrow> string option" where
  "str_field kvs k = (case obj_get kvs k of JStr s \<Rightarrow> Some s | _ \<Rightarrow> None)"

definition num_field :: "(string \<times> json) list \<Rightarrow> string \<Rightarrow> jsnum option" where
  "num_field kvs k = (case obj_get kvs k of JNum n \<Rightarrow> Some n | JStr s \<Rightarrow> Some (js_Number s) | _ \<Rightarrow> None)"

definition headers_of :: "(string \<times> json) list \<Rightarrow> (string \<times> json) list" where
  "headers_of params = (case obj_get params ''__ow_headers'' of JObj h \<Rightarrow> h | _ \<Rightarrow> [])"

definition buildCallerContext :: "(string \<times> json) list \<Rightarrow> caller option" where
  "buildCallerContext params =
     (let h = headers_of params;
          subject = str_field h ''x-auth-subject'';
          tenantId = str_field h ''x-tenant-id'';
          actorType = str_field h ''x-actor-type''
      in if \<not> truthyS subject \<or> (\<not> truthyS tenantId \<and> \<not> truthyS actorType) then None
         else Some \<lparr>cc_actor_id = subject, cc_actor_type = Some (coalesce actorType []),
                    cc_tenantId = tenantId,
                    cc_correlationId = orElse (str_field h ''x-correlation-id'') (str_field params ''correlation_id''),
                    cc_tenant_status = None, cc_tenant_active = None\<rparr>)"

section \<open>Create\<close>

definition ERROR_STATUS :: "(string \<times> int) list \<Rightarrow> js_error \<Rightarrow> js_error" where
  "ERROR_STATUS codes e =
     (case err_status e of
        Some _ \<Rightarrow> e
      | None \<Rightarrow> JsError (err_code e) (Some (coalesce (Option.bind (err_code e) (map_of codes)) 500)) (err_message e))"

definition requireCallerIdentity :: "caller \<Rightarrow> unit result" where
  "requireCallerIdentity cc =
     bindE (throwIf (\<not> truthyS (cc_tenantId cc))
              (JsError (Some ''VALIDATION_ERROR'') (Some 400) ''callerContext.tenantId is required'')) (\<lambda>_.
     bindE (throwIf (\<not> truthyS (cc_actor_id cc))
              (JsError (Some ''VALIDATION_ERROR'') (Some 400) ''callerContext.actor.id is required'')) (\<lambda>_.
     throwIf (\<not> truthyS (cc_actor_type cc))
              (JsError (Some ''VALIDATION_ERROR'') (Some 400) ''callerContext.actor.type is required'')))"

definition buildRequestPayload :: "(string \<times> json) list \<Rightarrow> json" where
  "buildRequestPayload params =
     JObj (filter (\<lambda>kv. fst kv \<notin> {''callerContext'', ''correlation_id'', ''idempotency_key''}) params)"

record create_body =
  cb_operationId :: string
  cb_status :: string
  cb_correlationId :: string
  cb_createdAt :: time
  cb_idempotent :: "bool option"
  cb_paramsMismatch :: "bool option"

datatype create_response = Unauthorized | CreateOk (create_ok: create_body)

definition formatCreateResponse :: "operation \<Rightarrow> (bool \<times> bool) option \<Rightarrow> create_response" where
  "formatCreateResponse op extras =
     CreateOk \<lparr>cb_operationId = o_id op, cb_status = o_status op, cb_correlationId = o_correlation_id op,
               cb_createdAt = o_created_at op, cb_idempotent = map_option fst extras,
               cb_paramsMismatch = map_option snd extras\<rparr>"

definition resolveExistingOperation ::
  "async_db \<Rightarrow> string \<Rightarrow> key_record option \<Rightarrow> string option \<Rightarrow> operation result" where
  "resolveExistingOperation db tenantId rec operationType =
     (case rec of
        None \<Rightarrow> Inl (JsError None None ''Cannot read properties of null (reading operation_type)'')
      | Some r \<Rightarrow>
          bindE (throwIf (k_operation_type r \<noteq> [] \<and> Some (k_operation_type r) \<noteq> operationType)
                   (JsError (Some ''IDEMPOTENCY_KEY_CONFLICT'') (Some 409)
                      ''Idempotency key already associated with a different operation type'')) (\<lambda>_.
          bindE (findById db (Some (k_operation_id r)) (Some tenantId)) (\<lambda>found.
          case found of
            None \<Rightarrow> Inl (JsError (Some ''NOT_FOUND'') (Some 404) ''Operation not found for active idempotency key'')
          | Some op \<Rightarrow> Inr op)))"

definition create_replay ::
  "producer \<Rightarrow> (nat \<Rightarrow> string) \<Rightarrow> time \<Rightarrow> caller \<Rightarrow> string option \<Rightarrow> string \<Rightarrow> string \<Rightarrow> string option
     \<Rightarrow> key_record option \<Rightarrow> async_db \<Rightarrow> async_db \<times> create_response result" where
  "create_replay producer fresh now cc operationType key paramsHash requestCorrelationId rec db =
     (case resolveExistingOperation db (coalesce (cc_tenantId cc) []) rec operationType of
        Inl e \<Rightarrow> (db, Inl e)
      | Inr op \<Rightarrow>
          (let paramsMismatch = (map_option k_params_hash rec \<noteq> Some paramsHash);
               ev = buildDeduplicationEvent (fresh 2) now op (coalesce (cc_actor_id cc) [])
                      (coalesce (cc_actor_type cc) []) key paramsMismatch
                      (Some (coalesce requestCorrelationId (o_correlation_id op)))
           in (fst (publishEvent producer ev db),
               Inr (formatCreateResponse op (Some (True, paramsMismatch))))))"

definition create_event :: "producer \<Rightarrow> (nat \<Rightarrow> string) \<Rightarrow> operation \<Rightarrow> async_db \<Rightarrow> async_db" where
  "create_event producer fresh stored db =
     fst (publishEvent producer (buildStateChangedEvent (fresh 2) stored ''pending'') db)"

definition create_keyed ::
  "producer \<Rightarrow> (string \<Rightarrow> string) \<Rightarrow> async_env \<Rightarrow> (nat \<Rightarrow> string) \<Rightarrow> time \<Rightarrow> caller \<Rightarrow> string option \<Rightarrow> string \<Rightarrow> string
     \<Rightarrow> string option \<Rightarrow> operation \<Rightarrow> async_db \<Rightarrow> async_db \<times> create_response result" where
  "create_keyed producer sha256 env fresh now cc operationType key paramsHash requestCorrelationId op db =
     (case bindE (persistOperation db op) (\<lambda>(db1, stored).
           bindE (createIdempotencyKeyRecord sha256 env now (fresh 1)
                    \<lparr>ki_record_id = None, ki_tenant_id = Some (o_tenant_id stored),
                     ki_idempotency_key = Some key, ki_operation_id = Some (o_id stored),
                     ki_operation_type = Some (o_operation_type stored), ki_params_hash = Some paramsHash,
                     ki_params = None, ki_created_at = None, ki_ttl_hours = None, ki_expires_at = None\<rparr>) (\<lambda>rec.
           bindE (insertOrFind now db1 rec) (\<lambda>(db2, found, created). Inr (db2, stored, found, created)))) of
        Inl e \<Rightarrow> (db, Inl e)
      | Inr (db2, stored, found, created) \<Rightarrow>
          if \<not> created \<or> map_option k_operation_id found \<noteq> Some (o_id stored)
          then create_replay producer fresh now cc operationType key paramsHash requestCorrelationId found db
          else (create_event producer fresh stored db2,
                Inr (formatCreateResponse stored (Some (False, False)))))"

definition create_plain ::
  "producer \<Rightarrow> (nat \<Rightarrow> string) \<Rightarrow> operation \<Rightarrow> async_db \<Rightarrow> async_db \<times> create_response result" where
  "create_plain producer fresh op db =
     (case persistOperation db op of
        Inl e \<Rightarrow> (db, Inl e)
      | Inr (db1, stored) \<Rightarrow> (create_event producer fresh stored db1, Inr (formatCreateResponse stored None)))"

definition create_operation_input ::
  "(string \<times> json) list \<Rightarrow> caller \<Rightarrow> string option \<Rightarrow> operation_input" where
  "create_operation_input params cc key =
     \<lparr>oi_operation_id = None, oi_tenant_id = cc_tenantId cc, oi_actor_id = cc_actor_id cc,
      oi_actor_type = cc_actor_type cc, oi_workspace_id = str_field params ''workspace_id'',
      oi_operation_type = str_field params ''operation_type'', oi_status = None,
      oi_error_summary = None, oi_cancellation_reason = None, oi_cancelled_by = None,
      oi_timeout_policy_snapshot = None, oi_policy_applied_at = None,
      oi_correlation_id = orElse (str_field params ''correlation_id'') (cc_correlationId cc),
      oi_idempotency_key = key, oi_saga_id = str_field params ''saga_id'', oi_attempt_count = None,
      oi_max_retries = num_field params ''max_retries'', oi_created_at = None, oi_updated_at = None\<rparr>"

definition create_try ::
  "producer \<Rightarrow> (string \<Rightarrow> string) \<Rightarrow> async_env \<Rightarrow> (nat \<Rightarrow> string) \<Rightarrow> time \<Rightarrow> (async_db \<Rightarrow> async_db)
     \<Rightarrow> (string \<times> json) list \<Rightarrow> caller \<Rightarrow> async_db \<Rightarrow> async_db \<times> create_response result" where
  "create_try producer sha256 env fresh now interleave params cc db =
     (let reqCorr = orElse (str_field params ''correlation_id'') (cc_correlationId cc);
          optype = str_field params ''operation_type'';
          key = str_field params ''idempotency_key'';
          hash = hashParams sha256 (buildRequestPayload params);
          model = createOperation now (fresh 0) (create_operation_input params cc key)
      in if \<not> truthyS key
         then (case model of Inl e \<Rightarrow> (db, Inl e)
               | Inr op \<Rightarrow> create_plain producer fresh op (interleave db))
         else
           (case bindE (validateKeyFormat env (the key)) (\<lambda>k. findActive now db (coalesce (cc_tenantId cc) []) k) of
              Inl e \<Rightarrow> (db, Inl e)
            | Inr (Some rec) \<Rightarrow> create_replay producer fresh now cc optype (the key) hash reqCorr (Some rec) db
            | Inr None \<Rightarrow>
                (case model of
                   Inl e \<Rightarrow> (db, Inl e)
                 | Inr op \<Rightarrow> create_keyed producer sha256 env fresh now cc optype (the key) hash reqCorr op
                               (interleave db))))"

definition create_main ::
  "producer \<Rightarrow> (string \<Rightarrow> string) \<Rightarrow> async_env \<Rightarrow> (nat \<Rightarrow> string) \<Rightarrow> time \<Rightarrow> (async_db \<Rightarrow> async_db)
     \<Rightarrow> (string \<times> json) list \<Rightarrow> async_db \<Rightarrow> async_db \<times> create_response result" where
  "create_main producer sha256 env fresh now interleave params db =
     (case buildCallerContext params of
        None \<Rightarrow> (db, Inr Unauthorized)
      | Some cc \<Rightarrow>
          (case requireCallerIdentity cc of
             Inl e \<Rightarrow> (db, Inl e)
           | Inr _ \<Rightarrow>
               (case create_try producer sha256 env fresh now interleave params cc db of
                  (db1, Inl e) \<Rightarrow>
                    (db1, Inl (ERROR_STATUS [(''IDEMPOTENCY_KEY_CONFLICT'', 409), (''VALIDATION_ERROR'', 400)] e))
                | (db1, Inr r) \<Rightarrow> (db1, Inr r))))"

section \<open>Transition\<close>

definition sanitizeErrorSummary :: "error_summary option \<Rightarrow> error_summary option result" where
  "sanitizeErrorSummary es =
     (case es of None \<Rightarrow> Inr None
      | Some e \<Rightarrow> bindE (validateErrorSummary es) (\<lambda>_. Inr (Some (normalizeErrorSummary e))))"

definition loadFailureMappings :: "async_db \<Rightarrow> async_db \<times> failure_mapping list" where
  "loadFailureMappings db =
     (case mappingCache db of
        Some c \<Rightarrow> (db, c)
      | None \<Rightarrow> (let c = loadMappingCache (mappings db) in (db\<lparr>mappingCache := Some c\<rparr>, c)))"

definition resolveTenantScope :: "caller \<Rightarrow> string option \<Rightarrow> string result" where
  "resolveTenantScope cc tenant_id =
     (if cc_actor_type cc = Some ''superadmin''
      then (if truthyS tenant_id then Inr (the tenant_id)
            else Inl (validation_error ''tenant_id is required for superadmin transitions''))
      else if \<not> truthyS (cc_tenantId cc) then Inl (validation_error ''callerContext.tenantId is required'')
      else if truthyS tenant_id \<and> tenant_id \<noteq> cc_tenantId cc
      then Inl (JsError (Some ''TENANT_ISOLATION_VIOLATION'') None ''tenant_id must come from callerContext'')
      else Inr (the (cc_tenantId cc)))"

definition classifyFailureForOperation ::
  "time \<Rightarrow> operation \<Rightarrow> error_summary option \<Rightarrow> async_db \<Rightarrow> async_db \<times> classification result" where
  "classifyFailureForOperation now op es db =
     (case loadFailureMappings db of
        (db1, cache) \<Rightarrow>
          (case classifyByErrorCode (map_option es_code es) (Some (o_operation_type op)) cache of
             Inl e \<Rightarrow> (db1, Inl e)
           | Inr c \<Rightarrow>
               (case updateFailureClassification now db1 (o_id op) c (o_tenant_id op) of
                  Inl e \<Rightarrow> (db1, Inl e)
                | Inr db2 \<Rightarrow> (db2, Inr c))))"

definition intervention_limit :: "operation \<Rightarrow> async_db \<Rightarrow> int" where
  "intervention_limit op db =
     coalesce (orElse (map_option pr_max_retries (findByOperationType db (o_operation_type op)))
              (orElse (map_option pr_max_retries (findDefault db)) (o_max_retries op))) 5"

definition maybeMarkManualIntervention ::
  "(nat \<Rightarrow> string) \<Rightarrow> time \<Rightarrow> operation \<Rightarrow> classification \<Rightarrow> async_db
     \<Rightarrow> async_db \<times> (flag \<times> int) option result" where
  "maybeMarkManualIntervention fresh now op c db =
     (let maxRetries = intervention_limit op db;
          required = (cl_category c = ''requires_intervention'')
      in if \<not> (maxRetries \<le> o_attempt_count op \<or> required) then (db, Inr None)
         else
           (case setManualInterventionRequired now db (o_id op) True (o_tenant_id op) of
              Inl e \<Rightarrow> (db, Inl e)
            | Inr db1 \<Rightarrow>
                (case ManualInterventionFlag now (fresh 1) (o_id op) (o_tenant_id op) (o_actor_id op)
                        (if required then ''failure_category_requires_intervention'' else ''max_retries_exhausted'')
                        (o_attempt_count op) (Some (coalesce (cl_errorCode c) ''UNKNOWN'')) (Some (cl_description c)) of
                   Inl e \<Rightarrow> (db1, Inl e)
                 | Inr fl \<Rightarrow>
                     (case createManualInterventionFlag db1 fl of
                        Inl e \<Rightarrow> if err_code e \<noteq> Some ''UNIQUE_VIOLATION'' then (db1, Inl e)
                                  else (db1, Inr (Some (fl, maxRetries)))
                      | Inr db2 \<Rightarrow> (db2, Inr (Some (fl, maxRetries)))))))"

record transition_response =
  tm_operationId :: string
  tm_previousStatus :: string
  tm_newStatus :: string
  tm_failureCategory :: "string option"
  tm_manualInterventionRequired :: bool

text \<open>The events of a transition; the first that fails ends the sequence and is only logged.\<close>

definition publish_transition ::
  "producer \<Rightarrow> (nat \<Rightarrow> string) \<Rightarrow> time \<Rightarrow> operation \<Rightarrow> string \<Rightarrow> classification option \<Rightarrow> (flag \<times> int) option
     \<Rightarrow> async_db \<Rightarrow> async_db" where
  "publish_transition producer fresh now op previous c mi db =
     (case publishEvent producer (buildStateChangedEvent (fresh 2) op previous) db of
        (db1, Inl _) \<Rightarrow> db1
      | (db1, Inr _) \<Rightarrow>
          (case (case c of None \<Rightarrow> (db1, Inr ())
                 | Some cl \<Rightarrow> publishEvent producer
                     (buildFailureClassifiedEvent (fresh 3) now op cl
                        (case mi of Some (_, m) \<Rightarrow> m | None \<Rightarrow> coalesce (o_max_retries op) 5)) db1) of
             (db2, Inl _) \<Rightarrow> db2
           | (db2, Inr _) \<Rightarrow>
               (case mi of None \<Rightarrow> db2
                | Some (fl, _) \<Rightarrow>
                    fst (publishEvent producer (buildManualInterventionRequiredEvent (fresh 4) now op fl) db2))))"

definition transition_settle ::
  "producer \<Rightarrow> (nat \<Rightarrow> string) \<Rightarrow> time \<Rightarrow> operation \<Rightarrow> transition \<Rightarrow> error_summary option \<Rightarrow> async_db
     \<Rightarrow> async_db \<times> transition_response result" where
  "transition_settle producer fresh now op t es db =
     (let answer = (\<lambda>c mi. \<lparr>tm_operationId = o_id op, tm_previousStatus = tr_previous_status t,
                            tm_newStatus = o_status op,
                            tm_failureCategory = orElse (map_option cl_category c) (o_failure_category op),
                            tm_manualInterventionRequired =
                              (if mi = None then o_manual_intervention_required op else True)\<rparr>)
      in if o_status op \<noteq> ''failed''
         then (publish_transition producer fresh now op (tr_previous_status t) None None db, Inr (answer None None))
         else
           (case classifyFailureForOperation now op es db of
              (db1, Inl e) \<Rightarrow> (db1, Inl e)
            | (db1, Inr c) \<Rightarrow>
                (case maybeMarkManualIntervention fresh now op c db1 of
                   (db2, Inl e) \<Rightarrow> (db2, Inl e)
                 | (db2, Inr mi) \<Rightarrow>
                     (publish_transition producer fresh now op (tr_previous_status t) (Some c) mi db2,
                      Inr (answer (Some c) mi)))))"

definition transition_main ::
  "producer \<Rightarrow> (nat \<Rightarrow> string) \<Rightarrow> time \<Rightarrow> caller \<Rightarrow> string option \<Rightarrow> string option \<Rightarrow> string option
     \<Rightarrow> error_summary option \<Rightarrow> async_db \<Rightarrow> async_db \<times> transition_response result" where
  "transition_main producer fresh now cc operation_id tenant_id new_status error_summary db =
     (case bindE (throwIf (\<not> truthyS (cc_actor_id cc)) (validation_error ''callerContext.actor.id is required'')) (\<lambda>_.
           bindE (resolveTenantScope cc tenant_id) (\<lambda>tid.
           bindE (sanitizeErrorSummary error_summary) (\<lambda>es. Inr (tid, es)))) of
        Inl e \<Rightarrow> (db, Inl e)
      | Inr (tid, es) \<Rightarrow>
          (let codes = [(''NOT_FOUND'', 404), (''INVALID_TRANSITION'', 409), (''VALIDATION_ERROR'', 400),
                        (''TENANT_ISOLATION_VIOLATION'', 403)]
           in case transitionOperation now (fresh 0) db operation_id (Some tid) (cc_actor_id cc)
                     \<lparr>ti_new_status = new_status, ti_error_summary = es,
                      ti_cancellation_reason = None, ti_cancelled_by = None\<rparr> of
                Inl e \<Rightarrow> (db, Inl (ERROR_STATUS codes e))
              | Inr (db1, op, t) \<Rightarrow>
                  (case transition_settle producer fresh now op t es db1 of
                     (db2, Inl e) \<Rightarrow> (db2, Inl (ERROR_STATUS codes e))
                   | (db2, Inr r) \<Rightarrow> (db2, Inr r))))"

section \<open>Cancel\<close>

record cancel_caller =
  xc_actor :: "string option"
  xc_actorId :: "string option"
  xc_roles :: "string list"
  xc_actorType :: "string option"
  xc_tenantId :: "string option"

record cancel_response =
  xr_statusCode :: int
  xr_error :: "string option"
  xr_operationId :: "string option"
  xr_previousStatus :: "string option"
  xr_newStatus :: "string option"

definition cancel_mapError :: "js_error \<Rightarrow> cancel_response" where
  "cancel_mapError e =
     (let code = err_code e;
          st = (if code = Some ''NOT_FOUND'' then 404
                else if code = Some ''INVALID_TRANSITION'' \<or> code = Some ''NOT_CANCELLABLE'' then 409
                else if code = Some ''TENANT_ISOLATION_VIOLATION'' then 403
                else if code = Some ''VALIDATION_ERROR'' then 400 else 500)
      in \<lparr>xr_statusCode = st, xr_error = Some (coalesce code ''INTERNAL_ERROR''),
          xr_operationId = None, xr_previousStatus = None, xr_newStatus = None\<rparr>)"

definition cancel_lookup ::
  "cancel_caller \<Rightarrow> string option \<Rightarrow> string option \<Rightarrow> async_db \<Rightarrow> (operation \<times> string) result" where
  "cancel_lookup cc ptenant operation_id db =
     (let actorId = orElse (xc_actor cc) (xc_actorId cc);
          isSuperadmin = (''superadmin'' \<in> set (xc_roles cc) \<or> xc_actorType cc = Some ''superadmin'');
          tenant_id = (if isSuperadmin then orElse ptenant (xc_tenantId cc) else xc_tenantId cc)
      in bindE (throwIf (\<not> truthyS operation_id \<or> \<not> truthyS tenant_id \<or> \<not> truthyS actorId)
                  (validation_error ''db, operation_id, tenant_id and callerContext.actor are required'')) (\<lambda>_.
         bindE (if isSuperadmin then Inr (findByIdAnyTenant db operation_id)
                else findById db operation_id tenant_id) (\<lambda>found.
         case found of
           None \<Rightarrow> Inl (not_found ''Operation not found'')
         | Some op \<Rightarrow>
             bindE (throwIf (\<not> isSuperadmin \<and> Some (o_tenant_id op) \<noteq> tenant_id)
                      (JsError (Some ''TENANT_ISOLATION_VIOLATION'') None ''Cross-tenant cancellation is forbidden'')) (\<lambda>_.
             bindE (throwIf (\<not> isCancellable (o_status op))
                      (JsError (Some ''NOT_CANCELLABLE'') None
                         (''Operation in status '' @ o_status op @ '' cannot be cancelled''))) (\<lambda>_.
             Inr (op, the actorId))))))"

definition cancel_main ::
  "producer \<Rightarrow> (nat \<Rightarrow> string) \<Rightarrow> time \<Rightarrow> cancel_caller \<Rightarrow> string option \<Rightarrow> string option \<Rightarrow> string option
     \<Rightarrow> async_db \<Rightarrow> async_db \<times> cancel_response" where
  "cancel_main producer fresh now cc ptenant operation_id cancellation_reason db =
     (case cancel_lookup cc ptenant operation_id db of
        Inl e \<Rightarrow> (db, cancel_mapError e)
      | Inr (op, actorId) \<Rightarrow>
          (case transitionOperation now (fresh 0) db (Some (o_id op)) (Some (o_tenant_id op)) (Some actorId)
                  \<lparr>ti_new_status = Some (if o_status op = ''pending'' then ''cancelled'' else ''cancelling''),
                   ti_error_summary = None,
                   ti_cancellation_reason = Some (coalesce cancellation_reason ''cancellation requested''),
                   ti_cancelled_by = Some actorId\<rparr> of
             Inl e \<Rightarrow> (db, cancel_mapError e)
           | Inr (db1, u, t) \<Rightarrow>
               (case publishEvent producer (buildCancelledEvent (fresh 1) u (o_status op) actorId) db1 of
                  (db2, Inl e) \<Rightarrow> (db2, cancel_mapError e)
                | (db2, Inr _) \<Rightarrow>
                    (db2, \<lparr>xr_statusCode = 200, xr_error = None, xr_operationId = Some (o_id u),
                           xr_previousStatus = Some (o_status op), xr_newStatus = Some (o_status u)\<rparr>))))"

section \<open>Retry\<close>

definition retry_requireCallerIdentity :: "caller \<Rightarrow> unit result" where
  "retry_requireCallerIdentity cc =
     bindE (throwIf (\<not> truthyS (cc_actor_id cc)) (validation_error ''callerContext.actor.id is required'')) (\<lambda>_.
     bindE (throwIf (\<not> truthyS (cc_actor_type cc)) (validation_error ''callerContext.actor.type is required'')) (\<lambda>_.
     throwIf (cc_actor_type cc \<noteq> Some ''superadmin'' \<and> \<not> truthyS (cc_tenantId cc))
       (validation_error ''callerContext.tenantId is required'')))"

definition resolveDefaultMaxRetries :: "async_env \<Rightarrow> int" where
  "resolveDefaultMaxRetries env = positive_or 5 (OPERATION_DEFAULT_MAX_RETRIES env)"

definition resolveMaxRetries :: "async_env \<Rightarrow> operation \<Rightarrow> int" where
  "resolveMaxRetries env op =
     (let value = coalesce (o_max_retries op) (resolveDefaultMaxRetries env)
      in if 0 < value then value else resolveDefaultMaxRetries env)"

definition isTenantActiveByDefault :: "caller \<Rightarrow> bool" where
  "isTenantActiveByDefault cc \<longleftrightarrow>
     \<not> (cc_tenant_status cc = Some ''deactivated'' \<or> cc_tenant_active cc = Some False)"

definition loadOperation ::
  "caller \<Rightarrow> string option \<Rightarrow> string option \<Rightarrow> async_db \<Rightarrow> operation option result" where
  "loadOperation cc operation_id tenant_id db =
     (if cc_actor_type cc = Some ''superadmin'' \<and> truthyS tenant_id
      then findByIdWithTenant db operation_id tenant_id
      else Inr (findByIdAnyTenant db operation_id))"

definition assertTenantAccess :: "caller \<Rightarrow> operation option \<Rightarrow> string option \<Rightarrow> operation result" where
  "assertTenantAccess cc found tenant_id =
     (case found of
        None \<Rightarrow> Inl (not_found ''Operation not found'')
      | Some op \<Rightarrow>
          if cc_actor_type cc = Some ''superadmin'' then Inr op
          else bindE (throwIf (truthyS tenant_id \<and> tenant_id \<noteq> cc_tenantId cc)
                        (JsError (Some ''TENANT_ISOLATION_VIOLATION'') None ''tenant_id must come from callerContext'')) (\<lambda>_.
               bindE (throwIf (Some (o_tenant_id op) \<noteq> cc_tenantId cc)
                        (JsError (Some ''FORBIDDEN'') None ''Operation belongs to a different tenant'')) (\<lambda>_.
               Inr op)))"

datatype retry_response = RetryNeedsIntervention "string option" | RetryAccepted attempt

definition invalid_state :: js_error where
  "invalid_state = JsError (Some ''INVALID_OPERATION_STATE'') None
     (''Only operations in '' @ [CHR 39] @ ''failed'' @ [CHR 39] @ '' state can be retried'')"

text \<open>The transaction of a retry, run after the tables may have changed under it.\<close>

definition retry_transaction ::
  "(nat \<Rightarrow> string) \<Rightarrow> time \<Rightarrow> string \<Rightarrow> operation \<Rightarrow> attempt \<Rightarrow> async_db \<Rightarrow> (async_db \<times> operation) result" where
  "retry_transaction fresh now actorId op a db =
     bindE (createAttempt db a) (\<lambda>db1.
     bindE (atomicResetToRetry now db1 (o_id op) (o_tenant_id op) (at_correlation_id a)) (\<lambda>(db2, updated).
     case updated of
       None \<Rightarrow> Inl invalid_state
     | Some u \<Rightarrow>
         Inr (insertAsyncOperationTransition db2
                \<lparr>tr_id = fresh 1, tr_operation_id = o_id op, tr_tenant_id = o_tenant_id op,
                 tr_actor_id = actorId, tr_previous_status = o_status op, tr_new_status = o_status u,
                 tr_transitioned_at = o_updated_at u,
                 tr_metadata = JObj [(''retry_attempt_id'', JStr (at_attempt_id a)),
                   (''retry_attempt_number'', opt_int (at_attempt_number a)),
                   (''previous_correlation_id'', JStr (o_correlation_id op)),
                   (''new_correlation_id'', JStr (at_correlation_id a))]\<rparr>, u)))"

definition retry_main ::
  "producer \<Rightarrow> async_env \<Rightarrow> (nat \<Rightarrow> string) \<Rightarrow> time \<Rightarrow> (async_db \<Rightarrow> async_db) \<Rightarrow> caller \<Rightarrow> string option
     \<Rightarrow> string option \<Rightarrow> async_db \<Rightarrow> async_db \<times> retry_response result" where
  "retry_main producer env fresh now interleave cc operation_id tenant_id db =
     (let codes = [(''VALIDATION_ERROR'', 400), (''NOT_FOUND'', 404), (''FORBIDDEN'', 403),
                   (''TENANT_ISOLATION_VIOLATION'', 403), (''INVALID_OPERATION_STATE'', 409),
                   (''MAX_RETRIES_EXCEEDED'', 422), (''TENANT_DEACTIVATED'', 400),
                   (''MANUAL_INTERVENTION_REQUIRED'', 422)];
          actorId = coalesce (cc_actor_id cc) []
      in case retry_requireCallerIdentity cc of
           Inl e \<Rightarrow> (db, Inl e)
         | Inr _ \<Rightarrow>
             (case bindE (loadOperation cc operation_id tenant_id db) (\<lambda>found.
                   bindE (assertTenantAccess cc found tenant_id) (\<lambda>op.
                   bindE (throwIf (\<not> isTenantActiveByDefault cc)
                            (JsError (Some ''TENANT_DEACTIVATED'') None ''Tenant is deactivated'')) (\<lambda>_. Inr op))) of
                Inl e \<Rightarrow> (db, Inl (ERROR_STATUS codes e))
              | Inr op \<Rightarrow>
                  if o_manual_intervention_required op
                  then (db, Inr (RetryNeedsIntervention
                                   (map_option f_flagId (findFlagByOperationId db (Some (o_id op))))))
                  else if o_status op \<noteq> ''failed'' then (db, Inl (ERROR_STATUS codes invalid_state))
                  else if resolveMaxRetries env op \<le> o_attempt_count op
                  then (db, Inl (ERROR_STATUS codes (JsError (Some ''MAX_RETRIES_EXCEEDED'') None
                              ''Maximum retry attempts reached for this operation type'')))
                  else
                    (case createRetryAttempt now (fresh 0)
                            \<lparr>ai_operation_id = Some (o_id op), ai_tenant_id = Some (o_tenant_id op),
                             ai_actor_id = cc_actor_id cc, ai_actor_type = cc_actor_type cc,
                             ai_attempt_number = jsInt (o_attempt_count op + 1), ai_status = None\<rparr> of
                       Inl e \<Rightarrow> (db, Inl (ERROR_STATUS codes e))
                     | Inr a \<Rightarrow>
                         (let db0 = interleave db in
                          case retry_transaction fresh now actorId op a db0 of
                            Inl e \<Rightarrow> (db0, Inl (ERROR_STATUS codes e))
                          | Inr (db1, u) \<Rightarrow>
                              (fst (publishEvent producer
                                 (buildRetryEvent (fresh 2) u a actorId (coalesce (cc_actor_type cc) [])
                                    (o_correlation_id op)) db1),
                               Inr (RetryAccepted a))))))"

section \<open>Retry override\<close>

datatype override_response = OverrideRefused int string | OverrideAccepted override attempt

definition override_transaction ::
  "time \<Rightarrow> string \<Rightarrow> operation \<Rightarrow> flag \<Rightarrow> attempt \<Rightarrow> async_db \<Rightarrow> async_db result" where
  "override_transaction now actorId op fl a db =
     bindE (createAttempt db a) (\<lambda>db1.
       Inr (resolveFlag now
              (updateOps db1 (is_op (Some (o_id op)) (Some (o_tenant_id op)))
                 (\<lambda>r. r\<lparr>o_status := ''pending'', o_attempt_count := o_attempt_count r + 1,
                        o_manual_intervention_required := False,
                        o_correlation_id := at_correlation_id a, o_updated_at := now\<rparr>))
              (f_flagId fl) actorId ''override''))"

definition override_main ::
  "producer \<Rightarrow> (nat \<Rightarrow> string) \<Rightarrow> time \<Rightarrow> caller \<Rightarrow> string option \<Rightarrow> string option \<Rightarrow> string option
     \<Rightarrow> async_db \<Rightarrow> async_db \<times> override_response result" where
  "override_main producer fresh now cc operation_id tenant_id justification db =
     (if cc_actor_type cc \<noteq> Some ''superadmin'' then (db, Inr (OverrideRefused 403 ''FORBIDDEN''))
      else
        (case findByIdWithTenant db operation_id tenant_id of
           Inl e \<Rightarrow> (db, Inl e)
         | Inr None \<Rightarrow> (db, Inr (OverrideRefused 404 ''NOT_APPLICABLE''))
         | Inr (Some op) \<Rightarrow>
             if \<not> o_manual_intervention_required op then (db, Inr (OverrideRefused 404 ''NOT_APPLICABLE''))
             else
               (case findFlagByOperationId db operation_id of
                  None \<Rightarrow> (db, Inr (OverrideRefused 409 ''FLAG_ALREADY_RESOLVED''))
                | Some fl \<Rightarrow>
                    if f_status fl = ''resolved'' then (db, Inr (OverrideRefused 409 ''FLAG_ALREADY_RESOLVED''))
                    else
                      (case RetryOverride now (fresh 0) (o_id op) (f_flagId fl) (o_tenant_id op)
                              (cc_actor_id cc) justification (o_attempt_count op + 1) of
                         Inl e \<Rightarrow> (db, Inl e)
                       | Inr ov \<Rightarrow>
                           (case createIfNotInProgress db ov of
                              (_, Some _) \<Rightarrow> (db, Inr (OverrideRefused 409 ''OVERRIDE_IN_PROGRESS''))
                            | (db1, None) \<Rightarrow>
                                (case createRetryAttempt now (fresh 1)
                                        \<lparr>ai_operation_id = Some (o_id op), ai_tenant_id = Some (o_tenant_id op),
                                         ai_actor_id = cc_actor_id cc, ai_actor_type = cc_actor_type cc,
                                         ai_attempt_number = jsInt (ov_attemptNumber ov), ai_status = None\<rparr> of
                                   Inl e \<Rightarrow> (db1, Inl e)
                                 | Inr a \<Rightarrow>
                                     (case override_transaction now (coalesce (cc_actor_id cc) []) op fl a db1 of
                                        Inl e \<Rightarrow> (db1, Inl e)
                                      | Inr db2 \<Rightarrow>
                                          (case publishEvent producer
                                                  (buildRetryOverrideEvent (fresh 2) now op ov (at_correlation_id a)) db2 of
                                             (db3, Inl e) \<Rightarrow> (db3, Inl e)
                                           | (db3, Inr _) \<Rightarrow> (db3, Inr (OverrideAccepted ov a))))))))))"

section \<open>Sweeps\<close>

definition emdash :: string where
  "emdash = [CHR 0xE2, CHR 0x80, CHR 0x94]"

definition stale_reason :: string where
  "stale_reason = ''stale '' @ emdash @ '' never started''"

definition orphan_reason :: string where
  "orphan_reason = ''orphaned '' @ emdash @ '' no progress detected''"

definition forced_reason :: string where
  "forced_reason = ''cancellation forced '' @ emdash @ '' timeout''"

type_synonym sweep_error = "string \<times> string"

definition sweep_error :: "operation \<Rightarrow> js_error \<Rightarrow> sweep_error" where
  "sweep_error op e = (o_id op, coalesce (err_code e) ''INTERNAL_ERROR'')"

text \<open>
  One candidate of a sweep: the transition, then its event. The error list gets what either of them
  throws; only a candidate whose event went out counts.
\<close>

definition sweep_one ::
  "producer \<Rightarrow> (nat \<Rightarrow> string) \<Rightarrow> time \<Rightarrow> string \<Rightarrow> (operation \<Rightarrow> string) \<Rightarrow> (operation \<Rightarrow> string option)
     \<Rightarrow> (string \<Rightarrow> operation \<Rightarrow> operation \<Rightarrow> async_event) \<Rightarrow> operation \<Rightarrow> async_db \<Rightarrow> async_db \<times> sweep_error option" where
  "sweep_one producer fresh now new_status reason cancelled_by build cand db =
     (let n = length (transitions db) in
      case atomicTransitionSystem now (fresh (2 * n)) db (o_id cand) (o_tenant_id cand) new_status
             (reason cand) (cancelled_by cand) of
        Inl e \<Rightarrow> (db, Some (sweep_error cand e))
      | Inr (db1, u, t) \<Rightarrow>
          (case publishEvent producer (build (fresh (2 * n + 1)) u cand) db1 of
             (db2, Inl e) \<Rightarrow> (db2, Some (sweep_error cand e))
           | (db2, Inr _) \<Rightarrow> (db2, None)))"

fun sweep_all ::
  "(operation \<Rightarrow> async_db \<Rightarrow> async_db \<times> sweep_error option) \<Rightarrow> operation list \<Rightarrow> async_db
     \<Rightarrow> async_db \<times> int \<times> sweep_error list" where
  "sweep_all step [] db = (db, 0, [])"
| "sweep_all step (c # cs) db =
     (case step c db of
        (db1, None) \<Rightarrow> (case sweep_all step cs db1 of (db2, n, es) \<Rightarrow> (db2, n + 1, es))
      | (db1, Some e) \<Rightarrow> (case sweep_all step cs db1 of (db2, n, es) \<Rightarrow> (db2, n, e # es)))"

definition timeout_sweep ::
  "producer \<Rightarrow> (nat \<Rightarrow> string) \<Rightarrow> time \<Rightarrow> async_db \<Rightarrow> async_db \<times> int \<times> sweep_error list" where
  "timeout_sweep producer fresh now db =
     sweep_all (sweep_one producer fresh now ''timed_out'' (\<lambda>_. ''timeout exceeded'') (\<lambda>_. None)
                  (\<lambda>uuid u c. buildTimedOutEvent uuid u (o_status c)))
       (findTimedOutCandidates now db) db"

definition orphan_step ::
  "producer \<Rightarrow> (nat \<Rightarrow> string) \<Rightarrow> time \<Rightarrow> operation \<Rightarrow> async_db \<Rightarrow> async_db \<times> sweep_error option" where
  "orphan_step producer fresh now =
     (let reason = (\<lambda>c. if o_status c = ''pending'' then stale_reason else orphan_reason)
      in sweep_one producer fresh now ''failed'' reason (\<lambda>_. None)
           (\<lambda>uuid u c. buildRecoveredEvent uuid u (o_status c) (reason c)))"

definition forced_cancel_step ::
  "producer \<Rightarrow> (nat \<Rightarrow> string) \<Rightarrow> time \<Rightarrow> operation \<Rightarrow> async_db \<Rightarrow> async_db \<times> sweep_error option" where
  "forced_cancel_step producer fresh now =
     sweep_one producer fresh now ''cancelled'' (\<lambda>_. forced_reason)
       (\<lambda>c. Some (coalesce (o_cancelled_by c) ''system''))
       (\<lambda>uuid u c. buildCancelledEvent uuid u (o_status c) (coalesce (o_cancelled_by u) ''system''))"

definition orphan_sweep ::
  "producer \<Rightarrow> (nat \<Rightarrow> string) \<Rightarrow> time \<Rightarrow> async_db \<Rightarrow> async_db \<times> int \<times> int \<times> sweep_error list" where
  "orphan_sweep producer fresh now db =
     (case sweep_all (orphan_step producer fresh now) (findOrphanCandidates now db) db of
        (db1, recovered, es1) \<Rightarrow>
          (case sweep_all (forced_cancel_step producer fresh now) (findStaleCancellingCandidates now db) db1 of
             (db2, forced, es2) \<Rightarrow> (db2, recovered, forced, es1 @ es2)))"

section \<open>Intervention notification\<close>

definition resolveDebounceMinutes :: "async_env \<Rightarrow> int" where
  "resolveDebounceMinutes env =
     (case js_parseInt10 (coalesce (INTERVENTION_NOTIFICATION_DEBOUNCE_MINUTES env) ''15'') of
        None \<Rightarrow> 15 | Some n \<Rightarrow> if 0 \<le> n then n else 15)"

datatype notify_response = FlagNotFound | Debounced | Notified int

fun notify_all ::
  "producer \<Rightarrow> (nat \<Rightarrow> string) \<Rightarrow> time \<Rightarrow> flag \<Rightarrow> operation option \<Rightarrow> string option
     \<Rightarrow> (string \<times> string) list \<Rightarrow> async_db \<Rightarrow> async_db \<times> unit result" where
  "notify_all producer fresh now fl op correlationId [] db = (db, Inr ())"
| "notify_all producer fresh now fl op correlationId ((actor, role) # rest) db =
     (case publishEvent producer
             (buildInterventionNotificationEvent (fresh (length rest)) now fl actor role
                (case op of None \<Rightarrow> ''unknown'' | Some r \<Rightarrow> o_operation_type r)
                (coalesce (Option.bind op o_failure_suggested_actions)
                   [''Inspect logs and coordinate supervised recovery.''])
                (case op of Some r \<Rightarrow> o_correlation_id r | None \<Rightarrow> coalesce correlationId ''n/a'')) db of
        (db1, Inl e) \<Rightarrow> (db1, Inl e)
      | (db1, Inr _) \<Rightarrow> notify_all producer fresh now fl op correlationId rest db1)"

definition notify_main ::
  "producer \<Rightarrow> async_env \<Rightarrow> (nat \<Rightarrow> string) \<Rightarrow> time \<Rightarrow> string option \<Rightarrow> string option \<Rightarrow> async_db
     \<Rightarrow> async_db \<times> notify_response result" where
  "notify_main producer env fresh now operationId correlationId db =
     (case findFlagByOperationId db operationId of
        None \<Rightarrow> (db, Inr FlagNotFound)
      | Some fl \<Rightarrow>
          if shouldDebounceNotification now fl (resolveDebounceMinutes env) then (db, Inr Debounced)
          else
            (let op = findByIdAnyTenant db (Some (f_operationId fl));
                 recipients = filter (\<lambda>r. fst r \<noteq> [])
                   [(f_actorId fl, ''tenant_owner''), (''superadmin:'' @ f_tenantId fl, ''superadmin'')]
             in case notify_all producer fresh now fl op correlationId recipients
                       (updateLastNotificationAt db (f_flagId fl) now) of
                  (db1, Inl e) \<Rightarrow> (db1, Inl e)
                | (db1, Inr _) \<Rightarrow> (db1, Inr (Notified (int (length recipients))))))"

end
