(* ===== verification/Async_Props.thy ===== *)
theory Async_Props
  imports Async_Actions
begin

text \<open>
  Invariants of the asynchronous operations: the status machine, the uniqueness of operations,
  idempotency keys, attempts and flags, and a log of transitions that only has allowed ones, kept
  by every action in every order (\<open>async_step\<close>).
\<close>

section \<open>The status machine\<close>

definition op_allowed :: "string \<Rightarrow> string \<Rightarrow> bool" where
  "op_allowed s t \<longleftrightarrow> validateTransition s t = Inr ()"

lemma op_allowed_iff: "op_allowed s t \<longleftrightarrow> t \<in> set (allowed_targets s)"
  by (simp add: op_allowed_def validateTransition_def Let_def)

lemma allowed_targets_cases:
  "t \<in> set (allowed_targets s) \<Longrightarrow>
   (s, t) \<in> {(''pending'', ''running''), (''pending'', ''cancelled''), (''running'', ''completed''),
             (''running'', ''failed''), (''running'', ''timed_out''), (''running'', ''cancelling''),
             (''cancelling'', ''cancelled''), (''cancelling'', ''failed'')}"
  by (auto simp: allowed_targets_def OP_TRANSITIONS_def split: if_splits)

definition op_rank :: "string \<Rightarrow> nat" where
  "op_rank s = (if s = ''pending'' then 3 else if s = ''running'' then 2 else if s = ''cancelling'' then 1 else 0)"

interpretation op_life: ranked_lifecycle op_allowed isTerminal op_rank
proof
  show "isTerminal s \<Longrightarrow> \<not> op_allowed s t" for s t
    by (auto simp: op_allowed_iff isTerminal_def TERMINAL_STATES_def allowed_targets_def OP_TRANSITIONS_def)
  show "op_allowed s t \<Longrightarrow> op_rank t < op_rank s" for s t
    by (auto simp: op_allowed_iff op_rank_def dest!: allowed_targets_cases)
qed

section \<open>Rows by identifier\<close>

interpretation op_row: row_update o_id status_write
  by unfold_locales (simp add: status_write_def)

lemma applyOpTransition_Inr:
  assumes "applyOpTransition now op input = Inr u"
  shows "op_allowed (o_status op) (o_status u) \<and> ti_new_status input = Some (o_status u)
    \<and> o_id u = o_id op \<and> o_tenant_id u = o_tenant_id op \<and> o_updated_at u = now
    \<and> o_manual_intervention_required u = o_manual_intervention_required op
    \<and> o_attempt_count u = o_attempt_count op"
proof -
  have v: "validateTransition s t = Inr x \<longleftrightarrow> op_allowed s t" for s t x
    by (cases x) (simp add: op_allowed_def)
  show ?thesis
    using assms
    by (auto simp: applyOpTransition_def Let_def bindE_eq_Inr v truthyS_iff)
qed

lemma transitionOperation_cases:
  assumes "transitionOperation now uuid db oid tid actor input = Inr (db', u, t)"
  obtains existing v where
    "find (is_op oid tid) (ops db) = Some existing"
    "applyOpTransition now existing input = Inr v"
    "ops db' = updWhere (is_op oid tid) (status_write v) (ops db)"
    "u = status_write v existing"
    "transitions db' = transitions db @ [t]"
    "tr_previous_status t = o_status existing" "tr_new_status t = o_status v"
    "tr_operation_id t = o_id existing"
    "keys db' = keys db" "attempts db' = attempts db" "flags db' = flags db"
    "overrides db' = overrides db" "policies db' = policies db" "profiles db' = profiles db"
    "mappings db' = mappings db" "mappingCache db' = mappingCache db"
  using assms
  by (auto simp: transitionOperation_def Let_def bindE_eq_Inr insertAsyncOperationTransition_def
      updateOps_def split: option.splits)

lemma atomicTransitionSystem_cases:
  assumes "atomicTransitionSystem now uuid db oid tid new_status reason by' = Inr (db', u, t)"
  obtains existing input v w where
    "find (is_op (Some oid) (Some tid)) (ops db) = Some existing"
    "applyOpTransition now existing input = Inr v" "ti_new_status input = Some new_status"
    "o_status w = o_status v" "o_updated_at w = now"
    "ops db' = updWhere (is_op (Some oid) (Some tid)) (status_write w) (ops db)"
    "u = status_write w existing"
    "transitions db' = transitions db @ [t]"
    "tr_previous_status t = o_status existing" "tr_new_status t = o_status v"
    "tr_operation_id t = oid"
    "keys db' = keys db" "attempts db' = attempts db" "flags db' = flags db"
    "overrides db' = overrides db" "policies db' = policies db" "profiles db' = profiles db"
    "mappings db' = mappings db" "mappingCache db' = mappingCache db"
proof -
  from assms obtain existing where e: "find (is_op (Some oid) (Some tid)) (ops db) = Some existing"
    by (auto simp: atomicTransitionSystem_def bindE_eq_Inr split: option.splits)
  define input where "input = \<lparr>ti_new_status = Some new_status,
                    ti_error_summary = (if new_status = ''failed''
                      then Some \<lparr>es_code = ''ASYNC_OPERATION_RECOVERED'', es_message = reason,
                                 es_failedStep = Some ''system-recovery''\<rparr> else None),
                    ti_cancellation_reason = (if new_status = ''cancelling'' \<or> new_status = ''timed_out''
                      then Some reason else None),
                    ti_cancelled_by = (if truthyS by' then by' else None)\<rparr>"
  from assms e obtain v where v: "applyOpTransition now existing input = Inr v"
    unfolding input_def by (auto simp: atomicTransitionSystem_def bindE_eq_Inr)
  let ?w = "v\<lparr>o_cancellation_reason := orElse (o_cancellation_reason v) (o_cancellation_reason existing),
              o_cancelled_by := orElse (o_cancelled_by v) (o_cancelled_by existing)\<rparr>"
  show thesis
    using that [of existing input v ?w] assms e v applyOpTransition_Inr [OF v]
    by (auto simp: atomicTransitionSystem_def input_def bindE_eq_Inr Let_def
        insertAsyncOperationTransition_def updateOps_def)
qed

section \<open>The invariant of the tables\<close>

definition key_slot :: "key_record \<Rightarrow> string \<times> string" where
  "key_slot k = (k_tenant_id k, k_idempotency_key k)"

definition attempt_slot :: "attempt \<Rightarrow> string \<times> int" where
  "attempt_slot a = (at_operation_id a, at_attempt_number a)"

definition log_ok :: "transition \<Rightarrow> bool" where
  "log_ok t \<longleftrightarrow> op_allowed (tr_previous_status t) (tr_new_status t)
     \<or> (tr_previous_status t = ''failed'' \<and> tr_new_status t = ''pending'')"

definition wf_async :: "async_db \<Rightarrow> bool" where
  "wf_async db \<longleftrightarrow>
     distinct (map o_id (ops db)) \<and> distinct (map key_slot (keys db))
     \<and> distinct (map attempt_slot (attempts db)) \<and> distinct (map f_operationId (flags db))
     \<and> (\<forall>t \<in> set (transitions db). log_ok t) \<and> (\<forall>r \<in> set (ops db). o_status r \<in> set ALL_STATUSES)"

lemma wf_cong:
  "ops d = ops db \<Longrightarrow> keys d = keys db \<Longrightarrow> attempts d = attempts db \<Longrightarrow> flags d = flags db \<Longrightarrow>
   transitions d = transitions db \<Longrightarrow> wf_async d = wf_async db"
  by (simp add: wf_async_def)

lemma wf_publish [simp]: "wf_async (fst (publishEvent p e db)) = wf_async db"
  by (rule wf_cong) simp_all

lemma wf_mappingCache [simp]: "wf_async (db\<lparr>mappingCache := c\<rparr>) = wf_async db"
  by (rule wf_cong) simp_all

lemma wf_overrides [simp]: "wf_async (db\<lparr>overrides := c\<rparr>) = wf_async db"
  by (rule wf_cong) simp_all

lemma allowed_status: "op_allowed s t \<Longrightarrow> t \<in> set ALL_STATUSES"
  unfolding op_allowed_iff ALL_STATUSES_def by (drule allowed_targets_cases) auto

lemma wf_updateOps:
  assumes "wf_async db" and "\<And>r. o_id (f r) = o_id r"
    and "\<And>r. o_status (f r) = o_status r \<or> o_status (f r) \<in> set ALL_STATUSES"
  shows "wf_async (updateOps db p f)"
proof -
  have "\<forall>r \<in> set (updWhere p f (ops db)). o_status r \<in> set ALL_STATUSES"
    using assms(1,3) unfolding ball_updWhere wf_async_def by (metis (full_types))
  then show ?thesis
    using assms(1,2) by (simp add: wf_async_def updateOps_def map_updWhere_same)
qed

lemma wf_log: "wf_async db \<Longrightarrow> log_ok t \<Longrightarrow> wf_async (insertAsyncOperationTransition db t)"
  by (simp add: wf_async_def insertAsyncOperationTransition_def)

lemma wf_transitionOperation:
  assumes "transitionOperation now uuid db oid tid actor input = Inr (db', u, t)" and "wf_async db"
  shows "wf_async db'"
  using assms(1)
proof (cases rule: transitionOperation_cases)
  case (1 existing v)
  have "op_allowed (o_status existing) (o_status v)"
    using applyOpTransition_Inr [OF 1(2)] by simp
  then have "log_ok t" and "o_status v \<in> set ALL_STATUSES"
    using 1 by (auto simp: log_ok_def allowed_status)
  then have "wf_async (insertAsyncOperationTransition (updateOps db (is_op oid tid) (status_write v)) t)"
    using assms(2) by (intro wf_log wf_updateOps) (simp_all add: status_write_def)
  then show ?thesis
    by (subst wf_cong) (simp_all add: 1 insertAsyncOperationTransition_def updateOps_def)
qed

lemma wf_atomicTransitionSystem:
  assumes "atomicTransitionSystem now uuid db oid tid st reason by' = Inr (db', u, t)" and "wf_async db"
  shows "wf_async db'"
  using assms(1)
proof (cases rule: atomicTransitionSystem_cases)
  case (1 existing input v w)
  have "op_allowed (o_status existing) (o_status v)"
    using applyOpTransition_Inr [OF 1(2)] by simp
  then have "log_ok t" and "o_status w \<in> set ALL_STATUSES"
    using 1 by (auto simp: log_ok_def allowed_status)
  then have "wf_async (insertAsyncOperationTransition
      (updateOps db (is_op (Some oid) (Some tid)) (status_write w)) t)"
    using assms(2) by (intro wf_log wf_updateOps) (simp_all add: status_write_def)
  then show ?thesis
    by (subst wf_cong) (simp_all add: 1 insertAsyncOperationTransition_def updateOps_def)
qed

lemma wf_persist: "persistOperation db op = Inr (db', stored) \<Longrightarrow> wf_async db \<Longrightarrow> wf_async db'"
  by (auto simp: persistOperation_def bindE_eq_Inr wf_async_def)

lemma same_key_slot: "same_key t k x \<longleftrightarrow> key_slot x = (t, k)"
  by (simp add: same_key_def key_slot_def)

lemma map_updWhere_const:
  "(\<And>x. p x \<Longrightarrow> g x = g c) \<Longrightarrow> map g (updWhere p (\<lambda>_. c) xs) = map g xs"
  by (simp add: updWhere_def)

lemma wf_insertOrFind:
  assumes "insertOrFind now db rec = Inr (db', found, created)" and "wf_async db"
  shows "wf_async db'"
proof -
  let ?same = "same_key (k_tenant_id rec) (k_idempotency_key rec)"
  have rec: "key_slot rec = (k_tenant_id rec, k_idempotency_key rec)"
    by (simp add: key_slot_def)
  consider "db' = db" | "db' = db\<lparr>keys := keys db @ [rec]\<rparr>" "find ?same (keys db) = None"
    | "db' = db\<lparr>keys := updWhere ?same (\<lambda>_. rec) (keys db)\<rparr>"
    using assms(1)
    by (auto simp: insertOrFind_def bindE_eq_Inr Let_def split: option.splits if_splits)
  then show ?thesis
  proof cases
    case 1
    with assms(2) show ?thesis by simp
  next
    case 2
    then have "key_slot rec \<notin> key_slot ` set (keys db)"
      by (auto simp: find_None_iff same_key_slot rec)
    with 2 assms(2) show ?thesis by (simp add: wf_async_def)
  next
    case 3
    have "map key_slot (updWhere ?same (\<lambda>_. rec) (keys db)) = map key_slot (keys db)"
      by (rule map_updWhere_const) (simp add: same_key_slot rec)
    with 3 assms(2) show ?thesis by (simp add: wf_async_def)
  qed
qed

lemma wf_createAttempt: "createAttempt db a = Inr db' \<Longrightarrow> wf_async db \<Longrightarrow> wf_async db'"
  by (auto simp: createAttempt_def bindE_eq_Inr wf_async_def attempt_slot_def) blast

lemma wf_createFlag: "createManualInterventionFlag db fl = Inr db' \<Longrightarrow> wf_async db \<Longrightarrow> wf_async db'"
  by (auto simp: createManualInterventionFlag_def wf_async_def split: if_splits)

lemma wf_resolveFlag: "wf_async db \<Longrightarrow> wf_async (resolveFlag now db k u m)"
  by (simp add: wf_async_def resolveFlag_def map_updWhere_same)

lemma wf_updateLastNotificationAt: "wf_async db \<Longrightarrow> wf_async (updateLastNotificationAt db k t)"
  by (simp add: wf_async_def updateLastNotificationAt_def map_updWhere_same)

lemma wf_updateFailureClassification:
  "updateFailureClassification now db oid c tid = Inr db' \<Longrightarrow> wf_async db \<Longrightarrow> wf_async db'"
  by (auto simp: updateFailureClassification_def bindE_eq_Inr intro!: wf_updateOps)

lemma wf_setManualInterventionRequired:
  "setManualInterventionRequired now db oid b tid = Inr db' \<Longrightarrow> wf_async db \<Longrightarrow> wf_async db'"
  by (auto simp: setManualInterventionRequired_def bindE_eq_Inr intro!: wf_updateOps)

lemma wf_createIfNotInProgress [simp]: "wf_async (fst (createIfNotInProgress db ov)) = wf_async db"
  by (simp add: createIfNotInProgress_def split: list.splits)

lemma wf_atomicResetToRetry:
  "atomicResetToRetry now db oid tid c = Inr (db', u) \<Longrightarrow> wf_async db \<Longrightarrow> wf_async db'"
  by (auto simp: atomicResetToRetry_def bindE_eq_Inr Let_def ALL_STATUSES_def intro!: wf_updateOps)

lemmas wf_primitives = wf_transitionOperation wf_atomicTransitionSystem wf_persist wf_insertOrFind
  wf_createAttempt wf_createFlag wf_resolveFlag wf_updateLastNotificationAt
  wf_updateFailureClassification wf_setManualInterventionRequired wf_atomicResetToRetry

section \<open>Every action keeps the invariant\<close>

lemma wf_create_replay:
  "wf_async db \<Longrightarrow> wf_async (fst (create_replay p fresh now cc t k h c rec db))"
  by (auto simp: create_replay_def Let_def split: sum.splits)

lemma wf_create_event [simp]: "wf_async (create_event p fresh stored db) = wf_async db"
  by (simp add: create_event_def)

lemma wf_create_plain: "wf_async db \<Longrightarrow> wf_async (fst (create_plain p fresh op db))"
  by (auto simp: create_plain_def split: sum.splits dest: wf_persist)

lemma wf_create_keyed:
  "wf_async db \<Longrightarrow> wf_async (fst (create_keyed p sha env fresh now cc t k h c op db))"
  unfolding create_keyed_def
  by (auto simp: bindE_eq_Inr wf_create_replay split: sum.splits prod.splits
      dest!: wf_persist wf_insertOrFind)

lemma wf_create_main:
  assumes "\<And>d. wf_async d \<Longrightarrow> wf_async (interleave d)" and "wf_async db"
  shows "wf_async (fst (create_main p sha env fresh now interleave params db))"
proof -
  have "wf_async (fst (create_try p sha env fresh now interleave params cc db))" for cc
    using assms unfolding create_try_def Let_def
    by (auto simp: wf_create_plain wf_create_keyed wf_create_replay split: sum.splits option.splits)
  then show ?thesis
    using assms(2) unfolding create_main_def
    by (auto split: option.splits sum.splits prod.splits) (metis fst_conv)+
qed

lemma wf_classify: "wf_async db \<Longrightarrow> wf_async (fst (classifyFailureForOperation now op es db))"
  unfolding classifyFailureForOperation_def loadFailureMappings_def
  by (auto simp: Let_def split: option.splits sum.splits dest: wf_updateFailureClassification)

lemma wf_maybeMark: "wf_async db \<Longrightarrow> wf_async (fst (maybeMarkManualIntervention fresh now op c db))"
  unfolding maybeMarkManualIntervention_def Let_def
  by (auto split: sum.splits dest: wf_setManualInterventionRequired wf_createFlag)

lemma wf_publish_transition [simp]:
  "wf_async (publish_transition p fresh now op prev c mi db) = wf_async db"
  unfolding publish_transition_def
  by (auto split: prod.splits sum.splits option.splits) (metis wf_publish fst_conv)+

lemma wf_transition_settle: "wf_async db \<Longrightarrow> wf_async (fst (transition_settle p fresh now op t es db))"
  unfolding transition_settle_def Let_def
  by (auto split: prod.splits sum.splits) (metis wf_classify wf_maybeMark fst_conv)+

lemma wf_transition_main:
  "wf_async db \<Longrightarrow> wf_async (fst (transition_main p fresh now cc oid tid st es db))"
  unfolding transition_main_def Let_def
  by (auto split: prod.splits sum.splits dest!: wf_transitionOperation)
     (metis wf_transition_settle fst_conv)+

lemma wf_cancel_main:
  "wf_async db \<Longrightarrow> wf_async (fst (cancel_main p fresh now cc tid oid reason db))"
  unfolding cancel_main_def
  by (auto split: prod.splits sum.splits dest!: wf_transitionOperation) (metis wf_publish fst_conv)+

lemma wf_retry_transaction:
  assumes "retry_transaction fresh now actor op a db = Inr (db', u)" and "o_status op = ''failed''" and "wf_async db"
  shows "wf_async db'"
proof -
  from assms(1) obtain db1 db2 t where a: "createAttempt db a = Inr db1"
    and r: "atomicResetToRetry now db1 (o_id op) (o_tenant_id op) (at_correlation_id a) = Inr (db2, Some u)"
    and db': "db' = insertAsyncOperationTransition db2 t"
    and t: "tr_previous_status t = o_status op" "tr_new_status t = o_status u"
    by (auto simp: retry_transaction_def bindE_eq_Inr split: option.splits)
  have "wf_async db2"
    using wf_atomicResetToRetry [OF r wf_createAttempt [OF a assms(3)]] .
  moreover have "o_status u = ''pending''"
    using r by (auto simp: atomicResetToRetry_def bindE_eq_Inr Let_def)
  then have "log_ok t"
    using t assms(2) by (simp add: log_ok_def)
  ultimately show ?thesis
    unfolding db' by (rule wf_log)
qed

lemma wf_retry_main:
  assumes "\<And>d. wf_async d \<Longrightarrow> wf_async (interleave d)" and "wf_async db"
  shows "wf_async (fst (retry_main p env fresh now interleave cc oid tid db))"
  using assms unfolding retry_main_def Let_def
  by (auto split: prod.splits sum.splits dest: wf_retry_transaction)

lemma wf_override_transaction:
  "override_transaction now actor op fl a db = Inr db' \<Longrightarrow> wf_async db \<Longrightarrow> wf_async db'"
  by (auto simp: override_transaction_def bindE_eq_Inr ALL_STATUSES_def
      intro!: wf_resolveFlag wf_updateOps dest: wf_createAttempt)

lemma wf_override_main:
  assumes "wf_async db"
  shows "wf_async (fst (override_main p fresh now cc oid tid just db))"
proof -
  have c: "wf_async d" if "createIfNotInProgress db ov = (d, x)" for d ov x
    using wf_createIfNotInProgress [of db ov] that assms by simp
  have pub: "wf_async d'" if "publishEvent p e d = (d', x)" "wf_async d" for d d' e x
    using wf_publish [of p e d] that by simp
  show ?thesis
    unfolding override_main_def
    using assms
    by (auto split: prod.splits sum.splits option.splits dest: c pub wf_override_transaction)
qed

lemma wf_sweep_one:
  "wf_async db \<Longrightarrow> wf_async (fst (sweep_one p fresh now st reason by' build cand db))"
  unfolding sweep_one_def Let_def
  by (auto split: prod.splits sum.splits dest!: wf_atomicTransitionSystem) (metis wf_publish fst_conv)+

lemma wf_sweep_all:
  assumes "\<And>c d. wf_async d \<Longrightarrow> wf_async (fst (step c d))"
  shows "wf_async db \<Longrightarrow> wf_async (fst (sweep_all step cs db))"
proof (induction cs arbitrary: db)
  case Nil
  then show ?case by simp
next
  case (Cons c cs)
  have "wf_async (fst (step c db))"
    by (rule assms [OF Cons.prems])
  then have "wf_async (fst (sweep_all step cs (fst (step c db))))"
    by (rule Cons.IH)
  then show ?case
    by (auto split: prod.splits option.splits)
qed

lemma wf_timeout_sweep: "wf_async db \<Longrightarrow> wf_async (fst (timeout_sweep p fresh now db))"
  unfolding timeout_sweep_def by (intro wf_sweep_all wf_sweep_one)

lemma wf_orphan_sweep:
  assumes "wf_async db"
  shows "wf_async (fst (orphan_sweep p fresh now db))"
proof -
  have s1: "wf_async (fst (orphan_step p fresh now c d))" if "wf_async d" for c d
    using that by (simp add: orphan_step_def wf_sweep_one)
  have s2: "wf_async (fst (forced_cancel_step p fresh now c d))" if "wf_async d" for c d
    using that by (simp add: forced_cancel_step_def wf_sweep_one)
  let ?r1 = "sweep_all (orphan_step p fresh now) (findOrphanCandidates now db) db"
  have "wf_async (fst ?r1)"
    by (rule wf_sweep_all [OF s1 assms])
  from wf_sweep_all [OF s2 this] have "wf_async (fst (sweep_all (forced_cancel_step p fresh now)
      (findStaleCancellingCandidates now db) (fst ?r1)))" .
  then show ?thesis
    unfolding orphan_sweep_def by (auto split: prod.splits)
qed

lemma wf_notify_all: "wf_async db \<Longrightarrow> wf_async (fst (notify_all p fresh now fl op c rs db))"
proof (induction rs arbitrary: db)
  case Nil
  then show ?case by simp
next
  case (Cons r rs)
  obtain actor role where r: "r = (actor, role)"
    by (cases r)
  have pub: "wf_async d" if "publishEvent p e db = (d, x)" for d e x
    using wf_publish [of p e db] that Cons.prems by simp
  show ?case
    unfolding r notify_all.simps
    by (auto split: prod.splits sum.splits dest: pub intro: Cons.IH)
qed

lemma fst_case_sum_pair: "fst (case x of (d, Inl e) \<Rightarrow> (d, Inl e) | (d, Inr y) \<Rightarrow> (d, Inr z)) = fst x"
  by (simp split: prod.split sum.split)

lemma wf_notify_main:
  assumes "wf_async db"
  shows "wf_async (fst (notify_main p env fresh now oid c db))"
proof (cases "findFlagByOperationId db oid")
  case None
  with assms show ?thesis by (simp add: notify_main_def)
next
  case (Some fl)
  then show ?thesis
    using assms
    by (simp add: notify_main_def Let_def fst_case_sum_pair wf_notify_all wf_updateLastNotificationAt
        del: filter.simps)
qed

end
