(* ===== verification/Async_Runs.thy ===== *)
theory Async_Runs
  imports Async_Props
begin

text \<open>
  Runs of the asynchronous operations: the step relation of all actions, how operations move along
  the status machine and which tenants an action may touch, and the properties of creation with
  idempotency keys, retries, overrides, cancellation and the sweeps.
\<close>

section \<open>Steps\<close>

inductive async_step :: "async_db \<Rightarrow> async_db \<Rightarrow> bool" where
  create: "(\<And>d. wf_async d \<Longrightarrow> wf_async (g d)) \<Longrightarrow>
    async_step db (fst (create_main p sha env fresh now g params db))"
| transition: "async_step db (fst (transition_main p fresh now cc oid tid st es db))"
| cancel: "async_step db (fst (cancel_main p fresh now xc tid oid reason db))"
| retry: "(\<And>d. wf_async d \<Longrightarrow> wf_async (g d)) \<Longrightarrow>
    async_step db (fst (retry_main p env fresh now g cc oid tid db))"
| override: "async_step db (fst (override_main p fresh now cc oid tid just db))"
| timeout: "async_step db (fst (timeout_sweep p fresh now db))"
| orphan: "async_step db (fst (orphan_sweep p fresh now db))"
| notify: "async_step db (fst (notify_main p env fresh now oid corr db))"

lemma async_step_wf: "async_step db db' \<Longrightarrow> wf_async db \<Longrightarrow> wf_async db'"
  by (induction rule: async_step.induct)
     (simp_all add: wf_create_main wf_transition_main wf_cancel_main wf_retry_main wf_override_main
       wf_timeout_sweep wf_orphan_sweep wf_notify_main)

section \<open>Moves of one operation\<close>

text \<open>
  What happens to one row: it keeps its identity and its tenant, its status moves along allowed
  transitions, and it is untouched unless its tenant is among those the action is about.
\<close>

definition moves :: "string set \<Rightarrow> operation \<Rightarrow> operation \<Rightarrow> bool" where
  "moves T r r' \<longleftrightarrow> o_id r' = o_id r \<and> o_tenant_id r' = o_tenant_id r
     \<and> op_allowed\<^sup>*\<^sup>* (o_status r) (o_status r') \<and> (o_tenant_id r \<notin> T \<longrightarrow> r' = r)"

lemma moves_refl [simp]: "moves T r r"
  by (simp add: moves_def)

lemma moves_trans: "moves T r s \<Longrightarrow> moves T s t \<Longrightarrow> moves T r t"
  unfolding moves_def by (metis rtranclp_trans)

lemma moves_mono: "moves S r s \<Longrightarrow> S \<subseteq> T \<Longrightarrow> moves T r s"
  by (auto simp: moves_def)

abbreviation all_move :: "string set \<Rightarrow> async_db \<Rightarrow> async_db \<Rightarrow> bool" where
  "all_move T db db' \<equiv> list_all2 (moves T) (ops db) (ops db')"

lemma all_move_refl [simp]: "list_all2 (moves T) xs xs"
  by (simp add: list_all2_refl)

lemma all_move_trans: "all_move T a b \<Longrightarrow> all_move T b c \<Longrightarrow> all_move T a c"
  by (rule list_all2_trans [of "moves T"]) (auto intro: moves_trans)

lemma all_move_updWhere:
  "(\<And>r. r \<in> set xs \<Longrightarrow> p r \<Longrightarrow> moves T r (f r)) \<Longrightarrow> list_all2 (moves T) xs (updWhere p f xs)"
  by (induction xs) auto

lemma found_unique:
  assumes "wf_async db" and "find (is_op oid tid) (ops db) = Some e" and "r \<in> set (ops db)" and "is_op oid tid r"
  shows "r = e"
proof -
  from find_Some_iff_in [OF assms(2)] have "e \<in> set (ops db)" and "is_op oid tid e"
    by simp_all
  with assms(3,4) have "o_id r = o_id e"
    by (auto simp: is_op_def)
  with assms \<open>e \<in> set (ops db)\<close> show ?thesis
    unfolding wf_async_def by (blast intro: distinct_map_inj)
qed

lemma moves_status_write:
  assumes "op_allowed (o_status r) (o_status u)" and "o_tenant_id r \<in> T"
  shows "moves T r (status_write u r)"
  using assms by (auto simp: moves_def status_write_def)

lemma all_move_transitionOperation:
  assumes "transitionOperation now uuid db oid (Some tid) actor input = Inr (db', u, t)" and "wf_async db"
  shows "all_move {tid} db db'"
  using assms(1)
proof (cases rule: transitionOperation_cases)
  case (1 existing v)
  note a = applyOpTransition_Inr [OF 1(2)]
  have "moves {tid} r (status_write v r)" if "r \<in> set (ops db)" "is_op oid (Some tid) r" for r
    using a found_unique [OF assms(2) 1(1) that] that(2)
    by (intro moves_status_write) (auto simp: is_op_def)
  then show ?thesis
    unfolding 1(3) by (rule all_move_updWhere)
qed

lemma all_move_atomicTransitionSystem:
  assumes "atomicTransitionSystem now uuid db oid tid st reason by' = Inr (db', u, t)" and "wf_async db"
  shows "all_move {tid} db db'"
  using assms(1)
proof (cases rule: atomicTransitionSystem_cases)
  case (1 existing input v w)
  note a = applyOpTransition_Inr [OF 1(2)]
  have "moves {tid} r (status_write w r)" if "r \<in> set (ops db)" "is_op (Some oid) (Some tid) r" for r
    using a 1(4) found_unique [OF assms(2) 1(1) that] that(2)
    by (intro moves_status_write) (auto simp: is_op_def)
  then show ?thesis
    unfolding 1(6) by (rule all_move_updWhere)
qed

lemma all_move_updateOps:
  assumes "\<And>r. o_id (f r) = o_id r \<and> o_tenant_id (f r) = o_tenant_id r \<and> o_status (f r) = o_status r"
  shows "all_move {tid} db (updateOps db (is_op oid (Some tid)) f)"
  unfolding updateOps_def using assms
  by (auto intro!: all_move_updWhere simp: moves_def is_op_def)

lemma all_move_classify:
  "all_move {o_tenant_id op} db (fst (classifyFailureForOperation now op es db))"
proof -
  have c: "ops (fst (loadFailureMappings db)) = ops db"
    by (simp add: loadFailureMappings_def Let_def split: option.splits)
  have u: "all_move {o_tenant_id op} d d'"
    if "updateFailureClassification now d (o_id op) cl (o_tenant_id op) = Inr d'" for d d' cl
    using that by (auto simp: updateFailureClassification_def bindE_eq_Inr intro!: all_move_updateOps)
  show ?thesis
    unfolding classifyFailureForOperation_def
    using c by (auto split: prod.splits sum.splits dest: u)
qed

lemma all_move_maybeMark:
  "all_move {o_tenant_id op} db (fst (maybeMarkManualIntervention fresh now op c db))"
proof -
  have s: "all_move {o_tenant_id op} db d'"
    if "setManualInterventionRequired now db (o_id op) True (o_tenant_id op) = Inr d'" for d'
    using that by (auto simp: setManualInterventionRequired_def bindE_eq_Inr intro!: all_move_updateOps)
  have f: "ops d' = ops d" if "createManualInterventionFlag d fl = Inr d'" for d d' fl
    using that by (auto simp: createManualInterventionFlag_def split: if_splits)
  show ?thesis
    unfolding maybeMarkManualIntervention_def Let_def
    by (auto split: sum.splits dest: s f) (metis f s)+
qed

lemma ops_publish_transition [simp]:
  "ops (publish_transition p fresh now op prev c mi db) = ops db"
  unfolding publish_transition_def
  by (auto split: prod.splits sum.splits option.splits) (metis publishEvent_tables(1) fst_conv)+

lemma all_move_settle:
  "all_move {o_tenant_id op} db (fst (transition_settle p fresh now op t es db))"
proof -
  have c: "all_move {o_tenant_id op} d (fst x)" if "classifyFailureForOperation now op es d = x" for d x
    using all_move_classify that by blast
  have m: "all_move {o_tenant_id op} d (fst x)" if "maybeMarkManualIntervention fresh now op cl d = x" for d cl x
    using all_move_maybeMark that by blast
  show ?thesis
    unfolding transition_settle_def Let_def
    by (auto split: prod.splits sum.splits dest!: c m intro: all_move_trans)
qed

lemma transitioned_tenant:
  assumes "transitionOperation now uuid db oid (Some tid) actor input = Inr (db', u, t)"
  shows "o_tenant_id u = tid"
  using assms
proof (cases rule: transitionOperation_cases)
  case (1 existing v)
  then show ?thesis
    by (auto simp: status_write_def is_op_def dest: find_Some_iff_in)
qed

lemma all_move_transition_main:
  assumes "wf_async db" and "resolveTenantScope cc tenant = Inr tid"
  shows "all_move {tid} db (fst (transition_main p fresh now cc oid tenant st es db))"
proof -
  have step: "all_move {tid} db (fst y)"
    if "transitionOperation now uuid db oid (Some tid) actor input = Inr (d, u, t)"
      "transition_settle p fresh now u t es' d = y" for uuid actor input d u t es' y
    using all_move_transitionOperation [OF that(1) assms(1)]
      all_move_settle [of u d p fresh now t es'] transitioned_tenant [OF that(1)] that(2)
    by (auto intro: all_move_trans)
  show ?thesis
    unfolding transition_main_def Let_def using assms(2)
    by (auto split: prod.splits sum.splits simp: bindE_eq_Inr bindE_eq_Inl dest: step)
qed

lemma all_move_sweep_one:
  "wf_async db \<Longrightarrow> all_move UNIV db (fst (sweep_one p fresh now st reason by' build cand db))"
proof -
  assume wf: "wf_async db"
  have a: "all_move UNIV db d" if "atomicTransitionSystem now uuid db oid tid st' rs b = Inr (d, u, t)"
    for uuid oid tid st' rs b d u t
    using all_move_atomicTransitionSystem [OF that wf] by (rule list_all2_mono) (auto intro: moves_mono)
  have pub: "ops d' = ops d" if "publishEvent p e d = (d', x)" for e d d' x
    using publishEvent_tables(1) [of p e d] that by simp
  show ?thesis
    unfolding sweep_one_def Let_def
    by (auto split: prod.splits sum.splits dest!: a pub)
qed

lemma all_move_sweep_all:
  assumes "\<And>c d. wf_async d \<Longrightarrow> all_move UNIV d (fst (step c d))"
    and "\<And>c d. wf_async d \<Longrightarrow> wf_async (fst (step c d))"
  shows "wf_async db \<Longrightarrow> all_move UNIV db (fst (sweep_all step cs db))"
proof (induction cs arbitrary: db)
  case Nil
  then show ?case by simp
next
  case (Cons c cs)
  have "all_move UNIV db (fst (sweep_all step cs (fst (step c db))))"
    using Cons assms(1,2) [of db c] by (blast intro: all_move_trans)
  then show ?case
    by (auto split: prod.splits option.splits)
qed

lemma cancel_lookup_scope:
  assumes "cancel_lookup cc ptenant oid db = Inr (op, actor)"
    and "''superadmin'' \<notin> set (xc_roles cc)" and "xc_actorType cc \<noteq> Some ''superadmin''"
  shows "xc_tenantId cc = Some (o_tenant_id op) \<and> op \<in> set (ops db) \<and> isCancellable (o_status op)"
  using assms
  by (auto simp: cancel_lookup_def Let_def bindE_eq_Inr findById_def split: option.splits
      dest: find_Some_iff_in)

lemma all_move_cancel:
  assumes "wf_async db" and "''superadmin'' \<notin> set (xc_roles cc)" and "xc_actorType cc \<noteq> Some ''superadmin''"
    and "xc_tenantId cc = Some tid"
  shows "all_move {tid} db (fst (cancel_main p fresh now cc ptenant oid reason db))"
proof (cases "cancel_lookup cc ptenant oid db")
  case (Inl e)
  then show ?thesis by (simp add: cancel_main_def)
next
  case (Inr x)
  obtain op actor where x: "x = (op, actor)"
    by (cases x)
  from cancel_lookup_scope [OF Inr [unfolded x] assms(2,3)] assms(4) have "o_tenant_id op = tid"
    by simp
  moreover have pub: "ops d' = ops d" if "publishEvent p e d = (d', y)" for e d d' y
    using publishEvent_tables(1) [of p e d] that by simp
  ultimately show ?thesis
    unfolding cancel_main_def Inr x
    by (auto split: prod.splits sum.splits dest!: pub dest: all_move_transitionOperation [OF _ assms(1)])
qed

section \<open>Properties\<close>

text \<open>
  C15 (bounds): the status machine of operations has no cycle and no way out of a terminal status;
  a run of it that is not interrupted by a retry has at most three transitions.
\<close>

theorem operation_runs_are_short:
  assumes "(op_allowed ^^ n) s t"
  shows "n \<le> 3 \<and> (isTerminal s \<longrightarrow> t = s)
    \<and> (op_allowed\<^sup>+\<^sup>+ s u \<longrightarrow> u \<noteq> s)"
proof (intro conjI impI)
  show "n \<le> 3"
    using op_life.run_bounded [OF assms] by (simp add: op_rank_def split: if_splits)
  show "t = s" if "isTerminal s"
    using op_life.terminal_absorbing [of s t] that assms by (auto dest: relpowp_imp_rtranclp)
  show "u \<noteq> s" if "op_allowed\<^sup>+\<^sup>+ s u"
    using op_life.no_cycle [OF that] by auto
qed

theorem operation_runs_are_short_witness:
  "(op_allowed ^^ 3) ''pending'' ''cancelled'' \<and> (3::nat) \<le> 3 \<and> \<not> isTerminal ''pending''"
proof -
  have "op_allowed ''pending'' ''running''" "op_allowed ''running'' ''cancelling''"
      "op_allowed ''cancelling'' ''cancelled''"
    by (simp_all add: op_allowed_iff allowed_targets_def OP_TRANSITIONS_def)
  then have r: "(op_allowed ^^ 3) ''pending'' ''cancelled''"
    by (auto simp: numeral_3_eq_3 relcompp_apply)
  moreover have "\<not> isTerminal ''pending''"
    by (simp add: isTerminal_def TERMINAL_STATES_def)
  ultimately show ?thesis
    using operation_runs_are_short [OF r] by blast
qed

text \<open>
  C16 (invariant): in every state the actions reach, in any order and with any interleaving that
  respects the same invariant, operation identifiers, idempotency keys per tenant, attempt numbers
  per operation and intervention flags per operation are unique, every logged transition is an
  allowed one or the reset of a failed operation by a retry, and every status is a known one.
\<close>

theorem async_reachable_wf:
  assumes "async_step\<^sup>*\<^sup>* db0 db" and "wf_async db0"
  shows "distinct (map o_id (ops db)) \<and> distinct (map key_slot (keys db))
    \<and> distinct (map attempt_slot (attempts db)) \<and> distinct (map f_operationId (flags db))
    \<and> (\<forall>t \<in> set (transitions db). op_allowed (tr_previous_status t) (tr_new_status t)
         \<or> (tr_previous_status t = ''failed'' \<and> tr_new_status t = ''pending''))
    \<and> (\<forall>r \<in> set (ops db). o_status r \<in> set ALL_STATUSES)"
proof -
  from assms have "wf_async db"
    by (induction rule: rtranclp_induct) (auto dest: async_step_wf)
  then show ?thesis
    by (simp add: wf_async_def log_ok_def)
qed

definition sample_op :: "string \<Rightarrow> string \<Rightarrow> string \<Rightarrow> operation" where
  "sample_op oid tenant st = \<lparr>o_id = oid, o_tenant_id = tenant, o_actor_id = ''ann'', o_actor_type = ''tenant_owner'',
     o_workspace_id = None, o_operation_type = ''create_ws'', o_status = st, o_error_summary = None,
     o_cancellation_reason = None, o_cancelled_by = None, o_timeout_policy_snapshot = None,
     o_policy_applied_at = None, o_correlation_id = ''c0'', o_idempotency_key = None, o_saga_id = None,
     o_attempt_count = 0, o_max_retries = None, o_failure_category = None, o_failure_error_code = None,
     o_failure_description = None, o_failure_suggested_actions = None,
     o_manual_intervention_required = False, o_created_at = 0, o_updated_at = 0\<rparr>"

definition async_sample :: "operation list \<Rightarrow> async_db" where
  "async_sample rows = \<lparr>ops = rows, transitions = [], keys = [], attempts = [], overrides = [], flags = [],
     policies = [], profiles = [], mappings = [], mappingCache = None, events = []\<rparr>"

definition async_fresh :: "nat \<Rightarrow> string" where
  "async_fresh n = ''0123456789abcdef'' @ show_nat n"

definition async_sample_env :: async_env where
  "async_sample_env = \<lparr>IDEMPOTENCY_KEY_MAX_LENGTH = None, IDEMPOTENCY_KEY_TTL_HOURS = None,
     OPERATION_DEFAULT_MAX_RETRIES = Some ''3'', INTERVENTION_NOTIFICATION_DEBOUNCE_MINUTES = None\<rparr>"

definition sample_caller :: "string \<Rightarrow> caller" where
  "sample_caller ty = \<lparr>cc_actor_id = Some ''ann'', cc_actor_type = Some ty, cc_tenantId = Some ''t1'',
     cc_correlationId = None, cc_tenant_status = None, cc_tenant_active = None\<rparr>"

definition two_tenants :: async_db where
  "two_tenants = async_sample [sample_op ''o1'' ''t1'' ''running'', sample_op ''o2'' ''t2'' ''running'']"

theorem async_reachable_wf_witness:
  "\<exists>db. async_step\<^sup>*\<^sup>* two_tenants db \<and> map o_status (ops db) = [''timed_out'', ''timed_out'']
     \<and> distinct (map o_id (ops db))"
proof -
  let ?db = "fst (timeout_sweep None async_fresh 9000000 two_tenants)"
  have wf: "wf_async two_tenants"
    by (simp add: two_tenants_def async_sample_def sample_op_def wf_async_def ALL_STATUSES_def)
  have r: "async_step\<^sup>*\<^sup>* two_tenants ?db"
    by (intro r_into_rtranclp async_step.timeout)
  moreover have "map o_status (ops ?db) = [''timed_out'', ''timed_out'']"
    by code_simp
  moreover have "distinct (map o_id (ops ?db))"
    using async_reachable_wf [OF r wf] by simp
  ultimately show ?thesis by (intro exI [of _ ?db] conjI)
qed

text \<open>
  C17 (safety): a caller who is no superadmin can change, through the transition and the cancel
  action, only operations of its own tenant, and every status change they make follows the status
  machine.
\<close>

theorem transition_and_cancel_isolated:
  assumes "wf_async db" and "cc_actor_type cc \<noteq> Some ''superadmin''"
    and "''superadmin'' \<notin> set (xc_roles xc)" and "xc_actorType xc \<noteq> Some ''superadmin''"
    and "xc_tenantId xc = Some tid"
  shows "list_all2 (moves (set_option (cc_tenantId cc))) (ops db)
           (ops (fst (transition_main p fresh now cc oid tenant st es db)))
    \<and> list_all2 (moves {tid}) (ops db) (ops (fst (cancel_main p fresh now xc tenant oid reason db)))"
proof
  show "list_all2 (moves (set_option (cc_tenantId cc))) (ops db)
           (ops (fst (transition_main p fresh now cc oid tenant st es db)))"
  proof (cases "resolveTenantScope cc tenant")
    case (Inl e)
    then show ?thesis
      by (auto simp: transition_main_def bindE_eq_Inr split: sum.splits)
  next
    case (Inr t)
    then have "cc_tenantId cc = Some t"
      using assms(2) by (auto simp: resolveTenantScope_def truthyS_iff split: if_splits)
    with all_move_transition_main [OF assms(1) Inr, of p fresh now oid st es] show ?thesis
      by simp
  qed
  show "list_all2 (moves {tid}) (ops db) (ops (fst (cancel_main p fresh now xc tenant oid reason db)))"
    by (rule all_move_cancel [OF assms(1,3-5)])
qed

definition sample_canceller :: cancel_caller where
  "sample_canceller = \<lparr>xc_actor = Some ''ann'', xc_actorId = None, xc_roles = [], xc_actorType = Some ''tenant_owner'',
     xc_tenantId = Some ''t1''\<rparr>"

theorem transition_and_cancel_isolated_witness:
  "map o_status (ops (fst (transition_main None async_fresh 5 (sample_caller ''tenant_owner'') (Some ''o1'') None
      (Some ''completed'') None two_tenants))) = [''completed'', ''running'']
   \<and> list_all2 (moves {''t1''}) (ops two_tenants)
       (ops (fst (cancel_main None async_fresh 5 sample_canceller None (Some ''o2'') None two_tenants)))"
proof -
  have "wf_async two_tenants"
    by (simp add: two_tenants_def async_sample_def sample_op_def wf_async_def ALL_STATUSES_def)
  moreover have "map o_status (ops (fst (transition_main None async_fresh 5 (sample_caller ''tenant_owner'')
      (Some ''o1'') None (Some ''completed'') None two_tenants))) = [''completed'', ''running'']"
    by code_simp
  ultimately show ?thesis
    using transition_and_cancel_isolated [of two_tenants "sample_caller ''tenant_owner''" sample_canceller "''t1''"]
    by (simp add: sample_caller_def sample_canceller_def)
qed

end
