(* ===== verification/Async_Claims.thy ===== *)
theory Async_Claims
  imports Async_Runs
begin

text \<open>
  The properties of creation with idempotency keys, retries, overrides, cancellation and the sweeps,
  with the cases where they do not do what they are meant to.
\<close>

section \<open>Idempotent creation\<close>

lemma findById_Some:
  "findById db oid tid = Inr (Some op) \<Longrightarrow> op \<in> set (ops db) \<and> Some (o_id op) = oid \<and> Some (o_tenant_id op) = tid"
  by (auto simp: findById_def bindE_eq_Inr is_op_def dest: find_Some_iff_in)

lemma replay_result:
  assumes "create_replay p fresh now cc t key h c rec db = (db', Inr (CreateOk b))"
  shows "\<exists>k. rec = Some k \<and> cb_operationId b = k_operation_id k \<and> ops db' = ops db \<and> keys db' = keys db
    \<and> cb_idempotent b = Some True \<and> cb_paramsMismatch b = Some (k_params_hash k \<noteq> h)"
proof -
  from assms obtain op where r: "resolveExistingOperation db (coalesce (cc_tenantId cc) []) rec t = Inr op"
    by (auto simp: create_replay_def split: sum.splits)
  then obtain k where k: "rec = Some k"
    and f: "findById db (Some (k_operation_id k)) (Some (coalesce (cc_tenantId cc) [])) = Inr (Some op)"
    by (auto simp: resolveExistingOperation_def bindE_eq_Inr split: option.splits)
  with findById_Some [OF f] assms r show ?thesis
    by (auto simp: create_replay_def Let_def formatCreateResponse_def)
qed






lemma caller_tenant:
  "buildCallerContext params = Some cc \<Longrightarrow> cc_tenantId cc = str_field (headers_of params) ''x-tenant-id''"
  by (auto simp: buildCallerContext_def Let_def split: if_splits)


lemma create_try_of_main:
  assumes "create_main p sha env fresh now g params db = (db', Inr (CreateOk b))"
  obtains cc tid where "buildCallerContext params = Some cc" "cc_tenantId cc = Some tid"
    "create_try p sha env fresh now g params cc db = (db', Inr (CreateOk b))"
    "str_field (headers_of params) ''x-tenant-id'' = Some tid"
proof -
  from assms obtain cc where cc: "buildCallerContext params = Some cc"
    by (auto simp: create_main_def split: option.splits)
  with assms have "requireCallerIdentity cc = Inr ()"
    by (auto simp: create_main_def split: sum.splits)
  then obtain tid where tid: "cc_tenantId cc = Some tid"
    by (auto simp: requireCallerIdentity_def truthyS_iff)
  with cc assms have "create_try p sha env fresh now g params cc db = (db', Inr (CreateOk b))"
    by (auto simp: create_main_def split: sum.splits prod.splits)
  with cc tid caller_tenant [OF cc] show thesis
    by (intro that) auto
qed



section \<open>Properties\<close>


definition sample_params :: "string \<Rightarrow> (string \<times> json) list" where
  "sample_params corr =
     [(''operation_type'', JStr ''create_ws''), (''idempotency_key'', JStr ''key-1''),
      (''__ow_headers'', JObj [(''x-auth-subject'', JStr ''ann''), (''x-tenant-id'', JStr ''t1''),
         (''x-actor-type'', JStr ''tenant_owner''), (''x-correlation-id'', JStr corr)])]"

definition sample_create :: "nat \<Rightarrow> string \<Rightarrow> async_db \<Rightarrow> async_db \<times> create_response result" where
  "sample_create n corr db =
     create_main None id async_sample_env (\<lambda>i. async_fresh (10 * n + i)) 1000 id (sample_params corr) db"

definition answered :: "async_db \<times> create_response result \<Rightarrow> bool" where
  "answered r = (case snd r of Inr (CreateOk _) \<Rightarrow> True | _ \<Rightarrow> False)"

definition answer_of :: "async_db \<times> create_response result \<Rightarrow> create_body" where
  "answer_of r = (case snd r of Inr c \<Rightarrow> create_ok c | Inl _ \<Rightarrow> undefined)"

lemma answered_answer: "answered r \<Longrightarrow> r = (fst r, Inr (CreateOk (answer_of r)))"
  by (cases r) (auto simp: answered_def answer_of_def split: sum.splits create_response.splits)

lemma sample_create_answer:
  "answered (sample_create n c db) \<Longrightarrow>
   create_main None id async_sample_env (\<lambda>i. async_fresh (10 * n + i)) 1000 id (sample_params c) db
     = (fst (sample_create n c db), Inr (CreateOk (answer_of (sample_create n c db))))"
  using answered_answer [of "sample_create n c db"] by (simp only: sample_create_def)




text \<open>
  The request headers are part of the hashed payload, so a replay of the very same
  request under another correlation identifier is reported as one with different parameters,
  unless the digest collides.
\<close>

theorem replay_reported_as_mismatch:
  assumes "sha (js_stringify (normalizeParams (buildRequestPayload (sample_params ''c1''))))
         \<noteq> sha (js_stringify (normalizeParams (buildRequestPayload (sample_params ''c2''))))"
    and "create_main p sha env fresh now g (sample_params ''c2'') db = (db', Inr (CreateOk b))"
    and "find (\<lambda>k. same_key ''t1'' ''key-1'' k \<and> now < k_expires_at k) (keys db) = Some k"
    and "k_params_hash k = hashParams sha (buildRequestPayload (sample_params ''c1''))"
  shows "cb_paramsMismatch b = Some True"
proof -
  have f: "str_field (sample_params c) ''idempotency_key'' = Some ''key-1''"
      "str_field (headers_of (sample_params c)) ''x-tenant-id'' = Some ''t1''" for c
    by (simp_all add: sample_params_def str_field_def headers_of_def obj_get_def)
  from assms(2) obtain cc tid where cc: "cc_tenantId cc = Some tid"
      "str_field (headers_of (sample_params ''c2'')) ''x-tenant-id'' = Some tid"
    and tr: "create_try p sha env fresh now g (sample_params ''c2'') cc db = (db', Inr (CreateOk b))"
    by (rule create_try_of_main)
  have a: "findActive now db ''t1'' ''key-1'' = Inr (Some k)"
    using assms(3) by (simp add: findActive_def requireTenantId_def)
  from tr a f cc obtain c ot where
    "create_replay p fresh now cc ot ''key-1'' (hashParams sha (buildRequestPayload (sample_params ''c2''))) c (Some k) db
       = (db', Inr (CreateOk b))"
    by (auto simp: create_try_def Let_def bindE_eq_Inr validateKeyFormat_def split: sum.splits if_splits)
  from replay_result [OF this] assms(1,4) show ?thesis
    by (auto simp: hashParams_def)
qed

theorem replay_reported_as_mismatch_witness:
  "cb_paramsMismatch (answer_of (sample_create 1 ''c2'' (fst (sample_create 0 ''c1'' (async_sample []))))) = Some True"
proof -
  let ?db = "fst (sample_create 0 ''c1'' (async_sample []))"
  have a: "answered (sample_create 1 ''c2'' ?db)"
    by code_simp
  have n: "id (js_stringify (normalizeParams (buildRequestPayload (sample_params ''c1''))))
         \<noteq> id (js_stringify (normalizeParams (buildRequestPayload (sample_params ''c2''))))"
    by code_simp
  have "case find (\<lambda>k. same_key ''t1'' ''key-1'' k \<and> 1000 < k_expires_at k) (keys ?db) of None \<Rightarrow> False
     | Some k \<Rightarrow> k_params_hash k = hashParams id (buildRequestPayload (sample_params ''c1''))"
    by code_simp
  then obtain k where k: "find (\<lambda>k. same_key ''t1'' ''key-1'' k \<and> 1000 < k_expires_at k) (keys ?db) = Some k"
      "k_params_hash k = hashParams id (buildRequestPayload (sample_params ''c1''))"
    by (auto split: option.splits)
  show ?thesis
    by (rule replay_reported_as_mismatch [OF n sample_create_answer [OF a] k])
qed

end
