(* ===== verification/Async_Recovery.thy ===== *)
theory Async_Recovery
  imports Async_Runs
begin

text \<open>
  Retries, overrides, cancellation and the sweeps: what they achieve and where they fall short.
\<close>

section \<open>Effect of one sweep step\<close>

text \<open>
  A step of a sweep towards status \<open>st\<close> for candidate \<open>c\<close> leaves the rows of other operations
  alone; the candidate's row is unchanged or has the new status.
\<close>

definition swept :: "string \<Rightarrow> operation \<Rightarrow> operation \<Rightarrow> operation \<Rightarrow> bool" where
  "swept st c r r' \<longleftrightarrow> o_id r' = o_id r \<and>
     (r' = r \<or> (o_id r = o_id c \<and> o_status r' = st \<and> op_allowed (o_status r) st))"

lemma swept_updWhere:
  "(\<And>r. r \<in> set xs \<Longrightarrow> p r \<Longrightarrow> swept st c r (f r)) \<Longrightarrow> list_all2 (swept st c) xs (updWhere p f xs)"
  by (induction xs) (auto simp: swept_def)

lemma publish_ops: "publishEvent p e d = (d', x) \<Longrightarrow> ops d' = ops d"
  using publishEvent_tables(1) [of p e d] by simp

lemma sweep_one_ops:
  assumes "atomicTransitionSystem now (fresh (2 * length (transitions d))) d (o_id c) (o_tenant_id c) st
         (reason c) (by' c) = Inr (d1, u, t)"
  shows "ops (fst (sweep_one p fresh now st reason by' build c d)) = ops d1"
  using assms by (auto simp: sweep_one_def Let_def split: prod.splits sum.splits dest!: publish_ops)

lemma sweep_one_swept:
  assumes "wf_async d"
  shows "list_all2 (swept st c) (ops d) (ops (fst (sweep_one p fresh now st reason by' build c d)))"
proof (cases "atomicTransitionSystem now (fresh (2 * length (transitions d))) d (o_id c) (o_tenant_id c) st
         (reason c) (by' c)")
  case (Inl e)
  then show ?thesis
    by (simp add: sweep_one_def Let_def list_all2_refl swept_def)
next
  case (Inr x)
  obtain d1 u t where x: "x = (d1, u, t)"
    by (cases x)
  have eq: "ops (fst (sweep_one p fresh now st reason by' build c d)) = ops d1"
    by (rule sweep_one_ops) (rule Inr [unfolded x])
  have "list_all2 (swept st c) (ops d) (ops d1)"
    using Inr [unfolded x]
  proof (cases rule: atomicTransitionSystem_cases)
    case (1 existing input v w)
    note a = applyOpTransition_Inr [OF 1(2)]
    have "swept st c r (status_write w r)"
      if "r \<in> set (ops d)" "is_op (Some (o_id c)) (Some (o_tenant_id c)) r" for r
      using a 1(3,4) found_unique [OF assms 1(1) that] that(2)
      by (simp add: swept_def status_write_def is_op_def)
    then show ?thesis
      unfolding 1(6) by (rule swept_updWhere)
  qed
  with eq show ?thesis by simp
qed

lemma sweep_one_policies [simp]:
  "policies (fst (sweep_one p fresh now st reason by' build c d)) = policies d"
proof -
  have a: "policies d' = policies d" if "atomicTransitionSystem n x d o' t s r b = Inr (d', y)" for n x o' t s r b d' y
    using that by (cases y) (auto elim: atomicTransitionSystem_cases)
  have pub: "policies d' = policies e" if "publishEvent p ev e = (d', y)" for ev e d' y
    using publishEvent_tables(7) [of p ev e] that by simp
  show ?thesis
    unfolding sweep_one_def Let_def
    by (auto split: prod.splits sum.splits dest!: a pub)
qed

lemma atomicTransitionSystem_ok:
  assumes "find (is_op (Some oid) (Some tid)) (ops d) = Some e" and "tid \<noteq> []"
    and "op_allowed (o_status e) st" and "st = ''failed'' \<Longrightarrow> reason \<noteq> [] \<and> \<not> is_sensitive reason"
  shows "\<exists>d' u t. atomicTransitionSystem now uuid d oid tid st reason by' = Inr (d', u, t)"
proof -
  have st: "st \<noteq> []" "o_status e \<noteq> []"
    using assms(3) unfolding op_allowed_iff by (auto dest!: allowed_targets_cases)
  have "validateTransition (o_status e) st = Inr ()"
    using assms(3) by (simp add: op_allowed_def)
  then show ?thesis
    using assms(1,2,4) st
    by (auto simp: atomicTransitionSystem_def applyOpTransition_def requireTenantId_def
        validateErrorSummary_def Let_def)
qed

text \<open>The candidate is hit when its transition is allowed.\<close>

lemma sweep_one_hits:
  assumes "wf_async d" and "c \<in> set (ops d)" and "o_tenant_id c \<noteq> []" and "op_allowed (o_status c) st"
    and "st = ''failed'' \<Longrightarrow> reason c \<noteq> [] \<and> \<not> is_sensitive (reason c)"
    and "r \<in> set (ops (fst (sweep_one p fresh now st reason by' build c d)))" and "o_id r = o_id c"
  shows "o_status r = st"
proof -
  obtain e where e: "find (is_op (Some (o_id c)) (Some (o_tenant_id c))) (ops d) = Some e"
    using assms(2) by (cases "find (is_op (Some (o_id c)) (Some (o_tenant_id c))) (ops d)")
      (auto simp: find_None_iff is_op_def)
  have "e = c"
    using found_unique [OF assms(1) e assms(2)] by (simp add: is_op_def)
  with atomicTransitionSystem_ok [OF e assms(3) _ assms(5)] assms(4) obtain d1 u t where
    at: "atomicTransitionSystem now (fresh (2 * length (transitions d))) d (o_id c) (o_tenant_id c) st
         (reason c) (by' c) = Inr (d1, u, t)"
    by blast
  have eq: "ops (fst (sweep_one p fresh now st reason by' build c d)) = ops d1"
    by (rule sweep_one_ops) (rule at)
  from at show ?thesis
  proof (cases rule: atomicTransitionSystem_cases)
    case (1 existing input v w)
    have w: "o_status w = st"
      using applyOpTransition_Inr [OF 1(2)] 1(3,4) by simp
    from assms(6) obtain q where q: "q \<in> set (ops d)"
        "r = (if is_op (Some (o_id c)) (Some (o_tenant_id c)) q then status_write w q else q)"
      unfolding eq 1(6) by (auto simp: set_updWhere)
    have "o_id q = o_id c"
      using q(2) assms(7) by (auto simp: status_write_def split: if_splits)
    with q(1) assms(1,2) have "q = c"
      unfolding wf_async_def by (blast intro: distinct_map_inj)
    with q(2) w show ?thesis
      by (simp add: is_op_def status_write_def)
  qed
qed

section \<open>Effect of a whole sweep\<close>

definition settled :: "string \<Rightarrow> string \<Rightarrow> async_db \<Rightarrow> bool" where
  "settled st oid d \<longleftrightarrow> (\<forall>r \<in> set (ops d). o_id r = oid \<longrightarrow> o_status r = st)"

lemma list_all2_in2: "list_all2 P xs ys \<Longrightarrow> y \<in> set ys \<Longrightarrow> \<exists>x \<in> set xs. P x y"
  by (induction rule: list_all2_induct) auto

lemma list_all2_in1: "list_all2 P xs ys \<Longrightarrow> x \<in> set xs \<Longrightarrow> \<exists>y \<in> set ys. P x y"
  by (induction rule: list_all2_induct) auto

lemma settled_swept:
  "list_all2 (swept st c) (ops d) (ops d') \<Longrightarrow> settled st oid d \<Longrightarrow> settled st oid d'"
  unfolding settled_def by (auto simp: swept_def dest!: list_all2_in2)

lemma pending_or_settled_swept:
  assumes "list_all2 (swept st c) (ops d) (ops d')" and "wf_async d" and "b \<in> set (ops d) \<or> settled st (o_id b) d"
  shows "b \<in> set (ops d') \<or> settled st (o_id b) d'"
proof (cases "b \<in> set (ops d)")
  case True
  then obtain b' where b': "b' \<in> set (ops d')" "swept st c b b'"
    using list_all2_in1 [OF assms(1)] by blast
  show ?thesis
  proof (cases "b' = b")
    case True
    with b'(1) show ?thesis by simp
  next
    case False
    with b'(2) have c: "o_id b = o_id c" "o_status b' = st"
      by (auto simp: swept_def)
    have "map o_id (ops d') = map o_id (ops d)"
      using assms(1) by (auto simp: list_all2_conv_all_nth swept_def intro!: nth_equalityI)
    then have "distinct (map o_id (ops d'))"
      using assms(2) by (simp add: wf_async_def)
    moreover have "o_id b' = o_id b"
      using b'(2) by (simp add: swept_def)
    ultimately have "settled st (o_id b) d'"
      using b'(1) c(2) unfolding settled_def by (metis distinct_map_inj)
    then show ?thesis by simp
  qed
next
  case False
  with assms(3) settled_swept [OF assms(1)] show ?thesis by blast
qed

lemma sweep_all_fst:
  "fst (sweep_all step (c # cs) d) = fst (sweep_all step cs (fst (step c d)))"
  by (simp split: prod.splits option.splits)

lemma sweep_all_hits:
  assumes "step = sweep_one p fresh now st reason by' build"
    and "\<And>c. c \<in> set cs \<Longrightarrow> o_tenant_id c \<noteq> [] \<and> op_allowed (o_status c) st
            \<and> (st = ''failed'' \<longrightarrow> reason c \<noteq> [] \<and> \<not> is_sensitive (reason c))"
  shows "wf_async d \<Longrightarrow> (b \<in> set cs \<and> (b \<in> set (ops d) \<or> settled st (o_id b) d)) \<or> settled st (o_id b) d
     \<Longrightarrow> settled st (o_id b) (fst (sweep_all step cs d))"
  using assms(2)
proof (induction cs arbitrary: d)
  case Nil
  then show ?case by simp
next
  case (Cons c cs)
  let ?d1 = "fst (step c d)"
  have sw: "list_all2 (swept st c) (ops d) (ops ?d1)"
    unfolding assms(1) by (rule sweep_one_swept [OF Cons.prems(1)])
  have wf: "wf_async ?d1"
    unfolding assms(1) by (rule wf_sweep_one [OF Cons.prems(1)])
  have hit: "settled st (o_id c) ?d1" if "c \<in> set (ops d)"
    unfolding settled_def assms(1)
    using sweep_one_hits [OF Cons.prems(1) that] Cons.prems(3) [of c] by auto
  have "(b \<in> set cs \<and> (b \<in> set (ops ?d1) \<or> settled st (o_id b) ?d1)) \<or> settled st (o_id b) ?d1"
    using Cons.prems(2) hit settled_swept [OF sw] pending_or_settled_swept [OF sw Cons.prems(1)] by auto
  then show ?case
    unfolding sweep_all_fst using Cons.IH [OF wf] Cons.prems(3) by simp
qed

definition kept_or :: "string \<Rightarrow> operation \<Rightarrow> operation \<Rightarrow> bool" where
  "kept_or st r r' \<longleftrightarrow> o_id r' = o_id r \<and> (r' = r \<or> o_status r' = st)"

lemma sweep_all_kept:
  assumes "step = sweep_one p fresh now st reason by' build"
  shows "wf_async d \<Longrightarrow> list_all2 (kept_or st) (ops d) (ops (fst (sweep_all step cs d)))
    \<and> policies (fst (sweep_all step cs d)) = policies d"
proof (induction cs arbitrary: d)
  case Nil
  then show ?case by (simp add: list_all2_refl kept_or_def)
next
  case (Cons c cs)
  let ?d1 = "fst (step c d)"
  have "list_all2 (kept_or st) (ops d) (ops ?d1)"
    unfolding assms
    by (rule list_all2_mono [OF sweep_one_swept [OF Cons.prems]]) (auto simp: swept_def kept_or_def)
  moreover have "wf_async ?d1"
    unfolding assms by (rule wf_sweep_one [OF Cons.prems])
  note Cons.IH [OF this]
  moreover have "kept_or st a b \<Longrightarrow> kept_or st b c \<Longrightarrow> kept_or st a c" for a b c
    by (auto simp: kept_or_def)
  ultimately have "list_all2 (kept_or st) (ops d) (ops (fst (sweep_all step cs ?d1)))"
    using list_all2_trans [of "kept_or st" "kept_or st" "kept_or st" "ops d" "ops ?d1"] by blast
  then show ?case
    unfolding sweep_all_fst using Cons.IH [OF \<open>wf_async ?d1\<close>] by (simp add: assms)
qed

lemma policy_minutes_same: "policies d = policies d' \<Longrightarrow> policy_minutes d = policy_minutes d'"
  by (intro ext) (simp add: policy_minutes_def)

section \<open>Properties\<close>

text \<open>
  C21 (liveness): after the timeout sweep no running operation is older than the timeout of its
  policy, whatever happens to the events it publishes.
\<close>

theorem timeout_sweep_complete:
  assumes "wf_async db" and "\<forall>r \<in> set (ops db). o_tenant_id r \<noteq> []"
  shows "findTimedOutCandidates now (fst (timeout_sweep p fresh now db)) = []"
proof (rule ccontr)
  let ?step = "sweep_one p fresh now ''timed_out'' (\<lambda>_. ''timeout exceeded'') (\<lambda>_. None)
                  (\<lambda>uuid u c. buildTimedOutEvent uuid u (o_status c))"
  let ?cs = "findTimedOutCandidates now db" and ?d = "fst (timeout_sweep p fresh now db)"
  have d: "?d = fst (sweep_all ?step ?cs db)"
    by (simp add: timeout_sweep_def)
  have kept: "list_all2 (kept_or ''timed_out'') (ops db) (ops ?d)" and pol: "policies ?d = policies db"
    unfolding d using sweep_all_kept [OF refl assms(1)] by blast+
  assume "findTimedOutCandidates now ?d \<noteq> []"
  then obtain r' where "r' \<in> set (findTimedOutCandidates now ?d)"
    by (cases "findTimedOutCandidates now ?d") auto
  then have r': "r' \<in> set (ops ?d)" "o_status r' = ''running''"
      "o_updated_at r' \<le> now - policy_minutes db r' po_timeout_minutes 60 * 60000"
    by (simp_all add: findTimedOutCandidates_def candidates_def policy_minutes_same [OF pol])
  from list_all2_in2 [OF kept r'(1)] r'(2) have "r' \<in> set (ops db)"
    by (auto simp: kept_or_def)
  with r' have cand: "r' \<in> set ?cs"
    by (simp add: findTimedOutCandidates_def candidates_def)
  have ok: "o_tenant_id c \<noteq> [] \<and> op_allowed (o_status c) ''timed_out''
      \<and> (''timed_out'' = ''failed'' \<longrightarrow> ''timeout exceeded'' \<noteq> [] \<and> \<not> is_sensitive ''timeout exceeded'')"
    if "c \<in> set ?cs" for c
    using that assms(2)
    by (simp add: findTimedOutCandidates_def candidates_def op_allowed_iff allowed_targets_def OP_TRANSITIONS_def)
  have "settled ''timed_out'' (o_id r') ?d"
    unfolding d by (rule sweep_all_hits [OF refl ok assms(1)]) (use cand \<open>r' \<in> set (ops db)\<close> in auto)
  with r' show False
    by (simp add: settled_def)
qed

theorem timeout_sweep_complete_witness:
  "findTimedOutCandidates 9000000 two_tenants \<noteq> []
   \<and> findTimedOutCandidates 9000000 (fst (timeout_sweep None async_fresh 9000000 two_tenants)) = []"
proof -
  have "wf_async two_tenants" "\<forall>r \<in> set (ops two_tenants). o_tenant_id r \<noteq> []"
    by (simp_all add: two_tenants_def async_sample_def sample_op_def wf_async_def ALL_STATUSES_def)
  note timeout_sweep_complete [OF this, of 9000000 None async_fresh]
  moreover have "findTimedOutCandidates 9000000 two_tenants \<noteq> []"
    by code_simp
  ultimately show ?thesis by simp
qed

lemma pending_step:
  assumes "wf_async d" and "r \<in> set (ops d)" and "o_status r = ''pending''" and "o_tenant_id r \<noteq> []"
  shows "sweep_one p fresh now ''failed'' reason by' build r d = (d, Some (o_id r, ''INVALID_TRANSITION''))"
proof -
  obtain e where e: "find (is_op (Some (o_id r)) (Some (o_tenant_id r))) (ops d) = Some e"
    using assms(2) by (cases "find (is_op (Some (o_id r)) (Some (o_tenant_id r))) (ops d)")
      (auto simp: find_None_iff is_op_def)
  have "e = r"
    using found_unique [OF assms(1) e assms(2)] by (simp add: is_op_def)
  with e assms(3,4) show ?thesis
    by (simp add: sweep_one_def atomicTransitionSystem_def applyOpTransition_def validateTransition_def
        allowed_targets_def OP_TRANSITIONS_def requireTenantId_def sweep_error_def Let_def)
qed

lemma other_step:
  assumes "wf_async d" and "r \<in> set (ops d)" and "o_id c \<noteq> o_id r"
  shows "r \<in> set (ops (fst (sweep_one p fresh now st reason by' build c d)))"
proof -
  have "list_all2 (swept st c) (ops d) (ops (fst (sweep_one p fresh now st reason by' build c d)))"
    by (rule sweep_one_swept [OF assms(1)])
  from list_all2_in1 [OF this assms(2)] assms(3) show ?thesis
    by (auto simp: swept_def)
qed

lemma pending_sweep:
  assumes "step = sweep_one p fresh now ''failed'' reason by' build"
    and "o_status r = ''pending''" and "o_tenant_id r \<noteq> []"
    and "\<And>c. c \<in> set cs \<Longrightarrow> o_id c = o_id r \<Longrightarrow> c = r"
  shows "wf_async d \<Longrightarrow> r \<in> set (ops d) \<Longrightarrow>
     r \<in> set (ops (fst (sweep_all step cs d)))
     \<and> (r \<in> set cs \<longrightarrow> (o_id r, ''INVALID_TRANSITION'') \<in> set (snd (snd (sweep_all step cs d))))"
  using assms(4)
proof (induction cs arbitrary: d)
  case Nil
  then show ?case by simp
next
  case (Cons c cs)
  show ?case
  proof (cases "c = r")
    case True
    have "step c d = (d, Some (o_id r, ''INVALID_TRANSITION''))"
      unfolding assms(1) True by (rule pending_step [OF Cons.prems(1,2) assms(2,3)])
    then show ?thesis
      using Cons.IH [OF Cons.prems(1,2)] Cons.prems(3) by (auto split: prod.splits)
  next
    case False
    then have ne: "o_id c \<noteq> o_id r"
      using Cons.prems(3) by auto
    have "r \<in> set (ops (fst (step c d)))" and "wf_async (fst (step c d))"
      unfolding assms(1) using other_step [OF Cons.prems(1,2) ne] wf_sweep_one [OF Cons.prems(1)] by auto
    from Cons.IH [OF this(2,1)] Cons.prems(3) False show ?thesis
      by (auto split: prod.splits option.splits)
  qed
qed

lemma other_sweep:
  assumes "step = sweep_one p fresh now st reason by' build" and "\<And>c. c \<in> set cs \<Longrightarrow> o_id c \<noteq> o_id r"
  shows "wf_async d \<Longrightarrow> r \<in> set (ops d) \<Longrightarrow> r \<in> set (ops (fst (sweep_all step cs d)))"
  using assms(2)
proof (induction cs arbitrary: d)
  case Nil
  then show ?case by simp
next
  case (Cons c cs)
  have "r \<in> set (ops (fst (step c d)))" and "wf_async (fst (step c d))"
    unfolding assms(1) using other_step [OF Cons.prems(1,2)] Cons.prems(3) wf_sweep_one [OF Cons.prems(1)]
    by auto
  then show ?case
    unfolding sweep_all_fst using Cons.IH Cons.prems(3) by simp
qed

text \<open>
  C22 (liveness): the orphan sweep selects stale pending operations and tries to fail them, but the
  status machine has no transition from pending to failed: each of them is reported with
  \<open>INVALID_TRANSITION\<close> and keeps its row, at every sweep.
\<close>

theorem pending_orphans_never_recovered:
  assumes "wf_async db" and "r \<in> set (ops db)" and "o_status r = ''pending''" and "o_tenant_id r \<noteq> []"
    and "orphan_sweep p fresh now db = (db', recovered, forced, errors)"
  shows "r \<in> set (ops db') \<and>
    (r \<in> set (findOrphanCandidates now db) \<longrightarrow> (o_id r, ''INVALID_TRANSITION'') \<in> set errors)"
proof -
  let ?cs = "findOrphanCandidates now db" and ?ss = "findStaleCancellingCandidates now db"
  let ?r1 = "sweep_all (orphan_step p fresh now) ?cs db"
  have same: "c = r" if "c \<in> set (ops db)" "o_id c = o_id r" for c
    using assms(1,2) that unfolding wf_async_def by (blast intro: distinct_map_inj)
  have cs: "c = r" if "c \<in> set ?cs" "o_id c = o_id r" for c
    using same that by (simp add: findOrphanCandidates_def candidates_def)
  have ss: "o_id c \<noteq> o_id r" if "c \<in> set ?ss" for c
    using same [of c] that assms(3) by (auto simp: findStaleCancellingCandidates_def candidates_def)
  have one: "r \<in> set (ops (fst ?r1))
      \<and> (r \<in> set ?cs \<longrightarrow> (o_id r, ''INVALID_TRANSITION'') \<in> set (snd (snd ?r1)))"
    using orphan_step_def [of p fresh now, unfolded Let_def] assms(3,4) cs assms(1,2) by (rule pending_sweep)
  have wf: "wf_async (fst ?r1)"
    by (rule wf_sweep_all [OF _ assms(1)]) (simp add: orphan_step_def Let_def wf_sweep_one)
  have two: "r \<in> set (ops (fst (sweep_all (forced_cancel_step p fresh now) ?ss (fst ?r1))))"
    using forced_cancel_step_def ss wf conjunct1 [OF one] by (rule other_sweep)
  from one two assms(5) show ?thesis
    by (auto simp: orphan_sweep_def split: prod.splits)
qed

theorem pending_orphans_never_recovered_witness:
  "\<exists>db' n m errors. orphan_sweep None async_fresh 9000000 (async_sample [sample_op ''o1'' ''t1'' ''pending''])
       = (db', n, m, errors)
     \<and> sample_op ''o1'' ''t1'' ''pending'' \<in> set (ops db') \<and> (''o1'', ''INVALID_TRANSITION'') \<in> set errors"
proof -
  let ?o = "sample_op ''o1'' ''t1'' ''pending''" and ?db = "async_sample [sample_op ''o1'' ''t1'' ''pending'']"
  have o: "wf_async ?db" "?o \<in> set (ops ?db)" "o_status ?o = ''pending''" "o_tenant_id ?o \<noteq> []" "o_id ?o = ''o1''"
    by (simp_all add: async_sample_def sample_op_def wf_async_def ALL_STATUSES_def)
  have c: "?o \<in> set (findOrphanCandidates 9000000 ?db)"
    by (simp add: findOrphanCandidates_def candidates_def policy_minutes_def async_sample_def sample_op_def)
  obtain db' n m errors where r: "orphan_sweep None async_fresh 9000000 ?db = (db', n, m, errors)"
    by (cases "orphan_sweep None async_fresh 9000000 ?db")
  from pending_orphans_never_recovered [OF o(1-4) r] c r o(5) show ?thesis
    by auto
qed

end
