(* ===== verification/Async_Retry.thy ===== *)
theory Async_Retry
  imports Async_Runs
begin

text \<open>
  Retries and their limit, manual intervention and its override, cancellation of operations that
  have not started, and the format of correlation identifiers.
\<close>

section \<open>Retries\<close>

lemma createRetryAttempt_Inr:
  "createRetryAttempt now uuid input = Inr a \<Longrightarrow>
   Some (at_operation_id a) = ai_operation_id input \<and> Some (at_tenant_id a) = ai_tenant_id input
   \<and> jsInt (at_attempt_number a) = ai_attempt_number input
   \<and> at_correlation_id a = generateCorrelationId now uuid (the (ai_tenant_id input))"
  by (auto simp: createRetryAttempt_def bindE_eq_Inr requireField_def truthyS_iff validateAttemptNumber_def
      isInteger_iff split: if_splits)

lemma jsInt_inject: "jsInt a = jsInt b \<longleftrightarrow> a = b"
  by (simp add: jsInt_def)

text \<open>
  C23 (safety): an accepted retry found its operation failed, not flagged for intervention and
  below its retry limit; whatever happened since it looked, at the moment of its transaction the
  operation is still failed and no attempt with the new number exists, and the transaction adds that
  attempt, counts it and makes the operation pending.
\<close>

theorem accepted_retry:
  assumes "wf_async (g db)"
    and "retry_main p env fresh now g cc oid tenant db = (db', Inr (RetryAccepted a))"
  shows "\<exists>op \<in> set (ops db). Some (o_id op) = oid \<and> o_status op = ''failed'' \<and> \<not> o_manual_intervention_required op
    \<and> at_attempt_number a = o_attempt_count op + 1 \<and> at_attempt_number a \<le> resolveMaxRetries env op
    \<and> attempt_slot a \<notin> attempt_slot ` set (attempts (g db))
    \<and> attempts db' = attempts (g db) @ [a]
    \<and> (\<exists>r \<in> set (ops (g db)). o_id r = o_id op \<and> o_status r = ''failed''
        \<and> r\<lparr>o_status := ''pending'', o_attempt_count := o_attempt_count r + 1,
            o_correlation_id := at_correlation_id a, o_error_summary := None, o_updated_at := now\<rparr> \<in> set (ops db'))"
proof -
  have idn: "retry_requireCallerIdentity cc = Inr ()"
    using assms(2) by (auto simp: retry_main_def Let_def split: sum.splits)
  obtain op where load: "bindE (loadOperation cc oid tenant db) (\<lambda>found.
                   bindE (assertTenantAccess cc found tenant) (\<lambda>op.
                   bindE (throwIf (\<not> isTenantActiveByDefault cc)
                            (JsError (Some ''TENANT_DEACTIVATED'') None ''Tenant is deactivated'')) (\<lambda>_. Inr op))) = Inr op"
    and free: "\<not> o_manual_intervention_required op" "o_status op = ''failed''"
      "o_attempt_count op < resolveMaxRetries env op"
    using assms(2) idn by (auto simp: retry_main_def Let_def split: sum.splits if_splits)
  have op: "op \<in> set (ops db)" "Some (o_id op) = oid"
    using load
    by (auto simp: bindE_eq_Inr loadOperation_def assertTenantAccess_def findByIdWithTenant_def findById_def
        findByIdAnyTenant_def is_op_def split: if_splits option.splits dest: find_Some_iff_in)
  obtain db1 u where cr: "createRetryAttempt now (fresh 0)
                            \<lparr>ai_operation_id = Some (o_id op), ai_tenant_id = Some (o_tenant_id op),
                             ai_actor_id = cc_actor_id cc, ai_actor_type = cc_actor_type cc,
                             ai_attempt_number = jsInt (o_attempt_count op + 1), ai_status = None\<rparr> = Inr a"
    and tx: "retry_transaction fresh now (coalesce (cc_actor_id cc) []) op a (g db) = Inr (db1, u)"
    and eq: "attempts db' = attempts db1" "ops db' = ops db1"
    using assms(2) idn load free
    by (auto simp: retry_main_def Let_def split: sum.splits prod.splits)
  from createRetryAttempt_Inr [OF cr] have a: "at_operation_id a = o_id op" "at_attempt_number a = o_attempt_count op + 1"
    by (simp_all add: jsInt_inject)
  let ?p = "\<lambda>r. is_op (Some (o_id op)) (Some (o_tenant_id op)) r \<and> o_status r = ''failed''"
  let ?f = "\<lambda>r. r\<lparr>o_status := ''pending'', o_attempt_count := o_attempt_count r + 1,
                  o_correlation_id := at_correlation_id a, o_error_summary := None, o_updated_at := now\<rparr>"
  from tx obtain d1 d2 t where c: "createAttempt (g db) a = Inr d1"
    and rr: "atomicResetToRetry now d1 (o_id op) (o_tenant_id op) (at_correlation_id a) = Inr (d2, Some u)"
    and db1: "db1 = insertAsyncOperationTransition d2 t"
    by (auto simp: retry_transaction_def bindE_eq_Inr split: option.splits)
  have new: "attempt_slot a \<notin> attempt_slot ` set (attempts (g db))"
    and d1: "attempts d1 = attempts (g db) @ [a]" "ops d1 = ops (g db)"
    using c by (auto simp: createAttempt_def bindE_eq_Inr attempt_slot_def)
  from rr obtain r where "ops d2 = updWhere ?p ?f (ops d1)" "attempts d2 = attempts d1" "find ?p (ops d1) = Some r"
    by (auto simp: atomicResetToRetry_def bindE_eq_Inr Let_def updateOps_def)
  then have at: "attempts db1 = attempts (g db) @ [a]"
    and ops1: "ops db1 = updWhere ?p ?f (ops (g db))" and r: "find ?p (ops (g db)) = Some r"
    by (simp_all add: db1 d1 insertAsyncOperationTransition_def)
  have "r \<in> set (ops (g db)) \<and> ?p r"
    by (rule find_Some_iff_in [OF r])
  then have "?f r \<in> set (ops db')" and "r \<in> set (ops (g db))" and "o_id r = o_id op" and "o_status r = ''failed''"
    by (force simp: eq ops1 set_updWhere is_op_def)+
  with op free a new at eq show ?thesis
    by (intro bexI [of _ op]) auto
qed

definition failed_sample :: async_db where
  "failed_sample = async_sample [sample_op ''o1'' ''t1'' ''failed'']"

theorem accepted_retry_witness:
  "\<exists>db' a. retry_main None async_sample_env async_fresh 5 id (sample_caller ''tenant_owner'') (Some ''o1'') None failed_sample
       = (db', Inr (RetryAccepted a))
     \<and> at_attempt_number a = 1 \<and> attempts db' = [a] \<and> map o_status (ops db') = [''pending'']"
proof -
  let ?r = "retry_main None async_sample_env async_fresh 5 id (sample_caller ''tenant_owner'') (Some ''o1'') None failed_sample"
  have "case snd ?r of Inr (RetryAccepted a) \<Rightarrow> at_attempt_number a = 1 | _ \<Rightarrow> False"
    and st: "map o_status (ops (fst ?r)) = [''pending'']"
    by code_simp+
  then obtain a where r: "?r = (fst ?r, Inr (RetryAccepted a))" and n: "at_attempt_number a = 1"
    by (cases ?r) (auto split: sum.splits retry_response.splits)
  have wf: "wf_async (id failed_sample)"
    by (simp add: failed_sample_def async_sample_def sample_op_def wf_async_def ALL_STATUSES_def)
  have "attempts (fst ?r) = [a]"
    using accepted_retry [OF wf r] by (auto simp: failed_sample_def async_sample_def)
  then show ?thesis
    using r n st by (intro exI [of _ "fst ?r"] exI [of _ a] conjI)
qed

section \<open>Cancelling what has not started\<close>

lemma published_ops: "publishEvent p e d = (d', x) \<Longrightarrow> ops d' = ops d"
  using publishEvent_tables(1) [of p e d] by simp

lemma cancel_mapError_status [simp]: "xr_statusCode (cancel_mapError e) \<noteq> 200"
  by (simp add: cancel_mapError_def Let_def)

text \<open>
  Cancelling a pending operation does not store who cancelled it and why: the
  transition keeps both columns, which are written only on the way to \<open>cancelling\<close>.
\<close>

theorem cancelled_pending_keeps_no_reason:
  assumes "wf_async db" and "op \<in> set (ops db)" and "o_status op = ''pending''"
    and "cancel_main p fresh now xc tenant (Some (o_id op)) reason db = (db', resp)" and "xr_statusCode resp = 200"
    and "r \<in> set (ops db')" and "o_id r = o_id op"
  shows "o_status r = ''cancelled'' \<and> o_cancelled_by r = o_cancelled_by op
    \<and> o_cancellation_reason r = o_cancellation_reason op"
proof -
  from assms(4,5) obtain op' actor where l: "cancel_lookup xc tenant (Some (o_id op)) db = Inr (op', actor)"
    by (auto simp: cancel_main_def split: sum.splits)
  then have "op' \<in> set (ops db)" "o_id op' = o_id op"
    by (auto simp: cancel_lookup_def Let_def bindE_eq_Inr findById_def findByIdAnyTenant_def is_op_def
        split: option.splits if_splits dest: find_Some_iff_in)
  then have op': "op' = op"
    using assms(1,2) unfolding wf_async_def by (blast intro: distinct_map_inj)
  from assms(3-5) l op' obtain d u t input where
    t: "transitionOperation now (fresh 0) db (Some (o_id op)) (Some (o_tenant_id op)) (Some actor) input = Inr (d, u, t)"
    and i: "ti_new_status input = Some ''cancelled''" and eq: "ops db' = ops d"
    by (auto simp: cancel_main_def split: sum.splits prod.splits dest!: published_ops)
  from t show ?thesis
  proof (cases rule: transitionOperation_cases)
    case (1 existing v)
    have "existing = op"
      using found_unique [OF assms(1) 1(1) assms(2)] by (simp add: is_op_def)
    then have v: "o_status v = ''cancelled''" "o_cancelled_by v = o_cancelled_by op"
        "o_cancellation_reason v = o_cancellation_reason op"
      using 1(2) i by (auto simp: applyOpTransition_def Let_def bindE_eq_Inr)
    from assms(6) obtain q where q: "q \<in> set (ops db)"
        "r = (if is_op (Some (o_id op)) (Some (o_tenant_id op)) q then status_write v q else q)"
      unfolding eq 1(3) by (auto simp: set_updWhere)
    have "o_id q = o_id op"
      using q(2) assms(7) by (auto simp: status_write_def split: if_splits)
    with q(1) assms(1,2) have "q = op"
      unfolding wf_async_def by (blast intro: distinct_map_inj)
    with q(2) v show ?thesis
      by (simp add: is_op_def status_write_def)
  qed
qed

theorem cancelled_pending_keeps_no_reason_witness:
  "let d = fst (cancel_main None async_fresh 5 sample_canceller None (Some ''o1'') (Some ''no longer needed'')
             (async_sample [sample_op ''o1'' ''t1'' ''pending'']))
   in map o_id (ops d) = [''o1''] \<and> (\<forall>r \<in> set (ops d). o_id r = ''o1'' \<longrightarrow>
        o_status r = ''cancelled'' \<and> o_cancellation_reason r = None)"
proof -
  let ?o = "sample_op ''o1'' ''t1'' ''pending''"
  define db where "db = async_sample [?o]"
  define r where "r = cancel_main None async_fresh 5 sample_canceller None (Some (o_id ?o)) (Some ''no longer needed'') db"
  have o: "wf_async db" "?o \<in> set (ops db)" "o_status ?o = ''pending''" "o_id ?o = ''o1''" "o_cancellation_reason ?o = None"
    by (simp_all add: db_def async_sample_def sample_op_def wf_async_def ALL_STATUSES_def)
  have "xr_statusCode (snd r) = 200" and ids: "map o_id (ops (fst r)) = [''o1'']"
    unfolding r_def db_def by code_simp+
  then have "\<forall>q \<in> set (ops (fst r)). o_id q = ''o1'' \<longrightarrow> o_status q = ''cancelled'' \<and> o_cancellation_reason q = None"
    using cancelled_pending_keeps_no_reason [OF o(1-3), where db' = "fst r" and resp = "snd r"] o(4,5)
    unfolding r_def by (metis prod.collapse)
  with ids show ?thesis
    unfolding r_def db_def o(4) Let_def by (rule conjI)
qed

section \<open>Manual intervention after an override\<close>









lemma flags_publish_transition [simp]:
  "flags (publish_transition p fresh now op prev c mi db) = flags db"
  unfolding publish_transition_def
  by (auto split: prod.splits sum.splits option.splits) (metis publishEvent_tables(5) fst_conv)+








section \<open>Correlation identifiers\<close>






end
