(* ===== verification/Saga_Durable.thy ===== *)
theory Saga_Durable
  imports JS_Json Lifecycle
begin

text \<open>
  The durable sagas of the control plane, \<open>apps/control-plane/saga.mjs\<close>, and their client
  \<open>runWorkspaceDbProvisionSaga\<close> of \<open>b-handlers.mjs\<close>.

  The tables \<open>saga_runs\<close>, \<open>saga_steps\<close> and the mirror of a run in the asynchronous-operation
  tables are lists of rows. Everything outside these tables (Keycloak, the workspace registry, the
  physical databases) is a value of the type variable \<open>'w\<close>: a forward step and a compensator are
  functions on it that may throw. \<open>comp_calls\<close> records the compensators in the order they ran.
\<close>

section \<open>Rows and state\<close>

type_synonym fields = "(string \<times> json) list"

record compensation_desc =
  comp_type :: string
  comp_args :: "fields option"

record saga_run =
  run_key :: string
  run_kind :: string
  run_status :: string
  run_request :: "json option"
  run_result :: "json option"
  run_error :: "string option"
  run_created_at :: time
  run_updated_at :: time

record saga_step_row =
  step_key :: string
  step_run :: string
  step_seq :: int
  step_name :: string
  step_status :: string
  compensation :: "compensation_desc option"
  comp_status :: "string option"
  comp_error :: "string option"

record mirror_op =
  mop_id :: string
  mop_tenant :: string
  mop_actor :: string
  mop_actor_type :: string
  mop_workspace :: "string option"
  mop_type :: string
  mop_status :: string
  mop_correlation :: string
  mop_saga :: string
  mop_error :: "(string \<times> string) option"

record mirror_transition =
  mtr_op :: string
  mtr_tenant :: string
  mtr_actor :: string
  mtr_from :: string
  mtr_to :: string
  mtr_metadata :: "json option"

record mirror_log =
  mlog_op :: string
  mlog_tenant :: string
  mlog_level :: string
  mlog_message :: string

text \<open>The calls the compensators make; an argument missing from the descriptor is \<open>JUndefined\<close>.\<close>

datatype ext_call =
  KcDeleteRealm json
| KcDeleteUser json json
| KcDeleteClient json json
| StoreDeleteTenant json
| StoreDeleteWorkspaceDatabase json
| PgDropDatabase json

record 'w saga_db =
  saga_runs :: "saga_run list"
  saga_steps :: "saga_step_row list"
  mirror_ops :: "mirror_op list"
  mirror_transitions :: "mirror_transition list"
  mirror_logs :: "mirror_log list"
  world :: 'w
  comp_calls :: "(string \<times> ext_call) list"

text \<open>What the environment decides: what a compensator call does, which of the mirror's tables
  refuse a row, and the clock.\<close>

record 'w saga_env =
  exec_call :: "ext_call \<Rightarrow> 'w \<Rightarrow> js_error option \<times> 'w"
  ops_fail :: bool
  transitions_fail :: bool
  logs_fail :: bool
  env_now :: time

section \<open>The compensators\<close>

definition COMPENSATORS :: "string \<Rightarrow> (fields \<Rightarrow> ext_call) option" where
  "COMPENSATORS t =
     (if t = ''kc.deleteRealm'' then Some (\<lambda>a. KcDeleteRealm (obj_get a ''realm''))
      else if t = ''kc.deleteUser'' then Some (\<lambda>a. KcDeleteUser (obj_get a ''realm'') (obj_get a ''userId''))
      else if t = ''kc.deleteClient'' then
        Some (\<lambda>a. KcDeleteClient (obj_get a ''realm'') (obj_get a ''clientUuid''))
      else if t = ''store.deleteTenant'' then Some (\<lambda>a. StoreDeleteTenant (obj_get a ''id''))
      else if t = ''store.deleteWorkspaceDatabase'' then
        Some (\<lambda>a. StoreDeleteWorkspaceDatabase (obj_get a ''id''))
      else if t = ''pg.dropDatabase'' then Some (\<lambda>a. PgDropDatabase (obj_get a ''database''))
      else None)"

section \<open>The saga object\<close>

record saga_op =
  op_tenantId :: string
  op_actorId :: string
  op_actorType :: "string option"
  op_workspaceId :: "string option"
  op_operationType :: "string option"
  op_correlationId :: "string option"

record saga =
  runId :: string
  saga_kind :: string
  saga_seq :: int
  saga_mirror :: "saga_op option"

text \<open>\<open>_transition\<close>, \<open>_log\<close> and \<open>_opStatus\<close>: the mirror of the run; the first two may throw.\<close>

definition mirror_error :: js_error where
  "mirror_error = JsError None None ''mirror table refused the row''"

definition saga_transition ::
  "'w saga_env \<Rightarrow> saga \<Rightarrow> string \<Rightarrow> string \<Rightarrow> json option \<Rightarrow> 'w saga_db \<Rightarrow> js_error option \<times> 'w saga_db" where
  "saga_transition env sg from to metadata db =
     (case saga_mirror sg of
        None \<Rightarrow> (None, db)
      | Some p \<Rightarrow>
          if transitions_fail env then (Some mirror_error, db)
          else (None, db\<lparr>mirror_transitions := mirror_transitions db @
                 [\<lparr>mtr_op = runId sg, mtr_tenant = op_tenantId p, mtr_actor = op_actorId p,
                   mtr_from = from, mtr_to = to, mtr_metadata = metadata\<rparr>]\<rparr>))"

definition saga_log ::
  "'w saga_env \<Rightarrow> saga \<Rightarrow> string \<Rightarrow> string \<Rightarrow> 'w saga_db \<Rightarrow> js_error option \<times> 'w saga_db" where
  "saga_log env sg level message db =
     (case saga_mirror sg of
        None \<Rightarrow> (None, db)
      | Some p \<Rightarrow>
          if logs_fail env then (Some mirror_error, db)
          else (None, db\<lparr>mirror_logs := mirror_logs db @
                 [\<lparr>mlog_op = runId sg, mlog_tenant = op_tenantId p, mlog_level = level,
                   mlog_message = message\<rparr>]\<rparr>))"

text \<open>Two statements of a \<open>try\<close> block: the second does not run when the first throws.\<close>

definition andThen ::
  "js_error option \<times> 'd \<Rightarrow> ('d \<Rightarrow> js_error option \<times> 'd) \<Rightarrow> js_error option \<times> 'd" where
  "andThen r f = (case r of (Some e, d) \<Rightarrow> (Some e, d) | (None, d) \<Rightarrow> f d)"

definition saga_opStatus ::
  "'w saga_env \<Rightarrow> saga \<Rightarrow> string \<Rightarrow> (string \<times> string) option \<Rightarrow> 'w saga_db \<Rightarrow> 'w saga_db" where
  "saga_opStatus env sg status errorSummary db =
     (case saga_mirror sg of
        None \<Rightarrow> db
      | Some p \<Rightarrow>
          snd (andThen
            (andThen
              (if ops_fail env then (Some mirror_error, db)
               else (None, db\<lparr>mirror_ops := updWhere (\<lambda>r. mop_id r = runId sg)
                       (\<lambda>r. r\<lparr>mop_status := status, mop_error := errorSummary\<rparr>) (mirror_ops db)\<rparr>))
              (saga_transition env sg ''running'' status None))
            (saga_log env sg (if status = ''failed'' then ''error'' else ''info'')
              (coalesce (op_operationType p) (saga_kind sg) @ '' '' @ status))))"

text \<open>\<open>attachOperation\<close>: without a tenant or an actor there is no mirror; a refused row drops it.\<close>

definition attachOperation ::
  "'w saga_env \<Rightarrow> saga_op \<Rightarrow> saga \<Rightarrow> 'w saga_db \<Rightarrow> saga \<times> 'w saga_db" where
  "attachOperation env p sg db =
     (if op_tenantId p = [] \<or> op_actorId p = [] then (sg, db)
      else
        let otype = coalesce (op_operationType p) (saga_kind sg);
            corr = (case op_correlationId p of
                      None \<Rightarrow> runId sg
                    | Some c \<Rightarrow> if c = [] then runId sg else c);
            sg' = sg\<lparr>saga_mirror := Some (p\<lparr>op_operationType := Some otype, op_correlationId := Some corr\<rparr>)\<rparr>;
            r = andThen
                  (andThen
                    (if ops_fail env then (Some mirror_error, db)
                     else (None, db\<lparr>mirror_ops := mirror_ops db @
                            [\<lparr>mop_id = runId sg, mop_tenant = op_tenantId p, mop_actor = op_actorId p,
                              mop_actor_type = coalesce (op_actorType p) ''superadmin'',
                              mop_workspace = op_workspaceId p, mop_type = otype,
                              mop_status = ''running'', mop_correlation = corr, mop_saga = runId sg,
                              mop_error = None\<rparr>]\<rparr>))
                    (saga_transition env sg' ''pending'' ''running'' None))
                  (saga_log env sg' ''info'' (otype @ '' started''))
        in case r of
             (None, db') \<Rightarrow> (sg', db')
           | (Some e, db') \<Rightarrow> (sg\<lparr>saga_mirror := None\<rparr>, db'))"

definition startSaga ::
  "'w saga_env \<Rightarrow> string \<Rightarrow> string \<Rightarrow> json option \<Rightarrow> saga_op option \<Rightarrow> 'w saga_db \<Rightarrow> saga \<times> 'w saga_db" where
  "startSaga env rid kind request operation db =
     (let db' = db\<lparr>saga_runs := saga_runs db @
                  [\<lparr>run_key = rid, run_kind = kind, run_status = ''running'', run_request = request,
                    run_result = None, run_error = None, run_created_at = env_now env,
                    run_updated_at = env_now env\<rparr>]\<rparr>;
          sg = \<lparr>runId = rid, saga_kind = kind, saga_seq = 0, saga_mirror = None\<rparr>
      in case operation of
           None \<Rightarrow> (sg, db')
         | Some p \<Rightarrow> attachOperation env p sg db')"

text \<open>
  \<open>step\<close>: the side effect \<open>fn()\<close> first, then the row that records how to undo it. \<open>step_record\<close> is
  the second half.
\<close>

definition step_record ::
  "string \<Rightarrow> saga \<Rightarrow> string \<Rightarrow> compensation_desc option \<Rightarrow> 'w saga_db \<Rightarrow> 'w saga_db" where
  "step_record sid sg name undo db =
     db\<lparr>saga_steps := saga_steps db @
        [\<lparr>step_key = sid, step_run = runId sg, step_seq = saga_seq sg, step_name = name,
          step_status = ''done'', compensation = undo,
          comp_status = (case undo of None \<Rightarrow> None | Some _ \<Rightarrow> Some ''pending''), comp_error = None\<rparr>]\<rparr>"

definition saga_step ::
  "string \<Rightarrow> string \<Rightarrow> ('w \<Rightarrow> 'v result \<times> 'w) \<Rightarrow> ('v \<Rightarrow> compensation_desc option)
     \<Rightarrow> saga \<Rightarrow> 'w saga_db \<Rightarrow> 'v result \<times> saga \<times> 'w saga_db" where
  "saga_step sid name fn undo sg db =
     (let sg' = sg\<lparr>saga_seq := saga_seq sg + 1\<rparr>;
          (r, w) = fn (world db);
          db' = db\<lparr>world := w\<rparr>
      in case r of
           Inl e \<Rightarrow> (Inl e, sg', db')
         | Inr v \<Rightarrow> (Inr v, sg', step_record sid sg' name (undo v) db'))"

definition set_run :: "string \<Rightarrow> (saga_run \<Rightarrow> saga_run) \<Rightarrow> 'w saga_db \<Rightarrow> 'w saga_db" where
  "set_run rid f db = db\<lparr>saga_runs := updWhere (\<lambda>r. run_key r = rid) f (saga_runs db)\<rparr>"

definition saga_complete :: "'w saga_env \<Rightarrow> saga \<Rightarrow> json option \<Rightarrow> 'w saga_db \<Rightarrow> 'w saga_db" where
  "saga_complete env sg result db =
     saga_opStatus env sg ''completed'' None
       (set_run (runId sg)
         (\<lambda>r. r\<lparr>run_status := ''completed'', run_result := result, run_updated_at := env_now env\<rparr>) db)"

section \<open>Running the compensations\<close>

definition set_step :: "string \<Rightarrow> (saga_step_row \<Rightarrow> saga_step_row) \<Rightarrow> 'w saga_db \<Rightarrow> 'w saga_db" where
  "set_step sid f db = db\<lparr>saga_steps := updWhere (\<lambda>s. step_key s = sid) f (saga_steps db)\<rparr>"

definition pending_steps :: "string \<Rightarrow> 'w saga_db \<Rightarrow> saga_step_row list" where
  "pending_steps rid db =
     sort_key (\<lambda>s. - step_seq s)
       (filter (\<lambda>s. step_run s = rid \<and> compensation s \<noteq> None \<and> comp_status s = Some ''pending'')
         (saga_steps db))"

text \<open>The atomic claim: how many rows it flipped, and the table after it.\<close>

definition claim_step :: "string \<Rightarrow> 'w saga_db \<Rightarrow> nat \<times> 'w saga_db" where
  "claim_step sid db =
     (let p = (\<lambda>s. step_key s = sid \<and> comp_status s = Some ''pending'')
      in (length (filter p (saga_steps db)),
          db\<lparr>saga_steps := updWhere p (\<lambda>s. s\<lparr>comp_status := Some ''compensating''\<rparr>) (saga_steps db)\<rparr>))"

text \<open>The compensator call of a claimed step: its error, if it threw, and the call made, if any.\<close>

definition step_call :: "saga_step_row \<Rightarrow> ext_call option" where
  "step_call s =
     (case compensation s of
        None \<Rightarrow> None
      | Some c \<Rightarrow> map_option (\<lambda>f. f (coalesce (comp_args c) [])) (COMPENSATORS (comp_type c)))"

definition exec_step :: "'w saga_env \<Rightarrow> saga_step_row \<Rightarrow> 'w saga_db \<Rightarrow> js_error option \<times> 'w saga_db" where
  "exec_step env s db =
     (case step_call s of
        None \<Rightarrow>
          (Some (JsError None None
             (''no compensator for type '' @
               (case compensation s of None \<Rightarrow> ''undefined'' | Some c \<Rightarrow> comp_type c))), db)
      | Some c \<Rightarrow>
          (let (e, w) = exec_call env c (world db)
           in (e, db\<lparr>world := w, comp_calls := comp_calls db @ [(step_key s, c)]\<rparr>)))"

definition mark_step :: "saga_step_row \<Rightarrow> js_error option \<Rightarrow> 'w saga_db \<Rightarrow> 'w saga_db" where
  "mark_step s err db =
     (case err of
        None \<Rightarrow> set_step (step_key s) (\<lambda>r. r\<lparr>comp_status := Some ''compensated''\<rparr>) db
      | Some e \<Rightarrow>
          set_step (step_key s)
            (\<lambda>r. r\<lparr>comp_status := Some ''comp_failed'', comp_error := Some (err_message e)\<rparr>) db)"

definition compensate_step :: "'w saga_env \<Rightarrow> saga_step_row \<Rightarrow> 'w saga_db \<Rightarrow> 'w saga_db" where
  "compensate_step env s db =
     (case claim_step (step_key s) db of
        (n, db1) \<Rightarrow>
          if n = 0 then db1
          else (case exec_step env s db1 of (e, db2) \<Rightarrow> mark_step s e db2))"

definition runCompensations :: "'w saga_env \<Rightarrow> string \<Rightarrow> 'w saga_db \<Rightarrow> 'w saga_db" where
  "runCompensations env rid db = fold (compensate_step env) (pending_steps rid db) db"

definition saga_fail :: "'w saga_env \<Rightarrow> saga \<Rightarrow> js_error \<Rightarrow> 'w saga_db \<Rightarrow> 'w saga_db" where
  "saga_fail env sg e db =
     (let db1 = set_run (runId sg)
                  (\<lambda>r. r\<lparr>run_status := ''failed'', run_error := Some (err_message e),
                         run_updated_at := env_now env\<rparr>) db;
          db2 = saga_opStatus env sg ''failed''
                  (Some (coalesce (err_code e) ''SAGA_FAILED'', err_message e)) db1;
          db3 = runCompensations env (runId sg) db2
      in set_run (runId sg) (\<lambda>r. r\<lparr>run_status := ''compensated'', run_updated_at := env_now env\<rparr>) db3)"

text \<open>\<open>recoverSagas\<close>: one atomic claim of every orphaned run, then one rollback after the other.\<close>

definition orphaned :: "'w saga_env \<Rightarrow> int \<Rightarrow> saga_run \<Rightarrow> bool" where
  "orphaned env olderThanSeconds r \<longleftrightarrow>
     run_status r = ''running'' \<and> run_created_at r < env_now env - olderThanSeconds * 1000"

definition recover_one :: "'w saga_env \<Rightarrow> string \<Rightarrow> 'w saga_db \<Rightarrow> 'w saga_db" where
  "recover_one env rid db =
     set_run rid
       (\<lambda>r. r\<lparr>run_status := ''recovered'', run_updated_at := env_now env,
              run_error := Some (coalesce (run_error r) ''recovered after restart'')\<rparr>)
       (runCompensations env rid db)"

definition recoverSagas :: "'w saga_env \<Rightarrow> int \<Rightarrow> 'w saga_db \<Rightarrow> nat \<times> 'w saga_db" where
  "recoverSagas env olderThanSeconds db =
     (let rows = map run_key (filter (orphaned env olderThanSeconds) (saga_runs db));
          db' = db\<lparr>saga_runs := updWhere (orphaned env olderThanSeconds)
                  (\<lambda>r. r\<lparr>run_status := ''recovering'', run_updated_at := env_now env\<rparr>) (saga_runs db)\<rparr>
      in (length rows, fold (recover_one env) rows db'))"

section \<open>A client: provisioning the database of a workspace\<close>

record ws_conn =
  conn_engine :: string
  conn_database :: string
  conn_mode :: string
  conn_username :: string
  conn_host :: string
  conn_port :: int

record db_record =
  dbrec_id :: string
  dbrec_workspace :: string
  dbrec_tenant :: string
  dbrec_conn :: ws_conn
  dbrec_environment :: string
  dbrec_createdBy :: string

record workspace_row =
  ws_id :: string
  ws_tenant :: string
  ws_slug :: "string option"
  ws_environment :: "string option"

text \<open>What it calls outside the saga: the creation of the database and the insertion of its
  registry row.\<close>

record 'w provision_env =
  createDatabase :: "string \<Rightarrow> string \<Rightarrow> 'w \<Rightarrow> ws_conn result \<times> 'w"
  insertWorkspaceDatabase :: "db_record \<Rightarrow> 'w \<Rightarrow> db_record result \<times> 'w"

record identity =
  id_sub :: string
  id_actorType :: "string option"

definition provision_record :: "string \<Rightarrow> workspace_row \<Rightarrow> identity \<Rightarrow> ws_conn \<Rightarrow> db_record" where
  "provision_record rid ws ident conn =
     \<lparr>dbrec_id = rid, dbrec_workspace = ws_id ws, dbrec_tenant = ws_tenant ws, dbrec_conn = conn,
      dbrec_environment = coalesce (ws_environment ws) ''dev'', dbrec_createdBy = id_sub ident\<rparr>"

definition runWorkspaceDbProvisionSaga ::
  "'w saga_env \<Rightarrow> 'w provision_env \<Rightarrow> string list \<Rightarrow> workspace_row \<Rightarrow> string option \<Rightarrow> identity
     \<Rightarrow> string option \<Rightarrow> 'w saga_db \<Rightarrow> (db_record \<times> ws_conn \<times> string) result \<times> 'w saga_db" where
  "runWorkspaceDbProvisionSaga env penv ids ws tenantSlug ident corr db =
     (let (sg0, db0) = startSaga env (ids ! 0) ''provisionWorkspaceDatabase''
            (Some (JObj [(''workspaceId'', JStr (ws_id ws)), (''tenantId'', JStr (ws_tenant ws))]))
            (Some \<lparr>op_tenantId = ws_tenant ws, op_actorId = id_sub ident,
                   op_actorType = Some (coalesce (id_actorType ident) ''superadmin''),
                   op_workspaceId = Some (ws_id ws),
                   op_operationType = Some ''workspace.database.provision'',
                   op_correlationId = corr\<rparr>) db
      in case saga_step (ids ! 1) ''createDatabase''
                (createDatabase penv (coalesce tenantSlug (ws_tenant ws)) (coalesce (ws_slug ws) (ws_id ws)))
                (\<lambda>v. Some \<lparr>comp_type = ''pg.dropDatabase'',
                            comp_args = Some [(''database'', JStr (conn_database v))]\<rparr>) sg0 db0 of
           (Inl e, sg1, db1) \<Rightarrow> (Inl e, saga_fail env sg1 e db1)
         | (Inr conn, sg1, db1) \<Rightarrow>
             (case saga_step (ids ! 2) ''insertRecord''
                     (insertWorkspaceDatabase penv (provision_record (ids ! 3) ws ident conn))
                     (\<lambda>v. Some \<lparr>comp_type = ''store.deleteWorkspaceDatabase'',
                                 comp_args = Some [(''id'', JStr (dbrec_id v))]\<rparr>) sg1 db1 of
                (Inl e, sg2, db2) \<Rightarrow> (Inl e, saga_fail env sg2 e db2)
              | (Inr rec, sg2, db2) \<Rightarrow>
                  (Inr (rec, conn, runId sg2),
                   saga_complete env sg2
                     (Some (JObj [(''database'', JStr (conn_database conn))])) db2)))"

end
