(* ===== verification/Saga_Rollback.thy ===== *)
theory Saga_Rollback
  imports Saga_Durable
begin

text \<open>
  The rollback of a durable saga: the table operations of \<open>runCompensations\<close> implement the abstract
  \<open>rollback\<close>, which runs the recorded compensators one after the other on the outside world.
\<close>

section \<open>The abstract rollback\<close>

definition call_outcome :: "'w saga_env \<Rightarrow> saga_step_row \<Rightarrow> 'w \<Rightarrow> js_error option \<times> 'w" where
  "call_outcome env s w =
     (case step_call s of
        None \<Rightarrow>
          (Some (JsError None None
             (''no compensator for type '' @
               (case compensation s of None \<Rightarrow> ''undefined'' | Some c \<Rightarrow> comp_type c))), w)
      | Some c \<Rightarrow> exec_call env c w)"

fun rollback ::
  "'w saga_env \<Rightarrow> saga_step_row list \<Rightarrow> 'w \<Rightarrow> (string \<times> js_error option) list \<times> 'w" where
  "rollback env [] w = ([], w)"
| "rollback env (s # ss) w =
     (let (e, w1) = call_outcome env s w; (os, w2) = rollback env ss w1
      in ((step_key s, e) # os, w2))"

definition settle :: "js_error option \<Rightarrow> saga_step_row \<Rightarrow> saga_step_row" where
  "settle e r =
     (case e of
        None \<Rightarrow> r\<lparr>comp_status := Some ''compensated''\<rparr>
      | Some e \<Rightarrow> r\<lparr>comp_status := Some ''comp_failed'', comp_error := Some (err_message e)\<rparr>)"

definition settle_all :: "(string \<times> js_error option) list \<Rightarrow> saga_step_row \<Rightarrow> saga_step_row" where
  "settle_all os r = (case map_of os (step_key r) of None \<Rightarrow> r | Some e \<Rightarrow> settle e r)"

definition calls_of :: "saga_step_row list \<Rightarrow> (string \<times> ext_call) list" where
  "calls_of ss = List.map_filter (\<lambda>s. map_option (Pair (step_key s)) (step_call s)) ss"

lemma calls_of_simps [simp]:
  "calls_of [] = []"
  "calls_of (s # ss) = (case step_call s of None \<Rightarrow> [] | Some c \<Rightarrow> [(step_key s, c)]) @ calls_of ss"
  by (simp_all add: calls_of_def List.map_filter_simps split: option.splits)

lemma fst_calls_of: "fst ` set (calls_of ss) \<subseteq> step_key ` set ss"
  by (induction ss) (auto split: option.splits)

lemma rollback_keys: "map fst (fst (rollback env ss w)) = map step_key ss"
  by (induction ss arbitrary: w) (auto split: prod.splits, (metis fst_conv)+)

lemma settle_simps [simp]:
  "step_key (settle e r) = step_key r" "step_run (settle e r) = step_run r"
  "step_seq (settle e r) = step_seq r" "compensation (settle e r) = compensation r"
  "comp_status (settle e r) = Some (if e = None then ''compensated'' else ''comp_failed'')"
  by (simp_all add: settle_def split: option.splits)

lemma settle_all_simps [simp]:
  "step_key (settle_all os r) = step_key r" "step_run (settle_all os r) = step_run r"
  "step_seq (settle_all os r) = step_seq r" "compensation (settle_all os r) = compensation r"
  by (simp_all add: settle_all_def split: option.splits)

lemma settle_overrides: "settle e (r\<lparr>comp_status := c\<rparr>) = settle e r"
  by (simp add: settle_def split: option.splits)

section \<open>The tables implement it\<close>

lemma exec_step_outcome:
  "exec_step env s db =
     (fst (call_outcome env s (world db)),
      db\<lparr>world := snd (call_outcome env s (world db)),
         comp_calls := comp_calls db @ calls_of [s]\<rparr>)"
  by (simp add: exec_step_def call_outcome_def split: option.splits prod.splits)

lemma updWhere_claimed:
  assumes "distinct (map step_key xs)" and "r \<in> set xs" and "step_key r = k" and "q r"
  shows "updWhere (\<lambda>s. step_key s = k) f (updWhere (\<lambda>s. step_key s = k \<and> q s) (\<lambda>s. s\<lparr>comp_status := c\<rparr>) xs)
       = map (\<lambda>s. if step_key s = k then f (s\<lparr>comp_status := c\<rparr>) else s) xs"
proof -
  have "q s" if "s \<in> set xs" "step_key s = k" for s
    using assms that distinct_map_inj [of step_key xs s r] by auto
  then show ?thesis by (simp add: updWhere_def)
qed

lemma compensate_step_effect:
  assumes dk: "distinct (map step_key (saga_steps db))"
    and r: "r \<in> set (saga_steps db)" "step_key r = step_key s" "comp_status r = Some ''pending''"
  shows "compensate_step env s db =
     db\<lparr>saga_steps := map (\<lambda>r. if step_key r = step_key s then settle (fst (call_outcome env s (world db))) r else r)
                        (saga_steps db),
        world := snd (call_outcome env s (world db)),
        comp_calls := comp_calls db @ calls_of [s]\<rparr>"
proof -
  have ne: "filter (\<lambda>t. step_key t = step_key s \<and> comp_status t = Some ''pending'') (saga_steps db) \<noteq> []"
    using r by (auto simp: filter_empty_conv)
  have mark: "mark_step s e d = set_step (step_key s) (settle e) d" for e d
    by (cases e) (simp_all add: mark_step_def settle_def [abs_def] set_step_def)
  show ?thesis
    using ne updWhere_claimed [OF dk r(1,2), of "\<lambda>t. comp_status t = Some ''pending''"] r(3)
    by (simp add: compensate_step_def claim_step_def exec_step_outcome mark set_step_def
        settle_overrides Let_def)
qed

lemma compensate_all:
  assumes "distinct (map step_key (saga_steps db))" and "distinct (map step_key ss)"
    and "\<And>s. s \<in> set ss \<Longrightarrow> \<exists>r \<in> set (saga_steps db). step_key r = step_key s \<and> comp_status r = Some ''pending''"
  shows "fold (compensate_step env) ss db =
     db\<lparr>saga_steps := map (settle_all (fst (rollback env ss (world db)))) (saga_steps db),
        world := snd (rollback env ss (world db)),
        comp_calls := comp_calls db @ calls_of ss\<rparr>"
  using assms
proof (induction ss arbitrary: db)
  case Nil
  have "settle_all [] = id"
    by (rule ext) (simp add: settle_all_def)
  then show ?case by simp
next
  case (Cons s ss)
  obtain e w1 where o1: "call_outcome env s (world db) = (e, w1)"
    by fastforce
  obtain os w2 where o2: "rollback env ss w1 = (os, w2)"
    by fastforce
  let ?f = "\<lambda>r. if step_key r = step_key s then settle e r else r"
  let ?db1 = "db\<lparr>saga_steps := map ?f (saga_steps db), world := w1, comp_calls := comp_calls db @ calls_of [s]\<rparr>"
  from Cons.prems(3) [of s] obtain r where
    "r \<in> set (saga_steps db)" "step_key r = step_key s" "comp_status r = Some ''pending''"
    by auto
  with Cons.prems(1) have one: "compensate_step env s db = ?db1"
    by (simp add: compensate_step_effect o1 del: calls_of_simps)
  have keys: "map step_key (saga_steps ?db1) = map step_key (saga_steps db)"
    by simp
  have notin: "step_key s \<notin> fst ` set os"
  proof -
    have "map fst os = map step_key ss"
      using rollback_keys [of env ss w1] by (simp add: o2)
    then have "fst ` set os = step_key ` set ss"
      by (metis list.set_map)
    with Cons.prems(2) show ?thesis by simp
  qed
  have pend: "\<exists>r \<in> set (saga_steps ?db1). step_key r = step_key t \<and> comp_status r = Some ''pending''"
    if "t \<in> set ss" for t
  proof -
    from Cons.prems(3) [of t] that obtain r where
      "r \<in> set (saga_steps db)" "step_key r = step_key t" "comp_status r = Some ''pending''"
      by auto
    moreover from that Cons.prems(2) have "step_key t \<noteq> step_key s"
      by (auto simp: rev_image_eqI)
    ultimately show ?thesis
      by (auto intro!: bexI [of _ r] image_eqI [of _ _ r])
  qed
  have "fold (compensate_step env) ss ?db1 =
     ?db1\<lparr>saga_steps := map (settle_all os) (saga_steps ?db1), world := w2,
          comp_calls := comp_calls ?db1 @ calls_of ss\<rparr>"
  proof -
    have d: "distinct (map step_key (saga_steps ?db1))" "distinct (map step_key ss)"
      using Cons.prems(1,2) unfolding keys by simp_all
    have w: "world ?db1 = w1" by simp
    show ?thesis
      using Cons.IH [OF d pend] unfolding w o2 fst_conv snd_conv .
  qed
  moreover have "settle_all os (?f r) = settle_all ((step_key s, e) # os) r" for r
    using notin by (auto simp: settle_all_def map_of_eq_None_iff [symmetric])
  ultimately show ?case
    by (simp add: one o1 o2 comp_def)
qed

lemma pending_steps_iff:
  "s \<in> set (pending_steps rid db) \<longleftrightarrow>
     s \<in> set (saga_steps db) \<and> step_run s = rid \<and> compensation s \<noteq> None \<and> comp_status s = Some ''pending''"
  by (auto simp: pending_steps_def)

lemma pending_steps_distinct:
  "distinct (map step_key (saga_steps db)) \<Longrightarrow> distinct (map step_key (pending_steps rid db))"
  by (auto simp: pending_steps_def distinct_map intro: inj_on_subset)

lemma runCompensations_rollback:
  assumes "distinct (map step_key (saga_steps db))"
  shows "runCompensations env rid db =
     db\<lparr>saga_steps := map (settle_all (fst (rollback env (pending_steps rid db) (world db)))) (saga_steps db),
        world := snd (rollback env (pending_steps rid db) (world db)),
        comp_calls := comp_calls db @ calls_of (pending_steps rid db)\<rparr>"
  unfolding runCompensations_def
  using assms pending_steps_distinct [OF assms]
  by (rule compensate_all) (auto simp: pending_steps_iff)

end
