(* ===== verification/Saga_Workers.thy ===== *)
theory Saga_Workers
  imports Saga_Rollback
begin

text \<open>
  Several replicas of the control plane roll sagas back at once, and any of them may crash between
  two statements. \<open>sys_step\<close> interleaves the atomic statements of \<open>runCompensations\<close>: the
  \<open>SELECT\<close>, the claim, the compensator call and the final \<open>UPDATE\<close>, with crashes and with the
  forward steps of running sagas.
\<close>

section \<open>Workers\<close>

datatype worker =
  Idle
| Looping "saga_step_row list"
| Claimed saga_step_row "saga_step_row list"
| Executed saga_step_row "js_error option" "saga_step_row list"

type_synonym 'w sys = "'w saga_db \<times> worker list"

inductive sys_step :: "'w saga_env \<Rightarrow> 'w sys \<Rightarrow> 'w sys \<Rightarrow> bool" for env where
  select: "\<lbrakk>i < length ws; ws ! i = Idle\<rbrakk>
    \<Longrightarrow> sys_step env (db, ws) (db, ws[i := Looping (pending_steps rid db)])"
| claim_won: "\<lbrakk>i < length ws; ws ! i = Looping (s # ss); claim_step (step_key s) db = (n, db'); n \<noteq> 0\<rbrakk>
    \<Longrightarrow> sys_step env (db, ws) (db', ws[i := Claimed s ss])"
| claim_lost: "\<lbrakk>i < length ws; ws ! i = Looping (s # ss); claim_step (step_key s) db = (0, db')\<rbrakk>
    \<Longrightarrow> sys_step env (db, ws) (db', ws[i := Looping ss])"
| call: "\<lbrakk>i < length ws; ws ! i = Claimed s ss; exec_step env s db = (e, db')\<rbrakk>
    \<Longrightarrow> sys_step env (db, ws) (db', ws[i := Executed s e ss])"
| mark: "\<lbrakk>i < length ws; ws ! i = Executed s e ss\<rbrakk>
    \<Longrightarrow> sys_step env (db, ws) (mark_step s e db, ws[i := Looping ss])"
| finish: "\<lbrakk>i < length ws; ws ! i = Looping []\<rbrakk>
    \<Longrightarrow> sys_step env (db, ws) (db, ws[i := Idle])"
| crash: "i < length ws \<Longrightarrow> sys_step env (db, ws) (db, ws[i := Idle])"
| forward: "sid \<notin> step_key ` set (saga_steps db)
    \<Longrightarrow> sys_step env (db, ws) (step_record sid sg name undo (db\<lparr>world := w\<rparr>), ws)"
| set_run_status: "sys_step env (db, ws) (set_run rid f db, ws)"

abbreviation sys_steps :: "'w saga_env \<Rightarrow> 'w sys \<Rightarrow> 'w sys \<Rightarrow> bool" where
  "sys_steps env \<equiv> (sys_step env)\<^sup>*\<^sup>*"

section \<open>The invariant: a claimed step is settled and not yet called\<close>

definition settled :: "'w saga_db \<Rightarrow> string \<Rightarrow> bool" where
  "settled db k \<longleftrightarrow>
     k \<in> step_key ` set (saga_steps db) \<and>
     (\<forall>r \<in> set (saga_steps db). step_key r = k \<longrightarrow> comp_status r \<noteq> Some ''pending'')"

fun holds :: "worker \<Rightarrow> string \<Rightarrow> bool" where
  "holds (Claimed s ss) k = (step_key s = k)"
| "holds _ k = False"

definition called :: "'w saga_db \<Rightarrow> string set" where
  "called db = fst ` set (comp_calls db)"

definition sys_inv :: "'w sys \<Rightarrow> bool" where
  "sys_inv = (\<lambda>(db, ws).
     distinct (map fst (comp_calls db)) \<and>
     (\<forall>k \<in> called db. settled db k) \<and>
     (\<forall>i < length ws. \<forall>k. holds (ws ! i) k \<longrightarrow> settled db k \<and> k \<notin> called db) \<and>
     (\<forall>i < length ws. \<forall>j < length ws. \<forall>k. holds (ws ! i) k \<longrightarrow> holds (ws ! j) k \<longrightarrow> i = j))"

lemma sys_invI:
  assumes "distinct (map fst (comp_calls db))"
    and "\<And>k. k \<in> called db \<Longrightarrow> settled db k"
    and "\<And>i k. i < length ws \<Longrightarrow> holds (ws ! i) k \<Longrightarrow> settled db k \<and> k \<notin> called db"
    and "\<And>i j k. i < length ws \<Longrightarrow> j < length ws \<Longrightarrow> holds (ws ! i) k \<Longrightarrow> holds (ws ! j) k \<Longrightarrow> i = j"
  shows "sys_inv (db, ws)"
  unfolding sys_inv_def using assms by blast

lemma sys_invD:
  assumes "sys_inv (db, ws)"
  shows "distinct (map fst (comp_calls db))"
    and "k \<in> called db \<Longrightarrow> settled db k"
    and "i < length ws \<Longrightarrow> holds (ws ! i) k \<Longrightarrow> settled db k"
    and "i < length ws \<Longrightarrow> holds (ws ! i) k \<Longrightarrow> k \<notin> called db"
    and "i < length ws \<Longrightarrow> j < length ws \<Longrightarrow> holds (ws ! i) k \<Longrightarrow> holds (ws ! j) k \<Longrightarrow> i = j"
  using assms unfolding sys_inv_def by auto

text \<open>A worker that gives up its step, or takes up a list of rows, keeps the invariant as long as
  the settled steps stay settled and no call is added.\<close>

lemma sys_inv_release:
  assumes inv: "sys_inv (db, ws)" and h: "\<And>k. \<not> holds x k"
    and set: "\<And>k. settled db k \<Longrightarrow> settled db' k" and calls: "comp_calls db' = comp_calls db"
  shows "sys_inv (db', ws[i := x])"
proof (rule sys_invI)
  show "distinct (map fst (comp_calls db'))"
    using sys_invD(1) [OF inv] calls by simp
  have cd: "called db' = called db"
    by (simp add: called_def calls)
  show "settled db' k" if "k \<in> called db'" for k
    using that sys_invD(2) [OF inv] set cd by blast
  have hold: "holds (ws ! j) k" if "j < length (ws[i := x])" "holds (ws[i := x] ! j) k" for j k
    using that h by (cases "j = i") auto
  show "settled db' k \<and> k \<notin> called db'" if "j < length (ws[i := x])" "holds (ws[i := x] ! j) k" for j k
    using hold [OF that] that(1) sys_invD(3,4) [OF inv, of j k] set cd by simp
  show "j = j'" if "j < length (ws[i := x])" "j' < length (ws[i := x])"
    "holds (ws[i := x] ! j) k" "holds (ws[i := x] ! j') k" for j j' k
    using hold [OF that(1,3)] hold [OF that(2,4)] that(1,2) sys_invD(5) [OF inv, of j j' k] by simp
qed

lemma claim_step_settles:
  assumes "claim_step k db = (n, db')"
  shows "settled db k' \<Longrightarrow> settled db' k'" and "comp_calls db' = comp_calls db"
    and "n \<noteq> 0 \<Longrightarrow> settled db' k" and "n \<noteq> 0 \<Longrightarrow> \<not> settled db k"
proof -
  let ?p = "\<lambda>s. step_key s = k \<and> comp_status s = Some ''pending''"
  have db': "db' = db\<lparr>saga_steps := updWhere ?p (\<lambda>s. s\<lparr>comp_status := Some ''compensating''\<rparr>) (saga_steps db)\<rparr>"
    and n: "n = length (filter ?p (saga_steps db))"
    using assms by (auto simp: claim_step_def Let_def)
  have keys: "step_key ` set (saga_steps db') = step_key ` set (saga_steps db)"
    unfolding db' by (simp add: image_updWhere_same)
  show "comp_calls db' = comp_calls db"
    by (simp add: db')
  show "settled db k' \<Longrightarrow> settled db' k'"
    unfolding settled_def keys by (simp add: db' ball_updWhere)
  show "n \<noteq> 0 \<Longrightarrow> \<not> settled db k"
    unfolding settled_def n by (auto simp: filter_empty_conv)
  assume "n \<noteq> 0"
  then have "k \<in> step_key ` set (saga_steps db)"
    unfolding n by (auto simp: filter_empty_conv)
  then show "settled db' k"
    unfolding settled_def keys by (simp add: db' ball_updWhere)
qed

lemma sys_inv_claim:
  assumes inv: "sys_inv (db, ws)" and cl: "claim_step (step_key s) db = (n, db')" and n: "n \<noteq> 0"
  shows "sys_inv (db', ws[i := Claimed s ss])"
proof (rule sys_invI)
  note c = claim_step_settles [OF cl]
  have cd: "called db' = called db"
    by (simp add: called_def c(2))
  have fresh: "step_key s \<notin> called db" and free: "\<not> holds (ws ! j) (step_key s)" if "j < length ws" for j
    using sys_invD(2) [OF inv] sys_invD(3) [OF inv that] c(4) [OF n] by blast+
  have fresh': "step_key s \<notin> called db"
    using sys_invD(2) [OF inv] c(4) [OF n] by blast
  show "distinct (map fst (comp_calls db'))"
    using sys_invD(1) [OF inv] c(2) by simp
  show "settled db' k" if "k \<in> called db'" for k
    using that sys_invD(2) [OF inv] c(1) cd by blast
  show "settled db' k \<and> k \<notin> called db'"
    if "j < length (ws[i := Claimed s ss])" "holds (ws[i := Claimed s ss] ! j) k" for j k
    using that sys_invD(3,4) [OF inv, of j k] c(1) c(3) [OF n] fresh' cd by (cases "j = i") auto
  show "j = j'" if "j < length (ws[i := Claimed s ss])" "j' < length (ws[i := Claimed s ss])"
    "holds (ws[i := Claimed s ss] ! j) k" "holds (ws[i := Claimed s ss] ! j') k" for j j' k
    using that free [of j] free [of j'] sys_invD(5) [OF inv, of j j' k]
    by (cases "j = i"; cases "j' = i") auto
qed

lemma sys_inv_call:
  assumes inv: "sys_inv (db, ws)" and i: "i < length ws" "ws ! i = Claimed s ss"
    and ex: "exec_step env s db = (e, db')"
  shows "sys_inv (db', ws[i := Executed s e ss])"
proof (rule sys_invI)
  have calls: "comp_calls db' = comp_calls db @ calls_of [s]" and steps: "saga_steps db' = saga_steps db"
    using ex by (auto simp: exec_step_outcome)
  have h: "holds (ws ! i) (step_key s)"
    by (simp add: i(2))
  note own = sys_invD(3,4) [OF inv i(1) h]
  have st: "settled db' k = settled db k" for k
    by (simp add: settled_def steps)
  have cd: "called db' \<subseteq> insert (step_key s) (called db)"
    by (auto simp: called_def calls split: option.splits)
  show "distinct (map fst (comp_calls db'))"
    using sys_invD(1) [OF inv] own(2) by (auto simp: calls called_def split: option.splits)
  show "settled db' k" if "k \<in> called db'" for k
    using that cd own(1) sys_invD(2) [OF inv] st by auto
  have hold: "holds (ws ! j) k \<and> j \<noteq> i"
    if "j < length (ws[i := Executed s e ss])" "holds (ws[i := Executed s e ss] ! j) k" for j k
    using that by (cases "j = i") auto
  show "settled db' k \<and> k \<notin> called db'"
    if "j < length (ws[i := Executed s e ss])" "holds (ws[i := Executed s e ss] ! j) k" for j k
  proof -
    from hold [OF that] have hj: "holds (ws ! j) k" "j \<noteq> i" by auto
    from that(1) have j: "j < length ws" by simp
    have "k \<noteq> step_key s"
      using sys_invD(5) [OF inv j i(1) hj(1)] hj(2) h by auto
    with sys_invD(3,4) [OF inv j hj(1)] cd st show ?thesis by auto
  qed
  show "j = j'" if "j < length (ws[i := Executed s e ss])" "j' < length (ws[i := Executed s e ss])"
    "holds (ws[i := Executed s e ss] ! j) k" "holds (ws[i := Executed s e ss] ! j') k" for j j' k
    using hold [OF that(1,3)] hold [OF that(2,4)] that(1,2) sys_invD(5) [OF inv, of j j' k] by simp
qed

lemma settled_mark: "settled db k \<Longrightarrow> settled (mark_step s e db) k"
proof -
  assume "settled db k"
  moreover have "step_key ` set (saga_steps (mark_step s e db)) = step_key ` set (saga_steps db)"
    by (cases e) (simp_all add: mark_step_def set_step_def image_updWhere_same)
  ultimately show ?thesis
    by (cases e) (simp_all add: settled_def mark_step_def set_step_def ball_updWhere)
qed

lemma settled_forward:
  "sid \<notin> step_key ` set (saga_steps db) \<Longrightarrow> settled db k
     \<Longrightarrow> settled (step_record sid sg name undo (db\<lparr>world := w\<rparr>)) k"
  by (auto simp: settled_def step_record_def)

lemma sys_inv_step:
  assumes "sys_step env x y" and "sys_inv x"
  shows "sys_inv y"
  using assms
proof (cases rule: sys_step.cases)
  case (claim_won i ws s ss db n db')
  with assms(2) show ?thesis by (auto intro: sys_inv_claim)
next
  case (claim_lost i ws s ss db db')
  with assms(2) claim_step_settles(1,2) [OF claim_lost(5)] show ?thesis
    by (auto intro: sys_inv_release)
next
  case (call i ws s ss db e db')
  with assms(2) show ?thesis by (auto intro: sys_inv_call)
next
  case (mark i ws s e ss db)
  have "comp_calls (mark_step s e db) = comp_calls db"
    by (simp add: mark_step_def set_step_def split: option.splits)
  with mark assms(2) show ?thesis by (auto intro: sys_inv_release settled_mark)
next
  case (forward sid db ws sg name undo w)
  have "sys_inv (step_record sid sg name undo (db\<lparr>world := w\<rparr>), ws[length ws := Idle])"
    using forward assms(2)
    by (intro sys_inv_release [of db]) (simp_all add: settled_forward, simp add: step_record_def)
  with forward show ?thesis by (simp add: list_update_beyond)
next
  case (set_run_status db ws rid f)
  have "sys_inv (set_run rid f db, ws[length ws := Idle])"
    using set_run_status assms(2)
    by (intro sys_inv_release [of db]) (auto simp: set_run_def settled_def)
  with set_run_status show ?thesis by (simp add: list_update_beyond)
qed (auto intro: sys_inv_release)

lemma sys_inv_steps: "sys_steps env x y \<Longrightarrow> sys_inv x \<Longrightarrow> sys_inv y"
  by (induction rule: rtranclp_induct) (auto intro: sys_inv_step)

lemma sys_inv_init:
  "comp_calls db = [] \<Longrightarrow> \<forall>x \<in> set ws. x = Idle \<Longrightarrow> sys_inv (db, ws)"
  by (rule sys_invI) (auto simp: called_def dest!: bspec [OF _ nth_mem])

section \<open>The sequential rollback is one of these runs\<close>

lemma compensate_step_run:
  assumes "i < length ws" and "ws ! i = Looping (s # ss)"
  shows "sys_steps env (db, ws) (compensate_step env s db, ws[i := Looping ss])"
proof -
  obtain n db1 where cl: "claim_step (step_key s) db = (n, db1)"
    by fastforce
  obtain e db2 where ex: "exec_step env s db1 = (e, db2)"
    by fastforce
  show ?thesis
  proof (cases "n = 0")
    case True
    with cl have "sys_step env (db, ws) (db1, ws[i := Looping ss])"
      using assms by (intro sys_step.claim_lost) auto
    with True cl show ?thesis by (simp add: compensate_step_def r_into_rtranclp)
  next
    case False
    have "sys_steps env (db, ws) (db1, ws[i := Claimed s ss])"
      using assms cl False by (intro r_into_rtranclp sys_step.claim_won) auto
    also have "sys_step env \<dots> (db2, (ws[i := Claimed s ss])[i := Executed s e ss])"
      using assms ex by (intro sys_step.call) auto
    also have "sys_step env \<dots> (mark_step s e db2, ((ws[i := Claimed s ss])[i := Executed s e ss])[i := Looping ss])"
      using assms by (intro sys_step.mark) auto
    finally show ?thesis
      using False cl ex by (simp add: compensate_step_def)
  qed
qed

lemma compensate_fold_run:
  "i < length ws \<Longrightarrow> ws ! i = Looping ss \<Longrightarrow>
     sys_steps env (db, ws) (fold (compensate_step env) ss db, ws[i := Looping []])"
proof (induction ss arbitrary: db ws)
  case Nil
  then show ?case by (metis fold_simps(1) list_update_id rtranclp.rtrancl_refl)
next
  case (Cons s ss)
  have "sys_steps env (db, ws) (compensate_step env s db, ws[i := Looping ss])"
    using Cons.prems by (rule compensate_step_run)
  also have "sys_steps env \<dots> (fold (compensate_step env) ss (compensate_step env s db), (ws[i := Looping ss])[i := Looping []])"
    using Cons.prems by (intro Cons.IH) auto
  finally show ?case by simp
qed

lemma runCompensations_run:
  assumes "i < length ws" and "ws ! i = Idle"
  shows "sys_steps env (db, ws) (runCompensations env rid db, ws)"
proof -
  let ?ws = "ws[i := Looping (pending_steps rid db)]"
  have "sys_steps env (db, ws) (db, ?ws)"
    using assms by (intro r_into_rtranclp sys_step.select)
  also have "sys_steps env \<dots> (runCompensations env rid db, ?ws[i := Looping []])"
    unfolding runCompensations_def using assms by (intro compensate_fold_run) auto
  also have "sys_step env \<dots> (runCompensations env rid db, (?ws[i := Looping []])[i := Idle])"
    using assms by (intro sys_step.finish) auto
  finally show ?thesis
    using assms(2) by (metis list_update_id list_update_overwrite)
qed

end
