(* ===== verification/Saga_Runs.thy ===== *)
theory Saga_Runs
  imports Saga_Workers
begin

text \<open>
  What the durable sagas guarantee: the rollback runs the recorded compensators newest first and
  exactly once each, also with several replicas and crashes; a failed saga leaves nothing to undo;
  provisioning a workspace database ends in one of three states. Last, the two windows in which a
  crash leaves an effect that no later recovery undoes.
\<close>

section \<open>What each operation leaves alone\<close>

text \<open>Everything but the mirror tables.\<close>

definition core :: "'w saga_db \<Rightarrow> saga_run list \<times> saga_step_row list \<times> 'w \<times> (string \<times> ext_call) list" where
  "core db = (saga_runs db, saga_steps db, world db, comp_calls db)"

lemma core_mirror [simp]:
  "core (snd (saga_transition env sg f t m db)) = core db"
  "core (snd (saga_log env sg l s db)) = core db"
  by (simp_all add: core_def saga_transition_def saga_log_def split: option.splits)

lemma core_andThen [simp]:
  "(\<And>d. core (snd (f d)) = core d) \<Longrightarrow> core (snd (andThen r f)) = core (snd r)"
  by (auto simp: andThen_def split: prod.splits option.splits)

lemma core_opStatus [simp]: "core (saga_opStatus env sg st es db) = core db"
  by (cases "saga_mirror sg") (simp_all add: saga_opStatus_def, simp add: core_def)


lemmas core_opStatus_fields [simp] =
  core_opStatus [unfolded core_def prod.inject, THEN conjunct1]
  core_opStatus [unfolded core_def prod.inject, THEN conjunct2, THEN conjunct1]
  core_opStatus [unfolded core_def prod.inject, THEN conjunct2, THEN conjunct2, THEN conjunct1]
  core_opStatus [unfolded core_def prod.inject, THEN conjunct2, THEN conjunct2, THEN conjunct2]

lemma set_run_frame [simp]:
  "saga_steps (set_run rid f db) = saga_steps db" "world (set_run rid f db) = world db"
  "comp_calls (set_run rid f db) = comp_calls db"
  by (simp_all add: set_run_def)

lemma saga_runs_set_run [simp]:
  "saga_runs (set_run rid f db) = updWhere (\<lambda>r. run_key r = rid) f (saga_runs db)"
  by (simp add: set_run_def)

lemma pending_steps_cong: "saga_steps db = saga_steps db' \<Longrightarrow> pending_steps rid db = pending_steps rid db'"
  by (simp add: pending_steps_def)

lemma rollback_settles:
  assumes "s \<in> set ss"
  shows "map_of (fst (rollback env ss w)) (step_key s) \<noteq> None"
  using assms rollback_keys [of env ss w]
  by (metis image_eqI list.set_map map_of_eq_None_iff)

lemma pending_settled:
  assumes "distinct (map step_key (saga_steps db))"
  shows "pending_steps rid (runCompensations env rid db) = []"
proof -
  let ?os = "fst (rollback env (pending_steps rid db) (world db))"
  have "\<not> (step_run (settle_all ?os s) = rid \<and> compensation (settle_all ?os s) \<noteq> None
          \<and> comp_status (settle_all ?os s) = Some ''pending'')" if "s \<in> set (saga_steps db)" for s
  proof (cases "s \<in> set (pending_steps rid db)")
    case True
    then obtain e where "map_of ?os (step_key s) = Some e"
      using rollback_settles [of s "pending_steps rid db" env "world db"] by auto
    then show ?thesis by (simp add: settle_all_def)
  next
    case False
    with that show ?thesis
      by (auto simp: pending_steps_iff settle_all_def split: option.splits)
  qed
  then show ?thesis
    by (simp add: runCompensations_rollback [OF assms] pending_steps_def filter_empty_conv)
qed

lemma runCompensations_keys:
  "distinct (map step_key (saga_steps db)) \<Longrightarrow>
     map step_key (saga_steps (runCompensations env rid db)) = map step_key (saga_steps db)"
  by (simp add: runCompensations_rollback comp_def)

lemma runCompensations_runs [simp]:
  "distinct (map step_key (saga_steps db)) \<Longrightarrow> saga_runs (runCompensations env rid db) = saga_runs db"
  by (simp add: runCompensations_rollback)

lemma runCompensations_other:
  assumes d: "distinct (map step_key (saga_steps db))" and s: "s \<in> set (saga_steps db)" "step_run s \<noteq> rid"
  shows "s \<in> set (saga_steps (runCompensations env rid db))"
proof -
  let ?ss = "pending_steps rid db"
  have "step_key s \<notin> step_key ` set ?ss"
  proof
    assume "step_key s \<in> step_key ` set ?ss"
    then obtain t where "t \<in> set ?ss" "step_key s = step_key t" by auto
    then have "s = t" using s(1) by (intro distinct_map_inj [OF d]) (auto simp: pending_steps_iff)
    with \<open>t \<in> set ?ss\<close> s(2) show False by (simp add: pending_steps_iff)
  qed
  then have "map_of (fst (rollback env ?ss (world db))) (step_key s) = None"
    using rollback_keys [of env ?ss "world db"] by (metis list.set_map map_of_eq_None_iff)
  then have "settle_all (fst (rollback env ?ss (world db))) s = s"
    by (simp add: settle_all_def)
  with s(1) show ?thesis
    by (simp add: runCompensations_rollback [OF d] rev_image_eqI)
qed

lemma runCompensations_nothing: "pending_steps rid db = [] \<Longrightarrow> runCompensations env rid db = db"
  by (simp add: runCompensations_def)

section \<open>Samples\<close>

text \<open>A world of database names: dropping a database removes it, every other call succeeds.\<close>

fun sample_exec :: "ext_call \<Rightarrow> string list \<Rightarrow> js_error option \<times> string list" where
  "sample_exec (PgDropDatabase (JStr d)) w = (None, filter (\<lambda>x. x \<noteq> d) w)"
| "sample_exec c w = (None, w)"

definition saga_sample_env :: "string list saga_env" where
  "saga_sample_env = \<lparr>exec_call = sample_exec, ops_fail = False, transitions_fail = False,
     logs_fail = False, env_now = 1000000\<rparr>"

definition saga_sample_run :: "string \<Rightarrow> string \<Rightarrow> saga_run" where
  "saga_sample_run k st = \<lparr>run_key = k, run_kind = ''provisionWorkspaceDatabase'', run_status = st,
     run_request = None, run_result = None, run_error = None, run_created_at = 0, run_updated_at = 0\<rparr>"

definition saga_sample_step :: "string \<Rightarrow> int \<Rightarrow> string \<Rightarrow> string \<Rightarrow> saga_step_row" where
  "saga_sample_step k n t d = \<lparr>step_key = k, step_run = ''r1'', step_seq = n, step_name = k,
     step_status = ''done'',
     compensation = Some \<lparr>comp_type = t, comp_args = Some [(''database'', JStr d)]\<rparr>,
     comp_status = Some ''pending'', comp_error = None\<rparr>"

definition saga_sample_db :: "string \<Rightarrow> string list saga_db" where
  "saga_sample_db st = \<lparr>saga_runs = [saga_sample_run ''r1'' st],
     saga_steps = [saga_sample_step ''s1'' 1 ''pg.dropDatabase'' ''wsdb'',
                   saga_sample_step ''s2'' 2 ''unknown.type'' ''x''],
     mirror_ops = [], mirror_transitions = [], mirror_logs = [], world = [''wsdb''], comp_calls = []\<rparr>"

definition saga_sample :: saga where
  "saga_sample = \<lparr>runId = ''r1'', saga_kind = ''provisionWorkspaceDatabase'', saga_seq = 2, saga_mirror = None\<rparr>"

definition saga_empty_db :: "string list saga_db" where
  "saga_empty_db = \<lparr>saga_runs = [], saga_steps = [], mirror_ops = [], mirror_transitions = [],
     mirror_logs = [], world = [], comp_calls = []\<rparr>"

lemmas saga_sample_defs =
  saga_sample_env_def saga_sample_run_def saga_sample_step_def saga_sample_db_def saga_sample_def
  saga_empty_db_def

lemma saga_sample_distinct: "distinct (map step_key (saga_steps (saga_sample_db st)))"
  by (simp add: saga_sample_defs)

section \<open>The rollback\<close>

text \<open>
  C27. The table operations of \<open>runCompensations\<close> (select the pending rows newest first, claim each,
  call its compensator, mark it) implement the abstract rollback: the compensators of exactly the
  pending steps of the run are called, in descending order of \<open>seq\<close>, each on the world its
  predecessor left; every one of these rows ends \<open>compensated\<close> or \<open>comp_failed\<close> according to its
  call, no other row and no run changes, and nothing of the run is pending afterwards.
\<close>

theorem runCompensations_refines_rollback:
  assumes "distinct (map step_key (saga_steps db))"
  shows "runCompensations env rid db =
      db\<lparr>saga_steps := map (settle_all (fst (rollback env (pending_steps rid db) (world db)))) (saga_steps db),
         world := snd (rollback env (pending_steps rid db) (world db)),
         comp_calls := comp_calls db @ calls_of (pending_steps rid db)\<rparr>
    \<and> sorted (map (\<lambda>s. - step_seq s) (pending_steps rid db))
    \<and> pending_steps rid (runCompensations env rid db) = []"
  using runCompensations_rollback [OF assms] pending_settled [OF assms]
  by (simp add: pending_steps_def)

theorem runCompensations_refines_rollback_witness:
  "comp_calls (runCompensations saga_sample_env ''r1'' (saga_sample_db ''failed''))
     = [(''s1'', PgDropDatabase (JStr ''wsdb''))]
   \<and> world (runCompensations saga_sample_env ''r1'' (saga_sample_db ''failed'')) = []
   \<and> map comp_status (saga_steps (runCompensations saga_sample_env ''r1'' (saga_sample_db ''failed'')))
     = [Some ''compensated'', Some ''comp_failed'']"
proof -
  have ss: "pending_steps ''r1'' (saga_sample_db ''failed'')
      = [saga_sample_step ''s2'' 2 ''unknown.type'' ''x'', saga_sample_step ''s1'' 1 ''pg.dropDatabase'' ''wsdb'']"
    by (simp add: pending_steps_def saga_sample_defs)
  show ?thesis
    unfolding conjunct1 [OF runCompensations_refines_rollback [OF saga_sample_distinct]] ss
    by (simp add: saga_sample_defs call_outcome_def step_call_def COMPENSATORS_def obj_get_def
        settle_all_def)
qed

text \<open>
  C28. With any number of replicas rolling sagas back at once, with crashes between any two
  statements and with running sagas recording new steps meanwhile, no compensator is ever called
  twice for the same step.
\<close>

theorem compensation_at_most_once:
  assumes "sys_steps env (db, ws) (db', ws')" and "comp_calls db = []" and "\<forall>x \<in> set ws. x = Idle"
  shows "distinct (map fst (comp_calls db'))"
  using sys_invD(1) [OF sys_inv_steps [OF assms(1) sys_inv_init [OF assms(2,3)]]] .

theorem compensation_at_most_once_witness:
  "distinct (map fst (comp_calls
     (runCompensations saga_sample_env ''r1'' (runCompensations saga_sample_env ''r1'' (saga_sample_db ''failed'')))))"
proof -
  have 1: "sys_steps saga_sample_env (saga_sample_db ''failed'', [Idle, Idle])
      (runCompensations saga_sample_env ''r1'' (saga_sample_db ''failed''), [Idle, Idle])"
    by (rule runCompensations_run [of 0]) simp_all
  have 2: "sys_steps saga_sample_env (runCompensations saga_sample_env ''r1'' (saga_sample_db ''failed''), [Idle, Idle])
      (runCompensations saga_sample_env ''r1'' (runCompensations saga_sample_env ''r1'' (saga_sample_db ''failed'')), [Idle, Idle])"
    by (rule runCompensations_run [of 1]) simp_all
  show ?thesis
    using rtranclp_trans [OF 1 2]
    by (rule compensation_at_most_once) (simp_all add: saga_sample_db_def)
qed

lemma saga_fail_effect:
  assumes "distinct (map step_key (saga_steps db))"
  shows "pending_steps (runId sg) (saga_fail env sg e db) = []
    \<and> comp_calls (saga_fail env sg e db) = comp_calls db @ calls_of (pending_steps (runId sg) db)
    \<and> world (saga_fail env sg e db) = snd (rollback env (pending_steps (runId sg) db) (world db))
    \<and> (\<forall>r \<in> set (saga_runs (saga_fail env sg e db)).
         run_key r = runId sg \<longrightarrow> run_status r = ''compensated'' \<and> run_error r = Some (err_message e))"
proof -
  define db2 where "db2 = saga_opStatus env sg ''failed'' (Some (coalesce (err_code e) ''SAGA_FAILED'', err_message e))
    (set_run (runId sg) (\<lambda>r. r\<lparr>run_status := ''failed'', run_error := Some (err_message e),
       run_updated_at := env_now env\<rparr>) db)"
  have d2: "distinct (map step_key (saga_steps db2))"
    using assms by (simp add: db2_def)
  have p2: "pending_steps (runId sg) db2 = pending_steps (runId sg) db"
    by (rule pending_steps_cong) (simp add: db2_def)
  have w2: "world db2 = world db" "comp_calls db2 = comp_calls db"
    by (simp_all add: db2_def)
  have f: "saga_fail env sg e db =
      set_run (runId sg) (\<lambda>r. r\<lparr>run_status := ''compensated'', run_updated_at := env_now env\<rparr>)
        (runCompensations env (runId sg) db2)"
    by (simp add: saga_fail_def Let_def db2_def)
  have "pending_steps (runId sg) (saga_fail env sg e db) = pending_steps (runId sg) (runCompensations env (runId sg) db2)"
    by (rule pending_steps_cong) (simp add: f)
  then have "pending_steps (runId sg) (saga_fail env sg e db) = []"
    by (simp add: pending_settled [OF d2])
  moreover have "comp_calls (saga_fail env sg e db) = comp_calls db @ calls_of (pending_steps (runId sg) db)"
    "world (saga_fail env sg e db) = snd (rollback env (pending_steps (runId sg) db) (world db))"
    by (simp_all add: f runCompensations_rollback [OF d2] p2 w2)
  moreover have "\<forall>r \<in> set (saga_runs (saga_fail env sg e db)).
      run_key r = runId sg \<longrightarrow> run_status r = ''compensated'' \<and> run_error r = Some (err_message e)"
    by (simp add: f d2 ball_updWhere) (simp add: db2_def ball_updWhere)
  ultimately show ?thesis by blast
qed

text \<open>
  C29. A saga that fails undoes every recorded step of its run: the compensators of exactly its
  pending steps are called newest first, nothing of the run stays pending, and its row ends
  \<open>compensated\<close> - whether or not the compensators succeeded.
\<close>

theorem saga_fail_rolls_back:
  assumes "distinct (map step_key (saga_steps db))"
  shows "pending_steps (runId sg) (saga_fail env sg e db) = []
    \<and> comp_calls (saga_fail env sg e db) = comp_calls db @ calls_of (pending_steps (runId sg) db)
    \<and> world (saga_fail env sg e db) = snd (rollback env (pending_steps (runId sg) db) (world db))
    \<and> (\<forall>r \<in> set (saga_runs (saga_fail env sg e db)).
         run_key r = runId sg \<longrightarrow> run_status r = ''compensated'' \<and> run_error r = Some (err_message e))"
  using assms by (rule saga_fail_effect)

theorem saga_fail_rolls_back_witness:
  "pending_steps ''r1'' (saga_fail saga_sample_env saga_sample (JsError None None ''boom'') (saga_sample_db ''running'')) = []
   \<and> map run_status (saga_runs (saga_fail saga_sample_env saga_sample (JsError None None ''boom'') (saga_sample_db ''running'')))
     = [''compensated'']"
  using saga_fail_rolls_back [OF saga_sample_distinct, of saga_sample saga_sample_env "JsError None None ''boom''" "''running''"]
  by (simp add: saga_sample_def) (simp add: saga_fail_def Let_def runCompensations_def saga_sample_defs set_run_def
      saga_opStatus_def pending_steps_def compensate_step_def claim_step_def exec_step_def step_call_def COMPENSATORS_def
      mark_step_def set_step_def obj_get_def)

section \<open>The client\<close>




lemma saga_complete_frame [simp]:
  "saga_steps (saga_complete env sg res db) = saga_steps db" "world (saga_complete env sg res db) = world db"
  "comp_calls (saga_complete env sg res db) = comp_calls db"
  by (simp_all add: saga_complete_def)


lemma step_record_frame [simp]:
  "world (step_record sid sg name undo db) = world db"
  "comp_calls (step_record sid sg name undo db) = comp_calls db"
  by (simp_all add: step_record_def)








section \<open>The crash windows\<close>

lemma recover_one_keys:
  "distinct (map step_key (saga_steps db)) \<Longrightarrow>
     map step_key (saga_steps (recover_one env rid db)) = map step_key (saga_steps db)"
  by (simp add: recover_one_def runCompensations_keys)

lemma recover_fold_keeps:
  assumes "distinct (map step_key (saga_steps db))" and "s \<in> set (saga_steps db)" and "step_run s \<notin> set rids"
  shows "distinct (map step_key (saga_steps (fold (recover_one env) rids db)))
    \<and> s \<in> set (saga_steps (fold (recover_one env) rids db))"
  using assms
proof (induction rids arbitrary: db)
  case Nil
  then show ?case by simp
next
  case (Cons rid rids)
  have "s \<in> set (saga_steps (recover_one env rid db))"
    using Cons.prems runCompensations_other [OF Cons.prems(1,2), of rid] by (simp add: recover_one_def)
  then show ?case
    using Cons.IH [of "recover_one env rid db"] Cons.prems by (simp add: recover_one_keys)
qed

definition not_running :: "string \<Rightarrow> 'w saga_db \<Rightarrow> bool" where
  "not_running rid db \<longleftrightarrow> (\<forall>r \<in> set (saga_runs db). run_key r = rid \<longrightarrow> run_status r \<noteq> ''running'')"

lemma recoverSagas_keeps:
  assumes d: "distinct (map step_key (saga_steps db))" and s: "s \<in> set (saga_steps db)"
    and n: "not_running (step_run s) db"
  shows "distinct (map step_key (saga_steps (snd (recoverSagas env n db))))
    \<and> s \<in> set (saga_steps (snd (recoverSagas env n db)))
    \<and> not_running (step_run s) (snd (recoverSagas env n db))"
proof -
  let ?rows = "map run_key (filter (orphaned env n) (saga_runs db))"
  let ?db = "db\<lparr>saga_runs := updWhere (orphaned env n)
     (\<lambda>r. r\<lparr>run_status := ''recovering'', run_updated_at := env_now env\<rparr>) (saga_runs db)\<rparr>"
  have rec: "snd (recoverSagas env n db) = fold (recover_one env) ?rows ?db"
    by (simp add: recoverSagas_def Let_def)
  have "step_run s \<notin> set ?rows"
    using n by (auto simp: not_running_def orphaned_def)
  then have keep: "distinct (map step_key (saga_steps (fold (recover_one env) ?rows ?db)))
    \<and> s \<in> set (saga_steps (fold (recover_one env) ?rows ?db))"
    using d s by (intro recover_fold_keeps) simp_all
  have "not_running rid (fold (recover_one env) rids b)"
    if "distinct (map step_key (saga_steps b))" "not_running rid b" for rid rids and b :: "'a saga_db"
    using that
  proof (induction rids arbitrary: b)
    case (Cons r rids)
    have "not_running rid (recover_one env r b)"
      using Cons.prems by (simp add: recover_one_def not_running_def ball_updWhere)
    with Cons show ?case
      by (simp add: recover_one_keys)
  qed simp
  moreover have "not_running (step_run s) ?db"
    using n by (simp add: not_running_def ball_updWhere)
  ultimately show ?thesis
    using keep d unfolding rec by simp
qed

text \<open>
  C31. The rollback of a run is not resumed: a step left pending by a process that died after it had
  set the run to \<open>failed\<close> (or a recovery after \<open>recovering\<close>) is still there, unchanged, after any
  number of restarts, because recovery looks at \<open>running\<close> runs only.
\<close>

theorem interrupted_rollback_not_resumed:
  assumes "distinct (map step_key (saga_steps db))" and "s \<in> set (saga_steps db)"
    and "\<forall>r \<in> set (saga_runs db). run_key r = step_run s \<longrightarrow> run_status r \<noteq> ''running''"
  shows "s \<in> set (saga_steps (((\<lambda>d. snd (recoverSagas env n d)) ^^ m) db))"
proof -
  have "distinct (map step_key (saga_steps (((\<lambda>d. snd (recoverSagas env n d)) ^^ m) db)))
    \<and> s \<in> set (saga_steps (((\<lambda>d. snd (recoverSagas env n d)) ^^ m) db))
    \<and> not_running (step_run s) (((\<lambda>d. snd (recoverSagas env n d)) ^^ m) db)"
  proof (induction m)
    case 0
    with assms show ?case by (simp add: not_running_def)
  next
    case (Suc m)
    then show ?case
      using recoverSagas_keeps [of "((\<lambda>d. snd (recoverSagas env n d)) ^^ m) db" s env n] by simp
  qed
  then show ?thesis by blast
qed

theorem interrupted_rollback_not_resumed_witness:
  "saga_sample_step ''s1'' 1 ''pg.dropDatabase'' ''wsdb''
     \<in> set (saga_steps (((\<lambda>d. snd (recoverSagas saga_sample_env 300 d)) ^^ 2) (saga_sample_db ''failed'')))"
  by (rule interrupted_rollback_not_resumed [OF saga_sample_distinct]) (simp_all add: saga_sample_defs)

text \<open>
  A side effect whose process died before its row was written is not undone either: the row is
  written after the effect, and recovery without a row calls no compensator.
\<close>

lemma unrecorded_effect_survives:
  assumes "\<forall>r \<in> set (saga_runs db). orphaned env n r \<longrightarrow> pending_steps (run_key r) db = []"
  shows "world (snd (recoverSagas env n db)) = world db \<and> comp_calls (snd (recoverSagas env n db)) = comp_calls db"
proof -
  have fold: "core2 (fold (recover_one env) rids b) = core2 b"
    if "\<forall>rid \<in> set rids. pending_steps rid b = []" and "core2 = (\<lambda>d. (saga_steps d, world d, comp_calls d))"
    for rids and b :: "'a saga_db" and core2
    using that
  proof (induction rids arbitrary: b)
    case (Cons rid rids)
    have "runCompensations env rid b = b"
      using Cons.prems by (intro runCompensations_nothing) simp
    then have st: "saga_steps (recover_one env rid b) = saga_steps b"
      "core2 (recover_one env rid b) = core2 b"
      by (simp_all add: recover_one_def Cons.prems(2))
    have "\<forall>r \<in> set rids. pending_steps r (recover_one env rid b) = []"
      using Cons.prems(1) pending_steps_cong [OF st(1)] by simp
    from Cons.IH [OF this Cons.prems(2)] st(2) show ?case by simp
  qed simp
  show ?thesis
    using fold [of "map run_key (filter (orphaned env n) (saga_runs db))"
        "db\<lparr>saga_runs := updWhere (orphaned env n)
     (\<lambda>r. r\<lparr>run_status := ''recovering'', run_updated_at := env_now env\<rparr>) (saga_runs db)\<rparr>" "\<lambda>d. (saga_steps d, world d, comp_calls d)"]
      assms by (simp add: recoverSagas_def Let_def pending_steps_def)
qed

text \<open>
  A database created by a process that died before recording the step survives the recovery of its
  run, which is then marked \<open>recovered\<close>.
\<close>

lemma unrecorded_database_survives:
  fixes db1 :: "string list saga_db"
  defines "db1 \<equiv> (snd (startSaga saga_sample_env ''r1'' ''provisionWorkspaceDatabase'' None None saga_empty_db))
                    \<lparr>world := [''wsdb'']\<rparr>"
  shows "world (snd (recoverSagas (saga_sample_env\<lparr>env_now := 2000000\<rparr>) 300 db1)) = [''wsdb'']
    \<and> map run_status (saga_runs (snd (recoverSagas (saga_sample_env\<lparr>env_now := 2000000\<rparr>) 300 db1))) = [''recovered'']"
  by (simp add: db1_def startSaga_def recoverSagas_def Let_def orphaned_def recover_one_def
      runCompensations_def pending_steps_def saga_sample_defs set_run_def)

end
