(* ===== verification/Saga_Engine.thy ===== *)
theory Saga_Engine
  imports JS_Json Lifecycle
begin

text \<open>
  The workflow sagas of the executor, \<open>apps/control-plane-executor/src/saga\<close>: the state store, the
  compensation loop with its retries, the engine, the idempotency check, recovery and the status
  queries.

  \<^item> The tables are lists of rows. \<open>backend\<close> says whether the adapter module offers a query function;
    without one every statement is dropped and every \<open>SELECT\<close> is empty, as \<open>adapterQuery\<close> does.
  \<^item> Snapshots are JSON values, \<open>JNull\<close> for SQL's null. What a step or a compensator does outside is
    a function on the type variable \<open>'w\<close>; \<open>calls\<close> records these calls in order.
  \<^item> Random identifiers are drawn from \<open>uuid\<close> by a counter; the clock is constant during a call.
\<close>

type_synonym fields = "(string \<times> json) list"

section \<open>Configuration\<close>

record comp_config =
  maxRetries :: int
  baseDelayMs :: int
  backoffMultiplier :: int
  maxDelayMs :: int

record saga_config =
  config_compensation :: comp_config
  staleness_threshold_ms :: int
  default_policy :: string
  ttl_ms :: int

definition intFromEnv :: "(string \<Rightarrow> string option) \<Rightarrow> string \<Rightarrow> int \<Rightarrow> int" where
  "intFromEnv penv name fallback =
     (case penv name of
        None \<Rightarrow> fallback
      | Some v \<Rightarrow> (case js_parseInt10 v of None \<Rightarrow> fallback | Some n \<Rightarrow> n))"

definition SAGA_CONFIG :: "(string \<Rightarrow> string option) \<Rightarrow> saga_config" where
  "SAGA_CONFIG penv =
     \<lparr>config_compensation =
        \<lparr>maxRetries = intFromEnv penv ''SAGA_COMPENSATION_MAX_RETRIES'' 3,
         baseDelayMs = intFromEnv penv ''SAGA_COMPENSATION_BASE_DELAY_MS'' 500,
         backoffMultiplier = 2,
         maxDelayMs = intFromEnv penv ''SAGA_COMPENSATION_MAX_DELAY_MS'' 10000\<rparr>,
      staleness_threshold_ms = intFromEnv penv ''SAGA_RECOVERY_STALENESS_MS'' 60000,
      default_policy = ''compensate'', ttl_ms = 86400000\<rparr>"

definition backoffDelay :: "nat \<Rightarrow> comp_config \<Rightarrow> int" where
  "backoffDelay attempt cfg = min (baseDelayMs cfg * backoffMultiplier cfg ^ attempt) (maxDelayMs cfg)"

section \<open>Rows, contexts and state\<close>

record saga_instance =
  saga_id :: string
  workflow_id :: string
  idempotency_key :: "string option"
  correlation_id :: string
  tenant_id :: "string option"
  workspace_id :: "string option"
  actor_type :: string
  actor_id :: string
  saga_status :: string
  recovery_policy :: string
  saga_input :: json
  saga_output :: json
  error_summary :: json
  saga_created_at :: time
  saga_updated_at :: time

record step_row =
  step_id :: string
  step_saga :: string
  step_ordinal :: int
  step_key :: string
  step_status :: string
  input_snapshot :: json
  output_snapshot :: json
  error_detail :: json
  compensation_attempts :: nat
  step_created_at :: time
  step_updated_at :: time

record comp_log_row =
  log_saga :: string
  log_step :: string
  log_attempt :: nat
  log_outcome :: string
  log_error :: json

record caller_ctx =
  cc_tenantId :: "string option"
  cc_workspaceId :: "string option"
  cc_actorType :: "string option"
  cc_actorId :: "string option"
  cc_actor :: "string option"
  cc_correlationId :: "string option"
  cc_recoveryPolicy :: "string option"
  cc_role :: "string option"

record saga_ctx =
  ctx_sagaId :: string
  ctx_workflowId :: string
  ctx_correlationId :: string
  ctx_tenantId :: "string option"
  ctx_workspaceId :: "string option"
  ctx_actorType :: string
  ctx_actorId :: string

datatype saga_call =
  Forward string
| Compensate string nat json

datatype saga_audit =
  WorkflowStarted string
| StepMilestone string string string
| WorkflowTerminal string string
| CompensationFailedAlert string "string list"

record 'w step_def =
  ordinal :: int
  def_key :: string
  auditMilestone :: bool
  forward :: "json \<Rightarrow> saga_ctx \<Rightarrow> 'w \<Rightarrow> json result \<times> 'w"
  compensate :: "json \<Rightarrow> json \<Rightarrow> saga_ctx \<Rightarrow> 'w \<Rightarrow> js_error option \<times> 'w"

record 'w saga_def =
  provisional :: bool
  def_steps :: "'w step_def list"

record 'w engine =
  backend :: bool
  instances :: "saga_instance list"
  steps :: "step_row list"
  comp_log :: "comp_log_row list"
  audits :: "saga_audit list"
  sleeps :: "int list"
  calls :: "saga_call list"
  drawn :: nat
  outside :: 'w

text \<open>What the process is given: the configuration, the clock, the source of identifiers, the random
  suffix and the clock in base 36 of a correlation id, and the alert emitter (absent, working or
  throwing).\<close>

record saga_proc =
  config :: saga_config
  proc_now :: time
  uuid :: "nat \<Rightarrow> string"
  random8 :: "nat \<Rightarrow> string"
  now36 :: string
  alert_emitter :: "js_error option option"

text \<open>\<open>x ?? null\<close> on JSON values.\<close>

definition orNull :: "json \<Rightarrow> json" where
  "orNull j = (if j = JUndefined then JNull else j)"

section \<open>The state store\<close>

definition adapterQuery :: "('w engine \<Rightarrow> 'w engine) \<Rightarrow> 'w engine \<Rightarrow> 'w engine" where
  "adapterQuery stmt st = (if backend st then stmt st else st)"

definition adapterRows :: "('w engine \<Rightarrow> 'r list) \<Rightarrow> 'w engine \<Rightarrow> 'r list" where
  "adapterRows select st = (if backend st then select st else [])"

definition createSagaInstance ::
  "saga_proc \<Rightarrow> string \<Rightarrow> json \<Rightarrow> caller_ctx \<Rightarrow> string \<Rightarrow> string option \<Rightarrow> 'w engine \<Rightarrow> saga_instance \<times> 'w engine" where
  "createSagaInstance pr wid params cc corr idem st =
     (let row = \<lparr>saga_id = uuid pr (drawn st), workflow_id = wid, idempotency_key = idem,
            correlation_id = corr, tenant_id = cc_tenantId cc, workspace_id = cc_workspaceId cc,
            actor_type = coalesce (cc_actorType cc) ''unknown'',
            actor_id = coalesce (orElse (cc_actorId cc) (cc_actor cc)) ''unknown'',
            saga_status = ''executing'',
            recovery_policy = coalesce (cc_recoveryPolicy cc) ''compensate'',
            saga_input = params, saga_output = JNull, error_summary = JNull,
            saga_created_at = proc_now pr, saga_updated_at = proc_now pr\<rparr>
      in (row, adapterQuery (\<lambda>s. s\<lparr>instances := instances s @ [row]\<rparr>) (st\<lparr>drawn := drawn st + 1\<rparr>)))"

definition updateSagaStatus :: "saga_proc \<Rightarrow> string \<Rightarrow> string \<Rightarrow> json \<Rightarrow> 'w engine \<Rightarrow> 'w engine" where
  "updateSagaStatus pr sid status out =
     (let isError = (status = ''compensation-failed'')
      in adapterQuery (\<lambda>s. s\<lparr>instances := updWhere (\<lambda>r. saga_id r = sid)
           (\<lambda>r. r\<lparr>saga_status := status,
                  saga_output := (if isError then JNull else orNull out),
                  error_summary := (if isError then orNull out else JNull),
                  saga_updated_at := proc_now pr\<rparr>) (instances s)\<rparr>))"

definition createSagaStep ::
  "saga_proc \<Rightarrow> string \<Rightarrow> int \<Rightarrow> string \<Rightarrow> json \<Rightarrow> 'w engine \<Rightarrow> step_row \<times> 'w engine" where
  "createSagaStep pr sid ord key input st =
     (let row = \<lparr>step_id = uuid pr (drawn st), step_saga = sid, step_ordinal = ord, step_key = key,
            step_status = ''pending'', input_snapshot = input, output_snapshot = JNull,
            error_detail = JNull, compensation_attempts = 0, step_created_at = proc_now pr,
            step_updated_at = proc_now pr\<rparr>
      in (row, adapterQuery (\<lambda>s. s\<lparr>steps := steps s @ [row]\<rparr>) (st\<lparr>drawn := drawn st + 1\<rparr>)))"

definition updateStepStatus :: "saga_proc \<Rightarrow> string \<Rightarrow> string \<Rightarrow> json \<Rightarrow> 'w engine \<Rightarrow> 'w engine" where
  "updateStepStatus pr sid status out =
     (let isError = (status = ''failed'' \<or> status = ''compensation-failed'')
      in adapterQuery (\<lambda>s. s\<lparr>steps := updWhere (\<lambda>r. step_id r = sid)
           (\<lambda>r. r\<lparr>step_status := status,
                  output_snapshot := (if isError then JNull else orNull out),
                  error_detail := (if isError then orNull out else JNull),
                  step_updated_at := proc_now pr\<rparr>) (steps s)\<rparr>))"

definition updateStepCompensationAttempts :: "saga_proc \<Rightarrow> string \<Rightarrow> nat \<Rightarrow> 'w engine \<Rightarrow> 'w engine" where
  "updateStepCompensationAttempts pr sid n =
     adapterQuery (\<lambda>s. s\<lparr>steps := updWhere (\<lambda>r. step_id r = sid)
       (\<lambda>r. r\<lparr>compensation_attempts := n, step_updated_at := proc_now pr\<rparr>) (steps s)\<rparr>)"

definition getInFlightSagas :: "saga_proc \<Rightarrow> int \<Rightarrow> 'w engine \<Rightarrow> saga_instance list" where
  "getInFlightSagas pr stalenessMs =
     adapterRows (\<lambda>s. filter (\<lambda>r. (saga_status r = ''executing'' \<or> saga_status r = ''compensating'')
       \<and> saga_updated_at r < proc_now pr - stalenessMs) (instances s))"

definition getSagaById :: "string \<Rightarrow> 'w engine \<Rightarrow> saga_instance option" where
  "getSagaById sid st = find (\<lambda>r. saga_id r = sid) (adapterRows instances st)"

definition listStepsForSaga :: "string \<Rightarrow> 'w engine \<Rightarrow> step_row list" where
  "listStepsForSaga sid =
     adapterRows (\<lambda>s. sort_key step_ordinal (filter (\<lambda>r. step_saga r = sid) (steps s)))"

definition appendCompensationLog ::
  "string \<Rightarrow> string \<Rightarrow> nat \<Rightarrow> string \<Rightarrow> json \<Rightarrow> 'w engine \<Rightarrow> 'w engine" where
  "appendCompensationLog sid stepId attempt outcome err st =
     adapterQuery (\<lambda>s. s\<lparr>comp_log := comp_log s @
       [\<lparr>log_saga = sid, log_step = stepId, log_attempt = attempt, log_outcome = outcome, log_error = err\<rparr>]\<rparr>)
       (st\<lparr>drawn := drawn st + 1\<rparr>)"

definition findSagaByIdempotencyKey :: "string \<Rightarrow> string option \<Rightarrow> 'w engine \<Rightarrow> saga_instance option" where
  "findSagaByIdempotencyKey key tenant st =
     find (\<lambda>r. idempotency_key r = Some key \<and> tenant \<noteq> None \<and> tenant_id r = tenant) (adapterRows instances st)"

record saga_filters =
  f_workflowId :: "string option"
  f_status :: "string option"
  f_limit :: "nat option"
  f_offset :: "nat option"

definition listSagasForTenantRecordset ::
  "string \<Rightarrow> saga_filters \<Rightarrow> 'w engine \<Rightarrow> saga_instance list \<times> nat \<times> nat \<times> nat" where
  "listSagasForTenantRecordset tenant fl st =
     (let items0 = adapterRows (\<lambda>s. filter (\<lambda>r. tenant_id r = Some tenant) (instances s)) st;
          items1 = (if truthyS (f_workflowId fl) then filter (\<lambda>r. Some (workflow_id r) = f_workflowId fl) items0 else items0);
          items = (if truthyS (f_status fl) then filter (\<lambda>r. Some (saga_status r) = f_status fl) items1 else items1);
          offset = coalesce (f_offset fl) 0;
          limit = coalesce (f_limit fl) 20
      in (take limit (drop offset items), length items, limit, offset))"

section \<open>Correlation and idempotency\<close>

definition buildCorrelationId :: "saga_proc \<Rightarrow> nat \<Rightarrow> string \<Rightarrow> string option \<Rightarrow> string" where
  "buildCorrelationId pr n wid tenant =
     ''saga:'' @ wid @ '':'' @ coalesce tenant ''unknown'' @ '':'' @ now36 pr @ '':'' @ random8 pr n"

definition enrichContextWithCorrelation ::
  "saga_proc \<Rightarrow> nat \<Rightarrow> string \<Rightarrow> string option \<Rightarrow> string option \<Rightarrow> string" where
  "enrichContextWithCorrelation pr n wid tenant existing =
     (if truthyS existing then the existing @ ''::saga:'' @ wid @ '':'' @ random8 pr n
      else buildCorrelationId pr n wid tenant)"

datatype idem_check =
  IdemCompleted string json
| IdemInProgress string
| IdemOther string string

definition checkIdempotencyKey :: "string option \<Rightarrow> string option \<Rightarrow> 'w engine \<Rightarrow> idem_check option" where
  "checkIdempotencyKey key tenant st =
     (if \<not> truthyS key then None
      else case findSagaByIdempotencyKey (the key) tenant st of
        None \<Rightarrow> None
      | Some row \<Rightarrow>
          if saga_status row = ''completed'' then Some (IdemCompleted (saga_id row) (saga_output row))
          else if saga_status row = ''executing'' then Some (IdemInProgress (saga_id row))
          else Some (IdemOther (saga_id row) (saga_status row)))"

definition recordIdempotencyResult ::
  "saga_proc \<Rightarrow> string option \<Rightarrow> string \<Rightarrow> json \<Rightarrow> 'w engine \<Rightarrow> 'w engine" where
  "recordIdempotencyResult pr key sid result st =
     (if \<not> truthyS key then st else updateSagaStatus pr sid ''completed'' result st)"

section \<open>Compensation\<close>

definition message_json :: "js_error \<Rightarrow> json" where
  "message_json e = JObj [(''message'', JStr (err_message e))]"

text \<open>The attempts of one step, from \<open>attempt\<close> with \<open>n\<close> of them left; the result says whether one
  succeeded.\<close>

fun comp_attempts ::
  "saga_proc \<Rightarrow> string \<Rightarrow> 'w step_def \<Rightarrow> step_row \<Rightarrow> saga_ctx \<Rightarrow> nat \<Rightarrow> nat \<Rightarrow> 'w engine \<Rightarrow> bool \<times> 'w engine" where
  "comp_attempts pr sid d s ctx attempt 0 st = (False, st)"
| "comp_attempts pr sid d s ctx attempt (Suc n) st =
     (let st1 = updateStepCompensationAttempts pr (step_id s) attempt st;
          (r, w) = compensate d (input_snapshot s) (output_snapshot s) ctx (outside st1);
          st2 = st1\<lparr>outside := w, calls := calls st1 @ [Compensate (step_key s) attempt (output_snapshot s)]\<rparr>
      in case r of
           None \<Rightarrow>
             (True, appendCompensationLog sid (step_id s) attempt ''succeeded'' JNull
                      (updateStepStatus pr (step_id s) ''compensated'' JUndefined st2))
         | Some e \<Rightarrow>
             (let st3 = appendCompensationLog sid (step_id s) attempt ''failed'' (message_json e) st2;
                  cfg = config_compensation (config pr);
                  st4 = (if int attempt < maxRetries cfg
                         then st3\<lparr>sleeps := sleeps st3 @ [backoffDelay attempt cfg]\<rparr> else st3)
              in comp_attempts pr sid d s ctx (attempt + 1) n st4))"

text \<open>The loop over the ordered steps, with the keys of the steps that could not be undone so far.\<close>

fun comp_steps ::
  "saga_proc \<Rightarrow> string \<Rightarrow> 'w saga_def \<Rightarrow> saga_ctx \<Rightarrow> step_row list \<Rightarrow> string list \<Rightarrow> 'w engine
     \<Rightarrow> string list \<times> 'w engine" where
  "comp_steps pr sid def ctx [] failed st = (failed, st)"
| "comp_steps pr sid def ctx (s # ss) failed st =
     (case find (\<lambda>d. ordinal d = step_ordinal s) (def_steps def) of
        None \<Rightarrow> comp_steps pr sid def ctx ss (failed @ [step_key s]) st
      | Some d \<Rightarrow>
          if step_status s = ''compensated'' then
            comp_steps pr sid def ctx ss failed
              (appendCompensationLog sid (step_id s) 0 ''skipped-idempotent'' JNull st)
          else
            (case comp_attempts pr sid d s ctx 1 (nat (maxRetries (config_compensation (config pr))))
                    (updateStepStatus pr (step_id s) ''compensating'' JUndefined st) of
               (True, st') \<Rightarrow> comp_steps pr sid def ctx ss failed st'
             | (False, st') \<Rightarrow>
                 comp_steps pr sid def ctx ss (failed @ [step_key s])
                   (updateStepStatus pr (step_id s) ''compensation-failed''
                     (JObj [(''stepKey'', JStr (step_key s))]) st')))"

definition compensateSaga ::
  "saga_proc \<Rightarrow> string \<Rightarrow> step_row list \<Rightarrow> 'w saga_def \<Rightarrow> saga_ctx \<Rightarrow> 'w engine \<Rightarrow> string list \<times> 'w engine" where
  "compensateSaga pr sid succeeded def ctx st =
     comp_steps pr sid def ctx (sort_key (\<lambda>s. - step_ordinal s) succeeded) [] st"

section \<open>The engine\<close>

definition emitAudit :: "saga_audit \<Rightarrow> 'w engine \<Rightarrow> 'w engine" where
  "emitAudit a st = st\<lparr>audits := audits st @ [a]\<rparr>"

definition milestone :: "'w step_def \<Rightarrow> string \<Rightarrow> saga_ctx \<Rightarrow> 'w engine \<Rightarrow> 'w engine" where
  "milestone d status ctx st =
     (if auditMilestone d then emitAudit (StepMilestone (ctx_sagaId ctx) (def_key d) status) st else st)"

definition emitCompensationFailedAlert ::
  "saga_proc \<Rightarrow> string \<Rightarrow> string list \<Rightarrow> 'w engine \<Rightarrow> js_error option \<times> 'w engine" where
  "emitCompensationFailedAlert pr sid failed st =
     (case alert_emitter pr of
        None \<Rightarrow> (None, st)
      | Some None \<Rightarrow> (None, emitAudit (CompensationFailedAlert sid failed) st)
      | Some (Some e) \<Rightarrow> (Some e, st))"

definition failure_json :: "string \<Rightarrow> js_error \<Rightarrow> string list \<Rightarrow> json" where
  "failure_json key e failed =
     JObj [(''failedStep'', JStr key), (''reason'', JStr (err_message e)),
           (''uncompensatedSteps'', JArr (map JStr failed))]"

text \<open>The \<open>catch\<close> block of a step: compensate, set the final status, raise the alert, rethrow.\<close>

definition step_failed ::
  "saga_proc \<Rightarrow> string \<Rightarrow> 'w saga_def \<Rightarrow> 'w step_def \<Rightarrow> saga_ctx \<Rightarrow> step_row \<Rightarrow> step_row list \<Rightarrow> js_error
     \<Rightarrow> 'w engine \<Rightarrow> js_error \<times> 'w engine" where
  "step_failed pr sid def d ctx row succeeded e st =
     (let st1 = milestone d ''failed'' ctx (updateStepStatus pr (step_id row) ''failed'' (message_json e) st);
          (failed, st2) = compensateSaga pr sid succeeded def ctx st1;
          status = (if failed = [] then ''compensated'' else ''compensation-failed'');
          st3 = emitAudit (WorkflowTerminal sid status)
                  (updateSagaStatus pr sid status (failure_json (def_key d) e failed) st2)
      in if failed = [] then (e, st3)
         else case emitCompensationFailedAlert pr sid failed st3 of
                (None, st4) \<Rightarrow> (e, st4)
              | (Some e', st4) \<Rightarrow> (e', st4))"

fun run_steps ::
  "saga_proc \<Rightarrow> string \<Rightarrow> 'w saga_def \<Rightarrow> saga_ctx \<Rightarrow> json \<Rightarrow> 'w step_def list \<Rightarrow> step_row list \<Rightarrow> json
     \<Rightarrow> 'w engine \<Rightarrow> json result \<times> 'w engine" where
  "run_steps pr sid def ctx params [] succeeded out st = (Inr out, st)"
| "run_steps pr sid def ctx params (d # ds) succeeded out st =
     (let (row, st1) = createSagaStep pr sid (ordinal d) (def_key d) params st;
          st2 = updateStepStatus pr (step_id row) ''executing'' JUndefined st1;
          (r, w) = forward d params ctx (outside st2);
          st3 = st2\<lparr>outside := w, calls := calls st2 @ [Forward (def_key d)]\<rparr>
      in case r of
           Inr v \<Rightarrow>
             run_steps pr sid def ctx params ds
               (succeeded @ [row\<lparr>step_status := ''succeeded'', output_snapshot := v\<rparr>]) v
               (milestone d ''succeeded'' ctx (updateStepStatus pr (step_id row) ''succeeded'' v st3))
         | Inl e \<Rightarrow>
             (case step_failed pr sid def d ctx row succeeded e st3 of (e', st4) \<Rightarrow> (Inl e', st4)))"

definition completed_json :: "string \<Rightarrow> json \<Rightarrow> json" where
  "completed_json sid out = JObj [(''sagaId'', JStr sid), (''status'', JStr ''completed''), (''output'', out)]"

definition idempotencyKeyOf :: "fields \<Rightarrow> string option" where
  "idempotencyKeyOf params = (case obj_get params ''idempotencyKey'' of JStr s \<Rightarrow> Some s | _ \<Rightarrow> None)"

definition executeSaga_with ::
  "(string \<Rightarrow> 'w saga_def option) \<Rightarrow> saga_proc \<Rightarrow> string \<Rightarrow> fields \<Rightarrow> caller_ctx \<Rightarrow> 'w engine
     \<Rightarrow> json result \<times> 'w engine" where
  "executeSaga_with defs pr wid params cc st =
     (case defs wid of
        None \<Rightarrow> (Inl (JsError (Some ''WORKFLOW_NOT_FOUND'') None (''Workflow '' @ wid @ '' not found'')), st)
      | Some def \<Rightarrow>
          if provisional def then
            (Inr (JObj [(''status'', JStr ''not-implemented''), (''workflowId'', JStr wid)]), st)
          else
            (let idem = idempotencyKeyOf params
             in case checkIdempotencyKey idem (cc_tenantId cc) st of
                  Some (IdemCompleted sid out) \<Rightarrow> (Inr out, st)
                | Some (IdemInProgress sid) \<Rightarrow>
                    (Inr (JObj [(''status'', JStr ''in-progress''), (''sagaId'', JStr sid)]), st)
                | _ \<Rightarrow>
                    (let corr = enrichContextWithCorrelation pr (drawn st) wid (cc_tenantId cc) (cc_correlationId cc);
                         (saga, st1) = createSagaInstance pr wid (JObj params) cc corr idem st;
                         sid = saga_id saga;
                         ctx = \<lparr>ctx_sagaId = sid, ctx_workflowId = wid, ctx_correlationId = corr,
                                ctx_tenantId = cc_tenantId cc, ctx_workspaceId = cc_workspaceId cc,
                                ctx_actorType = coalesce (cc_actorType cc) ''unknown'',
                                ctx_actorId = coalesce (orElse (cc_actorId cc) (cc_actor cc)) ''unknown''\<rparr>
                     in case run_steps pr sid def ctx (JObj params) (def_steps def) [] JNull
                               (emitAudit (WorkflowStarted sid) st1) of
                          (Inl e, st2) \<Rightarrow> (Inl e, st2)
                        | (Inr out, st2) \<Rightarrow>
                            (let result = completed_json sid out;
                                 st3 = emitAudit (WorkflowTerminal sid ''completed'')
                                         (updateSagaStatus pr sid ''completed'' result st2)
                             in (Inr result, recordIdempotencyResult pr idem sid result st3)))))"

definition eligible :: "step_row \<Rightarrow> bool" where
  "eligible s \<longleftrightarrow> step_status s = ''succeeded'' \<or> step_status s = ''compensating''
     \<or> step_status s = ''compensation-failed''"

definition recover_saga ::
  "saga_proc \<Rightarrow> 'w saga_def \<Rightarrow> saga_instance \<Rightarrow> 'w engine \<Rightarrow> 'w engine" where
  "recover_saga pr def saga st =
     (let ctx = \<lparr>ctx_sagaId = saga_id saga, ctx_workflowId = workflow_id saga,
             ctx_correlationId = correlation_id saga, ctx_tenantId = tenant_id saga,
             ctx_workspaceId = workspace_id saga, ctx_actorType = actor_type saga,
             ctx_actorId = actor_id saga\<rparr>;
          (failed, st1) = compensateSaga pr (saga_id saga) (filter eligible (listStepsForSaga (saga_id saga) st)) def ctx st;
          status = (if failed = [] then ''compensated'' else ''compensation-failed'')
      in emitAudit (WorkflowTerminal (saga_id saga) status)
           (updateSagaStatus pr (saga_id saga) status
             (JObj [(''allCompensated'', JBool (failed = [])), (''failedSteps'', JArr (map JStr failed))]) st1))"

fun recover_loop ::
  "(string \<Rightarrow> 'w saga_def option) \<Rightarrow> saga_proc \<Rightarrow> saga_instance list \<Rightarrow> nat \<Rightarrow> 'w engine \<Rightarrow> nat \<times> 'w engine" where
  "recover_loop defs pr [] n st = (n, st)"
| "recover_loop defs pr (saga # rest) n st =
     (case defs (workflow_id saga) of
        None \<Rightarrow> recover_loop defs pr rest n st
      | Some def \<Rightarrow>
          if provisional def then recover_loop defs pr rest n st
          else recover_loop defs pr rest (n + 1) (recover_saga pr def saga st))"

definition recoverInFlightSagas_with ::
  "(string \<Rightarrow> 'w saga_def option) \<Rightarrow> saga_proc \<Rightarrow> int \<Rightarrow> 'w engine \<Rightarrow> nat \<times> 'w engine" where
  "recoverInFlightSagas_with defs pr stalenessMs st =
     recover_loop defs pr (getInFlightSagas pr stalenessMs st) 0 st"

section \<open>The workflow definitions\<close>

text \<open>The forward steps return a snapshot and touch nothing; the compensators do nothing. The two
  functions of WF-CON-006 throw.\<close>

definition tenant_json :: "string option \<Rightarrow> json \<Rightarrow> string \<Rightarrow> json" where
  "tenant_json ctxv params k =
     (case ctxv of
        Some t \<Rightarrow> JStr t
      | None \<Rightarrow> (case params of JObj kvs \<Rightarrow> orNull (obj_get kvs k) | _ \<Rightarrow> JNull))"

definition snapshot :: "bool \<Rightarrow> string \<Rightarrow> json \<Rightarrow> saga_ctx \<Rightarrow> json" where
  "snapshot redacted step params ctx =
     JObj ([(''step'', JStr step), (''tenantId'', tenant_json (ctx_tenantId ctx) params ''tenantId''),
            (''workspaceId'', tenant_json (ctx_workspaceId ctx) params ''workspaceId'')]
           @ (if redacted then [(''redacted'', JBool True)] else []))"

definition stub_step :: "bool \<Rightarrow> int \<Rightarrow> string \<Rightarrow> 'w step_def" where
  "stub_step redacted n key =
     \<lparr>ordinal = n, def_key = key, auditMilestone = True,
      forward = (\<lambda>params ctx w. (Inr (snapshot redacted key params ctx), w)),
      compensate = (\<lambda>i out ctx w. (None, w))\<rparr>"

definition notImplemented :: "string \<Rightarrow> js_error" where
  "notImplemented name = JsError None None (''Not implemented: '' @ name)"

definition sagaDefinitions :: "string \<Rightarrow> 'w saga_def option" where
  "sagaDefinitions wid =
     (if wid = ''WF-CON-001'' then Some \<lparr>provisional = False, def_steps =
        [stub_step False 1 ''assign-keycloak-role'', stub_step False 2 ''update-membership-record'']\<rparr>
      else if wid = ''WF-CON-002'' then Some \<lparr>provisional = False, def_steps =
        [stub_step False 1 ''create-keycloak-realm'', stub_step False 2 ''create-postgresql-boundary'',
         stub_step False 3 ''create-kafka-namespace'', stub_step False 4 ''configure-apisix-routes'']\<rparr>
      else if wid = ''WF-CON-003'' then Some \<lparr>provisional = False, def_steps =
        [stub_step False 1 ''create-keycloak-client'', stub_step False 2 ''create-postgresql-workspace'',
         stub_step False 3 ''reserve-s3-storage'']\<rparr>
      else if wid = ''WF-CON-004'' then Some \<lparr>provisional = False, def_steps =
        [stub_step True 1 ''create-keycloak-credential'', stub_step True 2 ''sync-apisix-consumer'',
         stub_step True 3 ''record-credential-metadata'']\<rparr>
      else if wid = ''WF-CON-005'' then Some \<lparr>provisional = True, def_steps = []\<rparr>
      else if wid = ''WF-CON-006'' then Some \<lparr>provisional = False, def_steps =
        [\<lparr>ordinal = 1, def_key = ''create-service-account'', auditMilestone = True,
          forward = (\<lambda>params ctx w. (Inl (notImplemented ''createServiceAccount''), w)),
          compensate = (\<lambda>i out ctx w. (Some (notImplemented ''deleteServiceAccount''), w))\<rparr>]\<rparr>
      else None)"

definition executeSaga ::
  "saga_proc \<Rightarrow> string \<Rightarrow> fields \<Rightarrow> caller_ctx \<Rightarrow> 'w engine \<Rightarrow> json result \<times> 'w engine" where
  "executeSaga = executeSaga_with sagaDefinitions"

definition recoverInFlightSagas :: "saga_proc \<Rightarrow> int \<Rightarrow> 'w engine \<Rightarrow> nat \<times> 'w engine" where
  "recoverInFlightSagas = recoverInFlightSagas_with sagaDefinitions"

section \<open>Status queries\<close>

record saga_error_view =
  failedStep :: json
  reason :: json
  uncompensatedSteps :: json

record saga_view =
  v_sagaId :: string
  v_workflowId :: string
  v_correlationId :: string
  v_status :: string
  v_currentStep :: "(int \<times> string \<times> string) option"
  v_steps :: "(int \<times> string \<times> string \<times> time) list"
  v_startedAt :: time
  v_updatedAt :: time
  v_errorSummary :: "saga_error_view option"

text \<open>\<open>saga.error_summary?.k ?? default\<close>.\<close>

definition summary_field :: "json \<Rightarrow> string \<Rightarrow> json \<Rightarrow> json" where
  "summary_field j k d =
     (case j of
        JObj kvs \<Rightarrow> (let v = obj_get kvs k in if v = JUndefined \<or> v = JNull then d else v)
      | _ \<Rightarrow> d)"

definition toStatusResponse :: "saga_instance \<Rightarrow> step_row list \<Rightarrow> saga_view" where
  "toStatusResponse saga rows =
     \<lparr>v_sagaId = saga_id saga, v_workflowId = workflow_id saga, v_correlationId = correlation_id saga,
      v_status = saga_status saga,
      v_currentStep = map_option (\<lambda>s. (step_ordinal s, step_key s, step_status s))
        (find (\<lambda>s. step_status s = ''executing'' \<or> step_status s = ''compensating'') rows),
      v_steps = map (\<lambda>s. (step_ordinal s, step_key s, step_status s, step_updated_at s)) rows,
      v_startedAt = saga_created_at saga, v_updatedAt = saga_updated_at saga,
      v_errorSummary =
        (if saga_status saga = ''compensation-failed'' then
           Some \<lparr>failedStep = summary_field (error_summary saga) ''failedStep'' (JStr ''unknown''),
                 reason = summary_field (error_summary saga) ''reason'' (JStr ''compensation failed''),
                 uncompensatedSteps = summary_field (error_summary saga) ''uncompensatedSteps'' (JArr [])\<rparr>
         else None)\<rparr>"

definition crossTenant :: js_error where
  "crossTenant = JsError (Some ''FORBIDDEN'') None ''Cross-tenant saga access denied''"

text \<open>A tenant missing from the row is \<open>null\<close> and one missing from the caller is \<open>undefined\<close>: the
  strict comparison tells them apart.\<close>

definition getSagaStatus :: "string \<Rightarrow> caller_ctx \<Rightarrow> 'w engine \<Rightarrow> saga_view option result" where
  "getSagaStatus sid cc st =
     (case getSagaById sid st of
        None \<Rightarrow> Inr None
      | Some saga \<Rightarrow>
          if cc_role cc \<noteq> Some ''superadmin'' \<and>
             (tenant_id saga = None \<or> tenant_id saga \<noteq> cc_tenantId cc
              \<or> truthyS (cc_workspaceId cc) \<and> workspace_id saga \<noteq> cc_workspaceId cc)
          then Inl crossTenant
          else Inr (Some (toStatusResponse saga (listStepsForSaga sid st))))"

definition listSagasForTenant ::
  "string \<Rightarrow> saga_filters \<Rightarrow> caller_ctx \<Rightarrow> 'w engine \<Rightarrow> (saga_view list \<times> nat \<times> nat \<times> nat) result" where
  "listSagasForTenant tenant fl cc st =
     (if cc_role cc \<noteq> Some ''superadmin'' \<and> Some tenant \<noteq> cc_tenantId cc then Inl crossTenant
      else case listSagasForTenantRecordset tenant
                  (fl\<lparr>f_limit := Some (coalesce (f_limit fl) 20), f_offset := Some (coalesce (f_offset fl) 0)\<rparr>) st of
             (items, tot, limit, offset) \<Rightarrow>
               Inr (map (\<lambda>s. toStatusResponse s (listStepsForSaga (saga_id s) st)) items, tot, limit, offset))"

end
