(* ===== verification/Saga_Engine_Props.thy ===== *)
theory Saga_Engine_Props
  imports Saga_Engine
begin

text \<open>
  The guarantees of the executor's saga engine: a failing step is followed by the compensation of the
  completed ones in reverse order; a completed saga is replayed from its row; the status queries keep
  tenants apart; what is lost when the adapter offers no query function.
\<close>

section \<open>What the store functions touch\<close>

lemmas store_defs =
  adapterQuery_def updateSagaStatus_def updateStepStatus_def updateStepCompensationAttempts_def
  appendCompensationLog_def emitAudit_def milestone_def Let_def

lemma store_frame [simp]:
  "calls (updateStepStatus pr k s out st) = calls st"
  "calls (updateSagaStatus pr k s out st) = calls st"
  "calls (updateStepCompensationAttempts pr k n st) = calls st"
  "calls (appendCompensationLog a b c d e st) = calls st"
  "calls (emitAudit x st) = calls st" "calls (milestone sd s ctx st) = calls st"
  "outside (updateStepStatus pr k s out st) = outside st"
  "outside (updateSagaStatus pr k s out st) = outside st"
  "outside (updateStepCompensationAttempts pr k n st) = outside st"
  "outside (appendCompensationLog a b c d e st) = outside st"
  "outside (emitAudit x st) = outside st" "outside (milestone sd s ctx st) = outside st"
  "backend (updateStepStatus pr k s out st) = backend st"
  "backend (updateSagaStatus pr k s out st) = backend st"
  "backend (updateStepCompensationAttempts pr k n st) = backend st"
  "backend (appendCompensationLog a b c d e st) = backend st"
  "backend (emitAudit x st) = backend st" "backend (milestone sd s ctx st) = backend st"
  "instances (updateStepStatus pr k s out st) = instances st"
  "instances (updateStepCompensationAttempts pr k n st) = instances st"
  "instances (appendCompensationLog a b c d e st) = instances st"
  "instances (emitAudit x st) = instances st" "instances (milestone sd s ctx st) = instances st"
  by (simp_all add: store_defs)

lemma createSagaStep_effect:
  assumes "createSagaStep pr sid n k inp st = (row, st')"
  shows "calls st' = calls st" "outside st' = outside st" "backend st' = backend st"
    "instances st' = instances st" "step_ordinal row = n" "step_key row = k"
  using assms by (auto simp: createSagaStep_def store_defs split: if_splits)

section \<open>The compensation calls\<close>

text \<open>
  \<open>undone N steps cs failed\<close>: the calls \<open>cs\<close> undo the given steps (key and output) in the given order,
  each with attempts \<open>1, 2, ...\<close> up to its success, at most \<open>N\<close> of them; the steps whose \<open>N\<close>
  attempts all failed are \<open>failed\<close>.
\<close>

inductive undone :: "nat \<Rightarrow> (string \<times> json) list \<Rightarrow> saga_call list \<Rightarrow> string list \<Rightarrow> bool" for N where
  undone_none: "undone N [] [] []"
| undone_ok: "\<lbrakk>undone N rest cs failed; 1 \<le> j; j \<le> N\<rbrakk>
    \<Longrightarrow> undone N ((k, out) # rest) (map (\<lambda>a. Compensate k a out) [1..<Suc j] @ cs) failed"
| undone_failed: "undone N rest cs failed
    \<Longrightarrow> undone N ((k, out) # rest) (map (\<lambda>a. Compensate k a out) [1..<Suc N] @ cs) (k # failed)"

lemma comp_attempts_calls:
  "comp_attempts pr sid d s ctx a n st = (ok, st') \<Longrightarrow>
     (\<exists>j \<le> n. calls st' = calls st @ map (\<lambda>a. Compensate (step_key s) a (output_snapshot s)) [a..<a + j]
        \<and> (ok \<longrightarrow> 1 \<le> j) \<and> (\<not> ok \<longrightarrow> j = n))
     \<and> backend st' = backend st \<and> instances st' = instances st"
proof (induction n arbitrary: a st)
  case 0
  then show ?case by simp
next
  case (Suc n)
  define st1 where "st1 = updateStepCompensationAttempts pr (step_id s) a st"
  obtain r w where rw: "compensate d (input_snapshot s) (output_snapshot s) ctx (outside st1) = (r, w)"
    by fastforce
  define st2 where "st2 = st1\<lparr>outside := w, calls := calls st1 @ [Compensate (step_key s) a (output_snapshot s)]\<rparr>"
  have s2: "calls st2 = calls st @ [Compensate (step_key s) a (output_snapshot s)]"
    "backend st2 = backend st" "instances st2 = instances st"
    by (simp_all add: st2_def st1_def)
  show ?case
  proof (cases r)
    case None
    with Suc.prems have "ok" "calls st' = calls st2" "backend st' = backend st2" "instances st' = instances st2"
      by (auto simp: Let_def rw st1_def [symmetric] st2_def [symmetric])
    then show ?thesis
      by (auto simp: s2 intro!: exI [of _ 1])
  next
    case (Some e)
    define st3 where "st3 = appendCompensationLog sid (step_id s) a ''failed'' (message_json e) st2"
    define st4 where "st4 = (if int a < maxRetries (config_compensation (config pr))
        then st3\<lparr>sleeps := sleeps st3 @ [backoffDelay a (config_compensation (config pr))]\<rparr> else st3)"
    have s4: "calls st4 = calls st2" "backend st4 = backend st2" "instances st4 = instances st2"
      by (simp_all add: st4_def st3_def)
    have run: "comp_attempts pr sid d s ctx (a + 1) n st4 = (ok, st')"
      using Suc.prems Some
      by (simp add: Let_def rw st1_def [symmetric] st2_def st3_def st4_def split: if_splits)
    note ih = Suc.IH [OF run]
    then obtain j where j: "j \<le> n" "calls st' = calls st4 @ map (\<lambda>a. Compensate (step_key s) a (output_snapshot s)) [a + 1..<a + 1 + j]"
      "ok \<longrightarrow> 1 \<le> j" "\<not> ok \<longrightarrow> j = n"
      by blast
    have "[a..<a + Suc j] = a # [a + 1..<a + 1 + j]"
      by (simp add: upt_conv_Cons)
    with j ih show ?thesis
      by (intro conjI exI [of _ "Suc j"]) (auto simp: s2 s4)
  qed
qed

lemma comp_steps_calls:
  assumes "comp_steps pr sid def ctx ss failed st = (failed', st')"
    and "\<forall>s \<in> set ss. step_status s \<noteq> ''compensated'' \<and> (\<exists>d \<in> set (def_steps def). ordinal d = step_ordinal s)"
  shows "\<exists>cs f. calls st' = calls st @ cs \<and> failed' = failed @ f
      \<and> undone (nat (maxRetries (config_compensation (config pr))))
           (map (\<lambda>s. (step_key s, output_snapshot s)) ss) cs f
      \<and> backend st' = backend st \<and> instances st' = instances st"
  using assms
proof (induction ss arbitrary: failed st)
  case Nil
  then show ?case by (auto intro: undone_none)
next
  case (Cons s ss)
  let ?N = "nat (maxRetries (config_compensation (config pr)))"
  from Cons.prems(2) obtain d where d: "find (\<lambda>d. ordinal d = step_ordinal s) (def_steps def) = Some d"
    by (cases "find (\<lambda>d. ordinal d = step_ordinal s) (def_steps def)") (auto simp: find_None_iff_all)
  obtain ok st1 where at: "comp_attempts pr sid d s ctx 1 ?N
      (updateStepStatus pr (step_id s) ''compensating'' JUndefined st) = (ok, st1)"
    by fastforce
  from comp_attempts_calls [OF at] obtain j where
    j: "j \<le> ?N" "calls st1 = calls st @ map (\<lambda>a. Compensate (step_key s) a (output_snapshot s)) [1..<Suc j]"
      "ok \<longrightarrow> 1 \<le> j" "\<not> ok \<longrightarrow> j = ?N" and fr: "backend st1 = backend st" "instances st1 = instances st"
    by auto
  have ns: "step_status s \<noteq> ''compensated''"
    and rest: "\<forall>s \<in> set ss. step_status s \<noteq> ''compensated'' \<and> (\<exists>d \<in> set (def_steps def). ordinal d = step_ordinal s)"
    using Cons.prems(2) by auto
  show ?case
  proof (cases ok)
    case True
    then have "comp_steps pr sid def ctx ss failed st1 = (failed', st')"
      using Cons.prems(1) d ns at by simp
    from Cons.IH [OF this rest] obtain cs f where
      "calls st' = calls st1 @ cs" "failed' = failed @ f"
      "undone ?N (map (\<lambda>s. (step_key s, output_snapshot s)) ss) cs f"
      "backend st' = backend st1" "instances st' = instances st1"
      by blast
    with True j fr show ?thesis
      using undone_ok [of ?N "map (\<lambda>s. (step_key s, output_snapshot s)) ss" cs f j "step_key s" "output_snapshot s"]
      by (intro exI [of _ "map (\<lambda>a. Compensate (step_key s) a (output_snapshot s)) [1..<Suc j] @ cs"] exI [of _ f]) simp
  next
    case False
    let ?st2 = "updateStepStatus pr (step_id s) ''compensation-failed'' (JObj [(''stepKey'', JStr (step_key s))]) st1"
    have "comp_steps pr sid def ctx ss (failed @ [step_key s]) ?st2 = (failed', st')"
      using Cons.prems(1) d ns at False by simp
    from Cons.IH [OF this rest] obtain cs f where
      "calls st' = calls st1 @ cs" "failed' = (failed @ [step_key s]) @ f"
      "undone ?N (map (\<lambda>s. (step_key s, output_snapshot s)) ss) cs f"
      "backend st' = backend st1" "instances st' = instances st1"
      by auto
    with False j fr show ?thesis
      using undone_failed [of ?N "map (\<lambda>s. (step_key s, output_snapshot s)) ss" cs f "step_key s" "output_snapshot s"]
      by (intro exI [of _ "map (\<lambda>a. Compensate (step_key s) a (output_snapshot s)) [1..<Suc ?N] @ cs"]
          exI [of _ "step_key s # f"]) simp
  qed
qed

text \<open>Steps recorded in ascending order are undone from the last to the first.\<close>

lemma sort_descending:
  assumes "sorted_wrt (<) (map step_ordinal xs)"
  shows "sort_key (\<lambda>s. - step_ordinal s) xs = rev xs"
proof (rule sort_key_inj_key_eq)
  have "distinct (map step_ordinal xs)"
    using assms by (simp add: strict_sorted_iff)
  then show "inj_on (\<lambda>s. - step_ordinal s) (set xs)"
    by (auto simp: distinct_map inj_on_def)
  have "sorted_wrt (>) (rev (map step_ordinal xs))"
    using assms by (simp add: sorted_wrt_rev)
  then have "sorted_wrt (\<lambda>x y. - step_ordinal x < - step_ordinal y) (rev xs)"
    by (simp add: rev_map sorted_wrt_map)
  then show "sorted (map (\<lambda>s. - step_ordinal s) (rev xs))"
    unfolding sorted_wrt_map by (rule sorted_wrt_mono_rel [rotated]) simp
qed simp

lemma compensateSaga_calls:
  assumes "compensateSaga pr sid succ def ctx st = (failed, st')"
    and "sorted_wrt (<) (map step_ordinal succ)"
    and "\<forall>s \<in> set succ. step_status s \<noteq> ''compensated'' \<and> (\<exists>d \<in> set (def_steps def). ordinal d = step_ordinal s)"
  obtains cs where "calls st' = calls st @ cs"
    "undone (nat (maxRetries (config_compensation (config pr))))
       (rev (map (\<lambda>s. (step_key s, output_snapshot s)) succ)) cs failed"
    "backend st' = backend st" "instances st' = instances st"
  using comp_steps_calls [of pr sid def ctx "rev succ" "[]" st failed st'] assms that
  by (auto simp: compensateSaga_def sort_descending rev_map)

lemma step_failed_effect:
  assumes "step_failed pr sid def d ctx row succ e st = (e', st')"
    and "sorted_wrt (<) (map step_ordinal succ)"
    and "\<forall>s \<in> set succ. step_status s \<noteq> ''compensated'' \<and> (\<exists>d \<in> set (def_steps def). ordinal d = step_ordinal s)"
  obtains cs failed where "calls st' = calls st @ cs"
    "undone (nat (maxRetries (config_compensation (config pr))))
       (rev (map (\<lambda>s. (step_key s, output_snapshot s)) succ)) cs failed"
    "backend st \<Longrightarrow> \<forall>r \<in> set (instances st'). saga_id r = sid \<longrightarrow>
        saga_status r = (if failed = [] then ''compensated'' else ''compensation-failed'')"
    "map saga_id (instances st') = map saga_id (instances st)"
proof -
  define st1 where "st1 = milestone d ''failed'' ctx (updateStepStatus pr (step_id row) ''failed'' (message_json e) st)"
  obtain failed st2 where c: "compensateSaga pr sid succ def ctx st1 = (failed, st2)"
    by fastforce
  define stat where "stat = (if failed = [] then ''compensated'' else ''compensation-failed'')"
  define st3 where "st3 = emitAudit (WorkflowTerminal sid stat)
    (updateSagaStatus pr sid stat (failure_json (def_key d) e failed) st2)"
  from compensateSaga_calls [OF c assms(2,3)] obtain cs where
    cs: "calls st2 = calls st1 @ cs" "undone (nat (maxRetries (config_compensation (config pr))))
       (rev (map (\<lambda>s. (step_key s, output_snapshot s)) succ)) cs failed"
    "backend st2 = backend st1" "instances st2 = instances st1"
    by blast
  have st': "calls st' = calls st3" "instances st' = instances st3"
    using assms(1)
    by (auto simp: step_failed_def Let_def st1_def [symmetric] c stat_def st3_def
        emitCompensationFailedAlert_def split: if_splits option.splits)
  have st1: "calls st1 = calls st" "backend st1 = backend st" "instances st1 = instances st"
    by (simp_all add: st1_def)
  show thesis
  proof (rule that [of cs failed])
    show "calls st' = calls st @ cs"
      by (simp add: st' st3_def cs(1) st1)
    show "undone (nat (maxRetries (config_compensation (config pr))))
       (rev (map (\<lambda>s. (step_key s, output_snapshot s)) succ)) cs failed"
      by (rule cs(2))
    show "map saga_id (instances st') = map saga_id (instances st)"
      by (simp add: st' st3_def updateSagaStatus_def adapterQuery_def Let_def cs(4) st1 map_updWhere_same)
    assume "backend st"
    then show "\<forall>r \<in> set (instances st'). saga_id r = sid \<longrightarrow>
        saga_status r = (if failed = [] then ''compensated'' else ''compensation-failed'')"
      by (simp add: st' st3_def updateSagaStatus_def adapterQuery_def Let_def cs(3) st1 ball_updWhere)
         (simp add: stat_def)
  qed
qed

section \<open>Running the steps\<close>

definition retries :: "saga_proc \<Rightarrow> nat" where
  "retries pr = nat (maxRetries (config_compensation (config pr)))"

definition done_pairs :: "step_row list \<Rightarrow> (string \<times> json) list" where
  "done_pairs succ = map (\<lambda>s. (step_key s, output_snapshot s)) succ"

text \<open>How a run of the steps \<open>ds\<close> after the completed steps \<open>succ\<close> ends when one of them throws.\<close>

definition failed_run ::
  "saga_proc \<Rightarrow> string \<Rightarrow> 'w step_def list \<Rightarrow> (string \<times> json) list \<Rightarrow> 'w engine \<Rightarrow> 'w engine \<Rightarrow> bool" where
  "failed_run pr sid ds succ st st' \<longleftrightarrow>
     (\<exists>ds1 d ds2 outs cs failed.
        ds = ds1 @ d # ds2 \<and> length outs = length ds1
        \<and> calls st' = calls st @ map (\<lambda>d. Forward (def_key d)) (ds1 @ [d]) @ cs
        \<and> undone (retries pr) (rev (succ @ zip (map def_key ds1) outs)) cs failed
        \<and> (backend st \<longrightarrow> (\<forall>r \<in> set (instances st'). saga_id r = sid \<longrightarrow>
             saga_status r = (if failed = [] then ''compensated'' else ''compensation-failed''))))"

lemma failed_run_Cons:
  assumes "failed_run pr sid ds (succ @ [(def_key d, v)]) st1 st'"
    and "calls st1 = calls st @ [Forward (def_key d)]" and "backend st1 = backend st"
  shows "failed_run pr sid (d # ds) succ st st'"
proof -
  from assms(1) obtain ds1 d' ds2 outs cs failed where
    "ds = ds1 @ d' # ds2" "length outs = length ds1"
    "calls st' = calls st1 @ map (\<lambda>d. Forward (def_key d)) (ds1 @ [d']) @ cs"
    "undone (retries pr) (rev ((succ @ [(def_key d, v)]) @ zip (map def_key ds1) outs)) cs failed"
    "backend st1 \<longrightarrow> (\<forall>r \<in> set (instances st'). saga_id r = sid \<longrightarrow>
       saga_status r = (if failed = [] then ''compensated'' else ''compensation-failed''))"
    unfolding failed_run_def by blast
  with assms(2,3) show ?thesis
    unfolding failed_run_def
    by (intro exI [of _ "d # ds1"] exI [of _ d'] exI [of _ ds2] exI [of _ "v # outs"] exI [of _ cs] exI [of _ failed]) simp
qed

lemma run_steps_effect:
  assumes "run_steps pr sid def ctx params ds succ out st = (r, st')"
    and "sorted_wrt (<) (map step_ordinal succ @ map ordinal ds)"
    and "\<forall>s \<in> set succ. step_status s \<noteq> ''compensated'' \<and> (\<exists>d \<in> set (def_steps def). ordinal d = step_ordinal s)"
    and "set ds \<subseteq> set (def_steps def)"
  shows "case r of
      Inl e \<Rightarrow> failed_run pr sid ds (done_pairs succ) st st'
             \<and> map saga_id (instances st') = map saga_id (instances st)
    | Inr v \<Rightarrow> calls st' = calls st @ map (\<lambda>d. Forward (def_key d)) ds
             \<and> instances st' = instances st \<and> backend st' = backend st"
  using assms
proof (induction ds arbitrary: succ out st)
  case Nil
  then show ?case by auto
next
  case (Cons d ds)
  obtain row st1 where cr: "createSagaStep pr sid (ordinal d) (def_key d) params st = (row, st1)"
    by fastforce
  note c = createSagaStep_effect [OF cr]
  define st2 where "st2 = updateStepStatus pr (step_id row) ''executing'' JUndefined st1"
  obtain q w where fw: "forward d params ctx (outside st2) = (q, w)"
    by fastforce
  define st3 where "st3 = st2\<lparr>outside := w, calls := calls st2 @ [Forward (def_key d)]\<rparr>"
  have s3: "calls st3 = calls st @ [Forward (def_key d)]" "backend st3 = backend st" "instances st3 = instances st"
    by (simp_all add: st3_def st2_def c)
  show ?case
  proof (cases q)
    case (Inl e)
    obtain e' st4 where sf: "step_failed pr sid def d ctx row succ e st3 = (e', st4)"
      by fastforce
    have r: "r = Inl e'" "st' = st4"
      using Cons.prems(1) sf fw by (simp_all add: cr st2_def st3_def Inl Let_def)
    have srt: "sorted_wrt (<) (map step_ordinal succ)"
      using Cons.prems(2) by (simp add: sorted_wrt_append)
    from step_failed_effect [OF sf srt Cons.prems(3)] obtain cs failed where
      "calls st4 = calls st3 @ cs" "undone (retries pr) (rev (done_pairs succ)) cs failed"
      "backend st3 \<Longrightarrow> \<forall>r \<in> set (instances st4). saga_id r = sid \<longrightarrow>
         saga_status r = (if failed = [] then ''compensated'' else ''compensation-failed'')"
      "map saga_id (instances st4) = map saga_id (instances st3)"
      unfolding retries_def done_pairs_def by blast
    note eff = this
    have "failed_run pr sid (d # ds) (done_pairs succ) st st4"
      unfolding failed_run_def
      by (rule exI [of _ "[]"], rule exI [of _ d], rule exI [of _ ds], rule exI [of _ "[]"], rule exI [of _ cs],
          rule exI [of _ failed]) (use eff in \<open>simp add: s3\<close>)
    with eff(4) show ?thesis
      by (simp add: r s3)
  next
    case (Inr v)
    let ?row = "row\<lparr>step_status := ''succeeded'', output_snapshot := v\<rparr>"
    let ?st4 = "milestone d ''succeeded'' ctx (updateStepStatus pr (step_id row) ''succeeded'' v st3)"
    have run: "run_steps pr sid def ctx params ds (succ @ [?row]) v ?st4 = (r, st')"
      using Cons.prems(1) fw by (simp add: cr st2_def st3_def Inr Let_def)
    have srt: "sorted_wrt (<) (map step_ordinal (succ @ [?row]) @ map ordinal ds)"
      using Cons.prems(2) by (simp add: c)
    have all: "\<forall>s \<in> set (succ @ [?row]). step_status s \<noteq> ''compensated'' \<and> (\<exists>d \<in> set (def_steps def). ordinal d = step_ordinal s)"
      using Cons.prems(3,4) by (auto simp: c)
    have dp: "done_pairs (succ @ [?row]) = done_pairs succ @ [(def_key d, v)]"
      by (simp add: done_pairs_def c)
    have ih: "case r of
        Inl e \<Rightarrow> failed_run pr sid ds (done_pairs succ @ [(def_key d, v)]) ?st4 st'
               \<and> map saga_id (instances st') = map saga_id (instances ?st4)
      | Inr v \<Rightarrow> calls st' = calls ?st4 @ map (\<lambda>d. Forward (def_key d)) ds
               \<and> instances st' = instances ?st4 \<and> backend st' = backend ?st4"
      using Cons.IH [OF run srt all] Cons.prems(4) unfolding dp by simp
    have s4: "calls ?st4 = calls st @ [Forward (def_key d)]" "backend ?st4 = backend st" "instances ?st4 = instances st"
      by (simp_all add: s3)
    show ?thesis
    proof (cases r)
      case Inl: (Inl e)
      with ih have fr: "failed_run pr sid ds (done_pairs succ @ [(def_key d, v)]) ?st4 st'"
        and m: "map saga_id (instances st') = map saga_id (instances st)"
        by (simp_all add: s3)
      from failed_run_Cons [OF fr s4(1,2)] m show ?thesis
        by (simp add: Inl)
    next
      case Inr': (Inr u)
      with ih show ?thesis by (simp add: s3)
    qed
  qed
qed

section \<open>The properties of the engine\<close>

lemma createSagaInstance_effect:
  assumes "createSagaInstance pr wid params cc corr idem st = (row, st1)"
  shows "saga_id row = uuid pr (drawn st)" "calls st1 = calls st" "backend st1 = backend st"
    "backend st \<Longrightarrow> instances st1 = instances st @ [row]" "\<not> backend st \<Longrightarrow> instances st1 = instances st"
    "tenant_id row = cc_tenantId cc" "idempotency_key row = idem"
  using assms by (auto simp: createSagaInstance_def adapterQuery_def Let_def split: if_splits)

text \<open>How a call ends when the steps have run.\<close>

definition engine_end ::
  "saga_proc \<Rightarrow> string option \<Rightarrow> string \<Rightarrow> json result \<Rightarrow> 'w engine \<Rightarrow> json result \<times> 'w engine" where
  "engine_end pr idem sid r st =
     (case r of
        Inl e \<Rightarrow> (Inl e, st)
      | Inr out \<Rightarrow>
          (Inr (completed_json sid out),
           recordIdempotencyResult pr idem sid (completed_json sid out)
             (emitAudit (WorkflowTerminal sid ''completed'')
               (updateSagaStatus pr sid ''completed'' (completed_json sid out) st))))"

text \<open>A call that gets past the idempotency check.\<close>

lemma executeSaga_runs:
  assumes "defs wid = Some def" and "\<not> provisional def"
    and "checkIdempotencyKey (idempotencyKeyOf params) (cc_tenantId cc) st = None"
  obtains row st1 ctx r st2 where
    "createSagaInstance pr wid (JObj params) cc
       (enrichContextWithCorrelation pr (drawn st) wid (cc_tenantId cc) (cc_correlationId cc))
       (idempotencyKeyOf params) st = (row, st1)"
    "run_steps pr (saga_id row) def ctx (JObj params) (def_steps def) [] JNull
       (emitAudit (WorkflowStarted (saga_id row)) st1) = (r, st2)"
    "executeSaga_with defs pr wid params cc st =
       engine_end pr (idempotencyKeyOf params) (saga_id row) r st2"
proof -
  let ?corr = "enrichContextWithCorrelation pr (drawn st) wid (cc_tenantId cc) (cc_correlationId cc)"
  obtain row st1 where cr: "createSagaInstance pr wid (JObj params) cc ?corr (idempotencyKeyOf params) st = (row, st1)"
    by fastforce
  define ctx where "ctx = \<lparr>ctx_sagaId = saga_id row, ctx_workflowId = wid, ctx_correlationId = ?corr,
      ctx_tenantId = cc_tenantId cc, ctx_workspaceId = cc_workspaceId cc,
      ctx_actorType = coalesce (cc_actorType cc) ''unknown'',
      ctx_actorId = coalesce (orElse (cc_actorId cc) (cc_actor cc)) ''unknown''\<rparr>"
  obtain r st2 where rs: "run_steps pr (saga_id row) def ctx (JObj params) (def_steps def) [] JNull
      (emitAudit (WorkflowStarted (saga_id row)) st1) = (r, st2)"
    by fastforce
  show thesis
    by (rule that [OF cr rs])
       (simp add: executeSaga_with_def engine_end_def assms Let_def cr ctx_def [symmetric] rs split: sum.split)
qed


section \<open>Samples\<close>

definition engine_empty :: "unit engine" where
  "engine_empty = \<lparr>backend = True, instances = [], steps = [], comp_log = [], audits = [], sleeps = [],
     calls = [], drawn = 0, outside = ()\<rparr>"

definition engine_proc :: saga_proc where
  "engine_proc = \<lparr>config = SAGA_CONFIG (\<lambda>_. None), proc_now = 0, uuid = show_nat,
     random8 = (\<lambda>n. ''00000000''), now36 = ''0'', alert_emitter = None\<rparr>"

definition engine_caller :: caller_ctx where
  "engine_caller = \<lparr>cc_tenantId = Some ''t1'', cc_workspaceId = None, cc_actorType = None,
     cc_actorId = Some ''alice'', cc_actor = None, cc_correlationId = None, cc_recoveryPolicy = None,
     cc_role = None\<rparr>"

text \<open>A workflow whose second step fails.\<close>

definition engine_defs :: "string \<Rightarrow> unit saga_def option" where
  "engine_defs wid =
     (if wid = ''W'' then Some \<lparr>provisional = False, def_steps =
        [stub_step False 1 ''a'',
         (stub_step False 2 ''b'')\<lparr>forward := (\<lambda>params ctx w. (Inl (JsError None None ''boom''), w))\<rparr>]\<rparr>
      else None)"

lemmas engine_sample_defs =
  engine_empty_def engine_proc_def engine_caller_def engine_defs_def SAGA_CONFIG_def intFromEnv_def








section \<open>Replays\<close>

lemma run_steps_ok:
  assumes "\<forall>d \<in> set ds. \<forall>w. \<exists>v. fst (forward d params ctx w) = Inr v"
  shows "\<exists>v. fst (run_steps pr sid def ctx params ds succ out st) = Inr v"
  using assms
proof (induction ds arbitrary: succ out st)
  case (Cons d ds)
  obtain row st1 where cr: "createSagaStep pr sid (ordinal d) (def_key d) params st = (row, st1)"
    by fastforce
  obtain q w where fw: "forward d params ctx (outside (updateStepStatus pr (step_id row) ''executing'' JUndefined st1)) = (q, w)"
    by fastforce
  obtain v where q: "q = Inr v"
    using Cons.prems fw by (metis fst_conv list.set_intros(1))
  show ?case
    using fw Cons.IH Cons.prems by (simp add: cr q Let_def)
qed simp

lemma executeSaga_ok:
  assumes "defs wid = Some def" and "\<not> provisional def"
    and "checkIdempotencyKey (idempotencyKeyOf params) (cc_tenantId cc) st = None"
    and "\<forall>d \<in> set (def_steps def). \<forall>p ctx w. \<exists>v. fst (forward d p ctx w) = Inr v"
  shows "\<exists>res st'. executeSaga_with defs pr wid params cc st = (Inr res, st')"
proof (rule executeSaga_runs [where defs = defs and wid = wid and def = def and params = params and cc = cc
      and st = st and pr = pr, OF assms(1-3)])
  fix row st1 ctx r st2
  assume "run_steps pr (saga_id row) def ctx (JObj params) (def_steps def) [] JNull
       (emitAudit (WorkflowStarted (saga_id row)) st1) = (r, st2)"
    and ex: "executeSaga_with defs pr wid params cc st =
       engine_end pr (idempotencyKeyOf params) (saga_id row) r st2"
  then obtain out where "r = Inr out"
    using run_steps_ok [of "def_steps def" "JObj params" ctx pr "saga_id row" def "[]" JNull
        "emitAudit (WorkflowStarted (saga_id row)) st1"] assms(4) by auto
  with ex show ?thesis by (simp add: engine_end_def)
qed

definition complete_row :: "saga_proc \<Rightarrow> json \<Rightarrow> string \<Rightarrow> saga_instance \<Rightarrow> saga_instance" where
  "complete_row pr res sid r =
     (if saga_id r = sid
      then r\<lparr>saga_status := ''completed'', saga_output := res, error_summary := JNull, saga_updated_at := proc_now pr\<rparr>
      else r)"

text \<open>The state a successful call leaves: every step called once, its row completed.\<close>

lemma executeSaga_success:
  assumes "defs wid = Some def" and "\<not> provisional def" and "sorted_wrt (<) (map ordinal (def_steps def))"
    and "checkIdempotencyKey (idempotencyKeyOf params) (cc_tenantId cc) st = None"
    and "executeSaga_with defs pr wid params cc st = (Inr res, st')"
  shows "calls st' = calls st @ map (\<lambda>d. Forward (def_key d)) (def_steps def)"
    and "backend st' = backend st"
    and "\<not> backend st \<Longrightarrow> instances st' = instances st"
    and "backend st \<Longrightarrow> \<exists>row. instances st' = map (complete_row pr res (saga_id row)) (instances st @ [row])
           \<and> tenant_id row = cc_tenantId cc \<and> idempotency_key row = idempotencyKeyOf params"
proof -
  have "calls st' = calls st @ map (\<lambda>d. Forward (def_key d)) (def_steps def) \<and> backend st' = backend st
    \<and> (\<not> backend st \<longrightarrow> instances st' = instances st)
    \<and> (backend st \<longrightarrow> (\<exists>row. instances st' = map (complete_row pr res (saga_id row)) (instances st @ [row])
           \<and> tenant_id row = cc_tenantId cc \<and> idempotency_key row = idempotencyKeyOf params))"
  proof (rule executeSaga_runs [where defs = defs and wid = wid and def = def and params = params and cc = cc
      and st = st and pr = pr, OF assms(1,2,4)])
    fix row st1 ctx r st2
    assume cr: "createSagaInstance pr wid (JObj params) cc
         (enrichContextWithCorrelation pr (drawn st) wid (cc_tenantId cc) (cc_correlationId cc))
         (idempotencyKeyOf params) st = (row, st1)"
      and rs: "run_steps pr (saga_id row) def ctx (JObj params) (def_steps def) [] JNull
         (emitAudit (WorkflowStarted (saga_id row)) st1) = (r, st2)"
      and ex: "executeSaga_with defs pr wid params cc st =
         engine_end pr (idempotencyKeyOf params) (saga_id row) r st2"
    note c = createSagaInstance_effect [OF cr]
    from ex assms(5) obtain out where r: "r = Inr out" and res: "res = completed_json (saga_id row) out"
      and st': "st' = recordIdempotencyResult pr (idempotencyKeyOf params) (saga_id row) res
        (emitAudit (WorkflowTerminal (saga_id row) ''completed'') (updateSagaStatus pr (saga_id row) ''completed'' res st2))"
      by (auto simp: engine_end_def split: sum.splits)
    from run_steps_effect [OF rs] assms(3)
    have s2: "calls st2 = calls st @ map (\<lambda>d. Forward (def_key d)) (def_steps def)" "backend st2 = backend st"
      "instances st2 = instances st1"
      by (simp_all add: r c)
    have n: "orNull res = res"
      by (simp add: res completed_json_def orNull_def)
    have fr: "calls st' = calls st2" "backend st' = backend st2"
      by (simp_all add: st' recordIdempotencyResult_def)
    have i1: "\<not> backend st2 \<Longrightarrow> instances st' = instances st2"
      by (simp add: st' recordIdempotencyResult_def updateSagaStatus_def adapterQuery_def)
    have i2: "backend st2 \<Longrightarrow> instances st' = map (complete_row pr res (saga_id row)) (instances st2)"
      by (simp add: st' recordIdempotencyResult_def updateSagaStatus_def adapterQuery_def Let_def n updWhere_def
          emitAudit_def comp_def complete_row_def [abs_def])
    have "backend st \<longrightarrow> (\<exists>row. instances st' = map (complete_row pr res (saga_id row)) (instances st @ [row])
           \<and> tenant_id row = cc_tenantId cc \<and> idempotency_key row = idempotencyKeyOf params)"
      using i2 s2 c(4,6,7) by (intro impI exI [of _ row]) simp
    then show ?thesis
      using fr s2 i1 c(5) by simp
  qed
  then show "calls st' = calls st @ map (\<lambda>d. Forward (def_key d)) (def_steps def)"
    and "backend st' = backend st"
    and "\<not> backend st \<Longrightarrow> instances st' = instances st"
    and "backend st \<Longrightarrow> \<exists>row. instances st' = map (complete_row pr res (saga_id row)) (instances st @ [row])
           \<and> tenant_id row = cc_tenantId cc \<and> idempotency_key row = idempotencyKeyOf params"
    by blast+
qed



definition engine_params :: fields where
  "engine_params = [(''idempotencyKey'', JStr ''key-1'')]"


lemma wf1:
  "(sagaDefinitions ''WF-CON-001'' :: 'w saga_def option) = Some (the (sagaDefinitions ''WF-CON-001''))"
  "\<not> provisional (the (sagaDefinitions ''WF-CON-001'' :: 'w saga_def option))"
  "sorted_wrt (<) (map ordinal (def_steps (the (sagaDefinitions ''WF-CON-001'' :: 'w saga_def option))))"
  "\<forall>d \<in> set (def_steps (the (sagaDefinitions ''WF-CON-001'' :: 'w saga_def option))). \<forall>p ctx w. \<exists>v. fst (forward d p ctx w) = Inr v"
  by (simp_all add: sagaDefinitions_def stub_step_def)

lemma engine_nothing_stored:
  "checkIdempotencyKey key t (engine_empty\<lparr>backend := b\<rparr>) = None"
  by (simp add: checkIdempotencyKey_def findSagaByIdempotencyKey_def adapterRows_def engine_empty_def)


text \<open>
  Without a query function in the adapter module the idempotency key protects nothing: two
  calls with the same key both run every step.
\<close>

theorem without_backend_runs_again:
  assumes "\<not> backend st" and "defs wid = Some def" "\<not> provisional def" "sorted_wrt (<) (map ordinal (def_steps def))"
    and "executeSaga_with defs pr wid params cc st = (Inr res1, st1)"
    and "executeSaga_with defs pr wid params cc st1 = (Inr res2, st2)"
  shows "calls st2 = calls st @ map (\<lambda>d. Forward (def_key d)) (def_steps def) @ map (\<lambda>d. Forward (def_key d)) (def_steps def)"
proof -
  have none: "checkIdempotencyKey key t s = None" if "\<not> backend s" for key t and s :: "'a engine"
    using that by (simp add: checkIdempotencyKey_def findSagaByIdempotencyKey_def adapterRows_def)
  note s1 = executeSaga_success [where defs = defs, OF assms(2-4) none [OF assms(1)] assms(5)]
  have b1: "\<not> backend st1"
    using s1(2) assms(1) by simp
  note s2 = executeSaga_success [where defs = defs, OF assms(2-4) none [OF b1] assms(6)]
  show ?thesis
    using s1(1) s2(1) by simp
qed

theorem without_backend_runs_again_witness:
  "\<exists>res1 st1 res2 st2.
     executeSaga engine_proc ''WF-CON-001'' engine_params engine_caller (engine_empty\<lparr>backend := False\<rparr>) = (Inr res1, st1)
     \<and> executeSaga engine_proc ''WF-CON-001'' engine_params engine_caller st1 = (Inr res2, st2)
     \<and> calls st2 = [Forward ''assign-keycloak-role'', Forward ''update-membership-record'',
                     Forward ''assign-keycloak-role'', Forward ''update-membership-record'']"
proof -
  let ?st = "engine_empty\<lparr>backend := False\<rparr>"
  obtain res1 st1 where r1: "executeSaga_with sagaDefinitions engine_proc ''WF-CON-001'' engine_params engine_caller ?st = (Inr res1, st1)"
    using executeSaga_ok [where defs = sagaDefinitions, OF wf1(1,2) engine_nothing_stored wf1(4)] by blast
  have "\<not> backend st1"
    using executeSaga_success(2) [where defs = sagaDefinitions, OF wf1(1-3) engine_nothing_stored r1] by simp
  then have n: "checkIdempotencyKey key t st1 = None" for key t
    by (simp add: checkIdempotencyKey_def findSagaByIdempotencyKey_def adapterRows_def)
  obtain res2 st2 where r2: "executeSaga_with sagaDefinitions engine_proc ''WF-CON-001'' engine_params engine_caller st1 = (Inr res2, st2)"
    using executeSaga_ok [where defs = sagaDefinitions, OF wf1(1,2) n wf1(4)] by blast
  have "calls st2 = [Forward ''assign-keycloak-role'', Forward ''update-membership-record'',
                     Forward ''assign-keycloak-role'', Forward ''update-membership-record'']"
    using without_backend_runs_again [where defs = sagaDefinitions, OF _ wf1(1-3) r1 r2]
    by (simp add: engine_empty_def sagaDefinitions_def stub_step_def)
  with r1 r2 show ?thesis
    unfolding executeSaga_def by blast
qed

section \<open>Status queries\<close>

text \<open>
  C35. A caller who is not a superadmin sees the status of a saga only when it belongs to the
  caller's tenant and, where the caller names one, to the caller's workspace; a saga of another
  tenant is refused, and the steps shown are that saga's own.
\<close>

theorem getSagaStatus_isolated:
  assumes "cc_role cc \<noteq> Some ''superadmin''" and "getSagaStatus sid cc st = Inr (Some v)"
  shows "\<exists>s \<in> set (instances st). saga_id s = sid \<and> v_sagaId v = sid
     \<and> tenant_id s = cc_tenantId cc \<and> tenant_id s \<noteq> None
     \<and> (\<forall>w. cc_workspaceId cc = Some w \<longrightarrow> w \<noteq> [] \<longrightarrow> workspace_id s = Some w)
     \<and> set (v_steps v) = (\<lambda>r. (step_ordinal r, step_key r, step_status r, step_updated_at r))
          ` {r \<in> set (steps st). step_saga r = sid}"
proof -
  from assms(2) obtain s where s: "getSagaById sid st = Some s"
    by (auto simp: getSagaStatus_def split: option.splits)
  then have b: "backend st" "s \<in> set (instances st)" "saga_id s = sid"
    by (auto simp: getSagaById_def adapterRows_def split: if_splits dest: find_Some_iff_in)
  have v: "v = toStatusResponse s (listStepsForSaga sid st)"
    and ok: "tenant_id s \<noteq> None" "tenant_id s = cc_tenantId cc"
      "truthyS (cc_workspaceId cc) \<Longrightarrow> workspace_id s = cc_workspaceId cc"
    using assms by (auto simp: getSagaStatus_def s split: if_splits)
  have "set (v_steps v) = (\<lambda>r. (step_ordinal r, step_key r, step_status r, step_updated_at r))
          ` {r \<in> set (steps st). step_saga r = sid}"
    by (simp add: v toStatusResponse_def listStepsForSaga_def adapterRows_def b(1))
  with b ok show ?thesis
    by (intro bexI [of _ s]) (auto simp: v toStatusResponse_def)
qed

definition engine_one :: "unit engine" where
  "engine_one = snd (createSagaInstance engine_proc ''WF-CON-001'' (JObj []) engine_caller ''c'' None engine_empty)"

theorem getSagaStatus_isolated_witness:
  "\<exists>v s. getSagaStatus ''0'' engine_caller engine_one = Inr (Some v) \<and> s \<in> set (instances engine_one)
     \<and> tenant_id s = Some ''t1''"
proof -
  have one: "uuid engine_proc 0 = ''0''"
    by code_simp
  have get: "\<exists>v. getSagaStatus ''0'' engine_caller engine_one = Inr (Some v)"
    by (simp add: getSagaStatus_def getSagaById_def adapterRows_def engine_one_def createSagaInstance_def adapterQuery_def
        engine_empty_def one Let_def) (simp add: engine_caller_def)
  then obtain v where v: "getSagaStatus ''0'' engine_caller engine_one = Inr (Some v)" ..
  from getSagaStatus_isolated [OF _ v] show ?thesis
    using v by (auto simp: engine_caller_def)
qed

section \<open>Backoff and recovery\<close>

text \<open>The delay between two attempts never exceeds its maximum and does not shrink.\<close>

lemma backoffDelay_bounds:
  assumes "0 \<le> baseDelayMs cfg" and "1 \<le> backoffMultiplier cfg" and "0 \<le> maxDelayMs cfg"
  shows "0 \<le> backoffDelay n cfg" "backoffDelay n cfg \<le> maxDelayMs cfg"
    "m \<le> n \<Longrightarrow> backoffDelay m cfg \<le> backoffDelay n cfg"
proof -
  show "0 \<le> backoffDelay n cfg" "backoffDelay n cfg \<le> maxDelayMs cfg"
    using assms by (simp_all add: backoffDelay_def)
  assume "m \<le> n"
  then have "backoffMultiplier cfg ^ m \<le> backoffMultiplier cfg ^ n"
    using assms(2) by (rule power_increasing)
  then have "baseDelayMs cfg * backoffMultiplier cfg ^ m \<le> baseDelayMs cfg * backoffMultiplier cfg ^ n"
    using assms(1) by (rule mult_left_mono)
  then show "backoffDelay m cfg \<le> backoffDelay n cfg"
    by (simp add: backoffDelay_def)
qed

text \<open>Marking a step \<open>compensating\<close> erases its stored output: a recovery that resumes it hands
  \<open>null\<close> to the compensator.\<close>

lemma compensating_erases_output:
  assumes "backend st" and "s \<in> set (listStepsForSaga sid (updateStepStatus pr k ''compensating'' JUndefined st))"
    and "step_id s = k"
  shows "output_snapshot s = JNull"
proof -
  have "\<forall>r \<in> set (steps (updateStepStatus pr k ''compensating'' JUndefined st)). step_id r = k \<longrightarrow> output_snapshot r = JNull"
    using assms(1) by (simp add: updateStepStatus_def adapterQuery_def Let_def orNull_def ball_updWhere)
  moreover have "s \<in> set (steps (updateStepStatus pr k ''compensating'' JUndefined st))"
    using assms(1,2) by (simp add: listStepsForSaga_def adapterRows_def)
  ultimately show ?thesis
    using assms(3) by blast
qed

end
