(* ===== verification/Quota_Model.thy ===== *)
theory Quota_Model
  imports JS_Json Lifecycle
begin

text \<open>
  Quotas and plans of the provisioning orchestrator: the model classes
  \<open>models/{quota-dimension,quota-override,quota-enforcement,workspace-sub-quota,plan,plan-assignment}.mjs\<close>.

  Values that arrive from a request and are tested with \<open>Number.isInteger\<close> or \<open>typeof\<close> are JSON
  values; limits that passed a test or come from the database are rationals (plans may carry any
  finite number). \<open>new Date(s)\<close> on a string is the parameter \<open>parseDate\<close>.
\<close>

section \<open>Errors\<close>

definition coded :: "string \<Rightarrow> string \<Rightarrow> js_error" where
  "coded code msg = JsError (Some code) None msg"

definition codedStatus :: "string \<Rightarrow> int \<Rightarrow> string \<Rightarrow> js_error" where
  "codedStatus code st msg = JsError (Some code) (Some st) msg"

section \<open>Dimensions (quota-dimension.mjs)\<close>

definition UNLIMITED_SENTINEL :: rat where
  "UNLIMITED_SENTINEL = - 1"

definition isValidLimitValue :: "json \<Rightarrow> bool" where
  "isValidLimitValue v = (case v of JNum n \<Rightarrow> isInteger n \<and> - 1 \<le> toInt n | _ \<Rightarrow> False)"

definition isUnlimited :: "rat \<Rightarrow> bool" where
  "isUnlimited v \<longleftrightarrow> v = UNLIMITED_SENTINEL"

text \<open>The pattern \<open>/^[a-z][a-z0-9_]{1,62}$/\<close>.\<close>

definition isValidDimensionKey :: "string option \<Rightarrow> bool" where
  "isValidDimensionKey key =
     (case key of
        Some (c # cs) \<Rightarrow>
          is_lower c \<and> 1 \<le> length cs \<and> length cs \<le> 62
          \<and> list_all (\<lambda>x. is_lower x \<or> is_digit x \<or> x = CHR ''_'') cs
      | _ \<Rightarrow> False)"

record quota_dimension =
  d_dimensionKey :: string
  d_displayLabel :: string
  d_unit :: string
  d_defaultValue :: rat
  d_description :: "string option"

record quota_type_entry =
  qt_type :: string
  qt_graceMargin :: rat

text \<open>An entry of a plan's \<open>quota_type_config\<close>: a type and a margin, either possibly missing.\<close>

record raw_type_entry =
  rt_type :: "string option"
  rt_graceMargin :: json

definition natInteger :: "json \<Rightarrow> int option" where
  "natInteger v = (case v of JNum n \<Rightarrow> (if isInteger n \<and> 0 \<le> toInt n then Some (toInt n) else None) | _ \<Rightarrow> None)"

definition normalizeQuotaTypeEntry :: "raw_type_entry option \<Rightarrow> quota_type_entry" where
  "normalizeQuotaTypeEntry entry =
     (case entry of
        None \<Rightarrow> \<lparr>qt_type = ''hard'', qt_graceMargin = 0\<rparr>
      | Some e \<Rightarrow>
          \<lparr>qt_type = (if rt_type e = Some ''soft'' then ''soft'' else ''hard''),
           qt_graceMargin = (case natInteger (rt_graceMargin e) of None \<Rightarrow> 0 | Some n \<Rightarrow> of_int n)\<rparr>)"

record profile_entry =
  pe_dimensionKey :: string
  pe_displayLabel :: string
  pe_unit :: string
  pe_effectiveValue :: rat
  pe_source :: string
  pe_unlimited :: bool
  pe_quotaType :: string
  pe_graceMargin :: rat

definition formatProfileEntry :: "quota_dimension \<Rightarrow> rat option \<Rightarrow> raw_type_entry option \<Rightarrow> profile_entry" where
  "formatProfileEntry d explicit entry =
     (let v = coalesce explicit (d_defaultValue d); t = normalizeQuotaTypeEntry entry
      in \<lparr>pe_dimensionKey = d_dimensionKey d, pe_displayLabel = d_displayLabel d, pe_unit = d_unit d,
          pe_effectiveValue = v, pe_source = (if explicit = None then ''default'' else ''explicit''),
          pe_unlimited = isUnlimited v, pe_quotaType = qt_type t, pe_graceMargin = qt_graceMargin t\<rparr>)"

section \<open>Overrides (quota-override.mjs)\<close>

definition VALID_OVERRIDE_STATUSES :: "string list" where
  "VALID_OVERRIDE_STATUSES = [''active'', ''superseded'', ''revoked'', ''expired'']"

text \<open>\<open>parseInt(v ?? '1000', 10) || 1000\<close>.\<close>

definition MAX_JUSTIFICATION_LENGTH :: "string option \<Rightarrow> int" where
  "MAX_JUSTIFICATION_LENGTH v =
     (case js_parseInt10 (coalesce v ''1000'') of None \<Rightarrow> 1000 | Some n \<Rightarrow> if n = 0 then 1000 else n)"

definition normalizeQuotaType :: "string option \<Rightarrow> string" where
  "normalizeQuotaType v = (if v = Some ''soft'' then ''soft'' else ''hard'')"

definition validateQuotaTypeConfigEntry :: "string option \<Rightarrow> json \<Rightarrow> (string \<times> int) result" where
  "validateQuotaTypeConfigEntry ty grace =
     (let quotaType = normalizeQuotaType ty;
          g = (if grace = JUndefined \<or> grace = JNull then JNum (jsInt 0) else grace)
      in case natInteger g of
           None \<Rightarrow> Inl (coded ''INVALID_GRACE_MARGIN'' ''Invalid grace margin'')
         | Some n \<Rightarrow>
             if quotaType = ''soft'' \<and> grace = JUndefined
             then Inl (coded ''GRACE_MARGIN_REQUIRED_FOR_SOFT'' ''Grace margin required'')
             else Inr (quotaType, n))"

definition assertJustification :: "int \<Rightarrow> json \<Rightarrow> string result" where
  "assertJustification maxLength v =
     (case v of
        JStr s \<Rightarrow>
          if js_trim s = [] then Inl (coded ''JUSTIFICATION_REQUIRED'' ''Justification required'')
          else if maxLength < int (length (js_trim s))
          then Inl (coded ''JUSTIFICATION_TOO_LONG'' ''Justification too long'')
          else Inr (js_trim s)
      | _ \<Rightarrow> Inl (coded ''JUSTIFICATION_REQUIRED'' ''Justification required''))"

definition normalizeExpiry :: "(string \<Rightarrow> time option) \<Rightarrow> time \<Rightarrow> string option \<Rightarrow> time option result" where
  "normalizeExpiry parseDate now expiresAt =
     (case expiresAt of
        None \<Rightarrow> Inr None
      | Some s \<Rightarrow>
          if s = [] then Inr None
          else case parseDate s of
                 None \<Rightarrow> Inl (coded ''INVALID_EXPIRATION'' ''Invalid expiration'')
               | Some t \<Rightarrow>
                   if t \<le> now then Inl (coded ''EXPIRATION_MUST_BE_FUTURE'' ''Expiration must be future'')
                   else Inr (Some t))"

text \<open>A row of \<open>quota_overrides\<close>.\<close>

record override =
  ov_id :: string
  ov_tenantId :: string
  ov_dimensionKey :: string
  ov_value :: int
  ov_quotaType :: string
  ov_graceMargin :: int
  ov_justification :: string
  ov_expiresAt :: "time option"
  ov_status :: string
  ov_createdBy :: string
  ov_createdAt :: time
  ov_supersededBy :: "string option"
  ov_revokedBy :: "string option"
  ov_revokedAt :: "time option"
  ov_revocationJustification :: "string option"
  ov_modifiedBy :: "string option"
  ov_modifiedAt :: "time option"
  ov_modificationJustification :: "string option"

definition isOverrideExpired :: "override \<Rightarrow> time \<Rightarrow> bool" where
  "isOverrideExpired r now = (case ov_expiresAt r of None \<Rightarrow> False | Some t \<Rightarrow> t \<le> now)"

text \<open>The constructor \<open>new QuotaOverride(payload)\<close> with the fields \<open>createOverride\<close> is given; the
  expiry is normalised a second time against the clock.\<close>

definition newQuotaOverride ::
  "int \<Rightarrow> time \<Rightarrow> string \<Rightarrow> string \<Rightarrow> string option \<Rightarrow> json \<Rightarrow> string option \<Rightarrow> int \<Rightarrow> json \<Rightarrow> time option
     \<Rightarrow> string \<Rightarrow> override result" where
  "newQuotaOverride maxLength now uid tenantId dimensionKey v quotaType grace justification expiresAt createdBy =
     (if tenantId = [] then Inl (coded ''TENANT_ID_REQUIRED'' ''tenantId required'')
      else if \<not> isValidDimensionKey dimensionKey then Inl (coded ''INVALID_DIMENSION_KEY'' ''Invalid dimension key'')
      else if \<not> isValidLimitValue v then Inl (coded ''INVALID_OVERRIDE_VALUE'' ''Invalid override value'')
      else if grace < 0 then Inl (coded ''INVALID_GRACE_MARGIN'' ''Invalid grace margin'')
      else bindE (assertJustification maxLength justification) (\<lambda>j.
           bindE (throwIf (\<exists>t \<in> set_option expiresAt. t \<le> now)
                    (coded ''EXPIRATION_MUST_BE_FUTURE'' ''Expiration must be future'')) (\<lambda>_.
             Inr \<lparr>ov_id = uid, ov_tenantId = tenantId, ov_dimensionKey = the dimensionKey,
                  ov_value = (case v of JNum n \<Rightarrow> toInt n | _ \<Rightarrow> 0),
                  ov_quotaType = normalizeQuotaType quotaType, ov_graceMargin = grace,
                  ov_justification = j, ov_expiresAt = expiresAt, ov_status = ''active'',
                  ov_createdBy = createdBy, ov_createdAt = now, ov_supersededBy = None,
                  ov_revokedBy = None, ov_revokedAt = None, ov_revocationJustification = None,
                  ov_modifiedBy = None, ov_modifiedAt = None, ov_modificationJustification = None\<rparr>)))"

section \<open>Enforcement (quota-enforcement.mjs)\<close>

record effective_limit =
  el_dimensionKey :: string
  el_displayLabel :: string
  el_unit :: string
  el_limit :: rat
  el_quotaType :: string
  el_graceMargin :: rat
  el_ceiling :: rat
  el_unlimited :: bool
  el_source :: string
  el_overrideId :: "string option"

definition effectiveCeiling :: "rat \<Rightarrow> string \<Rightarrow> rat \<Rightarrow> rat" where
  "effectiveCeiling limit quotaType grace =
     (if isUnlimited limit then UNLIMITED_SENTINEL
      else limit + (if quotaType = ''soft'' then grace else 0))"

definition normalizeEffectiveLimit ::
  "quota_dimension \<Rightarrow> rat \<Rightarrow> string option \<Rightarrow> rat \<Rightarrow> string \<Rightarrow> string option \<Rightarrow> effective_limit" where
  "normalizeEffectiveLimit d limit quotaType grace source oid =
     \<lparr>el_dimensionKey = d_dimensionKey d, el_displayLabel = d_displayLabel d, el_unit = d_unit d,
      el_limit = limit, el_quotaType = normalizeQuotaType quotaType, el_graceMargin = grace,
      el_ceiling = effectiveCeiling limit (normalizeQuotaType quotaType) grace,
      el_unlimited = isUnlimited limit, el_source = source, el_overrideId = oid\<rparr>"

text \<open>\<open>usage >= limit\<close>.\<close>

definition js_reaches :: "jsnum \<Rightarrow> rat \<Rightarrow> bool" where
  "js_reaches u l = (case u of Fin x \<Rightarrow> l \<le> x | Infty p \<Rightarrow> p | NaN \<Rightarrow> False)"

record quota_decision =
  qd_allowed :: bool
  qd_decision :: string
  qd_errorCode :: "string option"
  qd_currentUsage :: "jsnum option"
  qd_ceiling :: "rat option"
  qd_warning :: "string option"

definition evaluateQuotaDecision :: "rat \<Rightarrow> string option \<Rightarrow> rat \<Rightarrow> jsnum option \<Rightarrow> quota_decision" where
  "evaluateQuotaDecision limit quotaType grace currentUsage =
     (if currentUsage = None \<or> currentUsage = Some NaN
      then \<lparr>qd_allowed = False, qd_decision = ''metering_unavailable'',
            qd_errorCode = Some ''METERING_UNAVAILABLE'', qd_currentUsage = None, qd_ceiling = None,
            qd_warning = None\<rparr>
      else
        (let u = the currentUsage; ty = normalizeQuotaType quotaType; c = effectiveCeiling limit ty grace;
             answer = (\<lambda>a d w. \<lparr>qd_allowed = a, qd_decision = d, qd_errorCode = None,
                                 qd_currentUsage = Some u, qd_ceiling = Some c, qd_warning = w\<rparr>)
         in if isUnlimited limit then answer True ''unlimited'' None
            else if ty = ''hard'' then
              (if js_reaches u limit then answer False ''hard_blocked'' None else answer True ''allowed'' None)
            else if js_reaches u c then answer False ''soft_grace_exhausted'' None
            else if js_reaches u limit
            then answer True ''soft_grace_allowed''
                   (Some (''Soft quota exceeded. Usage '' @ show_num u @ ''/'' @ show_num (Fin limit)
                          @ '' (grace ceiling: '' @ show_num (Fin c) @ '').''))
            else answer True ''allowed'' None))"

section \<open>Sub-quotas of workspaces (workspace-sub-quota.mjs)\<close>

record sub_quota =
  sq_id :: string
  sq_tenantId :: string
  sq_workspaceId :: string
  sq_dimensionKey :: string
  sq_allocated :: int
  sq_createdBy :: string
  sq_updatedBy :: string
  sq_createdAt :: time
  sq_updatedAt :: time

definition validateSubQuotaValue :: "json \<Rightarrow> int result" where
  "validateSubQuotaValue v =
     (case v of
        JNum n \<Rightarrow>
          if \<not> isInteger n \<or> toInt n < 0 \<or> toInt n = - 1
          then Inl (coded ''INVALID_SUB_QUOTA_VALUE'' ''Invalid sub-quota value'') else Inr (toInt n)
      | _ \<Rightarrow> Inl (coded ''INVALID_SUB_QUOTA_VALUE'' ''Invalid sub-quota value''))"

text \<open>\<open>validate\<close>, which \<open>fromRow\<close> runs on every row that comes back from the database; the other fields
  of a stored row pass it.\<close>

definition sub_row_error :: "sub_quota \<Rightarrow> js_error option" where
  "sub_row_error s =
     (if sq_dimensionKey s = [] then Some (coded ''INVALID_DIMENSION_KEY'' ''Invalid dimension key'')
      else if sq_tenantId s = [] then Some (coded ''TENANT_ID_REQUIRED'' ''tenantId required'')
      else if sq_workspaceId s = [] then Some (coded ''WORKSPACE_ID_REQUIRED'' ''workspaceId required'')
      else None)"

section \<open>Plans (plan.mjs, plan-assignment.mjs)\<close>

record plan =
  p_id :: string
  p_slug :: string
  p_displayName :: string
  p_description :: "string option"
  p_status :: string
  p_capabilities :: "(string \<times> bool) list"
  p_quotaDimensions :: "(string \<times> rat) list"
  p_quotaTypeConfig :: "(string \<times> raw_type_entry) list"
  p_createdBy :: "string option"
  p_updatedBy :: "string option"

definition PLAN_STATUSES :: "string list" where
  "PLAN_STATUSES = [''draft'', ''active'', ''deprecated'', ''archived'']"

definition PLAN_TRANSITIONS :: "string \<Rightarrow> string list" where
  "PLAN_TRANSITIONS s =
     (if s = ''draft'' then [''active'']
      else if s = ''active'' then [''deprecated'']
      else if s = ''deprecated'' then [''archived'']
      else [])"

definition canTransitionPlan :: "string \<Rightarrow> string \<Rightarrow> bool" where
  "canTransitionPlan s t \<longleftrightarrow> t \<in> set (PLAN_TRANSITIONS s)"

definition normalizeSlug :: "string \<Rightarrow> string" where
  "normalizeSlug s = js_toLowerCase (js_trim s)"

text \<open>The pattern \<open>/^[a-z0-9-]{1,64}$/\<close>.\<close>

definition validSlug :: "string \<Rightarrow> bool" where
  "validSlug s \<longleftrightarrow> 1 \<le> length s \<and> length s \<le> 64
     \<and> list_all (\<lambda>x. is_lower x \<or> is_digit x \<or> x = CHR ''-'') s"

text \<open>\<open>validateBooleanMap\<close> and \<open>validateNumberMap\<close>.\<close>

fun validateBooleanMap :: "string \<Rightarrow> (string \<times> json) list \<Rightarrow> (string \<times> bool) list result" where
  "validateBooleanMap field [] = Inr []"
| "validateBooleanMap field ((k, v) # rest) =
     (case v of
        JBool b \<Rightarrow> bindE (validateBooleanMap field rest) (\<lambda>r. Inr ((k, b) # r))
      | _ \<Rightarrow> Inl (coded ''VALIDATION_ERROR'' (field @ ''.'' @ k @ '' must be boolean'')))"

fun validateNumberMap :: "string \<Rightarrow> (string \<times> json) list \<Rightarrow> (string \<times> rat) list result" where
  "validateNumberMap field [] = Inr []"
| "validateNumberMap field ((k, v) # rest) =
     (case v of
        JNum (Fin r) \<Rightarrow> bindE (validateNumberMap field rest) (\<lambda>rs. Inr ((k, r) # rs))
      | _ \<Rightarrow> Inl (coded ''VALIDATION_ERROR'' (field @ ''.'' @ k @ '' must be a finite number'')))"

definition newPlan ::
  "string \<Rightarrow> string \<Rightarrow> string \<Rightarrow> string option \<Rightarrow> string \<Rightarrow> (string \<times> json) list \<Rightarrow> (string \<times> json) list
     \<Rightarrow> (string \<times> raw_type_entry) list \<Rightarrow> string option \<Rightarrow> string option \<Rightarrow> plan result" where
  "newPlan pid slug displayName description status caps dims types createdBy updatedBy =
     (if \<not> validSlug (normalizeSlug slug) then Inl (coded ''INVALID_SLUG'' ''Invalid slug'')
      else if displayName = [] then Inl (coded ''VALIDATION_ERROR'' ''displayName is required'')
      else if status \<notin> set PLAN_STATUSES then Inl (coded ''VALIDATION_ERROR'' ''Invalid status'')
      else bindE (validateBooleanMap ''capabilities'' caps) (\<lambda>cs.
           bindE (validateNumberMap ''quotaDimensions'' dims) (\<lambda>ds.
             Inr \<lparr>p_id = pid, p_slug = normalizeSlug slug, p_displayName = displayName,
                  p_description = description, p_status = status, p_capabilities = cs,
                  p_quotaDimensions = ds, p_quotaTypeConfig = types, p_createdBy = createdBy,
                  p_updatedBy = orElse updatedBy createdBy\<rparr>)))"

record assignment =
  as_id :: string
  as_tenantId :: string
  as_planId :: string
  as_assignedBy :: string
  as_effectiveFrom :: time
  as_supersededAt :: "time option"

definition assignment_isCurrent :: "assignment \<Rightarrow> bool" where
  "assignment_isCurrent a \<longleftrightarrow> as_supersededAt a = None"

interpretation plan_life: ranked_lifecycle canTransitionPlan "\<lambda>s. s = ''archived''"
  "\<lambda>s. if s = ''draft'' then 3 else if s = ''active'' then 2 else if s = ''deprecated'' then 1 else 0"
  by unfold_locales (auto simp: canTransitionPlan_def PLAN_TRANSITIONS_def split: if_splits)

text \<open>The decision, by the comparison it makes.\<close>

lemma normalizeQuotaType_cases: "normalizeQuotaType t = ''soft'' \<or> normalizeQuotaType t = ''hard''"
  by (simp add: normalizeQuotaType_def)

lemma allowed_iff:
  assumes "0 \<le> grace"
  shows "qd_allowed (evaluateQuotaDecision limit ty grace u) \<longleftrightarrow>
     (\<exists>x. u = Some x \<and> x \<noteq> NaN \<and> (isUnlimited limit \<or> \<not> js_reaches x (effectiveCeiling limit (normalizeQuotaType ty) grace)))"
  using normalizeQuotaType_cases [of ty]
  by (auto simp: evaluateQuotaDecision_def Let_def effectiveCeiling_def)

end
