(* ===== verification/Quota_Repo.thy ===== *)
theory Quota_Repo
  imports Quota_Model
begin

text \<open>
  The tables of quotas and plans and the repository functions on them
  (\<open>repositories/{quota-override,workspace-sub-quota,quota-enforcement,plan,plan-limits,plan-assignment}-repository.mjs\<close>),
  each transaction as one function. Statements that run outside a transaction are separated by a
  parameter \<open>between\<close>, the effect of the other clients. \<open>override_constraints\<close> holds the column types
  and \<open>CHECK\<close> constraints of the migration: a statement that violates one fails and its transaction
  is rolled back.
\<close>

record audit_entry =
  au_action :: string
  au_actor :: string
  au_tenant :: "string option"
  au_plan :: "string option"

record enforcement_entry =
  en_tenantId :: string
  en_workspaceId :: "string option"
  en_dimensionKey :: string
  en_attemptedAction :: "string option"
  en_currentUsage :: "jsnum option"
  en_limit :: rat
  en_quotaType :: string
  en_graceMargin :: rat
  en_ceiling :: rat
  en_source :: string
  en_decision :: string
  en_actorId :: "string option"
  en_warning :: "string option"

record quota_db =
  q_dims :: "quota_dimension list"
  q_overrides :: "override list"
  q_subs :: "sub_quota list"
  q_plans :: "plan list"
  q_assignments :: "assignment list"
  q_log :: "enforcement_entry list"
  q_audit :: "audit_entry list"
  q_events :: "(string \<times> string) list"

definition appendPlanAudit :: "string \<Rightarrow> string \<Rightarrow> string option \<Rightarrow> string option \<Rightarrow> quota_db \<Rightarrow> quota_db" where
  "appendPlanAudit action actor tenant planId db =
     db\<lparr>q_audit := q_audit db @ [\<lparr>au_action = action, au_actor = actor, au_tenant = tenant, au_plan = planId\<rparr>]\<rparr>"

section \<open>The catalogue (quota-dimension-catalog-repository.mjs)\<close>

definition getDimensionByKey :: "quota_db \<Rightarrow> string \<Rightarrow> quota_dimension option" where
  "getDimensionByKey db key = find (\<lambda>d. d_dimensionKey d = key) (q_dims db)"

definition dimensionKeyExists :: "quota_db \<Rightarrow> string \<Rightarrow> bool" where
  "dimensionKeyExists db key \<longleftrightarrow> getDimensionByKey db key \<noteq> None"

section \<open>Overrides\<close>

definition active_for :: "string \<Rightarrow> string \<Rightarrow> override \<Rightarrow> bool" where
  "active_for tenant key r \<longleftrightarrow> ov_tenantId r = tenant \<and> ov_dimensionKey r = key \<and> ov_status r = ''active''"

text \<open>The range of \<open>bigint\<close> and \<open>integer\<close>.\<close>

definition int8_ok :: "int \<Rightarrow> bool" where
  "int8_ok v \<longleftrightarrow> - (2 ^ 63) \<le> v \<and> v < 2 ^ 63"

definition int4_ok :: "int \<Rightarrow> bool" where
  "int4_ok v \<longleftrightarrow> - (2 ^ 31) \<le> v \<and> v < 2 ^ 31"

definition override_constraints :: "override \<Rightarrow> js_error option" where
  "override_constraints r =
     (if \<not> int8_ok (ov_value r) \<or> \<not> int4_ok (ov_graceMargin r)
      then Some (coded ''22003'' ''value out of range'')
      else if ov_value r < - 1 \<or> ov_graceMargin r < 0
           \<or> ov_justification r = [] \<or> 1000 < length (ov_justification r)
           \<or> (\<exists>j \<in> set_option (ov_revocationJustification r). 1000 < length j)
           \<or> (\<exists>j \<in> set_option (ov_modificationJustification r). 1000 < length j)
      then Some (coded ''23514'' ''check constraint violation'')
      else None)"

definition createOverride :: "override \<Rightarrow> quota_db \<Rightarrow> ((override \<times> string option) \<times> quota_db) result" where
  "createOverride rec db =
     (let act = find (active_for (ov_tenantId rec) (ov_dimensionKey rec)) (q_overrides db);
          rows = (case act of
                    None \<Rightarrow> q_overrides db
                  | Some a \<Rightarrow> updWhere (\<lambda>r. ov_id r = ov_id a)
                      (\<lambda>r. r\<lparr>ov_status := ''superseded'', ov_supersededBy := Some (ov_id rec)\<rparr>) (q_overrides db))
      in case override_constraints rec of
           Some e \<Rightarrow> Inl e
         | None \<Rightarrow>
             Inr ((rec, map_option ov_id act),
                  appendPlanAudit (if act = None then ''quota.override.created'' else ''quota.override.superseded'')
                    (ov_createdBy rec) (Some (ov_tenantId rec)) None (db\<lparr>q_overrides := rows @ [rec]\<rparr>)))"

definition getActiveOverrideByTenantAndDimension ::
  "quota_db \<Rightarrow> time \<Rightarrow> string \<Rightarrow> string \<Rightarrow> override option" where
  "getActiveOverrideByTenantAndDimension db now tenant key =
     (case rev (sort_key ov_createdAt
                 (filter (\<lambda>r. active_for tenant key r \<and> \<not> isOverrideExpired r now) (q_overrides db))) of
        [] \<Rightarrow> None
      | r # rs \<Rightarrow> Some r)"

definition getOverrideById :: "quota_db \<Rightarrow> string \<Rightarrow> override option" where
  "getOverrideById db oid = find (\<lambda>r. ov_id r = oid) (q_overrides db)"

record override_changes =
  ch_value :: "jsnum option"
  ch_type :: "(string \<times> int) option"
  ch_expires :: "time option option"

definition modify_row :: "override_changes \<Rightarrow> string \<Rightarrow> time \<Rightarrow> string \<Rightarrow> override \<Rightarrow> override" where
  "modify_row ch actor now justification r =
     r\<lparr>ov_value := (case ch_value ch of None \<Rightarrow> ov_value r | Some n \<Rightarrow> toInt n),
       ov_quotaType := (case ch_type ch of None \<Rightarrow> ov_quotaType r | Some (t, g) \<Rightarrow> t),
       ov_graceMargin := (case ch_type ch of None \<Rightarrow> ov_graceMargin r | Some (t, g) \<Rightarrow> g),
       ov_expiresAt := (case ch_expires ch of None \<Rightarrow> ov_expiresAt r | Some e \<Rightarrow> e),
       ov_modifiedBy := Some actor, ov_modifiedAt := Some now, ov_modificationJustification := Some justification\<rparr>"

definition modifyOverride ::
  "string \<Rightarrow> string \<Rightarrow> time \<Rightarrow> string \<Rightarrow> override_changes \<Rightarrow> quota_db \<Rightarrow> (override \<times> quota_db) result" where
  "modifyOverride oid actor now justification ch db =
     (case getOverrideById db oid of
        None \<Rightarrow> Inl (coded ''OVERRIDE_NOT_FOUND'' ''Override not found'')
      | Some r \<Rightarrow>
          if ov_status r \<noteq> ''active'' then Inl (coded ''OVERRIDE_NOT_ACTIVE'' ''Override not active'')
          else if \<exists>n \<in> set_option (ch_value ch). \<not> isInteger n
          then Inl (coded ''22P02'' ''invalid input syntax for type bigint'')
          else
            (case override_constraints (modify_row ch actor now justification r) of
               Some e \<Rightarrow> Inl e
             | None \<Rightarrow>
                 Inr (modify_row ch actor now justification r,
                      appendPlanAudit ''quota.override.modified'' actor (Some (ov_tenantId r)) None
                        (db\<lparr>q_overrides := updWhere (\<lambda>x. ov_id x = oid)
                           (modify_row ch actor now justification) (q_overrides db)\<rparr>))))"

definition revokeOverride ::
  "string \<Rightarrow> string \<Rightarrow> time \<Rightarrow> string \<Rightarrow> quota_db \<Rightarrow> (override \<times> quota_db) result" where
  "revokeOverride oid actor now justification db =
     (let f = (\<lambda>r. r\<lparr>ov_status := ''revoked'', ov_revokedBy := Some actor, ov_revokedAt := Some now,
                     ov_revocationJustification := Some justification\<rparr>)
      in case getOverrideById db oid of
           None \<Rightarrow> Inl (coded ''OVERRIDE_NOT_FOUND'' ''Override not found'')
         | Some r \<Rightarrow>
             if ov_status r \<noteq> ''active'' then Inl (coded ''OVERRIDE_NOT_ACTIVE'' ''Override not active'')
             else
               (case override_constraints (f r) of
                  Some e \<Rightarrow> Inl e
                | None \<Rightarrow>
                    Inr (f r, appendPlanAudit ''quota.override.revoked'' actor (Some (ov_tenantId r)) None
                           (db\<lparr>q_overrides := updWhere (\<lambda>x. ov_id x = oid) f (q_overrides db)\<rparr>))))"

text \<open>\<open>ORDER BY created_at DESC, id LIMIT .. OFFSET ..\<close> (sorting is stable).\<close>

definition listOverrides ::
  "string option \<Rightarrow> string option \<Rightarrow> string option \<Rightarrow> nat \<Rightarrow> nat \<Rightarrow> quota_db \<Rightarrow> override list \<times> nat" where
  "listOverrides tenant key status page pageSize db =
     (let rows = filter (\<lambda>r. (\<not> truthyS tenant \<or> Some (ov_tenantId r) = tenant)
                           \<and> (\<not> truthyS key \<or> Some (ov_dimensionKey r) = key)
                           \<and> (\<not> truthyS status \<or> Some (ov_status r) = status)) (q_overrides db);
          ordered = sort_key (\<lambda>r. - ov_createdAt r) (sort_key ov_id rows)
      in (take pageSize (drop ((page - 1) * pageSize) ordered), length rows))"

definition expired_ids :: "time \<Rightarrow> nat \<Rightarrow> quota_db \<Rightarrow> string list" where
  "expired_ids now batch db =
     map ov_id (take batch (sort_key (\<lambda>r. the (ov_expiresAt r)) (sort_key ov_id
       (filter (\<lambda>r. ov_status r = ''active'' \<and> isOverrideExpired r now) (q_overrides db)))))"

definition expireOverrides :: "time \<Rightarrow> nat \<Rightarrow> string \<Rightarrow> quota_db \<Rightarrow> override list \<times> quota_db" where
  "expireOverrides now batch actor db =
     (let ids = expired_ids now batch db;
          f = (\<lambda>r. r\<lparr>ov_status := ''expired''\<rparr>);
          rows = returning (\<lambda>r. ov_id r \<in> set ids) f (q_overrides db)
      in (rows,
          fold (\<lambda>r. appendPlanAudit ''quota.override.expired'' actor (Some (ov_tenantId r)) None) rows
            (db\<lparr>q_overrides := updWhere (\<lambda>r. ov_id r \<in> set ids) f (q_overrides db)\<rparr>)))"

section \<open>Plans and assignments\<close>

definition findPlan :: "quota_db \<Rightarrow> string \<Rightarrow> plan option" where
  "findPlan db pid = find (\<lambda>p. p_id p = pid) (q_plans db)"

definition createPlan :: "plan \<Rightarrow> quota_db \<Rightarrow> (plan \<times> quota_db) result" where
  "createPlan p db =
     (if \<exists>x \<in> set (q_plans db). js_toLowerCase (p_slug x) = js_toLowerCase (p_slug p)
      then Inl (coded ''PLAN_SLUG_CONFLICT'' ''Plan slug conflict'')
      else Inr (p, db\<lparr>q_plans := q_plans db @ [p]\<rparr>))"

record plan_updates =
  up_displayName :: "string option"
  up_description :: "string option"
  up_capabilities :: "(string \<times> json) list option"
  up_quotaDimensions :: "(string \<times> json) list option"
  up_updatedBy :: "string option"

definition write_plan :: "plan \<Rightarrow> plan \<Rightarrow> plan" where
  "write_plan m x =
     x\<lparr>p_displayName := p_displayName m, p_description := p_description m, p_capabilities := p_capabilities m,
       p_quotaDimensions := p_quotaDimensions m, p_updatedBy := p_updatedBy m\<rparr>"

text \<open>\<open>update\<close> reads the plan and tests it, then writes; the row that is written may have changed.\<close>

definition updatePlan ::
  "(quota_db \<Rightarrow> quota_db) \<Rightarrow> string \<Rightarrow> plan_updates \<Rightarrow> quota_db \<Rightarrow> (plan \<times> plan option \<times> quota_db) result" where
  "updatePlan between pid up db =
     (case findPlan db pid of
        None \<Rightarrow> Inl (coded ''PLAN_NOT_FOUND'' ''Plan not found'')
      | Some p \<Rightarrow>
          if p_status p = ''archived'' then Inl (coded ''PLAN_ARCHIVED'' ''Archived plans cannot be updated'')
          else
            bindE (newPlan pid (p_slug p) (coalesce (up_displayName up) (p_displayName p))
                     (orElse (up_description up) (p_description p)) (p_status p)
                     (coalesce (up_capabilities up) (map (\<lambda>(k, b). (k, JBool b)) (p_capabilities p)))
                     (coalesce (up_quotaDimensions up) (map (\<lambda>(k, r). (k, JNum (Fin r))) (p_quotaDimensions p)))
                     (p_quotaTypeConfig p) (p_createdBy p) (orElse (up_updatedBy up) (p_updatedBy p))) (\<lambda>m.
            (let db1 = between db;
                 db2 = db1\<lparr>q_plans := updWhere (\<lambda>x. p_id x = pid) (write_plan m) (q_plans db1)\<rparr>
             in Inr (p, findPlan db2 pid, db2))))"

definition active_tenants :: "string \<Rightarrow> quota_db \<Rightarrow> string list" where
  "active_tenants pid db =
     map as_tenantId (filter (\<lambda>a. as_planId a = pid \<and> assignment_isCurrent a) (q_assignments db))"

text \<open>\<open>transitionStatus\<close>: its checks, and its \<open>UPDATE\<close>, are separate statements.\<close>

definition transition_checks :: "string \<Rightarrow> string \<Rightarrow> quota_db \<Rightarrow> plan result" where
  "transition_checks pid target db =
     (case findPlan db pid of
        None \<Rightarrow> Inl (coded ''PLAN_NOT_FOUND'' ''Plan not found'')
      | Some p \<Rightarrow>
          if \<not> canTransitionPlan (p_status p) target then Inl (coded ''INVALID_TRANSITION'' ''Invalid transition'')
          else if target = ''archived'' \<and> active_tenants pid db \<noteq> []
          then Inl (coded ''PLAN_HAS_ACTIVE_ASSIGNMENTS'' ''Plan has active assignments'')
          else Inr p)"

text \<open>The \<open>UPDATE\<close> runs under the trigger \<open>enforce_plan_status_forward_transition\<close>; when the plan is
  gone it returns no row, and reading its status throws.\<close>

definition transition_update :: "string \<Rightarrow> string \<Rightarrow> quota_db \<Rightarrow> quota_db result" where
  "transition_update pid target db =
     (case findPlan db pid of
        None \<Rightarrow> Inl (JsError None None ''TypeError'')
      | Some p \<Rightarrow>
          if target \<noteq> p_status p \<and> \<not> canTransitionPlan (p_status p) target
          then Inl (coded ''23514'' ''Invalid plan status transition'')
          else Inr (db\<lparr>q_plans := updWhere (\<lambda>p. p_id p = pid) (\<lambda>p. p\<lparr>p_status := target\<rparr>) (q_plans db)\<rparr>))"

text \<open>\<open>deleteNeverAssigned\<close>: the checks, then one statement that tests the assignment history (but not
  the status) again.\<close>

definition deleteNeverAssigned ::
  "(quota_db \<Rightarrow> quota_db) \<Rightarrow> string \<Rightarrow> quota_db \<Rightarrow> (plan \<times> quota_db) result" where
  "deleteNeverAssigned between pid db =
     (case findPlan db pid of
        None \<Rightarrow> Inl (coded ''PLAN_NOT_FOUND'' ''Plan not found'')
      | Some p \<Rightarrow>
          if p_status p = ''active'' then Inl (coded ''PLAN_ACTIVE'' ''Active plans must be retired before deletion'')
          else if \<exists>a \<in> set (q_assignments db). as_planId a = pid
          then Inl (coded ''PLAN_HAS_ASSIGNMENT_HISTORY'' ''Plan has assignment history'')
          else
            (let db1 = between db
             in case findPlan db1 pid of
                  None \<Rightarrow> Inl (coded ''PLAN_NOT_FOUND'' ''Plan not found'')
                | Some p1 \<Rightarrow>
                    if \<exists>a \<in> set (q_assignments db1). as_planId a = pid
                    then Inl (coded ''PLAN_HAS_ASSIGNMENT_HISTORY'' ''Plan has assignment history'')
                    else Inr (p1, db1\<lparr>q_plans := filter (\<lambda>x. p_id x \<noteq> pid) (q_plans db1),
                                q_audit := map (\<lambda>e. if au_plan e = Some pid then e\<lparr>au_plan := None\<rparr> else e)
                                             (q_audit db1)\<rparr>)))"

definition supersedeAndInsertAssignment ::
  "time \<Rightarrow> assignment \<Rightarrow> quota_db \<Rightarrow> (string option \<times> quota_db) result" where
  "supersedeAndInsertAssignment now a db =
     (if findPlan db (as_planId a) = None then Inl (coded ''23503'' ''foreign key violation'') else
      let p = (\<lambda>x. as_tenantId x = as_tenantId a \<and> assignment_isCurrent x);
          cur = find p (q_assignments db);
          rows = (case cur of
                    None \<Rightarrow> q_assignments db
                  | Some c \<Rightarrow> updWhere (\<lambda>x. as_id x = as_id c) (\<lambda>x. x\<lparr>as_supersededAt := Some now\<rparr>) (q_assignments db))
      in Inr (map_option as_planId cur, db\<lparr>q_assignments := rows @ [a]\<rparr>))"

definition currentPlan :: "quota_db \<Rightarrow> string \<Rightarrow> plan option" where
  "currentPlan db tenant =
     (case find (\<lambda>a. as_tenantId a = tenant \<and> assignment_isCurrent a \<and> findPlan db (as_planId a) \<noteq> None) (q_assignments db) of
        None \<Rightarrow> None
      | Some a \<Rightarrow> findPlan db (as_planId a))"

section \<open>Limits of a plan (plan-limits-repository.mjs)\<close>

definition plan_unfrozen :: "string \<Rightarrow> quota_db \<Rightarrow> plan result" where
  "plan_unfrozen pid db =
     (case findPlan db pid of
        None \<Rightarrow> Inl (coded ''PLAN_NOT_FOUND'' ''Plan not found'')
      | Some p \<Rightarrow>
          if p_status p = ''deprecated'' \<or> p_status p = ''archived''
          then Inl (coded ''PLAN_LIMITS_FROZEN'' ''Plan limits are frozen'') else Inr p)"

text \<open>The row assignments of the two updates; \<open>p\<close> is the row that was locked.\<close>

definition write_limit :: "plan \<Rightarrow> string \<Rightarrow> int \<Rightarrow> string \<Rightarrow> int \<Rightarrow> plan \<Rightarrow> plan" where
  "write_limit p key v quotaType grace x =
     x\<lparr>p_quotaDimensions := obj_set (p_quotaDimensions x) (key, of_int v),
       p_quotaTypeConfig := obj_set (p_quotaTypeConfig p)
         (key, \<lparr>rt_type = Some quotaType, rt_graceMargin = JNum (jsInt grace)\<rparr>)\<rparr>"

definition clear_limit :: "plan \<Rightarrow> string \<Rightarrow> plan \<Rightarrow> plan" where
  "clear_limit p key x =
     x\<lparr>p_quotaDimensions := filter (\<lambda>kv. fst kv \<noteq> key) (p_quotaDimensions x),
       p_quotaTypeConfig := filter (\<lambda>kv. fst kv \<noteq> key) (p_quotaTypeConfig p)\<rparr>"

definition setLimit ::
  "string \<Rightarrow> string \<Rightarrow> int \<Rightarrow> string \<Rightarrow> int \<Rightarrow> string \<Rightarrow> quota_db \<Rightarrow> (rat option \<times> string \<times> quota_db) result" where
  "setLimit pid key v quotaType grace actor db =
     bindE (plan_unfrozen pid db) (\<lambda>p.
       if \<not> int8_ok v then Inl (coded ''22003'' ''value out of range'') else
       Inr (map_of (p_quotaDimensions p) key, p_status p,
            appendPlanAudit ''plan.limit.set'' actor None (Some pid)
              (db\<lparr>q_plans := updWhere (\<lambda>x. p_id x = pid)
                 (write_limit p key v quotaType grace) (q_plans db)\<rparr>)))"

definition removeLimit ::
  "string \<Rightarrow> string \<Rightarrow> string \<Rightarrow> quota_db \<Rightarrow> (rat \<times> string \<times> quota_db) result" where
  "removeLimit pid key actor db =
     bindE (plan_unfrozen pid db) (\<lambda>p.
       case map_of (p_quotaDimensions p) key of
         None \<Rightarrow> Inl (coded ''LIMIT_NOT_SET'' ''Limit not set'')
       | Some old \<Rightarrow>
           Inr (old, p_status p,
                appendPlanAudit ''plan.limit.removed'' actor None (Some pid)
                  (db\<lparr>q_plans := updWhere (\<lambda>x. p_id x = pid)
                     (clear_limit p key) (q_plans db)\<rparr>)))"

section \<open>Effective limits\<close>

definition resolveEffectiveLimit :: "quota_db \<Rightarrow> time \<Rightarrow> string \<Rightarrow> string \<Rightarrow> effective_limit result" where
  "resolveEffectiveLimit db now tenant key =
     (case getDimensionByKey db key of
        None \<Rightarrow> Inl (coded ''INVALID_DIMENSION_KEY'' ''Invalid dimension key'')
      | Some d \<Rightarrow>
          (case getActiveOverrideByTenantAndDimension db now tenant key of
             Some r \<Rightarrow>
               Inr (normalizeEffectiveLimit d (of_int (ov_value r)) (Some (ov_quotaType r)) (of_int (ov_graceMargin r))
                      ''override'' (Some (ov_id r)))
           | None \<Rightarrow>
               (let p = currentPlan db tenant;
                    explicit = (case p of None \<Rightarrow> None | Some p \<Rightarrow> map_of (p_quotaDimensions p) key);
                    ty = normalizeQuotaTypeEntry (case p of None \<Rightarrow> None | Some p \<Rightarrow> map_of (p_quotaTypeConfig p) key)
                in Inr (normalizeEffectiveLimit d (coalesce explicit (d_defaultValue d)) (Some (qt_type ty))
                          (qt_graceMargin ty) (if explicit = None then ''default'' else ''plan'') None))))"

text \<open>The value of a dimension in \<open>resolveUnifiedEntitlements\<close>: the plan's number is cast to
  \<open>bigint\<close>, which fails on a fraction.\<close>

definition unified_value :: "quota_db \<Rightarrow> time \<Rightarrow> string \<Rightarrow> quota_dimension \<Rightarrow> rat result" where
  "unified_value db now tenant d =
     (case find (\<lambda>r. active_for tenant (d_dimensionKey d) r \<and> \<not> isOverrideExpired r now) (q_overrides db) of
        Some r \<Rightarrow> Inr (of_int (ov_value r))
      | None \<Rightarrow>
          (case (case currentPlan db tenant of None \<Rightarrow> None | Some p \<Rightarrow> map_of (p_quotaDimensions p) (d_dimensionKey d)) of
             None \<Rightarrow> Inr (d_defaultValue d)
           | Some v \<Rightarrow>
               if \<not> isInteger (Fin v) then Inl (coded ''22P02'' ''invalid input syntax for type bigint'')
               else if \<not> int8_ok (toInt (Fin v)) then Inl (coded ''22003'' ''value out of range'')
               else Inr v))"

fun unified_limits :: "quota_db \<Rightarrow> time \<Rightarrow> string \<Rightarrow> quota_dimension list \<Rightarrow> (string \<times> rat) list result" where
  "unified_limits db now tenant [] = Inr []"
| "unified_limits db now tenant (d # ds) =
     bindE (unified_value db now tenant d) (\<lambda>v.
       bindE (unified_limits db now tenant ds) (\<lambda>rest. Inr ((d_dimensionKey d, v) # rest)))"

definition resolveUnifiedEntitlements :: "quota_db \<Rightarrow> time \<Rightarrow> string \<Rightarrow> (string \<times> rat) list result" where
  "resolveUnifiedEntitlements db now tenant = unified_limits db now tenant (q_dims db)"

section \<open>Sub-quotas\<close>

text \<open>The rows of \<open>upsertSubQuota\<close> and \<open>removeSubQuota\<close> are committed before \<open>fromRow\<close> validates them, so the
  error of \<open>sub_row_error\<close> is raised by the caller, after the write.\<close>

definition is_sub :: "string \<Rightarrow> string \<Rightarrow> string \<Rightarrow> sub_quota \<Rightarrow> bool" where
  "is_sub tenant ws key s \<longleftrightarrow> sq_tenantId s = tenant \<and> sq_workspaceId s = ws \<and> sq_dimensionKey s = key"

definition getTotalAllocatedExcluding :: "string \<Rightarrow> string \<Rightarrow> string \<Rightarrow> quota_db \<Rightarrow> int" where
  "getTotalAllocatedExcluding tenant key ws db =
     sum_list (map sq_allocated
       (filter (\<lambda>s. sq_tenantId s = tenant \<and> sq_dimensionKey s = key \<and> sq_workspaceId s \<noteq> ws) (q_subs db)))"

definition upsertSubQuota ::
  "string \<Rightarrow> time \<Rightarrow> string \<Rightarrow> string \<Rightarrow> string \<Rightarrow> int \<Rightarrow> string \<Rightarrow> rat \<Rightarrow> quota_db
     \<Rightarrow> (sub_quota \<times> bool \<times> int option \<times> quota_db) result" where
  "upsertSubQuota uid now tenant ws key alloc actor limit db =
     (if limit \<noteq> - 1 \<and> of_int (getTotalAllocatedExcluding tenant key ws db + alloc) > limit
      then Inl (codedStatus ''SUB_QUOTA_EXCEEDS_TENANT_LIMIT'' 422 ''Sub quota exceeds tenant limit'')
      else if \<not> int4_ok alloc then Inl (coded ''22003'' ''value out of range'')
      else case find (is_sub tenant ws key) (q_subs db) of
             Some s \<Rightarrow>
               (let f = (\<lambda>x. x\<lparr>sq_allocated := alloc, sq_updatedBy := actor, sq_updatedAt := now\<rparr>)
                in Inr (f s, False, Some (sq_allocated s),
                        db\<lparr>q_subs := updWhere (is_sub tenant ws key) f (q_subs db)\<rparr>))
           | None \<Rightarrow>
               (let s = \<lparr>sq_id = uid, sq_tenantId = tenant, sq_workspaceId = ws, sq_dimensionKey = key,
                         sq_allocated = alloc, sq_createdBy = actor, sq_updatedBy = actor,
                         sq_createdAt = now, sq_updatedAt = now\<rparr>
                in Inr (s, True, None, db\<lparr>q_subs := q_subs db @ [s]\<rparr>)))"

definition removeSubQuota :: "string \<Rightarrow> string \<Rightarrow> string \<Rightarrow> quota_db \<Rightarrow> (sub_quota \<times> quota_db) result" where
  "removeSubQuota tenant ws key db =
     (case find (is_sub tenant ws key) (q_subs db) of
        None \<Rightarrow> Inl (codedStatus ''SUB_QUOTA_NOT_FOUND'' 404 ''Sub quota not found'')
      | Some s \<Rightarrow> Inr (s, db\<lparr>q_subs := filter (\<lambda>x. \<not> is_sub tenant ws key x) (q_subs db)\<rparr>))"

definition listSubQuotas ::
  "string \<Rightarrow> string option \<Rightarrow> string option \<Rightarrow> nat \<Rightarrow> nat \<Rightarrow> quota_db \<Rightarrow> (sub_quota list \<times> nat) result" where
  "listSubQuotas tenant ws key limit offset db =
     (let rows = filter (\<lambda>s. sq_tenantId s = tenant \<and> (\<not> truthyS ws \<or> Some (sq_workspaceId s) = ws)
                           \<and> (\<not> truthyS key \<or> Some (sq_dimensionKey s) = key)) (q_subs db);
          items = take limit (drop offset (sort_key sq_workspaceId (sort_key sq_dimensionKey rows)))
      in case List.map_filter sub_row_error items of
           e # _ \<Rightarrow> Inl e
         | [] \<Rightarrow> Inr (items, if items = [] then 0 else length rows))"

definition insertEnforcementLog :: "enforcement_entry \<Rightarrow> quota_db \<Rightarrow> quota_db" where
  "insertEnforcementLog e db = db\<lparr>q_log := q_log db @ [e]\<rparr>"

end
