(* ===== verification/Quota_Actions.thy ===== *)
theory Quota_Actions
  imports Quota_Repo
begin

text \<open>
  The actions on quotas and plans (\<open>actions/quota-*.mjs\<close>, \<open>actions/workspace-sub-quota-*.mjs\<close>,
  \<open>actions/plan-{create,update,delete,lifecycle,limits-set,limits-remove,assign}.mjs\<close>): authorization,
  validation, the repository call, the audit record and the event. An action returns its result and
  the database it leaves; an error before the repository call leaves the database as it was. Two
  statements of one action that run outside a transaction are separated by a parameter
  \<open>between\<close>, the effect of the other clients in between.
\<close>

text \<open>\<open>a_workspaceId\<close> is \<open>actor.workspaceId ?? actor.workspace?.id\<close>.\<close>

record actor =
  a_id :: string
  a_type :: string
  a_tenantId :: "string option"
  a_workspaceId :: "string option"

record quota_env =
  qe_now :: time
  qe_parseDate :: "string \<Rightarrow> time option"
  qe_maxJustification :: int

definition forbidden :: js_error where
  "forbidden = JsError (Some ''FORBIDDEN'') (Some 403) ''Forbidden''"

definition requireSuperadmin :: "actor option \<Rightarrow> actor result" where
  "requireSuperadmin a =
     (case a of
        None \<Rightarrow> Inl forbidden
      | Some x \<Rightarrow> if a_id x = [] \<or> a_type x \<noteq> ''superadmin'' then Inl forbidden else Inr x)"

definition emit :: "string \<Rightarrow> string \<Rightarrow> quota_db \<Rightarrow> quota_db" where
  "emit kind tenant db = db\<lparr>q_events := q_events db @ [(kind, tenant)]\<rparr>"

section \<open>Overrides\<close>

record override_request =
  or_tenantId :: string
  or_dimensionKey :: "string option"
  or_value :: json
  or_quotaType :: "string option"
  or_graceMargin :: json
  or_justification :: json
  or_expiresAt :: "string option"

definition override_create ::
  "quota_env \<Rightarrow> string \<Rightarrow> actor option \<Rightarrow> override_request \<Rightarrow> quota_db \<Rightarrow> ((override \<times> string option) \<times> quota_db) result" where
  "override_create env uid caller q db =
     bindE (requireSuperadmin caller) (\<lambda>who.
     if or_tenantId q = [] then Inl (codedStatus ''TENANT_NOT_FOUND'' 404 ''Tenant required'')
     else if \<not> isValidDimensionKey (or_dimensionKey q) \<or> \<not> dimensionKeyExists db (the (or_dimensionKey q))
     then Inl (coded ''INVALID_DIMENSION_KEY'' ''Invalid dimension key'')
     else if \<not> isValidLimitValue (or_value q) then Inl (coded ''INVALID_OVERRIDE_VALUE'' ''Invalid override value'')
     else
       bindE (assertJustification (qe_maxJustification env) (or_justification q)) (\<lambda>j.
       bindE (validateQuotaTypeConfigEntry (Some (coalesce (or_quotaType q) ''hard''))
                (if or_quotaType q = Some ''soft'' \<or> or_graceMargin q \<noteq> JUndefined then or_graceMargin q
                 else JNum (jsInt 0))) (\<lambda>(ty, g).
       bindE (normalizeExpiry (qe_parseDate env) (qe_now env) (or_expiresAt q)) (\<lambda>ex.
       bindE (newQuotaOverride (qe_maxJustification env) (qe_now env) uid (or_tenantId q) (or_dimensionKey q)
                (or_value q) (Some ty) g (JStr j) ex (a_id who)) (\<lambda>rec.
       bindE (createOverride rec db) (\<lambda>(res, db').
         Inr (res, emit ''quota.override.created'' (or_tenantId q) db')))))))"

record modify_request =
  mo_overrideId :: string
  mo_value :: "jsnum option"
  mo_quotaType :: "string option"
  mo_graceMargin :: json
  mo_justification :: json
  mo_expiresAt :: "string option option"

text \<open>The changes of type and margin (the row read first supplies the one that is left out) and of the
  expiry; \<open>None\<close> when the request names none.\<close>

definition requested_type :: "modify_request \<Rightarrow> override \<Rightarrow> (string \<times> int) option result" where
  "requested_type q cur =
     (if mo_quotaType q = None \<and> mo_graceMargin q = JUndefined then Inr None
      else bindE (validateQuotaTypeConfigEntry (Some (coalesce (mo_quotaType q) (ov_quotaType cur)))
                    (if mo_graceMargin q \<noteq> JUndefined \<and> mo_graceMargin q \<noteq> JNull
                     then mo_graceMargin q else JNum (jsInt (ov_graceMargin cur))))
             (\<lambda>tg. Inr (Some tg)))"

definition requested_expiry :: "quota_env \<Rightarrow> modify_request \<Rightarrow> time option option result" where
  "requested_expiry env q =
     (case mo_expiresAt q of
        None \<Rightarrow> Inr None
      | Some e \<Rightarrow> bindE (normalizeExpiry (qe_parseDate env) (qe_now env) e) (\<lambda>x. Inr (Some x)))"

definition override_modify ::
  "quota_env \<Rightarrow> (quota_db \<Rightarrow> quota_db) \<Rightarrow> actor option \<Rightarrow> modify_request \<Rightarrow> quota_db \<Rightarrow> (override \<times> quota_db) result" where
  "override_modify env between caller q db =
     bindE (requireSuperadmin caller) (\<lambda>who.
     case getOverrideById db (mo_overrideId q) of
       None \<Rightarrow> Inl (codedStatus ''OVERRIDE_NOT_FOUND'' 404 ''Override not found'')
     | Some cur \<Rightarrow>
         bindE (assertJustification (qe_maxJustification env) (mo_justification q)) (\<lambda>j.
         bindE (requested_type q cur) (\<lambda>ty.
         bindE (requested_expiry env q) (\<lambda>ex.
         if mo_value q = None \<and> ty = None \<and> ex = None
         then Inl (codedStatus ''NO_CHANGES_SPECIFIED'' 400 ''No changes specified'')
         else
           bindE (modifyOverride (mo_overrideId q) (a_id who) (qe_now env) j
                    \<lparr>ch_value = mo_value q, ch_type = ty, ch_expires = ex\<rparr> (between db)) (\<lambda>(r, db').
             Inr (r, emit ''quota.override.modified'' (ov_tenantId r) db'))))))"

definition override_revoke ::
  "quota_env \<Rightarrow> actor option \<Rightarrow> string \<Rightarrow> json \<Rightarrow> quota_db \<Rightarrow> (override \<times> effective_limit) result \<times> quota_db" where
  "override_revoke env caller oid justification db =
     (case bindE (requireSuperadmin caller) (\<lambda>who.
             bindE (assertJustification (qe_maxJustification env) justification) (\<lambda>j.
               revokeOverride oid (a_id who) (qe_now env) j db)) of
        Inl e \<Rightarrow> (Inl e, db)
      | Inr (r, db') \<Rightarrow>
          (case resolveEffectiveLimit db' (qe_now env) (ov_tenantId r) (ov_dimensionKey r) of
             Inl e \<Rightarrow> (Inl e, db')
           | Inr el \<Rightarrow> (Inr (r, el), emit ''quota.override.revoked'' (ov_tenantId r) db')))"

definition override_list ::
  "actor option \<Rightarrow> string option \<Rightarrow> string option \<Rightarrow> string option \<Rightarrow> nat \<Rightarrow> nat \<Rightarrow> quota_db \<Rightarrow> (override list \<times> nat) result" where
  "override_list caller tenant key status page pageSize db =
     bindE (requireSuperadmin caller) (\<lambda>_.
       Inr (listOverrides tenant key (Some (coalesce status ''active'')) page pageSize db))"

definition override_sweep :: "quota_env \<Rightarrow> nat \<Rightarrow> quota_db \<Rightarrow> override list \<times> quota_db" where
  "override_sweep env batch db =
     (case expireOverrides (qe_now env) batch ''system'' db of
        (rows, db') \<Rightarrow> (rows, fold (\<lambda>r. emit ''quota.override.expired'' (ov_tenantId r)) rows db'))"

section \<open>Enforcement\<close>

record enforce_request =
  eq_tenantId :: string
  eq_workspaceId :: "string option"
  eq_dimensionKey :: string
  eq_attemptedAction :: "string option"
  eq_currentUsage :: "jsnum option"
  eq_actorId :: "string option"

text \<open>\<open>collect\<close> is what \<open>collectObservedUsage\<close> observes when the request names no usage.\<close>

definition quota_enforce ::
  "quota_env \<Rightarrow> (string \<Rightarrow> string \<Rightarrow> jsnum option) \<Rightarrow> enforce_request \<Rightarrow> quota_db
     \<Rightarrow> (quota_decision \<times> effective_limit) result \<times> quota_db" where
  "quota_enforce env collect q db =
     (case resolveEffectiveLimit db (qe_now env) (eq_tenantId q) (eq_dimensionKey q) of
        Inl e \<Rightarrow> (Inl e, db)
      | Inr el \<Rightarrow>
          (let usage = orElse (eq_currentUsage q) (collect (eq_tenantId q) (eq_dimensionKey q));
               d = evaluateQuotaDecision (el_limit el) (Some (el_quotaType el)) (el_graceMargin el) usage;
               db1 = insertEnforcementLog
                 \<lparr>en_tenantId = eq_tenantId q, en_workspaceId = eq_workspaceId q,
                  en_dimensionKey = eq_dimensionKey q, en_attemptedAction = eq_attemptedAction q,
                  en_currentUsage = qd_currentUsage d, en_limit = el_limit el, en_quotaType = el_quotaType el,
                  en_graceMargin = el_graceMargin el, en_ceiling = coalesce (qd_ceiling d) (el_ceiling el),
                  en_source = el_source el, en_decision = qd_decision d, en_actorId = eq_actorId q,
                  en_warning = qd_warning d\<rparr> db
           in if qd_decision d = ''metering_unavailable''
              then (Inl (codedStatus ''METERING_UNAVAILABLE'' 500 ''Metering unavailable''), db1)
              else (Inr (d, el),
                    if qd_decision d \<in> set [''hard_blocked'', ''soft_grace_allowed'', ''soft_grace_exhausted'']
                    then emit (qd_decision d) (eq_tenantId q) db1 else db1)))"

section \<open>Sub-quotas\<close>

definition sub_authorize :: "actor option \<Rightarrow> string \<Rightarrow> string \<Rightarrow> actor result" where
  "sub_authorize caller tenant ws =
     (case caller of
        None \<Rightarrow> Inl forbidden
      | Some a \<Rightarrow>
          if a_id a = [] then Inl forbidden
          else if a_type a = ''superadmin'' \<or> a_type a = ''internal'' then Inr a
          else if a_type a \<in> set [''tenant_owner'', ''tenant-owner'', ''tenant''] then
            (if coalesce (a_tenantId a) tenant \<noteq> tenant then Inl forbidden else Inr a)
          else if a_type a \<in> set [''workspace_admin'', ''workspace-admin''] then
            (if coalesce (a_tenantId a) tenant \<noteq> tenant then Inl forbidden
             else if a_workspaceId a \<noteq> Some ws then Inl forbidden else Inr a)
          else Inl forbidden)"

text \<open>The limit is resolved before the transaction that compares the allocations with it. Where nothing
  is written the state left is that of the other clients.\<close>

definition sub_quota_set ::
  "quota_env \<Rightarrow> (quota_db \<Rightarrow> quota_db) \<Rightarrow> string \<Rightarrow> actor option \<Rightarrow> string \<Rightarrow> string \<Rightarrow> string \<Rightarrow> json \<Rightarrow> quota_db
     \<Rightarrow> (sub_quota \<times> bool) result \<times> quota_db" where
  "sub_quota_set env between uid caller tenant ws key v db =
     (case bindE (sub_authorize caller tenant ws) (\<lambda>who.
           bindE (validateSubQuotaValue v) (\<lambda>alloc.
           bindE (throwIf (\<not> dimensionKeyExists db key) (coded ''DIMENSION_NOT_FOUND'' ''Dimension not found'')) (\<lambda>_.
           bindE (resolveUnifiedEntitlements db (qe_now env) tenant) (\<lambda>limits.
           case map_of limits key of
             None \<Rightarrow> Inl (coded ''DIMENSION_NOT_FOUND'' ''Dimension not found'')
           | Some limit \<Rightarrow>
               bindE (upsertSubQuota uid (qe_now env) tenant ws key alloc (a_id who) limit (between db)) (\<lambda>u.
                 Inr (a_id who, alloc, u)))))) of
        Inl e \<Rightarrow> (Inl e, between db)
      | Inr (who, alloc, s, isNew, prev, db') \<Rightarrow>
          (case sub_row_error s of
             Some e \<Rightarrow> (Inl e, db')
           | None \<Rightarrow>
               if prev = Some alloc then (Inr (s, False), db')
               else (Inr (s, True), appendPlanAudit ''quota.sub_quota.set'' who (Some tenant) None
                                      (emit ''quota.sub_quota.set'' tenant db'))))"

definition sub_quota_remove ::
  "actor option \<Rightarrow> string \<Rightarrow> string \<Rightarrow> string \<Rightarrow> quota_db \<Rightarrow> int result \<times> quota_db" where
  "sub_quota_remove caller tenant ws key db =
     (case sub_authorize caller tenant ws of
        Inl e \<Rightarrow> (Inl e, db)
      | Inr who \<Rightarrow>
          (case removeSubQuota tenant ws key db of
             Inl e \<Rightarrow> (Inl e, db)
           | Inr (s, db') \<Rightarrow>
               (case sub_row_error s of
                  Some e \<Rightarrow> (Inl e, db')
                | None \<Rightarrow>
                    (Inr (sq_allocated s), appendPlanAudit ''quota.sub_quota.removed'' (a_id who) (Some tenant) None
                                             (emit ''quota.sub_quota.removed'' tenant db')))))"

text \<open>The list action narrows a workspace administrator to its own workspace.\<close>

definition sub_quota_list ::
  "actor option \<Rightarrow> string \<Rightarrow> string option \<Rightarrow> string option \<Rightarrow> nat \<Rightarrow> nat \<Rightarrow> quota_db \<Rightarrow> (sub_quota list \<times> nat) result" where
  "sub_quota_list caller tenant ws key limit offset db =
     (case caller of
        None \<Rightarrow> Inl forbidden
      | Some a \<Rightarrow>
          if a_id a = [] then Inl forbidden
          else if a_type a = ''superadmin'' \<or> a_type a = ''internal'' then
            listSubQuotas tenant ws key limit offset db
          else if a_type a \<in> set [''tenant_owner'', ''tenant-owner'', ''tenant''] then
            (if coalesce (a_tenantId a) tenant \<noteq> tenant then Inl forbidden
             else listSubQuotas tenant ws key limit offset db)
          else if a_type a \<in> set [''workspace_admin'', ''workspace-admin''] then
            (if coalesce (a_tenantId a) tenant \<noteq> tenant then Inl forbidden
             else listSubQuotas tenant (a_workspaceId a) key limit offset db)
          else Inl forbidden)"

section \<open>Plans\<close>

definition plan_create ::
  "string \<Rightarrow> actor option \<Rightarrow> string \<Rightarrow> string \<Rightarrow> string option \<Rightarrow> (string \<times> json) list \<Rightarrow> (string \<times> json) list
     \<Rightarrow> (string list \<Rightarrow> js_error option) \<Rightarrow> quota_db \<Rightarrow> (plan \<times> quota_db) result" where
  "plan_create uid caller slug name desc caps dims checkCaps db =
     bindE (requireSuperadmin caller) (\<lambda>who.
     bindE (newPlan uid slug name desc ''draft'' caps dims [] (Some (a_id who)) (Some (a_id who))) (\<lambda>p.
     case (if p_capabilities p = [] then None else checkCaps (map fst (p_capabilities p))) of
       Some e \<Rightarrow> Inl e
     | None \<Rightarrow>
         bindE (createPlan p db) (\<lambda>(p', db').
           Inr (p', emit ''plan.created'' [] (appendPlanAudit ''plan.created'' (a_id who) None (Some (p_id p')) db')))))"

text \<open>\<open>diffCapabilities\<close>: each changed key with its new state; a removed key has none.\<close>

definition diffCapabilities :: "(string \<times> bool) list \<Rightarrow> (string \<times> bool) list \<Rightarrow> (string \<times> bool option) list" where
  "diffCapabilities old new =
     map (\<lambda>k. (k, map_of new k))
       (filter (\<lambda>k. map_of old k \<noteq> map_of new k) (sort (remdups (map fst old @ map fst new))))"

definition audit_capabilities :: "string \<Rightarrow> string \<Rightarrow> (string \<times> bool option) list \<Rightarrow> quota_db \<Rightarrow> quota_db" where
  "audit_capabilities actor pid changes =
     fold (\<lambda>(k, st). appendPlanAudit (if st = Some True then ''plan.capability.enabled'' else ''plan.capability.disabled'')
                        actor None (Some pid)) changes"

definition plan_update ::
  "(quota_db \<Rightarrow> quota_db) \<Rightarrow> actor option \<Rightarrow> string \<Rightarrow> plan_updates \<Rightarrow> (string list \<Rightarrow> js_error option) \<Rightarrow> quota_db
     \<Rightarrow> (plan option \<times> quota_db) result" where
  "plan_update between caller pid up checkCaps db =
     bindE (requireSuperadmin caller) (\<lambda>who.
     if up_displayName up = None \<and> up_description up = None \<and> up_capabilities up = None \<and> up_quotaDimensions up = None
     then Inl (coded ''VALIDATION_ERROR'' ''No updates provided'')
     else
       case (case up_capabilities up of
               None \<Rightarrow> None
             | Some cs \<Rightarrow> if cs = [] then None else checkCaps (map fst cs)) of
         Some e \<Rightarrow> Inl e
       | None \<Rightarrow>
           bindE (updatePlan between pid (up\<lparr>up_updatedBy := Some (a_id who)\<rparr>) db) (\<lambda>(old, new, db1).
             (let changes = (if up_capabilities up = None then []
                             else diffCapabilities (p_capabilities old)
                                    (case new of None \<Rightarrow> [] | Some p \<Rightarrow> p_capabilities p));
                  db2 = audit_capabilities (a_id who) pid changes
                          (appendPlanAudit ''plan.updated'' (a_id who) None (Some pid) db1);
                  db3 = fold (\<lambda>(k, st). emit (if st = Some True then ''console.plan.capability.enabled''
                                               else ''console.plan.capability.disabled'') []) changes db2
              in Inr (new, emit ''plan.updated'' [] db3))))"

definition plan_delete ::
  "(quota_db \<Rightarrow> quota_db) \<Rightarrow> actor option \<Rightarrow> string \<Rightarrow> quota_db \<Rightarrow> (plan \<times> quota_db) result" where
  "plan_delete between caller pid db =
     bindE (requireSuperadmin caller) (\<lambda>who.
     if pid = [] then Inl (coded ''VALIDATION_ERROR'' ''planId is required'')
     else bindE (deleteNeverAssigned between pid db) (\<lambda>(p, db').
            Inr (p, emit ''plan.deleted'' [] (appendPlanAudit ''plan.deleted'' (a_id who) None None db'))))"

text \<open>The lifecycle action tests the transition, \<open>transitionStatus\<close> tests it again and then updates;
  no transaction holds the three together.\<close>

definition plan_lifecycle ::
  "(quota_db \<Rightarrow> quota_db) \<Rightarrow> actor option \<Rightarrow> string \<Rightarrow> string \<Rightarrow> quota_db \<Rightarrow> ((string \<times> string) \<times> quota_db) result" where
  "plan_lifecycle between caller pid target db =
     bindE (requireSuperadmin caller) (\<lambda>who.
     if pid = [] \<or> target = [] then Inl (coded ''VALIDATION_ERROR'' ''planId and targetStatus are required'')
     else
       bindE (transition_checks pid target db) (\<lambda>_.
       bindE (transition_checks pid target (between db)) (\<lambda>p.
       bindE (transition_update pid target (between (between db))) (\<lambda>db'.
         Inr ((p_status p, target),
              emit ''plan.lifecycle_transitioned'' []
                (appendPlanAudit ''plan.lifecycle_transitioned'' (a_id who) None (Some pid) db'))))))"

definition limits_set ::
  "actor option \<Rightarrow> string \<Rightarrow> string option \<Rightarrow> json \<Rightarrow> string option \<Rightarrow> json \<Rightarrow> quota_db \<Rightarrow> (rat option \<times> quota_db) result" where
  "limits_set caller pid key v quotaType grace db =
     bindE (requireSuperadmin caller) (\<lambda>who.
     if \<not> isValidDimensionKey key then Inl (coded ''INVALID_DIMENSION_KEY'' ''Invalid dimension key'')
     else if \<not> isValidLimitValue v then Inl (coded ''INVALID_LIMIT_VALUE'' ''Invalid limit value'')
     else if \<not> dimensionKeyExists db (the key) then Inl (coded ''INVALID_DIMENSION_KEY'' ''Invalid dimension key'')
     else
       bindE (validateQuotaTypeConfigEntry (Some (coalesce quotaType ''hard''))
                (if quotaType = Some ''soft'' \<or> grace \<noteq> JUndefined then grace else JNum (jsInt 0))) (\<lambda>(ty, g).
       bindE (setLimit pid (the key) (case v of JNum n \<Rightarrow> toInt n | _ \<Rightarrow> 0) ty g (a_id who) db) (\<lambda>(prev, st, db').
         Inr (prev, if st = ''active'' then emit ''plan.limit_updated'' [] db' else db'))))"

definition limits_remove :: "actor option \<Rightarrow> string \<Rightarrow> string option \<Rightarrow> quota_db \<Rightarrow> (rat \<times> quota_db) result" where
  "limits_remove caller pid key db =
     bindE (requireSuperadmin caller) (\<lambda>who.
     if \<not> isValidDimensionKey key \<or> \<not> dimensionKeyExists db (the key)
     then Inl (coded ''INVALID_DIMENSION_KEY'' ''Invalid dimension key'')
     else
       bindE (removeLimit pid (the key) (a_id who) db) (\<lambda>(old, st, db').
         Inr (old, if st = ''active'' then emit ''plan.limit_updated'' [] db' else db')))"

text \<open>The audit records and events of an assignment.\<close>

definition record_assignment :: "string \<Rightarrow> string \<Rightarrow> string \<Rightarrow> string option \<Rightarrow> quota_db \<Rightarrow> quota_db" where
  "record_assignment actor tenant pid prev db =
     (let audit = (\<lambda>kind plan d. appendPlanAudit kind actor (Some tenant) (Some plan) d);
          db1 = (case prev of
                   None \<Rightarrow> db
                 | Some old \<Rightarrow> emit ''assignment.superseded'' tenant (audit ''assignment.superseded'' old db));
          db2 = audit ''plan.change_impact_recorded'' pid (audit ''assignment.created'' pid db1)
      in emit ''plan.change_impact_recorded'' tenant (emit ''assignment.created'' tenant db2))"

text \<open>\<open>plan-assign\<close>: the plan is read and tested first, the impact report is computed, and the
  assignment is inserted with its history entry in a later transaction. \<open>tenantExists\<close> is the lookup in
  a tenants table that need not exist; \<open>report\<close> is the error of the impact report or of the history
  entry (models and tables that are not modelled), which rolls the transaction back.\<close>

definition plan_assign ::
  "quota_env \<Rightarrow> (quota_db \<Rightarrow> quota_db) \<Rightarrow> (string \<Rightarrow> bool) \<Rightarrow> (quota_db \<Rightarrow> js_error option) \<Rightarrow> string \<Rightarrow> actor option
     \<Rightarrow> string \<Rightarrow> string \<Rightarrow> string \<Rightarrow> quota_db \<Rightarrow> (string option \<times> quota_db) result" where
  "plan_assign env between tenantExists report uid caller tenant pid assignedBy db =
     bindE (requireSuperadmin caller) (\<lambda>who.
     if pid = [] \<or> tenant = [] \<or> assignedBy = []
     then Inl (coded ''VALIDATION_ERROR'' ''tenantId, planId, assignedBy are required'')
     else if \<not> tenantExists tenant then Inl (coded ''TENANT_NOT_FOUND'' ''Tenant not found'')
     else case findPlan db pid of
       None \<Rightarrow> Inl (coded ''PLAN_NOT_FOUND'' ''Plan not found'')
     | Some p \<Rightarrow>
         if p_status p \<noteq> ''active'' then Inl (coded ''PLAN_NOT_ACTIVE'' ''Plan is not active'')
         else case report db of
           Some e \<Rightarrow> Inl e
         | None \<Rightarrow>
             bindE (supersedeAndInsertAssignment (qe_now env)
                      \<lparr>as_id = uid, as_tenantId = tenant, as_planId = pid, as_assignedBy = assignedBy,
                       as_effectiveFrom = qe_now env, as_supersededAt = None\<rparr> (between db)) (\<lambda>(prev, db1).
               Inr (prev, record_assignment (a_id who) tenant pid prev db1)))"

end
