(* ===== verification/Quota_Index.thy ===== *)
theory Quota_Index
  imports JS_Prelude
begin

text \<open>
  Partial unique indexes. The tables of the orchestrator keep superseded, revoked and expired rows
  beside the live ones, and the code promises at most one live row per key
  (\<open>CREATE UNIQUE INDEX ... WHERE status = 'active'\<close>). The locale states the way the code keeps that
  promise: a writer looks for the live row of the key, retires it, and appends the new row.
\<close>

definition unique_live :: "('r \<Rightarrow> 'k) \<Rightarrow> ('r \<Rightarrow> bool) \<Rightarrow> 'r list \<Rightarrow> bool" where
  "unique_live key live rows \<longleftrightarrow> distinct (map key (filter live rows))"

lemma unique_live_append:
  "unique_live key live (rows @ [x]) \<longleftrightarrow>
     unique_live key live rows \<and> (live x \<longrightarrow> (\<forall>r \<in> set rows. live r \<longrightarrow> key r \<noteq> key x))"
  by (auto simp: unique_live_def image_iff)

lemma unique_live_Cons:
  "unique_live key live (x # rows) \<longleftrightarrow>
     unique_live key live rows \<and> (live x \<longrightarrow> (\<forall>r \<in> set rows. live r \<longrightarrow> key r \<noteq> key x))"
  by (auto simp: unique_live_def image_iff)

lemma find_append_rows: "find p (xs @ ys) = (case find p xs of None \<Rightarrow> find p ys | Some x \<Rightarrow> Some x)"
  by (induction xs) auto

lemma unique_live_filter: "unique_live key live rows \<Longrightarrow> unique_live key live (filter p rows)"
  by (induction rows) (auto simp: unique_live_def)

lemma live_updWhere:
  assumes "\<And>r. p r \<Longrightarrow> key (f r) = key r" and "\<And>r. p r \<Longrightarrow> live (f r) \<Longrightarrow> live r"
    and "r' \<in> set (updWhere p f rows)" and "live r'"
  shows "\<exists>r \<in> set rows. live r \<and> key r = key r'"
proof -
  obtain r where r: "r \<in> set rows" "r' = (if p r then f r else r)"
    using assms(3) by (auto simp: set_updWhere)
  with assms(1,2) [of r] assms(4) have "live r" "key r = key r'"
    by (simp_all split: if_splits)
  with r(1) show ?thesis by blast
qed

text \<open>An update that keeps the key and makes no row live keeps the index.\<close>

lemma unique_live_updWhere:
  assumes key: "\<And>r. p r \<Longrightarrow> key (f r) = key r" and live: "\<And>r. p r \<Longrightarrow> live (f r) \<Longrightarrow> live r"
  shows "unique_live key live rows \<Longrightarrow> unique_live key live (updWhere p f rows)"
proof (induction rows)
  case Nil
  then show ?case by (simp add: unique_live_def)
next
  case (Cons x rows)
  let ?y = "if p x then f x else x"
  have IH: "unique_live key live (updWhere p f rows)"
    using Cons by (auto simp: unique_live_def split: if_splits)
  have "key r \<noteq> key ?y" if y: "live ?y" and r: "r \<in> set (updWhere p f rows)" "live r" for r
  proof -
    obtain r0 where "r0 \<in> set rows" "live r0" "key r0 = key r"
      using live_updWhere [of p key f live r rows, OF key live r] by blast
    moreover have "live x" and "key ?y = key x"
      using y key live by (auto split: if_splits)
    ultimately show ?thesis using Cons.prems by (auto simp: unique_live_def image_iff)
  qed
  then have "unique_live key live (?y # updWhere p f rows)"
    by (simp only: unique_live_Cons IH) blast
  then show ?case by simp
qed

lemma unique_live_same:
  assumes "unique_live key live rows" and "r \<in> set rows" and "r' \<in> set rows"
    and "live r" and "live r'" and "key r = key r'"
  shows "r = r'"
  using assms by (auto simp: unique_live_def distinct_map dest: inj_onD)

locale unique_index =
  fixes key :: "'r \<Rightarrow> 'k"
    and live :: "'r \<Rightarrow> bool"
    and rid :: "'r \<Rightarrow> 'i"
    and retire :: "'a \<Rightarrow> 'r \<Rightarrow> 'r"
  assumes retire_key: "key (retire a r) = key r"
    and retire_dead: "\<not> live (retire a r)"
begin

lemma retire_keeps: "unique_live key live rows \<Longrightarrow> unique_live key live (updWhere p (retire a) rows)"
  by (rule unique_live_updWhere) (auto simp: retire_key retire_dead)

lemma none_left:
  assumes "unique_live key live rows" and "find (\<lambda>r. key r = k \<and> live r) rows = Some c"
    and "r \<in> set (updWhere (\<lambda>r. rid r = rid c) (retire a) rows)" and "live r"
  shows "key r \<noteq> k"
proof
  assume "key r = k"
  obtain r0 where r0: "r0 \<in> set rows" "r = (if rid r0 = rid c then retire a r0 else r0)"
    using assms(3) by (auto simp: set_updWhere)
  with assms(4) have "r = r0" "rid r0 \<noteq> rid c"
    by (auto simp: retire_dead split: if_splits)
  moreover have "c \<in> set rows" "key c = k" "live c"
    using assms(2) by (auto simp: find_Some_iff)
  ultimately show False
    using unique_live_same [OF assms(1), of r0 c] r0(1) assms(4) \<open>key r = k\<close> by auto
qed

text \<open>Find, retire, append.\<close>

lemma replace_keeps:
  assumes "unique_live key live rows"
  shows "unique_live key live
    ((case find (\<lambda>r. key r = key x \<and> live r) rows of
        None \<Rightarrow> rows
      | Some c \<Rightarrow> updWhere (\<lambda>r. rid r = rid c) (retire a) rows) @ [x])"
proof (cases "find (\<lambda>r. key r = key x \<and> live r) rows")
  case None
  then have "\<And>r. r \<in> set rows \<Longrightarrow> live r \<Longrightarrow> key r \<noteq> key x"
    by (auto simp: find_None_iff)
  with None assms show ?thesis by (simp add: unique_live_append)
next
  case (Some c)
  with none_left [OF assms Some] retire_keeps [OF assms] show ?thesis
    by (simp add: unique_live_append)
qed

text \<open>The row of a key that is found after the replacement is the new one.\<close>

lemma replaced_found:
  assumes "unique_live key live rows" and "live x"
  shows "find (\<lambda>r. key r = key x \<and> live r)
    ((case find (\<lambda>r. key r = key x \<and> live r) rows of
        None \<Rightarrow> rows
      | Some c \<Rightarrow> updWhere (\<lambda>r. rid r = rid c) (retire a) rows) @ [x]) = Some x"
proof (cases "find (\<lambda>r. key r = key x \<and> live r) rows")
  case None
  with assms show ?thesis by (simp add: find_append_rows)
next
  case (Some c)
  then have "find (\<lambda>r. key r = key x \<and> live r) (updWhere (\<lambda>r. rid r = rid c) (retire a) rows) = None"
    using none_left [OF assms(1) Some] by (auto simp: find_None_iff)
  with Some assms(2) show ?thesis by (simp add: find_append_rows)
qed

end

end
