(* ===== verification/Quota_Inv.thy ===== *)
theory Quota_Inv
  imports Quota_Actions Quota_Index
begin

text \<open>
  What every table of quotas and plans keeps, whatever the clients do: the step relation
  \<open>quota_step\<close> has one rule per action, a multi-statement action being given by the state it read
  (\<open>seen\<close>) and the state it wrote to; \<open>quota_inv\<close> is preserved by each.
\<close>

section \<open>The invariant\<close>

definition override_ok :: "override \<Rightarrow> bool" where
  "override_ok r \<longleftrightarrow>
     override_constraints r = None \<and> ov_status r \<in> set VALID_OVERRIDE_STATUSES
     \<and> ov_quotaType r \<in> set [''hard'', ''soft'']"

definition override_key :: "override \<Rightarrow> string \<times> string" where
  "override_key r = (ov_tenantId r, ov_dimensionKey r)"

definition override_live :: "override \<Rightarrow> bool" where
  "override_live r \<longleftrightarrow> ov_status r = ''active''"

definition overrides_inv :: "override list \<Rightarrow> bool" where
  "overrides_inv rows \<longleftrightarrow>
     distinct (map ov_id rows) \<and> unique_live override_key override_live rows \<and> (\<forall>r \<in> set rows. override_ok r)"

definition sub_key :: "sub_quota \<Rightarrow> string \<times> string \<times> string" where
  "sub_key s = (sq_tenantId s, sq_workspaceId s, sq_dimensionKey s)"

definition subs_inv :: "sub_quota list \<Rightarrow> bool" where
  "subs_inv rows \<longleftrightarrow>
     unique_live sub_key (\<lambda>_. True) rows \<and> (\<forall>s \<in> set rows. 0 \<le> sq_allocated s \<and> int4_ok (sq_allocated s))"

definition plans_inv :: "plan list \<Rightarrow> bool" where
  "plans_inv rows \<longleftrightarrow>
     distinct (map p_id rows) \<and> distinct (map (\<lambda>p. js_toLowerCase (p_slug p)) rows)
     \<and> (\<forall>p \<in> set rows. p_status p \<in> set PLAN_STATUSES)"

definition assignments_inv :: "plan list \<Rightarrow> assignment list \<Rightarrow> bool" where
  "assignments_inv plans rows \<longleftrightarrow>
     unique_live as_tenantId assignment_isCurrent rows \<and> as_planId ` set rows \<subseteq> p_id ` set plans"

definition quota_inv :: "quota_db \<Rightarrow> bool" where
  "quota_inv db \<longleftrightarrow>
     overrides_inv (q_overrides db) \<and> subs_inv (q_subs db) \<and> plans_inv (q_plans db)
     \<and> assignments_inv (q_plans db) (q_assignments db)"

section \<open>Audit records and events leave the tables alone\<close>

definition tables :: "quota_db \<Rightarrow> override list \<times> sub_quota list \<times> plan list \<times> assignment list" where
  "tables db = (q_overrides db, q_subs db, q_plans db, q_assignments db)"

lemma quota_inv_tables: "tables db = tables db' \<Longrightarrow> quota_inv db = quota_inv db'"
  by (simp add: tables_def quota_inv_def)

lemma tables_log [simp]:
  "tables (appendPlanAudit act actor tenant pl db) = tables db"
  "tables (emit kind tn db) = tables db"
  "tables (insertEnforcementLog e db) = tables db"
  by (simp_all add: tables_def appendPlanAudit_def emit_def insertEnforcementLog_def)

lemma tables_fold: "(\<And>x d. tables (f x d) = tables d) \<Longrightarrow> tables (fold f xs db) = tables db"
  by (induction xs arbitrary: db) simp_all

lemma tables_fold_log [simp]:
  "tables (fold (\<lambda>r. appendPlanAudit (f r) (g r) (h r) (k r)) xs db) = tables db"
  "tables (fold (\<lambda>r. emit (u r) (v r)) xs db) = tables db"
  "tables (audit_capabilities actor pid changes db) = tables db"
  "tables (fold (\<lambda>(k, st). emit (w st) []) changes db) = tables db"
  by (rule tables_fold; simp add: case_prod_beta)+ (simp add: audit_capabilities_def, rule tables_fold, auto, rule tables_fold, auto)

lemma tables_eqD:
  assumes "tables db = tables db'"
  shows "q_overrides db = q_overrides db'" "q_subs db = q_subs db'" "q_plans db = q_plans db'"
    "q_assignments db = q_assignments db'"
  using assms by (simp_all add: tables_def)

lemmas tables_of_log [simp] = tables_log [THEN tables_eqD(1)] tables_log [THEN tables_eqD(2)]
  tables_log [THEN tables_eqD(3)] tables_log [THEN tables_eqD(4)]
  tables_fold_log [THEN tables_eqD(1)] tables_fold_log [THEN tables_eqD(2)]
  tables_fold_log [THEN tables_eqD(3)] tables_fold_log [THEN tables_eqD(4)]

lemma quota_inv_log [simp]:
  "quota_inv (appendPlanAudit act actor tenant pl db) = quota_inv db"
  "quota_inv (emit kind tn db) = quota_inv db"
  "quota_inv (insertEnforcementLog e db) = quota_inv db"
  "quota_inv (fold (\<lambda>r. appendPlanAudit (f r) (g r) (h r) (k r)) xs db) = quota_inv db"
  "quota_inv (fold (\<lambda>r. emit (u r) (v r)) xs db) = quota_inv db"
  "quota_inv (audit_capabilities actor pid changes db) = quota_inv db"
  "quota_inv (fold (\<lambda>(k, st). emit (w st) []) changes db) = quota_inv db"
  by (rule quota_inv_tables; simp)+

lemma findPlan_log [simp]:
  "findPlan (appendPlanAudit act actor tenant pl db) = findPlan db"
  "findPlan (emit kind tn db) = findPlan db"
  by (simp_all add: findPlan_def fun_eq_iff)

section \<open>Overrides\<close>

interpretation ov_index: unique_index override_key override_live ov_id
  "\<lambda>u r. r\<lparr>ov_status := ''superseded'', ov_supersededBy := Some u\<rparr>"
  by unfold_locales (auto simp: override_key_def override_live_def)

lemma active_for_key:
  "active_for (ov_tenantId x) (ov_dimensionKey x) = (\<lambda>r. override_key r = override_key x \<and> override_live r)"
  by (auto simp: active_for_def override_key_def override_live_def)

lemma override_constraints_status [simp]:
  "override_constraints (r\<lparr>ov_status := s\<rparr>) = override_constraints r"
  "override_constraints (r\<lparr>ov_status := s, ov_supersededBy := u\<rparr>) = override_constraints r"
  by (simp_all add: override_constraints_def)

lemma override_ok_status:
  assumes "override_ok r" and "s \<in> set VALID_OVERRIDE_STATUSES"
  shows "override_ok (r\<lparr>ov_status := s\<rparr>)" "override_ok (r\<lparr>ov_status := s, ov_supersededBy := u\<rparr>)"
  using assms by (simp_all add: override_ok_def)

lemma overrides_inv_ok: "overrides_inv rows \<Longrightarrow> r \<in> set rows \<Longrightarrow> override_ok r"
  by (simp add: overrides_inv_def)

text \<open>An update of rows of the table that makes none active and passes the constraints.\<close>

lemma overrides_inv_update:
  assumes "overrides_inv rows"
    and "\<And>r. p r \<Longrightarrow> ov_id (f r) = ov_id r" "\<And>r. p r \<Longrightarrow> override_key (f r) = override_key r"
      "\<And>r. p r \<Longrightarrow> override_live (f r) \<Longrightarrow> override_live r"
    and "\<And>r. r \<in> set rows \<Longrightarrow> p r \<Longrightarrow> override_ok (f r)"
  shows "overrides_inv (updWhere p f rows)"
  using assms by (simp add: overrides_inv_def map_updWhere_same unique_live_updWhere ball_updWhere)

lemma createOverride_inv:
  assumes "overrides_inv (q_overrides db)" and "createOverride rec db = Inr (res, db')"
    and "ov_id rec \<notin> ov_id ` set (q_overrides db)" and "ov_status rec = ''active''"
    and "ov_quotaType rec \<in> set [''hard'', ''soft'']"
  shows "overrides_inv (q_overrides db')"
    and "q_subs db' = q_subs db" "q_plans db' = q_plans db" "q_assignments db' = q_assignments db"
proof -
  let ?rows = "case find (active_for (ov_tenantId rec) (ov_dimensionKey rec)) (q_overrides db) of
      None \<Rightarrow> q_overrides db
    | Some a \<Rightarrow> updWhere (\<lambda>r. ov_id r = ov_id a)
        (\<lambda>r. r\<lparr>ov_status := ''superseded'', ov_supersededBy := Some (ov_id rec)\<rparr>) (q_overrides db)"
  have db': "q_overrides db' = ?rows @ [rec]" and ok: "override_constraints rec = None"
    and frame: "q_subs db' = q_subs db" "q_plans db' = q_plans db" "q_assignments db' = q_assignments db"
    using assms(2) by (auto simp: createOverride_def Let_def split: option.splits)
  show "q_subs db' = q_subs db" "q_plans db' = q_plans db" "q_assignments db' = q_assignments db"
    by (fact frame)+
  have old: "overrides_inv ?rows"
    using assms(1) by (auto simp: override_key_def override_live_def VALID_OVERRIDE_STATUSES_def
        intro!: overrides_inv_update override_ok_status split: option.split intro: overrides_inv_ok)
  moreover have "ov_id ` set ?rows = ov_id ` set (q_overrides db)"
    by (auto simp: image_updWhere_same split: option.split)
  moreover have "unique_live override_key override_live (?rows @ [rec])"
    unfolding active_for_key using assms(1) by (intro ov_index.replace_keeps) (simp add: overrides_inv_def)
  moreover have "override_ok rec"
    using ok assms(4,5) by (simp add: override_ok_def VALID_OVERRIDE_STATUSES_def)
  ultimately show "overrides_inv (q_overrides db')"
    using assms(3) unfolding db' by (simp add: overrides_inv_def)
qed

text \<open>The row an update by identifier was checked on is the only row it changes.\<close>

lemma override_by_id:
  assumes "overrides_inv rows" and "find (\<lambda>r. ov_id r = oid) rows = Some r"
    and "x \<in> set rows" and "ov_id x = oid"
  shows "x = r"
  using assms by (auto simp: overrides_inv_def find_Some_iff distinct_map dest: inj_onD)

lemma modifyOverride_inv:
  assumes inv: "overrides_inv (q_overrides db)"
    and m: "modifyOverride oid actor now j ch db = Inr (r, db')"
    and ty: "\<forall>tg \<in> set_option (ch_type ch). fst tg \<in> set [''hard'', ''soft'']"
  shows "overrides_inv (q_overrides db')"
    and "q_subs db' = q_subs db" "q_plans db' = q_plans db" "q_assignments db' = q_assignments db"
proof -
  obtain x where x: "find (\<lambda>r. ov_id r = oid) (q_overrides db) = Some x"
    and c: "override_constraints (modify_row ch actor now j x) = None"
    and db': "q_overrides db' = updWhere (\<lambda>x. ov_id x = oid) (modify_row ch actor now j) (q_overrides db)"
    and frame: "q_subs db' = q_subs db" "q_plans db' = q_plans db" "q_assignments db' = q_assignments db"
    using m by (auto simp: modifyOverride_def getOverrideById_def split: option.splits if_splits)
  show "q_subs db' = q_subs db" "q_plans db' = q_plans db" "q_assignments db' = q_assignments db"
    by (fact frame)+
  have "override_ok (modify_row ch actor now j y)" if y: "y \<in> set (q_overrides db)" "ov_id y = oid" for y
  proof -
    have "y = x" using override_by_id [OF inv x y] .
    moreover have "override_ok y" using overrides_inv_ok [OF inv y(1)] .
    ultimately show ?thesis
      using c ty by (auto simp: override_ok_def modify_row_def split: option.splits)
  qed
  then show "overrides_inv (q_overrides db')"
    unfolding db' using inv
    by (intro overrides_inv_update) (auto simp: modify_row_def override_key_def override_live_def)
qed

lemma revokeOverride_inv:
  assumes inv: "overrides_inv (q_overrides db)" and m: "revokeOverride oid actor now j db = Inr (r, db')"
  shows "overrides_inv (q_overrides db')"
    and "q_subs db' = q_subs db" "q_plans db' = q_plans db" "q_assignments db' = q_assignments db"
proof -
  let ?f = "\<lambda>r. r\<lparr>ov_status := ''revoked'', ov_revokedBy := Some actor, ov_revokedAt := Some now,
                 ov_revocationJustification := Some j\<rparr>"
  obtain x where x: "find (\<lambda>r. ov_id r = oid) (q_overrides db) = Some x"
    and c: "override_constraints (?f x) = None"
    and db': "q_overrides db' = updWhere (\<lambda>x. ov_id x = oid) ?f (q_overrides db)"
    and frame: "q_subs db' = q_subs db" "q_plans db' = q_plans db" "q_assignments db' = q_assignments db"
    using m by (auto simp: revokeOverride_def getOverrideById_def Let_def split: option.splits if_splits)
  show "q_subs db' = q_subs db" "q_plans db' = q_plans db" "q_assignments db' = q_assignments db"
    by (fact frame)+
  have "override_ok (?f y)" if y: "y \<in> set (q_overrides db)" "ov_id y = oid" for y
  proof -
    have "y = x" using override_by_id [OF inv x y] .
    moreover have "override_ok y" using overrides_inv_ok [OF inv y(1)] .
    ultimately show ?thesis using c by (auto simp: override_ok_def VALID_OVERRIDE_STATUSES_def)
  qed
  then show "overrides_inv (q_overrides db')"
    unfolding db' using inv
    by (intro overrides_inv_update) (auto simp: override_key_def override_live_def)
qed

lemma expireOverrides_inv:
  assumes "overrides_inv (q_overrides db)" and "expireOverrides now batch actor db = (rows, db')"
  shows "overrides_inv (q_overrides db')"
    and "q_subs db' = q_subs db" "q_plans db' = q_plans db" "q_assignments db' = q_assignments db"
  using assms by (auto simp: expireOverrides_def Let_def override_key_def override_live_def
      VALID_OVERRIDE_STATUSES_def intro!: overrides_inv_update override_ok_status intro: overrides_inv_ok)

section \<open>Sub-quotas\<close>

lemma is_sub_key: "is_sub tenant ws key s \<longleftrightarrow> sub_key s = (tenant, ws, key)"
  by (auto simp: is_sub_def sub_key_def)

lemma upsertSubQuota_inv:
  assumes "subs_inv (q_subs db)" and "0 \<le> alloc"
    and "upsertSubQuota uid now tenant ws key alloc actor limit db = Inr (s, isNew, prev, db')"
  shows "subs_inv (q_subs db')"
    and "q_overrides db' = q_overrides db" "q_plans db' = q_plans db" "q_assignments db' = q_assignments db"
proof -
  have range: "int4_ok alloc" and frame: "q_overrides db' = q_overrides db"
      "q_plans db' = q_plans db" "q_assignments db' = q_assignments db"
    using assms(3) by (auto simp: upsertSubQuota_def Let_def split: if_splits option.splits)
  show "q_overrides db' = q_overrides db" "q_plans db' = q_plans db" "q_assignments db' = q_assignments db"
    by (fact frame)+
  show "subs_inv (q_subs db')"
  proof (cases "find (is_sub tenant ws key) (q_subs db)")
    case None
    then have "sub_key x \<noteq> (tenant, ws, key)" if "x \<in> set (q_subs db)" for x
      using that by (auto simp: find_None_iff is_sub_key)
    with None assms range show ?thesis
      by (auto simp: upsertSubQuota_def Let_def subs_inv_def unique_live_append sub_key_def split: if_splits)
  next
    case (Some x)
    then have "q_subs db' = updWhere (is_sub tenant ws key)
        (\<lambda>x. x\<lparr>sq_allocated := alloc, sq_updatedBy := actor, sq_updatedAt := now\<rparr>) (q_subs db)"
      using assms(3) by (auto simp: upsertSubQuota_def Let_def split: if_splits)
    with assms(1,2) range show ?thesis
      by (auto simp: subs_inv_def ball_updWhere sub_key_def intro!: unique_live_updWhere)
  qed
qed

lemma removeSubQuota_inv:
  assumes "subs_inv (q_subs db)" and "removeSubQuota tenant ws key db = Inr (s, db')"
  shows "subs_inv (q_subs db')"
    and "q_overrides db' = q_overrides db" "q_plans db' = q_plans db" "q_assignments db' = q_assignments db"
  using assms by (auto simp: removeSubQuota_def subs_inv_def intro: unique_live_filter split: option.splits)

lemma validateSubQuotaValue_nonneg: "validateSubQuotaValue v = Inr n \<Longrightarrow> 0 \<le> n"
  by (auto simp: validateSubQuotaValue_def split: json.splits if_splits)

section \<open>Plans and assignments\<close>

lemma findPlan_mem: "findPlan db pid = Some p \<Longrightarrow> p \<in> set (q_plans db) \<and> p_id p = pid"
  by (auto simp: findPlan_def find_Some_iff)

lemma findPlan_None: "findPlan db pid = None \<longleftrightarrow> pid \<notin> p_id ` set (q_plans db)"
  by (auto simp: findPlan_def find_None_iff)

lemma plan_by_id:
  assumes "plans_inv (q_plans db)" and "x \<in> set (q_plans db)"
  shows "findPlan db (p_id x) = Some x"
proof (cases "findPlan db (p_id x)")
  case None
  with assms(2) show ?thesis by (simp add: findPlan_None)
next
  case (Some y)
  have "inj_on p_id (set (q_plans db))"
    using assms(1) by (simp add: plans_inv_def distinct_map)
  with Some assms(2) findPlan_mem [OF Some] show ?thesis
    by (auto dest: inj_onD)
qed

text \<open>An update of a plan that leaves its identifier, slug and status.\<close>

lemma plans_inv_update:
  assumes "plans_inv rows" and "\<And>x. p_id (f x) = p_id x" "\<And>x. p_slug (f x) = p_slug x"
    and "\<And>x. x \<in> set rows \<Longrightarrow> p x \<Longrightarrow> p_status (f x) \<in> set PLAN_STATUSES"
  shows "plans_inv (updWhere p f rows)"
  using assms by (simp add: plans_inv_def map_updWhere_same ball_updWhere)

lemma assignments_inv_plans:
  assumes "assignments_inv plans rows" and "p_id ` set plans \<subseteq> p_id ` set plans'"
  shows "assignments_inv plans' rows"
  using assms unfolding assignments_inv_def by blast

lemma plan_ids_update: "(\<And>x. p_id (f x) = p_id x) \<Longrightarrow> p_id ` set (updWhere p f rows) = p_id ` set rows"
  by (rule image_updWhere_same)

lemma createPlan_inv:
  assumes "plans_inv (q_plans db)" and "assignments_inv (q_plans db) (q_assignments db)"
    and "createPlan p db = Inr (p', db')"
    and "p_id p \<notin> p_id ` set (q_plans db)" and "p_status p \<in> set PLAN_STATUSES"
  shows "plans_inv (q_plans db')" "assignments_inv (q_plans db') (q_assignments db')"
    and "q_overrides db' = q_overrides db" "q_subs db' = q_subs db"
proof -
  have db': "db' = db\<lparr>q_plans := q_plans db @ [p]\<rparr>"
    and slug: "\<forall>x \<in> set (q_plans db). js_toLowerCase (p_slug x) \<noteq> js_toLowerCase (p_slug p)"
    using assms(3) by (auto simp: createPlan_def split: if_splits)
  have "js_toLowerCase (p_slug p) \<notin> (\<lambda>x. js_toLowerCase (p_slug x)) ` set (q_plans db)"
    using slug by force
  with assms(1,4,5) show "plans_inv (q_plans db')"
    unfolding db' by (simp add: plans_inv_def)
  show "assignments_inv (q_plans db') (q_assignments db')"
    using assms(2) unfolding db' by (auto intro: assignments_inv_plans)
qed (use assms(3) in \<open>auto simp: createPlan_def split: if_splits\<close>)

lemma newPlan_fields:
  "newPlan pid slug name desc st caps dims types cby uby = Inr p \<Longrightarrow> p_id p = pid \<and> p_status p = st \<and> st \<in> set PLAN_STATUSES"
  by (auto simp: newPlan_def bindE_eq_Inr split: if_splits)

lemma updatePlan_inv:
  assumes "plans_inv (q_plans db)" and "assignments_inv (q_plans db) (q_assignments db)"
    and "updatePlan between pid up seen = Inr (old, new, db')" and "between seen = db"
  shows "plans_inv (q_plans db')" "assignments_inv (q_plans db') (q_assignments db')"
    and "q_overrides db' = q_overrides db" "q_subs db' = q_subs db"
proof -
  obtain m where db': "db' = db\<lparr>q_plans := updWhere (\<lambda>x. p_id x = pid) (write_plan m) (q_plans db)\<rparr>"
    using assms(3,4) by (auto simp: updatePlan_def Let_def bindE_eq_Inr split: option.splits if_splits)
  show "plans_inv (q_plans db')"
    using assms(1) unfolding db'
    by (auto intro!: plans_inv_update simp: write_plan_def) (auto simp: plans_inv_def)
  show "assignments_inv (q_plans db') (q_assignments db')"
    using assms(2) unfolding db'
    by (auto intro: assignments_inv_plans simp: plan_ids_update write_plan_def)
qed (use assms(3,4) in \<open>auto simp: updatePlan_def Let_def bindE_eq_Inr split: option.splits if_splits\<close>)

lemma transition_update_inv:
  assumes "plans_inv (q_plans db)" and "assignments_inv (q_plans db) (q_assignments db)"
    and "transition_update pid target db = Inr db'"
  shows "plans_inv (q_plans db')" "assignments_inv (q_plans db') (q_assignments db')"
    and "q_overrides db' = q_overrides db" "q_subs db' = q_subs db"
proof -
  have db': "db' = db\<lparr>q_plans := updWhere (\<lambda>p. p_id p = pid) (\<lambda>p. p\<lparr>p_status := target\<rparr>) (q_plans db)\<rparr>"
    using assms(3) by (auto simp: transition_update_def split: option.splits if_splits)
  have "target \<in> set PLAN_STATUSES"
    using assms(1,3) findPlan_mem [of db pid]
    by (auto simp: transition_update_def plans_inv_def canTransitionPlan_def PLAN_TRANSITIONS_def PLAN_STATUSES_def
        split: option.splits if_splits)
  then show "plans_inv (q_plans db')"
    using assms(1) unfolding db' by (auto intro!: plans_inv_update)
  show "assignments_inv (q_plans db') (q_assignments db')"
    using assms(2) unfolding db' by (auto intro: assignments_inv_plans simp: plan_ids_update)
qed (use assms(3) in \<open>auto simp: transition_update_def split: option.splits if_splits\<close>)

lemma deleteNeverAssigned_inv:
  assumes "plans_inv (q_plans db)" and "assignments_inv (q_plans db) (q_assignments db)"
    and "deleteNeverAssigned between pid seen = Inr (p, db')" and "between seen = db"
  shows "plans_inv (q_plans db')" "assignments_inv (q_plans db') (q_assignments db')"
    and "q_overrides db' = q_overrides db" "q_subs db' = q_subs db"
proof -
  have db': "q_plans db' = filter (\<lambda>x. p_id x \<noteq> pid) (q_plans db)" "q_assignments db' = q_assignments db"
    and none: "\<forall>a \<in> set (q_assignments db). as_planId a \<noteq> pid"
    using assms(3,4) by (auto simp: deleteNeverAssigned_def Let_def split: option.splits if_splits)
  show "plans_inv (q_plans db')"
    using assms(1) unfolding db' by (auto simp: plans_inv_def distinct_map_filter)
  show "assignments_inv (q_plans db') (q_assignments db')"
    using assms(2) none unfolding db' by (auto simp: assignments_inv_def)
qed (use assms(3,4) in \<open>auto simp: deleteNeverAssigned_def Let_def split: option.splits if_splits\<close>)

lemma plan_change_inv:
  assumes "plans_inv (q_plans db)" and "assignments_inv (q_plans db) (q_assignments db)"
    and "q_plans db' = updWhere (\<lambda>x. p_id x = pid) f (q_plans db)" "q_assignments db' = q_assignments db"
    and "\<And>x. p_id (f x) = p_id x" "\<And>x. p_slug (f x) = p_slug x" "\<And>x. p_status (f x) = p_status x"
  shows "plans_inv (q_plans db')" "assignments_inv (q_plans db') (q_assignments db')"
proof -
  show "plans_inv (q_plans db')"
    using assms(1,5-7) unfolding assms(3) by (auto intro!: plans_inv_update) (auto simp: plans_inv_def)
  show "assignments_inv (q_plans db') (q_assignments db')"
    using assms(2,5) unfolding assms(3,4) by (auto intro: assignments_inv_plans simp: plan_ids_update)
qed

lemma setLimit_inv:
  assumes "plans_inv (q_plans db)" and "assignments_inv (q_plans db) (q_assignments db)"
    and "setLimit pid key v ty g actor db = Inr (prev, st, db')"
  shows "plans_inv (q_plans db')" "assignments_inv (q_plans db') (q_assignments db')"
    and "q_overrides db' = q_overrides db" "q_subs db' = q_subs db"
proof -
  obtain p where p: "q_plans db' = updWhere (\<lambda>x. p_id x = pid)
        (write_limit p key v ty g) (q_plans db)"
    and a: "q_assignments db' = q_assignments db"
    using assms(3) by (auto simp: setLimit_def bindE_eq_Inr split: if_splits)
  show "plans_inv (q_plans db')" "assignments_inv (q_plans db') (q_assignments db')"
    by (rule plan_change_inv [OF assms(1,2) p a]; simp add: write_limit_def clear_limit_def)+
qed (use assms(3) in \<open>auto simp: setLimit_def bindE_eq_Inr split: if_splits\<close>)

lemma removeLimit_inv:
  assumes "plans_inv (q_plans db)" and "assignments_inv (q_plans db) (q_assignments db)"
    and "removeLimit pid key actor db = Inr (old, st, db')"
  shows "plans_inv (q_plans db')" "assignments_inv (q_plans db') (q_assignments db')"
    and "q_overrides db' = q_overrides db" "q_subs db' = q_subs db"
proof -
  obtain p where p: "q_plans db' = updWhere (\<lambda>x. p_id x = pid)
        (clear_limit p key) (q_plans db)"
    and a: "q_assignments db' = q_assignments db"
    using assms(3) by (auto simp: removeLimit_def bindE_eq_Inr split: option.splits)
  show "plans_inv (q_plans db')" "assignments_inv (q_plans db') (q_assignments db')"
    by (rule plan_change_inv [OF assms(1,2) p a]; simp add: write_limit_def clear_limit_def)+
qed (use assms(3) in \<open>auto simp: removeLimit_def bindE_eq_Inr split: option.splits\<close>)

interpretation as_index: unique_index as_tenantId assignment_isCurrent as_id
  "\<lambda>now a. a\<lparr>as_supersededAt := Some now\<rparr>"
  by unfold_locales (auto simp: assignment_isCurrent_def)

lemma supersede_inv:
  assumes "assignments_inv (q_plans db) (q_assignments db)"
    and "supersedeAndInsertAssignment now a db = Inr (prev, db')"
  shows "assignments_inv (q_plans db') (q_assignments db')"
    and "q_overrides db' = q_overrides db" "q_subs db' = q_subs db" "q_plans db' = q_plans db"
proof -
  let ?rows = "case find (\<lambda>x. as_tenantId x = as_tenantId a \<and> assignment_isCurrent x) (q_assignments db) of
      None \<Rightarrow> q_assignments db
    | Some c \<Rightarrow> updWhere (\<lambda>x. as_id x = as_id c) (\<lambda>x. x\<lparr>as_supersededAt := Some now\<rparr>) (q_assignments db)"
  have db': "q_assignments db' = ?rows @ [a]" "q_plans db' = q_plans db"
    and fk: "as_planId a \<in> p_id ` set (q_plans db)"
    using assms(2) by (auto simp: supersedeAndInsertAssignment_def Let_def findPlan_None split: if_splits)
  have "as_planId ` set ?rows = as_planId ` set (q_assignments db)"
    by (auto simp: image_updWhere_same split: option.split)
  moreover have "unique_live as_tenantId assignment_isCurrent (?rows @ [a])"
    using assms(1) by (intro as_index.replace_keeps) (simp add: assignments_inv_def)
  ultimately show "assignments_inv (q_plans db') (q_assignments db')"
    using assms(1) fk unfolding db' by (simp add: assignments_inv_def)
qed (use assms(2) in \<open>auto simp: supersedeAndInsertAssignment_def Let_def split: if_splits\<close>)

end
