(* ===== verification/Quota_Steps.thy ===== *)
theory Quota_Steps
  imports Quota_Inv
begin

text \<open>
  The actions of all clients as one step relation, and the invariant along every run. A rule whose
  action reads before it writes says which state the write met (\<open>between seen = db\<close>); the state it
  read, \<open>seen\<close>, may be any state at all. Identifiers made by \<open>randomUUID\<close> or by the database are new.
\<close>

inductive quota_step :: "quota_db \<Rightarrow> quota_db \<Rightarrow> bool" where
  create: "override_create env uid caller q db = Inr (r, db') \<Longrightarrow> uid \<notin> ov_id ` set (q_overrides db)
     \<Longrightarrow> quota_step db db'"
| modify: "override_modify env between caller mq seen = Inr (o', db') \<Longrightarrow> between seen = db \<Longrightarrow> quota_step db db'"
| revoke: "override_revoke env caller oid j db = (rr, db') \<Longrightarrow> quota_step db db'"
| sweep: "override_sweep env batch db = (rows, db') \<Longrightarrow> quota_step db db'"
| enforce: "quota_enforce env collect eq db = (er, db') \<Longrightarrow> quota_step db db'"
| sub_set: "sub_quota_set env between uid caller tenant ws key v seen = (sr, db') \<Longrightarrow> between seen = db
     \<Longrightarrow> quota_step db db'"
| sub_remove: "sub_quota_remove caller tenant ws key db = (nr, db') \<Longrightarrow> quota_step db db'"
| plan_new: "plan_create uid caller slug name desc caps dims checkCaps db = Inr (p, db')
     \<Longrightarrow> uid \<notin> p_id ` set (q_plans db) \<Longrightarrow> quota_step db db'"
| plan_edit: "plan_update between caller pid up checkCaps seen = Inr (np, db') \<Longrightarrow> between seen = db \<Longrightarrow> quota_step db db'"
| plan_drop: "plan_delete between caller pid seen = Inr (p, db') \<Longrightarrow> between seen = db \<Longrightarrow> quota_step db db'"
| plan_move: "plan_lifecycle between caller pid target seen = Inr (lr, db') \<Longrightarrow> between (between seen) = db
     \<Longrightarrow> quota_step db db'"
| limit_set: "limits_set caller pid kopt v quotaType grace db = Inr (prev, db') \<Longrightarrow> quota_step db db'"
| limit_drop: "limits_remove caller pid kopt db = Inr (old, db') \<Longrightarrow> quota_step db db'"
| assign: "plan_assign env between tenantExists report uid caller tenant pid assignedBy seen = Inr (prv, db')
     \<Longrightarrow> between seen = db \<Longrightarrow> quota_step db db'"

lemma validateQuotaType_ok:
  "validateQuotaTypeConfigEntry ty g = Inr (t, n) \<Longrightarrow> t \<in> set [''hard'', ''soft''] \<and> 0 \<le> n"
  by (auto simp: validateQuotaTypeConfigEntry_def Let_def normalizeQuotaType_def natInteger_def
      split: option.splits json.splits if_splits)

lemma newQuotaOverride_fields:
  assumes "newQuotaOverride m now uid tenant key v ty g j ex by' = Inr r"
  shows "ov_id r = uid \<and> ov_status r = ''active'' \<and> ov_quotaType r \<in> set [''hard'', ''soft''] \<and> ov_tenantId r = tenant
    \<and> Some (ov_dimensionKey r) = key \<and> - 1 \<le> ov_value r"
  using assms normalizeQuotaType_cases [of ty]
  by (auto simp: newQuotaOverride_def bindE_eq_Inr isValidDimensionKey_def isValidLimitValue_def
      split: if_splits option.splits json.splits)

lemma quota_invI:
  assumes "overrides_inv (q_overrides db)" "subs_inv (q_subs db)" "plans_inv (q_plans db)"
    "assignments_inv (q_plans db) (q_assignments db)"
  shows "quota_inv db"
  using assms by (simp add: quota_inv_def)

lemma quota_invD:
  assumes "quota_inv db"
  shows "overrides_inv (q_overrides db)" "subs_inv (q_subs db)" "plans_inv (q_plans db)"
    "assignments_inv (q_plans db) (q_assignments db)"
  using assms by (simp_all add: quota_inv_def)

text \<open>What a step does to plans that have ever been assigned: the plan stays, keeps its slug, and its
  status follows the lifecycle; assignments are superseded, never removed.\<close>

definition plan_progress :: "quota_db \<Rightarrow> quota_db \<Rightarrow> bool" where
  "plan_progress db db' \<longleftrightarrow>
     as_planId ` set (q_assignments db) \<subseteq> as_planId ` set (q_assignments db')
     \<and> (\<forall>pid \<in> as_planId ` set (q_assignments db). \<forall>p. findPlan db pid = Some p \<longrightarrow>
          (\<exists>p'. findPlan db' pid = Some p' \<and> p_slug p' = p_slug p \<and> canTransitionPlan\<^sup>*\<^sup>* (p_status p) (p_status p')))"

definition action_ok :: "quota_db \<Rightarrow> quota_db \<Rightarrow> bool" where
  "action_ok db db' \<longleftrightarrow> quota_inv db' \<and> plan_progress db db'"

lemma findPlan_cong: "q_plans db' = q_plans db \<Longrightarrow> findPlan db' = findPlan db"
  by (simp add: findPlan_def fun_eq_iff)

lemma action_ok_tables:
  assumes "tables db' = tables db1"
  shows "action_ok db db' = action_ok db db1"
  using findPlan_cong [OF tables_eqD(3) [OF assms]] tables_eqD(4) [OF assms] quota_inv_tables [OF assms]
  by (simp add: action_ok_def plan_progress_def)

lemma action_ok_log [simp]:
  "action_ok db0 (appendPlanAudit act actor tenant pl db) = action_ok db0 db"
  "action_ok db0 (emit kind tn db) = action_ok db0 db"
  "action_ok db0 (insertEnforcementLog e db) = action_ok db0 db"
  "action_ok db0 (fold (\<lambda>r. emit (u r) (v r)) xs db) = action_ok db0 db"
  by (rule action_ok_tables; simp)+

lemma action_ok_refl: "quota_inv db \<Longrightarrow> action_ok db db"
  by (auto simp: action_ok_def plan_progress_def)

lemma progress_same:
  "q_plans db' = q_plans db \<Longrightarrow> q_assignments db' = q_assignments db \<Longrightarrow> plan_progress db db'"
  using findPlan_cong [of db' db] by (auto simp: plan_progress_def)

lemma progress_trans:
  assumes "plan_progress db1 db2" and "plan_progress db2 db3"
  shows "plan_progress db1 db3"
  unfolding plan_progress_def
proof (intro conjI ballI allI impI)
  show "as_planId ` set (q_assignments db1) \<subseteq> as_planId ` set (q_assignments db3)"
    using assms unfolding plan_progress_def by (meson subset_trans)
  fix pid p assume "pid \<in> as_planId ` set (q_assignments db1)" and "findPlan db1 pid = Some p"
  then obtain p2 where p2: "findPlan db2 pid = Some p2" "p_slug p2 = p_slug p"
      "canTransitionPlan\<^sup>*\<^sup>* (p_status p) (p_status p2)" and "pid \<in> as_planId ` set (q_assignments db2)"
    using assms(1) unfolding plan_progress_def by blast
  then obtain p3 where "findPlan db3 pid = Some p3" "p_slug p3 = p_slug p2"
      "canTransitionPlan\<^sup>*\<^sup>* (p_status p2) (p_status p3)"
    using assms(2) unfolding plan_progress_def by blast
  with p2 show "\<exists>p'. findPlan db3 pid = Some p' \<and> p_slug p' = p_slug p \<and> canTransitionPlan\<^sup>*\<^sup>* (p_status p) (p_status p')"
    by (auto intro: rtranclp_trans)
qed

lemma progress_update:
  assumes "q_plans db' = updWhere (\<lambda>x. p_id x = pid) f (q_plans db)" and "q_assignments db' = q_assignments db"
    and "\<And>x. p_id (f x) = p_id x" "\<And>x. p_slug (f x) = p_slug x"
    and "\<And>x. findPlan db pid = Some x \<Longrightarrow> canTransitionPlan\<^sup>*\<^sup>* (p_status x) (p_status (f x))"
  shows "plan_progress db db'"
proof -
  have "findPlan db' k = (if k = pid then map_option f (findPlan db k) else findPlan db k)" for k
    using find_updWhere_key [of "\<lambda>x. p_id x = pid" f "q_plans db"]
      find_updWhere_other [of "\<lambda>x. p_id x = pid" "\<lambda>x. p_id x = k" f "q_plans db"] assms(1,3)
    by (simp add: findPlan_def)
  with assms(2,4,5) show ?thesis by (auto simp: plan_progress_def)
qed

lemma createPlan_progress: "createPlan p db = Inr (p', db') \<Longrightarrow> plan_progress db db'"
  by (auto simp: createPlan_def plan_progress_def findPlan_def find_append_rows split: if_splits)

lemma updatePlan_progress:
  assumes "updatePlan between pid up seen = Inr (old, new, db')" and "between seen = db"
  shows "plan_progress db db'"
proof -
  obtain m where "q_plans db' = updWhere (\<lambda>x. p_id x = pid) (write_plan m) (q_plans db)"
      "q_assignments db' = q_assignments db"
    using assms by (auto simp: updatePlan_def Let_def bindE_eq_Inr split: option.splits if_splits)
  then show ?thesis by (rule progress_update) (simp_all add: write_plan_def)
qed

lemma deleteNeverAssigned_progress:
  assumes "deleteNeverAssigned between pid seen = Inr (p, db')" and "between seen = db"
  shows "plan_progress db db'"
proof -
  have db': "q_plans db' = filter (\<lambda>x. p_id x \<noteq> pid) (q_plans db)" "q_assignments db' = q_assignments db"
    and none: "\<forall>a \<in> set (q_assignments db). as_planId a \<noteq> pid"
    using assms by (auto simp: deleteNeverAssigned_def Let_def split: option.splits if_splits)
  have "find (\<lambda>x. p_id x = k) (filter (\<lambda>x. p_id x \<noteq> pid) rows) = find (\<lambda>x. p_id x = k) rows" if "k \<noteq> pid" for k rows
    using that by (induction rows) auto
  then have "findPlan db' k = findPlan db k" if "k \<noteq> pid" for k
    using that by (simp add: findPlan_def db')
  with none show ?thesis by (auto simp: plan_progress_def db')
qed

lemma transition_progress: "transition_update pid target db = Inr db' \<Longrightarrow> plan_progress db db'"
  by (rule progress_update [where pid = pid and f = "\<lambda>p. p\<lparr>p_status := target\<rparr>"])
     (auto simp: transition_update_def split: option.splits if_splits)

lemma setLimit_progress:
  assumes "setLimit pid key v ty g actor db = Inr (prev, st, db')"
  shows "plan_progress db db'"
proof -
  obtain p where "q_plans db' = updWhere (\<lambda>x. p_id x = pid) (write_limit p key v ty g) (q_plans db)"
      "q_assignments db' = q_assignments db"
    using assms by (auto simp: setLimit_def bindE_eq_Inr split: if_splits)
  then show ?thesis by (rule progress_update) (simp_all add: write_limit_def)
qed

lemma removeLimit_progress:
  assumes "removeLimit pid key actor db = Inr (old, st, db')"
  shows "plan_progress db db'"
proof -
  obtain p where "q_plans db' = updWhere (\<lambda>x. p_id x = pid) (clear_limit p key) (q_plans db)"
      "q_assignments db' = q_assignments db"
    using assms by (auto simp: removeLimit_def bindE_eq_Inr split: option.splits)
  then show ?thesis by (rule progress_update) (simp_all add: clear_limit_def)
qed

lemma supersede_progress:
  assumes "supersedeAndInsertAssignment now a db = Inr (prev, db')"
  shows "plan_progress db db'"
proof -
  have "as_planId ` set (q_assignments db) \<subseteq> as_planId ` set (q_assignments db')" "q_plans db' = q_plans db"
    using assms by (auto simp: supersedeAndInsertAssignment_def Let_def image_updWhere_same split: if_splits option.splits)
  with findPlan_cong [of db' db] show ?thesis by (auto simp: plan_progress_def)
qed

lemma override_create_inv:
  assumes "quota_inv db" and "override_create env uid caller q db = Inr (r, db')" and "uid \<notin> ov_id ` set (q_overrides db)"
  shows "action_ok db db'"
proof -
  obtain rec res db1 where rec: "ov_id rec = uid" "ov_status rec = ''active''" "ov_quotaType rec \<in> set [''hard'', ''soft'']"
    and cr: "createOverride rec db = Inr (res, db1)" and db': "db' = emit ''quota.override.created'' (or_tenantId q) db1"
    using assms(2) by (auto simp: override_create_def bindE_eq_Inr split: if_splits dest!: newQuotaOverride_fields)
  have "action_ok db db1"
    using createOverride_inv [OF quota_invD(1) [OF assms(1)] cr] rec assms(3) quota_invD [OF assms(1)]
    unfolding action_ok_def by (intro conjI quota_invI progress_same) simp_all
  then show ?thesis by (simp add: db' action_ok_tables [of db' db1])
qed

lemma requested_type_ok: "requested_type q cur = Inr ty \<Longrightarrow> \<forall>tg \<in> set_option ty. fst tg \<in> set [''hard'', ''soft'']"
  by (auto simp: requested_type_def bindE_eq_Inr split: if_splits dest: validateQuotaType_ok)

lemma override_modify_call:
  assumes "override_modify env between caller q seen = Inr (r, db')"
  shows "\<exists>actor j ty ex db1 cur. requested_type q cur = Inr ty
    \<and> modifyOverride (mo_overrideId q) actor (qe_now env) j \<lparr>ch_value = mo_value q, ch_type = ty, ch_expires = ex\<rparr>
        (between seen) = Inr (r, db1) \<and> db' = emit ''quota.override.modified'' (ov_tenantId r) db1"
  using assms unfolding override_modify_def
  by (auto simp: bindE_eq_Inr split: option.splits if_splits) blast+

lemma override_modify_inv:
  assumes "quota_inv db" and "override_modify env between caller q seen = Inr (r, db')" and "between seen = db"
  shows "action_ok db db'"
proof -
  obtain actor j ty ex db1 cur where ty: "requested_type q cur = Inr ty"
    and m: "modifyOverride (mo_overrideId q) actor (qe_now env) j \<lparr>ch_value = mo_value q, ch_type = ty, ch_expires = ex\<rparr>
        db = Inr (r, db1)" and db': "db' = emit ''quota.override.modified'' (ov_tenantId r) db1"
    using override_modify_call [OF assms(2)] assms(3) by blast
  have "action_ok db db1"
    using modifyOverride_inv [OF quota_invD(1) [OF assms(1)] m] requested_type_ok [OF ty] quota_invD [OF assms(1)]
    unfolding action_ok_def by (intro conjI quota_invI progress_same) simp_all
  then show ?thesis by (simp add: db' action_ok_tables [of db' db1])
qed

lemma override_revoke_inv:
  assumes "quota_inv db" and "override_revoke env caller oid j db = (rr, db')"
  shows "action_ok db db'"
proof -
  have "action_ok db db1" if "revokeOverride oid actor now j' db = Inr (r, db1)" for actor now j' r db1
    using revokeOverride_inv [OF quota_invD(1) [OF assms(1)] that] quota_invD [OF assms(1)]
    unfolding action_ok_def by (intro conjI quota_invI progress_same) simp_all
  then show ?thesis
    using assms unfolding override_revoke_def
    by (auto simp: bindE_eq_Inr action_ok_refl split: sum.splits prod.splits)
qed

lemma override_sweep_inv:
  assumes "quota_inv db" and "override_sweep env batch db = (rows, db')"
  shows "action_ok db db'"
proof -
  obtain db1 where e: "expireOverrides (qe_now env) batch ''system'' db = (rows, db1)"
    and db': "db' = fold (\<lambda>r. emit ''quota.override.expired'' (ov_tenantId r)) rows db1"
    using assms(2) by (auto simp: override_sweep_def split: prod.splits)
  have "action_ok db db1"
    using expireOverrides_inv [OF quota_invD(1) [OF assms(1)] e] quota_invD [OF assms(1)]
    unfolding action_ok_def by (intro conjI quota_invI progress_same) simp_all
  then show ?thesis by (simp add: db' action_ok_tables [of db' db1])
qed

lemma quota_enforce_inv:
  "quota_inv db \<Longrightarrow> quota_enforce env collect q db = (er, db') \<Longrightarrow> action_ok db db'"
  by (auto simp: quota_enforce_def Let_def action_ok_refl split: sum.splits if_splits)

lemma sub_quota_set_inv:
  assumes "quota_inv db" and "sub_quota_set env between uid caller tenant ws key v seen = (sr, db')"
    and "between seen = db"
  shows "action_ok db db'"
proof -
  have "action_ok db db1"
    if n: "validateSubQuotaValue v = Inr alloc"
      and u: "upsertSubQuota uid now tenant ws key alloc actor limit db = Inr (s, isNew, prev, db1)"
    for now alloc actor limit s isNew prev db1
    using upsertSubQuota_inv [OF quota_invD(2) [OF assms(1)] validateSubQuotaValue_nonneg [OF n] u]
      quota_invD [OF assms(1)]
    unfolding action_ok_def by (intro conjI quota_invI progress_same) simp_all
  then show ?thesis
    using assms unfolding sub_quota_set_def
    by (auto simp: bindE_eq_Inr action_ok_refl split: sum.splits option.splits if_splits)
qed

lemma sub_quota_remove_inv:
  assumes "quota_inv db" and "sub_quota_remove caller tenant ws key db = (nr, db')"
  shows "action_ok db db'"
proof -
  have "action_ok db db1" if r: "removeSubQuota tenant ws key db = Inr (s, db1)" for s db1
    using removeSubQuota_inv [OF quota_invD(2) [OF assms(1)] r] quota_invD [OF assms(1)]
    unfolding action_ok_def by (intro conjI quota_invI progress_same) simp_all
  then show ?thesis
    using assms unfolding sub_quota_remove_def
    by (auto simp: action_ok_refl split: sum.splits option.splits)
qed

lemma plan_create_inv:
  assumes "quota_inv db" and "plan_create uid caller slug name desc caps dims checkCaps db = Inr (p, db')"
    and "uid \<notin> p_id ` set (q_plans db)"
  shows "action_ok db db'"
proof -
  obtain p0 p1 db1 where n: "p_id p0 = uid" "p_status p0 \<in> set PLAN_STATUSES"
    and u: "createPlan p0 db = Inr (p1, db1)" and db': "tables db' = tables db1"
    using assms(2) by (auto simp: plan_create_def bindE_eq_Inr split: option.splits dest!: newPlan_fields)
  have "action_ok db db1"
    using createPlan_inv [OF quota_invD(3,4) [OF assms(1)] u] n assms(3) quota_invD [OF assms(1)]
    unfolding action_ok_def by (intro conjI quota_invI createPlan_progress [OF u]) simp_all
  then show ?thesis by (simp add: db' action_ok_tables [of db' db1])
qed

lemma plan_update_call:
  assumes "plan_update between caller pid up checkCaps seen = Inr (np, db')"
  shows "\<exists>actor old db1. updatePlan between pid (up\<lparr>up_updatedBy := Some actor\<rparr>) seen = Inr (old, np, db1)
    \<and> tables db' = tables db1"
  using assms unfolding plan_update_def
  by (auto simp: bindE_eq_Inr Let_def split: option.splits if_splits) blast+

lemma plan_update_inv:
  assumes "quota_inv db" and "plan_update between caller pid up checkCaps seen = Inr (np, db')" and "between seen = db"
  shows "action_ok db db'"
proof -
  obtain actor old db1 where u: "updatePlan between pid (up\<lparr>up_updatedBy := Some actor\<rparr>) seen = Inr (old, np, db1)"
    and db': "tables db' = tables db1"
    using plan_update_call [OF assms(2)] by blast
  have "action_ok db db1"
    using updatePlan_inv [OF quota_invD(3,4) [OF assms(1)] u assms(3)] quota_invD [OF assms(1)]
    unfolding action_ok_def by (intro conjI quota_invI updatePlan_progress [OF u assms(3)]) simp_all
  then show ?thesis by (simp add: db' action_ok_tables [of db' db1])
qed

lemma plan_delete_inv:
  assumes "quota_inv db" and "plan_delete between caller pid seen = Inr (p, db')" and "between seen = db"
  shows "action_ok db db'"
proof -
  obtain db1 where u: "deleteNeverAssigned between pid seen = Inr (p, db1)" and db': "tables db' = tables db1"
    using assms(2) by (auto simp: plan_delete_def bindE_eq_Inr split: if_splits)
  have "action_ok db db1"
    using deleteNeverAssigned_inv [OF quota_invD(3,4) [OF assms(1)] u assms(3)] quota_invD [OF assms(1)]
    unfolding action_ok_def by (intro conjI quota_invI deleteNeverAssigned_progress [OF u assms(3)]) simp_all
  then show ?thesis by (simp add: db' action_ok_tables [of db' db1])
qed

lemma plan_lifecycle_inv:
  assumes "quota_inv db" and "plan_lifecycle between caller pid target seen = Inr (lr, db')"
    and "between (between seen) = db"
  shows "action_ok db db'"
proof -
  obtain db1 where u: "transition_update pid target db = Inr db1" and db': "tables db' = tables db1"
    using assms(2,3) by (auto simp: plan_lifecycle_def bindE_eq_Inr split: if_splits)
  have "action_ok db db1"
    using transition_update_inv [OF quota_invD(3,4) [OF assms(1)] u] quota_invD [OF assms(1)]
    unfolding action_ok_def by (intro conjI quota_invI transition_progress [OF u]) simp_all
  then show ?thesis by (simp add: db' action_ok_tables [of db' db1])
qed

lemma limits_set_inv:
  assumes "quota_inv db" and "limits_set caller pid kopt v ty g db = Inr (prev, db')"
  shows "action_ok db db'"
proof -
  obtain key n t m actor st db1 where u: "setLimit pid key n t m actor db = Inr (prev, st, db1)"
    and db': "tables db' = tables db1"
    using assms(2) by (auto simp: limits_set_def bindE_eq_Inr split: if_splits)
  have "action_ok db db1"
    using setLimit_inv [OF quota_invD(3,4) [OF assms(1)] u] quota_invD [OF assms(1)]
    unfolding action_ok_def by (intro conjI quota_invI setLimit_progress [OF u]) simp_all
  then show ?thesis by (simp add: db' action_ok_tables [of db' db1])
qed

lemma limits_remove_inv:
  assumes "quota_inv db" and "limits_remove caller pid kopt db = Inr (old, db')"
  shows "action_ok db db'"
proof -
  obtain key actor st db1 where u: "removeLimit pid key actor db = Inr (old, st, db1)"
    and db': "tables db' = tables db1"
    using assms(2) by (auto simp: limits_remove_def bindE_eq_Inr split: if_splits)
  have "action_ok db db1"
    using removeLimit_inv [OF quota_invD(3,4) [OF assms(1)] u] quota_invD [OF assms(1)]
    unfolding action_ok_def by (intro conjI quota_invI removeLimit_progress [OF u]) simp_all
  then show ?thesis by (simp add: db' action_ok_tables [of db' db1])
qed

lemma tables_record_assignment [simp]: "tables (record_assignment actor tenant pid prev db) = tables db"
  by (simp add: record_assignment_def Let_def split: option.split)

lemma plan_assign_call:
  assumes "plan_assign env between tenantExists report uid caller tenant pid assignedBy seen = Inr (prev, db')"
  shows "\<exists>db1. supersedeAndInsertAssignment (qe_now env)
      \<lparr>as_id = uid, as_tenantId = tenant, as_planId = pid, as_assignedBy = assignedBy,
       as_effectiveFrom = qe_now env, as_supersededAt = None\<rparr> (between seen) = Inr (prev, db1)
    \<and> tables db' = tables db1"
  using assms unfolding plan_assign_def
  by (auto simp: bindE_eq_Inr split: option.splits if_splits)

lemma plan_assign_inv:
  assumes "quota_inv db" and "plan_assign env between tenantExists report uid caller tenant pid assignedBy seen = Inr (prev, db')"
    and "between seen = db"
  shows "action_ok db db'"
proof -
  obtain a db1 where u: "supersedeAndInsertAssignment (qe_now env) a db = Inr (prev, db1)" and db': "tables db' = tables db1"
    using plan_assign_call [OF assms(2)] assms(3) by blast
  have "action_ok db db1"
    using supersede_inv [OF quota_invD(4) [OF assms(1)] u] quota_invD [OF assms(1)]
    unfolding action_ok_def by (intro conjI quota_invI supersede_progress [OF u]) simp_all
  then show ?thesis by (simp add: db' action_ok_tables [of db' db1])
qed

lemmas action_inv = override_create_inv override_modify_inv override_revoke_inv override_sweep_inv quota_enforce_inv
  sub_quota_set_inv sub_quota_remove_inv plan_create_inv plan_update_inv plan_delete_inv plan_lifecycle_inv
  limits_set_inv limits_remove_inv plan_assign_inv

lemma quota_step_ok: "quota_step db db' \<Longrightarrow> quota_inv db \<Longrightarrow> action_ok db db'"
  by (induction rule: quota_step.induct) (rule action_inv; assumption)+

lemma quota_steps_ok: "quota_step\<^sup>*\<^sup>* db db' \<Longrightarrow> quota_inv db \<Longrightarrow> action_ok db db'"
proof (induction rule: rtranclp_induct)
  case base
  then show ?case by (rule action_ok_refl)
next
  case (step db1 db2)
  with quota_step_ok [of db1 db2] show ?case
    by (auto simp: action_ok_def intro: progress_trans)
qed

end
