(* ===== verification/Quota_Props.thy ===== *)
theory Quota_Props
  imports Quota_Steps
begin

text \<open>
  The properties of quotas and plans: the limit that governs a tenant (an abstract statement,
  \<open>governing\<close>, of the precedence override, plan, default, which both the enforcement action and the
  entitlement report implement), the decision taken with it, the bound on the allocations of
  workspaces, and what runs of the actions keep.
\<close>

section \<open>The limit that governs\<close>

text \<open>The override of the tenant that is active and not expired, else the plan's limit, else the
  catalogue's default: limit, type, margin and source.\<close>

definition governing ::
  "quota_db \<Rightarrow> time \<Rightarrow> string \<Rightarrow> quota_dimension \<Rightarrow> rat \<times> string \<times> rat \<times> string" where
  "governing db now tenant d =
     (case find (\<lambda>r. active_for tenant (d_dimensionKey d) r \<and> \<not> isOverrideExpired r now) (q_overrides db) of
        Some r \<Rightarrow> (of_int (ov_value r), ov_quotaType r, of_int (ov_graceMargin r), ''override'')
      | None \<Rightarrow>
          (case currentPlan db tenant of
             None \<Rightarrow> (d_defaultValue d, ''hard'', 0, ''default'')
           | Some p \<Rightarrow>
               (let t = normalizeQuotaTypeEntry (map_of (p_quotaTypeConfig p) (d_dimensionKey d))
                in (case map_of (p_quotaDimensions p) (d_dimensionKey d) of
                      None \<Rightarrow> (d_defaultValue d, qt_type t, qt_graceMargin t, ''default'')
                    | Some v \<Rightarrow> (v, qt_type t, qt_graceMargin t, ''plan'')))))"

lemma find_filter_case: "find p xs = (case filter p xs of [] \<Rightarrow> None | x # _ \<Rightarrow> Some x)"
  by (induction xs) auto

text \<open>With at most one active override per key, the newest one is the only one.\<close>

lemma short_filter:
  assumes "unique_live key live rows" and "\<And>r. p r \<Longrightarrow> live r \<and> key r = k"
  shows "filter p rows = [] \<or> (\<exists>r. filter p rows = [r])"
proof -
  have "filter live (filter p rows) = filter p rows"
    using assms(2) by (induction rows) auto
  then have "distinct (map key (filter p rows))"
    using unique_live_filter [OF assms(1), of p] by (simp add: unique_live_def)
  moreover have "\<forall>r \<in> set (filter p rows). key r = k"
    using assms(2) by simp
  ultimately show ?thesis
    by (cases "filter p rows"; cases "tl (filter p rows)") auto
qed

lemma getActiveOverride_find:
  assumes "overrides_inv (q_overrides db)"
  shows "getActiveOverrideByTenantAndDimension db now tenant key =
    find (\<lambda>r. active_for tenant key r \<and> \<not> isOverrideExpired r now) (q_overrides db)"
proof -
  have "unique_live override_key override_live (q_overrides db)"
    using assms by (simp add: overrides_inv_def)
  then show ?thesis
    using short_filter [of override_key override_live "q_overrides db"
        "\<lambda>r. active_for tenant key r \<and> \<not> isOverrideExpired r now" "(tenant, key)"]
    by (auto simp: getActiveOverrideByTenantAndDimension_def find_filter_case active_for_def
        override_key_def override_live_def)
qed

lemma getDimension_key: "getDimensionByKey db key = Some d \<Longrightarrow> d_dimensionKey d = key"
  by (auto simp: getDimensionByKey_def find_Some_iff)

lemma normalize_idem: "t \<in> set [''hard'', ''soft''] \<Longrightarrow> normalizeQuotaType (Some t) = t"
  by (auto simp: normalizeQuotaType_def)

lemma entry_type: "qt_type (normalizeQuotaTypeEntry e) \<in> set [''hard'', ''soft'']"
  and entry_grace: "0 \<le> qt_graceMargin (normalizeQuotaTypeEntry e)"
  by (auto simp: normalizeQuotaTypeEntry_def natInteger_def split: option.split json.split)

lemma live_override_ok:
  assumes "overrides_inv rows" and "find p rows = Some r"
  shows "ov_quotaType r \<in> set [''hard'', ''soft'']" "0 \<le> ov_graceMargin r"
proof -
  have "override_ok r"
    using assms by (auto simp: find_Some_iff intro: overrides_inv_ok)
  then show "ov_quotaType r \<in> set [''hard'', ''soft'']" "0 \<le> ov_graceMargin r"
    by (auto simp: override_ok_def override_constraints_def split: if_splits)
qed

text \<open>\<open>resolveEffectiveLimit\<close> implements the precedence.\<close>

lemma resolve_governing:
  assumes "overrides_inv (q_overrides db)" and d: "getDimensionByKey db key = Some d"
  shows "\<exists>el. resolveEffectiveLimit db now tenant key = Inr el
    \<and> governing db now tenant d = (el_limit el, el_quotaType el, el_graceMargin el, el_source el)
    \<and> el_ceiling el = effectiveCeiling (el_limit el) (el_quotaType el) (el_graceMargin el)
    \<and> 0 \<le> el_graceMargin el \<and> normalizeQuotaType (Some (el_quotaType el)) = el_quotaType el"
proof (cases "find (\<lambda>r. active_for tenant key r \<and> \<not> isOverrideExpired r now) (q_overrides db)")
  case (Some r)
  with live_override_ok [OF assms(1) Some] show ?thesis
    by (auto simp: resolveEffectiveLimit_def d getActiveOverride_find [OF assms(1)] governing_def
        getDimension_key [OF d] normalizeEffectiveLimit_def normalizeQuotaType_def)
next
  case None
  have "normalizeQuotaTypeEntry None = \<lparr>qt_type = ''hard'', qt_graceMargin = 0\<rparr>"
    by (simp add: normalizeQuotaTypeEntry_def)
  with None show ?thesis
    using normalize_idem [OF entry_type] entry_grace
    by (auto simp: resolveEffectiveLimit_def d getActiveOverride_find [OF assms(1)] governing_def
        getDimension_key [OF d] normalizeEffectiveLimit_def Let_def normalizeQuotaType_def split: option.splits)
qed

text \<open>\<open>resolveUnifiedEntitlements\<close> reports the same limits, where it reports at all.\<close>

lemma unified_value_governing:
  "unified_value db now tenant d = Inr v \<Longrightarrow> fst (governing db now tenant d) = v"
  by (auto simp: unified_value_def governing_def Let_def split: option.splits if_splits)

lemma unified_limits_lookup:
  "unified_limits db now tenant ds = Inr limits \<Longrightarrow> find (\<lambda>d. d_dimensionKey d = key) ds = Some d
   \<Longrightarrow> \<exists>v. map_of limits key = Some v \<and> unified_value db now tenant d = Inr v"
  by (induction ds arbitrary: limits) (auto simp: bindE_eq_Inr split: if_splits)

section \<open>Allocations\<close>

definition allocated :: "string \<Rightarrow> string \<Rightarrow> sub_quota list \<Rightarrow> int" where
  "allocated tenant key rows =
     sum_list (map sq_allocated (filter (\<lambda>s. sq_tenantId s = tenant \<and> sq_dimensionKey s = key) rows))"

definition allocated_elsewhere :: "string \<Rightarrow> string \<Rightarrow> string \<Rightarrow> sub_quota list \<Rightarrow> int" where
  "allocated_elsewhere tenant key ws rows =
     sum_list (map sq_allocated
       (filter (\<lambda>s. sq_tenantId s = tenant \<and> sq_dimensionKey s = key \<and> sq_workspaceId s \<noteq> ws) rows))"

lemma allocated_none:
  "(\<And>s. s \<in> set rows \<Longrightarrow> \<not> is_sub tenant ws key s) \<Longrightarrow> allocated tenant key rows = allocated_elsewhere tenant key ws rows"
  unfolding allocated_def allocated_elsewhere_def
  by (rule arg_cong [where f = "\<lambda>xs. sum_list (map sq_allocated xs)"], rule filter_cong) (auto simp: is_sub_def)

lemma allocated_update:
  assumes "\<And>s. sq_tenantId (f s) = sq_tenantId s" "\<And>s. sq_dimensionKey (f s) = sq_dimensionKey s"
    "\<And>s. sq_allocated (f s) = n"
  shows "unique_live sub_key (\<lambda>_. True) rows \<Longrightarrow> \<exists>s \<in> set rows. is_sub tenant ws key s
    \<Longrightarrow> allocated tenant key (updWhere (is_sub tenant ws key) f rows) = allocated_elsewhere tenant key ws rows + n"
proof (induction rows)
  case Nil
  then show ?case by simp
next
  case (Cons x rows)
  have uniq: "unique_live sub_key (\<lambda>_. True) rows" "\<forall>r \<in> set rows. sub_key r \<noteq> sub_key x"
    using Cons.prems(1) by (simp_all add: unique_live_Cons)
  show ?case
  proof (cases "is_sub tenant ws key x")
    case True
    then have none: "\<And>s. s \<in> set rows \<Longrightarrow> \<not> is_sub tenant ws key s"
      using uniq(2) by (auto simp: is_sub_key)
    with True allocated_none [OF none] assms show ?thesis
      by (simp add: updWhere_none) (simp add: allocated_def allocated_elsewhere_def is_sub_def)
  next
    case False
    with Cons.prems(2) Cons.IH [OF uniq(1)] show ?thesis
      by (auto simp: allocated_def allocated_elsewhere_def is_sub_def)
  qed
qed

lemma upsert_total:
  assumes "subs_inv (q_subs db)"
    and u: "upsertSubQuota uid now tenant ws key alloc actor limit db = Inr (s, isNew, prev, db')"
  shows "allocated tenant key (q_subs db') = getTotalAllocatedExcluding tenant key ws db + alloc
    \<and> s \<in> set (q_subs db') \<and> is_sub tenant ws key s \<and> sq_allocated s = alloc"
proof (cases "find (is_sub tenant ws key) (q_subs db)")
  case None
  then have none: "\<And>s. s \<in> set (q_subs db) \<Longrightarrow> \<not> is_sub tenant ws key s"
    by (auto simp: find_None_iff)
  have "q_subs db' = q_subs db @ [s]" "is_sub tenant ws key s" "sq_allocated s = alloc"
    using None u by (auto simp: upsertSubQuota_def Let_def is_sub_def split: if_splits)
  with allocated_none [OF none] show ?thesis
    by (auto simp: getTotalAllocatedExcluding_def allocated_def allocated_elsewhere_def is_sub_def)
next
  case (Some x)
  let ?f = "\<lambda>x. x\<lparr>sq_allocated := alloc, sq_updatedBy := actor, sq_updatedAt := now\<rparr>"
  have x: "x \<in> set (q_subs db)" "is_sub tenant ws key x"
    using Some by (auto simp: find_Some_iff)
  have db': "q_subs db' = updWhere (is_sub tenant ws key) ?f (q_subs db)" and s: "s = ?f x"
    using Some u by (auto simp: upsertSubQuota_def Let_def split: if_splits)
  have "s \<in> set (q_subs db')" "is_sub tenant ws key s" "sq_allocated s = alloc"
    using x by (auto simp: db' s set_updWhere image_iff is_sub_def)
  moreover have "allocated tenant key (q_subs db') = allocated_elsewhere tenant key ws (q_subs db) + alloc"
    unfolding db' using assms(1) x by (intro allocated_update) (auto simp: subs_inv_def)
  ultimately show ?thesis
    by (simp add: getTotalAllocatedExcluding_def allocated_elsewhere_def)
qed

lemma upsert_bound:
  "upsertSubQuota uid now tenant ws key alloc actor limit db = Inr r \<Longrightarrow> limit \<noteq> - 1
   \<Longrightarrow> of_int (getTotalAllocatedExcluding tenant key ws db + alloc) \<le> limit"
  by (auto simp: upsertSubQuota_def split: if_splits)

lemma sub_quota_set_call:
  assumes "sub_quota_set env between uid caller tenant ws key v seen = (Inr (s, chg), db')"
  shows "\<exists>alloc limits limit actor isNew prev db1. validateSubQuotaValue v = Inr alloc
    \<and> resolveUnifiedEntitlements seen (qe_now env) tenant = Inr limits \<and> map_of limits key = Some limit
    \<and> upsertSubQuota uid (qe_now env) tenant ws key alloc actor limit (between seen) = Inr (s, isNew, prev, db1)
    \<and> tables db' = tables db1"
  using assms unfolding sub_quota_set_def
  by (auto simp: bindE_eq_Inr split: sum.splits option.splits if_splits) blast+


section \<open>Properties\<close>


text \<open>C37. Enforcement and the entitlement report agree: where the report (the source of the bound on
  the allocations of workspaces) succeeds, its limit for a dimension is the one enforcement uses.\<close>

theorem enforcement_agrees_with_entitlements:
  assumes "quota_inv db" and "getDimensionByKey db key = Some d"
    and "resolveUnifiedEntitlements db now tenant = Inr limits"
  shows "\<exists>el. resolveEffectiveLimit db now tenant key = Inr el \<and> map_of limits key = Some (el_limit el)"
proof -
  obtain el where el: "resolveEffectiveLimit db now tenant key = Inr el"
    and gov: "fst (governing db now tenant d) = el_limit el"
    using resolve_governing [OF quota_invD(1) [OF assms(1)] assms(2)] by fastforce
  obtain v where "map_of limits key = Some v" and "unified_value db now tenant d = Inr v"
    using unified_limits_lookup [of db now tenant "q_dims db" limits key d] assms(2,3)
    by (auto simp: resolveUnifiedEntitlements_def getDimensionByKey_def)
  with el gov unified_value_governing show ?thesis by fastforce
qed

text \<open>C38. An accepted allocation stays within the tenant's limit: after \<open>workspace-sub-quota-set\<close> the
  allocations of all the tenant's workspaces for the dimension sum to at most the limit that was
  resolved for it, whatever the other clients did between the resolution and the transaction; the
  stored row holds the requested value.\<close>

theorem sub_quota_set_within_limit:
  assumes "subs_inv (q_subs (between seen))"
    and "sub_quota_set env between uid caller tenant ws key v seen = (Inr (s, chg), db')"
    and "resolveUnifiedEntitlements seen (qe_now env) tenant = Inr limits" and "map_of limits key = Some limit"
    and "limit \<noteq> - 1"
  shows "of_int (allocated tenant key (q_subs db')) \<le> limit
    \<and> s \<in> set (q_subs db') \<and> is_sub tenant ws key s \<and> validateSubQuotaValue v = Inr (sq_allocated s)"
proof -
  obtain alloc actor isNew prev db1 where v: "validateSubQuotaValue v = Inr alloc"
    and u: "upsertSubQuota uid (qe_now env) tenant ws key alloc actor limit (between seen) = Inr (s, isNew, prev, db1)"
    and db': "tables db' = tables db1"
    using sub_quota_set_call [OF assms(2)] assms(3,4) by fastforce
  from upsert_total [OF assms(1) u] upsert_bound [OF u assms(5)] v tables_eqD(2) [OF db']
  show ?thesis by simp
qed

text \<open>C39. What every run of the actions of any clients keeps, from tables that satisfy the invariant: at
  most one active override per tenant and dimension, none below \<open>-1\<close> and no negative margin; one
  sub-quota per workspace and dimension, none negative; at most one current plan per tenant.\<close>

theorem quota_runs_keep_unique:
  assumes "quota_step\<^sup>*\<^sup>* db db'" and "quota_inv db"
  shows "(\<forall>r \<in> set (q_overrides db'). \<forall>r' \<in> set (q_overrides db').
            active_for tenant key r \<and> active_for tenant key r' \<longrightarrow> r = r')
    \<and> (\<forall>r \<in> set (q_overrides db'). - 1 \<le> ov_value r \<and> 0 \<le> ov_graceMargin r)
    \<and> (\<forall>s \<in> set (q_subs db'). \<forall>s' \<in> set (q_subs db'). is_sub tenant ws key s \<and> is_sub tenant ws key s' \<longrightarrow> s = s')
    \<and> (\<forall>s \<in> set (q_subs db'). 0 \<le> sq_allocated s)
    \<and> (\<forall>a \<in> set (q_assignments db'). \<forall>a' \<in> set (q_assignments db').
          assignment_isCurrent a \<and> assignment_isCurrent a' \<and> as_tenantId a = as_tenantId a' \<longrightarrow> a = a')"
proof -
  have inv: "quota_inv db'"
    using quota_steps_ok [OF assms] by (simp add: action_ok_def)
  have ov: "unique_live override_key override_live (q_overrides db')" "\<forall>r \<in> set (q_overrides db'). override_ok r"
    using quota_invD(1) [OF inv] by (simp_all add: overrides_inv_def)
  have sq: "unique_live sub_key (\<lambda>_. True) (q_subs db')" "\<forall>s \<in> set (q_subs db'). 0 \<le> sq_allocated s"
    using quota_invD(2) [OF inv] by (simp_all add: subs_inv_def)
  have as: "unique_live as_tenantId assignment_isCurrent (q_assignments db')"
    using quota_invD(4) [OF inv] by (simp add: assignments_inv_def)
  show ?thesis
  proof (intro conjI ballI impI)
    fix r assume "r \<in> set (q_overrides db')"
    then have "override_constraints r = None" using ov(2) by (simp add: override_ok_def)
    then show "- 1 \<le> ov_value r" "0 \<le> ov_graceMargin r"
      by (auto simp: override_constraints_def split: if_splits)
  next
    fix r r' assume "r \<in> set (q_overrides db')" "r' \<in> set (q_overrides db')"
      "active_for tenant key r \<and> active_for tenant key r'"
    then show "r = r'"
      by (intro unique_live_same [OF ov(1)]) (auto simp: active_for_def override_key_def override_live_def)
  next
    fix s s' assume "s \<in> set (q_subs db')" "s' \<in> set (q_subs db')" "is_sub tenant ws key s \<and> is_sub tenant ws key s'"
    then show "s = s'" by (intro unique_live_same [OF sq(1)]) (auto simp: is_sub_key)
  next
    fix a a' assume "a \<in> set (q_assignments db')" "a' \<in> set (q_assignments db')"
      "assignment_isCurrent a \<and> assignment_isCurrent a' \<and> as_tenantId a = as_tenantId a'"
    then show "a = a'" by (intro unique_live_same [OF as]) auto
  qed (use sq(2) in simp)
qed

text \<open>C40. Along every run a plan that has been assigned to a tenant is never deleted, keeps its slug, and
  its status only moves forward through draft, active, deprecated and archived.\<close>

theorem assigned_plan_only_moves_forward:
  assumes "quota_step\<^sup>*\<^sup>* db db'" and "quota_inv db" and "a \<in> set (q_assignments db)"
  shows "\<exists>p p'. findPlan db (as_planId a) = Some p \<and> findPlan db' (as_planId a) = Some p' \<and> p_slug p' = p_slug p
    \<and> canTransitionPlan\<^sup>*\<^sup>* (p_status p) (p_status p')"
proof -
  have "as_planId a \<in> p_id ` set (q_plans db)"
    using quota_invD(4) [OF assms(2)] assms(3) by (auto simp: assignments_inv_def)
  then obtain p where p: "findPlan db (as_planId a) = Some p"
    by (cases "findPlan db (as_planId a)") (auto simp: findPlan_None)
  with quota_steps_ok [OF assms(1,2)] assms(3) show ?thesis
    by (auto simp: action_ok_def plan_progress_def)
qed

section \<open>The properties at concrete states\<close>

definition demo_dim :: quota_dimension where
  "demo_dim = \<lparr>d_dimensionKey = ''api_calls'', d_displayLabel = ''API calls'', d_unit = ''count'', d_defaultValue = 10,
     d_description = None\<rparr>"

definition demo_override :: override where
  "demo_override = \<lparr>ov_id = ''o1'', ov_tenantId = ''acme'', ov_dimensionKey = ''api_calls'', ov_value = 50,
     ov_quotaType = ''soft'', ov_graceMargin = 5, ov_justification = ''launch'', ov_expiresAt = None,
     ov_status = ''active'', ov_createdBy = ''root'', ov_createdAt = 0, ov_supersededBy = None, ov_revokedBy = None,
     ov_revokedAt = None, ov_revocationJustification = None, ov_modifiedBy = None, ov_modifiedAt = None,
     ov_modificationJustification = None\<rparr>"

definition demo_plan :: plan where
  "demo_plan = \<lparr>p_id = ''p1'', p_slug = ''basic'', p_displayName = ''Basic'', p_description = None, p_status = ''active'',
     p_capabilities = [], p_quotaDimensions = [(''api_calls'', 100)], p_quotaTypeConfig = [], p_createdBy = Some ''root'',
     p_updatedBy = Some ''root''\<rparr>"

definition demo_assignment :: assignment where
  "demo_assignment = \<lparr>as_id = ''a1'', as_tenantId = ''acme'', as_planId = ''p1'', as_assignedBy = ''root'',
     as_effectiveFrom = 0, as_supersededAt = None\<rparr>"

definition demo_sub :: sub_quota where
  "demo_sub = \<lparr>sq_id = ''s1'', sq_tenantId = ''acme'', sq_workspaceId = ''w1'', sq_dimensionKey = ''api_calls'',
     sq_allocated = 30, sq_createdBy = ''root'', sq_updatedBy = ''root'', sq_createdAt = 0, sq_updatedAt = 0\<rparr>"

definition demo_db :: quota_db where
  "demo_db = \<lparr>q_dims = [demo_dim], q_overrides = [demo_override], q_subs = [demo_sub], q_plans = [demo_plan],
     q_assignments = [demo_assignment], q_log = [], q_audit = [], q_events = []\<rparr>"

definition demo_env :: quota_env where
  "demo_env = \<lparr>qe_now = 7, qe_parseDate = (\<lambda>_. None), qe_maxJustification = 1000\<rparr>"

definition demo_root :: "actor option" where
  "demo_root = Some \<lparr>a_id = ''root'', a_type = ''superadmin'', a_tenantId = None, a_workspaceId = None\<rparr>"

lemma demo_inv: "quota_inv demo_db"
  by (intro quota_invI) code_simp+


lemma demo_dim_found: "getDimensionByKey demo_db ''api_calls'' = Some demo_dim"
  by code_simp



lemma enforcement_agrees_with_entitlements_witness:
  "\<exists>el. resolveEffectiveLimit demo_db 7 ''acme'' ''api_calls'' = Inr el
     \<and> map_of [(''api_calls'', 50 :: rat)] ''api_calls'' = Some (el_limit el)"
proof -
  have "resolveUnifiedEntitlements demo_db 7 ''acme'' = Inr [(''api_calls'', 50)]"
    by code_simp
  from enforcement_agrees_with_entitlements [OF demo_inv demo_dim_found this]
  show ?thesis .
qed

definition isOk :: "'a result \<Rightarrow> bool" where
  "isOk r = (case r of Inl _ \<Rightarrow> False | Inr _ \<Rightarrow> True)"

lemma isOk_obtain: "isOk r \<Longrightarrow> \<exists>x. r = Inr x"
  by (auto simp: isOk_def split: sum.splits)

lemma sub_quota_set_within_limit_witness:
  "\<exists>s chg db'. sub_quota_set demo_env (\<lambda>d. d) ''s2'' demo_root ''acme'' ''w2'' ''api_calls'' (JNum (jsInt 20)) demo_db
       = (Inr (s, chg), db') \<and> of_int (allocated ''acme'' ''api_calls'' (q_subs db')) \<le> (50 :: rat)"
proof -
  have "isOk (fst (sub_quota_set demo_env (\<lambda>d. d) ''s2'' demo_root ''acme'' ''w2'' ''api_calls'' (JNum (jsInt 20)) demo_db))"
    by code_simp
  then obtain s chg db' where r: "sub_quota_set demo_env (\<lambda>d. d) ''s2'' demo_root ''acme'' ''w2'' ''api_calls''
      (JNum (jsInt 20)) demo_db = (Inr (s, chg), db')"
    by (metis isOk_obtain prod.collapse)
  have "resolveUnifiedEntitlements demo_db (qe_now demo_env) ''acme'' = Inr [(''api_calls'', 50)]"
    by code_simp
  from sub_quota_set_within_limit [OF _ r this, of 50] quota_invD(2) [OF demo_inv] r
  show ?thesis by auto
qed

definition demo_new :: override_request where
  "demo_new = \<lparr>or_tenantId = ''acme'', or_dimensionKey = Some ''api_calls'', or_value = JNum (jsInt 70), or_quotaType = None,
     or_graceMargin = JUndefined, or_justification = JStr ''sale'', or_expiresAt = None\<rparr>"

lemma quota_runs_keep_unique_witness:
  "\<exists>r db'. override_create demo_env ''o2'' demo_root demo_new demo_db = Inr (r, db')
     \<and> (\<forall>r \<in> set (q_overrides db'). \<forall>r' \<in> set (q_overrides db').
          active_for ''acme'' ''api_calls'' r \<and> active_for ''acme'' ''api_calls'' r' \<longrightarrow> r = r')"
proof -
  have "isOk (override_create demo_env ''o2'' demo_root demo_new demo_db)"
    by code_simp
  then obtain r db' where c: "override_create demo_env ''o2'' demo_root demo_new demo_db = Inr (r, db')"
    by (metis isOk_obtain surj_pair)
  have "quota_step\<^sup>*\<^sup>* demo_db db'"
    by (intro r_into_rtranclp quota_step.create [OF c]) (simp add: demo_db_def demo_override_def)
  from quota_runs_keep_unique [OF this demo_inv, of "''acme''" "''api_calls''"] c show ?thesis by blast
qed

lemma assigned_plan_only_moves_forward_witness:
  "\<exists>lr db' p p'. plan_lifecycle (\<lambda>d. d) demo_root ''p1'' ''deprecated'' demo_db = Inr (lr, db')
     \<and> findPlan demo_db ''p1'' = Some p \<and> findPlan db' ''p1'' = Some p' \<and> p_slug p' = p_slug p
     \<and> canTransitionPlan\<^sup>*\<^sup>* (p_status p) (p_status p')"
proof -
  have "isOk (plan_lifecycle (\<lambda>d. d) demo_root ''p1'' ''deprecated'' demo_db)"
    by code_simp
  then obtain lr db' where c: "plan_lifecycle (\<lambda>d. d) demo_root ''p1'' ''deprecated'' demo_db = Inr (lr, db')"
    by (metis isOk_obtain surj_pair)
  have "quota_step\<^sup>*\<^sup>* demo_db db'"
    by (intro r_into_rtranclp quota_step.plan_move [OF c]) simp
  from assigned_plan_only_moves_forward [OF this demo_inv, of demo_assignment] c show ?thesis
    by (auto simp: demo_db_def demo_assignment_def)
qed

section \<open>Archiving races with assigning\<close>

text \<open>The test \<open>plan.status === 'active'\<close> of \<open>plan-assign\<close> and the test for active assignments of the
  lifecycle action are not part of the transactions that follow them: an assignment whose test came
  before the plan was deprecated and archived is still inserted. The tenant's current plan is then
  archived, which the two tests together are there to exclude.\<close>

definition race_db :: quota_db where
  "race_db = demo_db\<lparr>q_assignments := []\<rparr>"

definition race_run :: "quota_db option" where
  "race_run =
     (case plan_lifecycle (\<lambda>d. d) demo_root ''p1'' ''deprecated'' race_db of
        Inl _ \<Rightarrow> None
      | Inr (_, d1) \<Rightarrow>
          (case plan_lifecycle (\<lambda>d. d) demo_root ''p1'' ''archived'' d1 of
             Inl _ \<Rightarrow> None
           | Inr (_, d2) \<Rightarrow>
               (case plan_assign demo_env (\<lambda>_. d2) (\<lambda>_. True) (\<lambda>_. None) ''a2'' demo_root ''acme'' ''p1'' ''root'' race_db of
                  Inl _ \<Rightarrow> None
                | Inr (_, d3) \<Rightarrow> Some d3)))"

lemma race_run_steps:
  assumes "race_run = Some db'"
  shows "quota_step\<^sup>*\<^sup>* race_db db'"
proof -
  obtain r1 d1 r2 d2 r3 where
    d1: "plan_lifecycle (\<lambda>d. d) demo_root ''p1'' ''deprecated'' race_db = Inr (r1, d1)"
    and d2: "plan_lifecycle (\<lambda>d. d) demo_root ''p1'' ''archived'' d1 = Inr (r2, d2)"
    and d3: "plan_assign demo_env (\<lambda>_. d2) (\<lambda>_. True) (\<lambda>_. None) ''a2'' demo_root ''acme'' ''p1'' ''root'' race_db
               = Inr (r3, db')"
    using assms by (auto simp: race_run_def split: sum.splits)
  have "quota_step race_db d1" "quota_step d1 d2" "quota_step d2 db'"
    by (rule quota_step.plan_move [OF d1] quota_step.plan_move [OF d2] quota_step.assign [OF d3]; rule refl)+
  then show ?thesis by (blast intro: rtranclp.rtrancl_into_rtrancl)
qed

lemma archived_plan_can_stay_assigned:
  "\<exists>db' p. quota_step\<^sup>*\<^sup>* race_db db' \<and> currentPlan db' ''acme'' = Some p \<and> p_status p = ''archived''"
proof -
  have "(case race_run of None \<Rightarrow> False
     | Some d \<Rightarrow> (case currentPlan d ''acme'' of None \<Rightarrow> False | Some p \<Rightarrow> p_status p = ''archived''))"
    by code_simp
  then show ?thesis
    using race_run_steps by (auto split: option.splits)
qed

end
