(* ===== verification/Webhook_Address.thy ===== *)
theory Webhook_Address
  imports JS_Prelude "HOL-Library.Word"
begin

text \<open>
  The address filter of the webhook engine, \<open>packages/webhook-engine/src/webhook-subscription.mjs\<close>:
  numeric spellings of IPv4 addresses, the blocked ranges, IPv6 literals with an embedded IPv4
  address, and \<open>net.isIP\<close> of the Node library.

  The bit operations on numbers are those of \<open>32 word\<close>. \<open>Number.isFinite\<close> of a part is left out: a
  number too long for a double is above every bound the code tests next.
\<close>

unbundle bit_operations_syntax

section \<open>Numeric IPv4 (normalizeNumericIPv4)\<close>

definition is_octal :: "char \<Rightarrow> bool" where
  "is_octal c \<longleftrightarrow> is_digit_in 8 c"

text \<open>One part: hexadecimal, octal (\<open>parseInt\<close> stops at the first 8 or 9), decimal, or not a number.\<close>

definition part_value :: "string \<Rightarrow> nat option" where
  "part_value p =
     (if p = [] then None
      else if js_toLowerCase (take 2 p) = ''0x'' \<and> drop 2 p \<noteq> [] \<and> list_all (is_digit_in 16) (drop 2 p)
      then Some (read_digits 16 (drop 2 p) 0)
      else if take 1 p = ''0'' \<and> drop 1 p \<noteq> [] \<and> list_all is_digit p
      then Some (read_digits 8 (takeWhile is_octal p) 0)
      else if list_all is_digit p then Some (read_digits 10 p 0)
      else None)"

fun part_values :: "string list \<Rightarrow> nat list option" where
  "part_values [] = Some []"
| "part_values (p # ps) =
     (case part_value p of
        None \<Rightarrow> None
      | Some n \<Rightarrow> (case part_values ps of None \<Rightarrow> None | Some ns \<Rightarrow> Some (n # ns)))"

fun assemble :: "nat list \<Rightarrow> 32 word option" where
  "assemble [n] = (if 0xFFFFFFFF < n then None else Some (word_of_nat n))"
| "assemble [a, b] =
     (if 0xFF < a \<or> 0xFFFFFF < b then None else Some (push_bit 24 (word_of_nat a) OR word_of_nat b))"
| "assemble [a, b, c] =
     (if 0xFF < a \<or> 0xFF < b \<or> 0xFFFF < c then None
      else Some (push_bit 24 (word_of_nat a) OR push_bit 16 (word_of_nat b) OR word_of_nat c))"
| "assemble [a, b, c, d] =
     (if list_ex (\<lambda>n. 0xFF < n) [a, b, c, d] then None
      else Some (push_bit 24 (word_of_nat a) OR push_bit 16 (word_of_nat b) OR push_bit 8 (word_of_nat c)
                 OR word_of_nat d))"
| "assemble _ = None"

definition octet :: "nat \<Rightarrow> 32 word \<Rightarrow> nat" where
  "octet k a = unat (drop_bit k a AND 0xFF)"

definition dotted :: "32 word \<Rightarrow> string" where
  "dotted a = js_join ''.'' (map show_nat [octet 24 a, octet 16 a, octet 8 a, octet 0 a])"

definition normalizeNumericIPv4 :: "string \<Rightarrow> string option" where
  "normalizeNumericIPv4 host =
     (let parts = js_split (CHR ''.'') host in
      if 4 < length parts then None
      else case part_values parts of
             None \<Rightarrow> None
           | Some nums \<Rightarrow> map_option dotted (assemble nums))"

section \<open>Blocked ranges (isBlockedIPv4)\<close>

definition js_between :: "int \<Rightarrow> jsnum \<Rightarrow> int \<Rightarrow> bool" where
  "js_between lo x hi \<longleftrightarrow> (case x of Fin r \<Rightarrow> of_int lo \<le> r \<and> r \<le> of_int hi | _ \<Rightarrow> False)"

definition isBlockedIPv4 :: "string \<Rightarrow> bool" where
  "isBlockedIPv4 d =
     (let parts = map js_Number (js_split (CHR ''.'') d);
          a = parts ! 0;
          b = (if 1 < length parts then parts ! 1 else NaN)
      in a = jsInt 0 \<or> a = jsInt 10
         \<or> a = jsInt 100 \<and> js_between 64 b 127
         \<or> a = jsInt 127
         \<or> a = jsInt 169 \<and> b = jsInt 254
         \<or> a = jsInt 172 \<and> js_between 16 b 31
         \<or> a = jsInt 192 \<and> b = jsInt 168
         \<or> a = jsInt 198 \<and> (b = jsInt 18 \<or> b = jsInt 19))"

section \<open>The Node library: net.isIP\<close>

definition is_v4_octet :: "string \<Rightarrow> bool" where
  "is_v4_octet s \<longleftrightarrow>
     s \<noteq> [] \<and> length s \<le> 3 \<and> list_all is_digit s \<and> (take 1 s = ''0'' \<longrightarrow> length s = 1) \<and> read_digits 10 s 0 \<le> 255"

definition is_v4 :: "string \<Rightarrow> bool" where
  "is_v4 s \<longleftrightarrow> (let parts = js_split (CHR ''.'') s in length parts = 4 \<and> list_all is_v4_octet parts)"

definition is_v6_seg :: "string \<Rightarrow> bool" where
  "is_v6_seg s \<longleftrightarrow> s \<noteq> [] \<and> length s \<le> 4 \<and> list_all (is_digit_in 16) s"

text \<open>The number of 16-bit groups a colon-separated piece stands for; its last field may be an IPv4
  address where \<open>v4\<close> allows it.\<close>

definition v6_count :: "bool \<Rightarrow> string \<Rightarrow> nat option" where
  "v6_count v4 s =
     (if s = [] then Some 0
      else let fs = js_split (CHR '':'') s in
        if list_all is_v6_seg fs then Some (length fs)
        else if v4 \<and> list_all is_v6_seg (butlast fs) \<and> is_v4 (last fs) then Some (length fs + 1)
        else None)"

text \<open>\<open>s.split('::')\<close>.\<close>

fun split_colons :: "string \<Rightarrow> string list" where
  "split_colons [] = [[]]"
| "split_colons [c] = [[c]]"
| "split_colons (c # d # s) =
     (if c = CHR '':'' \<and> d = CHR '':'' then [] # split_colons s
      else (case split_colons (d # s) of [] \<Rightarrow> [[c]] | y # ys \<Rightarrow> (c # y) # ys))"

definition is_v6_addr :: "string \<Rightarrow> bool" where
  "is_v6_addr s \<longleftrightarrow>
     (case split_colons s of
        [x] \<Rightarrow> v6_count True x = Some 8
      | [l, r] \<Rightarrow>
          (case (v6_count False l, v6_count True r) of (Some m, Some n) \<Rightarrow> m + n \<le> 7 | _ \<Rightarrow> False)
      | _ \<Rightarrow> False)"

definition is_zone_char :: "char \<Rightarrow> bool" where
  "is_zone_char c \<longleftrightarrow> is_digit c \<or> is_lower c \<or> is_upper c \<or> c \<in> {CHR ''-'', CHR ''.'', CHR '':''}"

definition is_v6 :: "string \<Rightarrow> bool" where
  "is_v6 s \<longleftrightarrow>
     (let addr = takeWhile (\<lambda>c. c \<noteq> CHR ''%'') s; zone = dropWhile (\<lambda>c. c \<noteq> CHR ''%'') s
      in is_v6_addr addr \<and> (zone = [] \<or> (tl zone \<noteq> [] \<and> list_all is_zone_char (tl zone))))"

definition net_isIP :: "string \<Rightarrow> nat" where
  "net_isIP s = (if is_v4 s then 4 else if is_v6 s then 6 else 0)"

section \<open>IPv6 literals (expandIPv6ToBytes, isBlockedIp)\<close>

definition hex_char :: "nat \<Rightarrow> char" where
  "hex_char d = ''0123456789abcdef'' ! d"

fun show_hex :: "nat \<Rightarrow> string" where
  "show_hex n = (if n < 16 then [hex_char n] else show_hex (n div 16) @ [hex_char (n mod 16)])"

declare show_hex.simps [simp del]

definition hextet :: "string \<Rightarrow> nat option" where
  "hextet g =
     (if g \<noteq> [] \<and> length g \<le> 4 \<and> list_all (\<lambda>c. is_digit_in 16 c \<and> \<not> is_upper c) g
      then Some (read_digits 16 g 0) else None)"

definition toGroups :: "string \<Rightarrow> nat option list" where
  "toGroups s = (if s = [] then [] else map hextet (js_split (CHR '':'') s))"

text \<open>A trailing dotted quad becomes two groups; \<open>None\<close> when it is malformed.\<close>

definition fold_quad :: "string \<Rightarrow> string option" where
  "fold_quad h =
     (let tail = rev (takeWhile (\<lambda>c. c \<noteq> CHR '':'') (rev h));
          front = (if CHR '':'' \<in> set h then rev (tl (dropWhile (\<lambda>c. c \<noteq> CHR '':'') (rev h))) else butlast h);
          quad = js_split (CHR ''.'') tail
      in if CHR ''.'' \<notin> set tail then Some h
         else if length quad \<noteq> 4 \<or> \<not> list_all (\<lambda>p. p \<noteq> [] \<and> list_all is_digit p \<and> read_digits 10 p 0 \<le> 255) quad
         then None
         else let n = map (\<lambda>p. read_digits 10 p 0) quad
              in Some (front @ '':'' @ show_hex (push_bit 8 (n ! 0) OR n ! 1)
                       @ '':'' @ show_hex (push_bit 8 (n ! 2) OR n ! 3)))"

definition groups_of :: "string \<Rightarrow> nat option list option" where
  "groups_of h =
     (case split_colons h of
        [x] \<Rightarrow> Some (toGroups x)
      | [l, r] \<Rightarrow>
          (if 8 < length (toGroups l) + length (toGroups r) then None
           else Some (toGroups l @ replicate (8 - (length (toGroups l) + length (toGroups r))) (Some 0) @ toGroups r))
      | _ \<Rightarrow> None)"

definition expandIPv6ToBytes :: "string \<Rightarrow> nat list option" where
  "expandIPv6ToBytes h =
     (case fold_quad h of
        None \<Rightarrow> None
      | Some s \<Rightarrow>
          (case groups_of s of
             None \<Rightarrow> None
           | Some gs \<Rightarrow>
               if length gs \<noteq> 8 \<or> None \<in> set gs then None
               else Some (concat (map (\<lambda>g. [drop_bit 8 g AND 0xFF, g AND 0xFF]) (map the gs)))))"

definition NAT64_PREFIX :: "nat list" where
  "NAT64_PREFIX = [0x00, 0x64, 0xff, 0x9b, 0, 0, 0, 0, 0, 0, 0, 0]"

definition MAPPED_PREFIX :: "nat list" where
  "MAPPED_PREFIX = replicate 10 0 @ [0xff, 0xff]"

text \<open>The IPv4 address a mapped or NAT64 address carries.\<close>

definition embeddedIPv4 :: "string \<Rightarrow> string option" where
  "embeddedIPv4 h =
     (case expandIPv6ToBytes h of
        None \<Rightarrow> None
      | Some bytes \<Rightarrow>
          if take 12 bytes = MAPPED_PREFIX \<or> take 12 bytes = NAT64_PREFIX
          then Some (js_join ''.'' (map show_nat (drop 12 bytes))) else None)"

definition isBlockedIp :: "string \<Rightarrow> bool" where
  "isBlockedIp ip =
     (if net_isIP ip = 4 then isBlockedIPv4 ip
      else if net_isIP ip = 6 then
        (let h = js_toLowerCase ip in
         if h = ''::'' \<or> h = ''::0'' \<or> h = ''0:0:0:0:0:0:0:0'' \<or> h = ''::1'' then True
         else case embeddedIPv4 h of
                Some d \<Rightarrow> isBlockedIPv4 d
              | None \<Rightarrow>
                  js_startsWith h ''fc'' \<or> js_startsWith h ''fd'' \<or> js_startsWith h ''fe8'' \<or> js_startsWith h ''fe9''
                  \<or> js_startsWith h ''fea'' \<or> js_startsWith h ''feb'')
      else False)"

section \<open>Hosts of URLs (isPrivateHostname)\<close>

text \<open>\<open>replace(/^\[|\]$/g, '')\<close>.\<close>

definition strip_brackets :: "string \<Rightarrow> string" where
  "strip_brackets s =
     (let t = (if take 1 s = ''['' then drop 1 s else s)
      in if t \<noteq> [] \<and> last t = CHR '']'' then butlast t else t)"

definition isPrivateHostname :: "string \<Rightarrow> bool" where
  "isPrivateHostname hostname =
     (let host = strip_brackets (js_toLowerCase hostname) in
      if host = ''localhost'' then True
      else case normalizeNumericIPv4 host of
             Some canonical \<Rightarrow> isBlockedIPv4 canonical
           | None \<Rightarrow> if net_isIP host = 6 then isBlockedIp host else False)"

end
