(* ===== verification/Webhook_Model.thy ===== *)
theory Webhook_Model
  imports JS_Json Lifecycle Webhook_Address
begin

text \<open>
  The models of the webhook engine, \<open>packages/webhook-engine/src\<close>: event catalogue, retry policy,
  quotas, subscriptions with their validation and status machine, deliveries and attempts, payload
  envelopes, signing secrets and audit events.

  \<^item> \<open>new URL\<close>, the DNS resolver, HMAC and AES-GCM are functions that a record passes in; their answers
    are arbitrary, and a resolver may answer differently each time it is asked.
  \<^item> Identifiers from \<open>randomUUID\<close> and the clock are arguments.
\<close>

section \<open>Errors\<close>

definition codedError :: "string \<Rightarrow> string \<Rightarrow> js_error" where
  "codedError code msg = JsError (Some code) None msg"

definition typeError :: js_error where
  "typeError = JsError None None ''TypeError''"

definition rangeError :: js_error where
  "rangeError = JsError None None ''RangeError''"

section \<open>Event catalogue\<close>

definition EVENT_CATALOGUE :: "(string \<times> string) list" where
  "EVENT_CATALOGUE =
     [(''document.created'', ''A new document was created in the workspace.''),
      (''document.updated'', ''An existing document was updated.''),
      (''document.deleted'', ''A document was soft-deleted.''),
      (''user.signed_up'', ''A new user registered in the workspace.''),
      (''function.completed'', ''A serverless function invocation completed.''),
      (''storage.object.created'', ''An object was uploaded to workspace storage.'')]"

definition isValidEventType :: "string \<Rightarrow> bool" where
  "isValidEventType i \<longleftrightarrow> i \<in> fst ` set EVENT_CATALOGUE"

section \<open>Retry policy\<close>

definition js_leq :: "jsnum \<Rightarrow> jsnum \<Rightarrow> bool" where
  "js_leq a b \<longleftrightarrow> js_less a b \<or> (a = b \<and> a \<noteq> NaN)"

fun js_min :: "jsnum \<Rightarrow> jsnum \<Rightarrow> jsnum" where
  "js_min NaN _ = NaN"
| "js_min _ NaN = NaN"
| "js_min a b = (if js_less b a then b else a)"

text \<open>Multiplication by a non-negative finite factor, and \<open>Math.floor\<close>.\<close>

fun js_scale :: "rat \<Rightarrow> jsnum \<Rightarrow> jsnum" where
  "js_scale k (Fin a) = Fin (a * k)"
| "js_scale k (Infty p) = (if k = 0 then NaN else Infty p)"
| "js_scale k NaN = NaN"

fun js_floor :: "jsnum \<Rightarrow> jsnum" where
  "js_floor (Fin a) = Fin (of_int (floor a))"
| "js_floor x = x"

definition computeNextDelay :: "int \<Rightarrow> jsnum \<Rightarrow> jsnum \<Rightarrow> rat \<Rightarrow> jsnum option" where
  "computeNextDelay attemptNum baseMs maxMs random =
     (if attemptNum \<le> 0 then None
      else
        (let exponential = js_min maxMs (js_scale (2 ^ nat (attemptNum - 1)) baseMs);
             jitter = js_floor (js_scale random (js_scale (2 / 10) exponential))
         in Some (js_min maxMs (js_add exponential jitter))))"

definition hasRetriesRemaining :: "int \<Rightarrow> jsnum \<Rightarrow> bool" where
  "hasRetriesRemaining attemptCount maxAttempts = js_less (jsInt attemptCount) maxAttempts"

text \<open>\<open>new Date(n).toISOString()\<close>: the fraction is dropped, and a value out of range throws.\<close>

fun toDate :: "jsnum \<Rightarrow> time result" where
  "toDate (Fin r) =
     (if 8640000000000000 < \<bar>r\<bar> then Inl rangeError
      else Inr (if 0 \<le> r then floor r else - floor (- r)))"
| "toDate _ = Inl rangeError"

record retry_policy =
  rp_baseMs :: jsnum
  rp_maxMs :: jsnum
  rp_maxAttempts :: jsnum

definition computeNextAttemptAt :: "int \<Rightarrow> retry_policy \<Rightarrow> rat \<Rightarrow> time \<Rightarrow> time option result" where
  "computeNextAttemptAt attemptNum config random now =
     (case computeNextDelay attemptNum (rp_baseMs config) (rp_maxMs config) random of
        None \<Rightarrow> Inr None
      | Some delay \<Rightarrow> bindE (toDate (js_add (jsInt now) delay)) (\<lambda>t. Inr (Some t)))"

definition numberEnv :: "(string \<Rightarrow> string option) \<Rightarrow> string \<Rightarrow> int \<Rightarrow> jsnum" where
  "numberEnv penv name d = (case penv name of None \<Rightarrow> jsInt d | Some v \<Rightarrow> js_Number v)"

definition buildRetryPolicy :: "(string \<Rightarrow> string option) \<Rightarrow> retry_policy" where
  "buildRetryPolicy penv =
     \<lparr>rp_baseMs = numberEnv penv ''WEBHOOK_BASE_BACKOFF_MS'' 1000,
      rp_maxMs = numberEnv penv ''WEBHOOK_MAX_BACKOFF_MS'' 300000,
      rp_maxAttempts = numberEnv penv ''WEBHOOK_MAX_RETRY_ATTEMPTS'' 5\<rparr>"

section \<open>Quotas\<close>

definition checkSubscriptionQuota :: "int \<Rightarrow> jsnum \<Rightarrow> bool" where
  "checkSubscriptionQuota currentCount limit = js_less (jsInt currentCount) limit"

definition checkDeliveryRateLimit :: "int \<Rightarrow> jsnum \<Rightarrow> bool" where
  "checkDeliveryRateLimit n limitPerMinute = js_leq (jsInt n) limitPerMinute"

text \<open>The counters of one process, used when the store offers none.\<close>

type_synonym counters = "string \<Rightarrow> (int \<times> time) option"

definition incrementLocalCounter :: "string \<Rightarrow> time \<Rightarrow> counters \<Rightarrow> int \<times> counters" where
  "incrementLocalCounter workspaceId now cs =
     (let c0 = coalesce (cs workspaceId) (0, now + 60000);
          c1 = (if snd c0 < now then (0, now + 60000) else c0);
          c2 = (fst c1 + 1, snd c1)
      in (fst c2, cs(workspaceId \<mapsto> c2)))"

record webhook_quota =
  maxSubscriptionsPerWorkspace :: jsnum
  maxDeliveriesPerMinutePerWorkspace :: jsnum

definition getQuotaConfig :: "(string \<Rightarrow> string option) \<Rightarrow> webhook_quota" where
  "getQuotaConfig penv =
     \<lparr>maxSubscriptionsPerWorkspace = numberEnv penv ''WEBHOOK_MAX_SUBSCRIPTIONS_PER_WORKSPACE'' 25,
      maxDeliveriesPerMinutePerWorkspace = numberEnv penv ''WEBHOOK_MAX_DELIVERIES_PER_MINUTE_PER_WORKSPACE'' 100\<rparr>"

section \<open>Rows\<close>

record webhook_subscription =
  ws_id :: string
  ws_tenant_id :: "string option"
  ws_workspace_id :: "string option"
  ws_target_url :: string
  ws_event_types :: "string list"
  ws_status :: string
  ws_consecutive_failures :: int
  ws_max_consecutive_failures :: int
  ws_description :: "string option"
  ws_metadata :: json
  ws_created_by :: "string option"
  ws_created_at :: time
  ws_updated_at :: time
  ws_deleted_at :: "time option"

record webhook_secret =
  sk_subscription_id :: string
  sk_cipher :: string
  sk_iv :: string
  sk_status :: string
  sk_grace_expires_at :: "time option"
  sk_tenant_id :: "string option"
  sk_workspace_id :: "string option"
  sk_key_id :: string

record webhook_delivery =
  wd_id :: string
  wd_subscription_id :: string
  wd_tenant_id :: "string option"
  wd_workspace_id :: "string option"
  wd_event_type :: string
  wd_event_id :: string
  wd_payload_ref :: "string option"
  wd_payload_size :: nat
  wd_status :: string
  wd_attempt_count :: int
  wd_max_attempts :: "jsnum option"
  wd_next_attempt_at :: "time option"
  wd_created_at :: time
  wd_updated_at :: time

record webhook_attempt =
  wa_id :: string
  wa_delivery_id :: string
  wa_attempt_num :: int
  wa_attempted_at :: time
  wa_http_status :: "int option"
  wa_response_ms :: "int option"
  wa_error_detail :: "string option"
  wa_outcome :: string

record webhook_event =
  ev_type :: string
  ev_id :: string
  ev_tenantId :: string
  ev_workspaceId :: string
  ev_data :: json

section \<open>Subscriptions\<close>

text \<open>What \<open>new URL\<close> gives: protocol, hostname, and the serialized URL.\<close>

record parsed_url =
  url_protocol :: string
  url_hostname :: string
  url_href :: string

type_synonym url_parser = "string option \<Rightarrow> parsed_url option"

text \<open>\<open>replace(/^\[|\]$/g, '')\<close> is \<open>strip_brackets\<close>. The event types of a request are JSON.\<close>

definition event_strings :: "json \<Rightarrow> string list option" where
  "event_strings j =
     (case j of
        JArr xs \<Rightarrow>
          (if xs \<noteq> [] \<and> list_all (\<lambda>x. case x of JStr s \<Rightarrow> isValidEventType s | _ \<Rightarrow> False) xs
           then Some (map (\<lambda>x. case x of JStr s \<Rightarrow> s | _ \<Rightarrow> []) xs) else None)
      | _ \<Rightarrow> None)"

text \<open>\<open>[...new Set(xs)]\<close> keeps the first occurrence of each value.\<close>

fun js_unique :: "'a list \<Rightarrow> 'a list" where
  "js_unique [] = []"
| "js_unique (x # xs) = x # filter (\<lambda>y. y \<noteq> x) (js_unique xs)"

definition validateSubscriptionInput ::
  "url_parser \<Rightarrow> (string \<Rightarrow> string list option) \<Rightarrow> string option \<Rightarrow> json \<Rightarrow> (string \<times> string list) result" where
  "validateSubscriptionInput parseUrl resolver targetUrl eventTypes =
     (case parseUrl targetUrl of
        None \<Rightarrow> Inl (codedError ''INVALID_URL'' ''Malformed target URL'')
      | Some parsed \<Rightarrow>
          bindE (throwIf (url_protocol parsed \<noteq> ''https:'')
                   (codedError ''INVALID_URL'' ''Webhook target must be public HTTPS'')) (\<lambda>_.
          (let hostname = strip_brackets (url_hostname parsed);
               isIPLiteral = (normalizeNumericIPv4 hostname \<noteq> None \<or> net_isIP hostname \<noteq> 0)
           in bindE
                (if isIPLiteral
                 then throwIf (isPrivateHostname (url_hostname parsed))
                        (codedError ''INVALID_URL'' ''Webhook target must be public HTTPS'')
                 else case resolver hostname of
                        None \<Rightarrow> Inl (codedError ''INVALID_URL'' ''Webhook target hostname could not be resolved'')
                      | Some addresses \<Rightarrow>
                          if addresses = []
                          then Inl (codedError ''INVALID_URL'' ''Webhook target hostname resolved to no addresses'')
                          else throwIf (list_ex isBlockedIp addresses)
                                 (codedError ''INVALID_URL'' ''Webhook target resolved to a blocked address''))
                (\<lambda>_. case event_strings eventTypes of
                        None \<Rightarrow> Inl (codedError ''INVALID_EVENT_TYPES'' ''Unknown event types'')
                      | Some types \<Rightarrow> Inr (url_href parsed, js_unique types)))))"

record webhook_body =
  b_targetUrl :: "string option"
  b_eventTypes :: json
  b_description :: "string option"
  b_metadata :: "json option"
  b_gracePeriodSeconds :: "jsnum option"

record webhook_ctx =
  wc_tenantId :: "string option"
  wc_workspaceId :: "string option"
  wc_actorId :: "string option"

definition buildSubscriptionRecord ::
  "url_parser \<Rightarrow> (string \<Rightarrow> string list option) \<Rightarrow> string \<Rightarrow> time \<Rightarrow> webhook_body \<Rightarrow> webhook_ctx
   \<Rightarrow> webhook_subscription result" where
  "buildSubscriptionRecord parseUrl resolver newId now input ctx =
     bindE (validateSubscriptionInput parseUrl resolver (b_targetUrl input) (b_eventTypes input)) (\<lambda>(url, types).
       Inr \<lparr>ws_id = newId, ws_tenant_id = wc_tenantId ctx, ws_workspace_id = wc_workspaceId ctx,
            ws_target_url = url, ws_event_types = types, ws_status = ''active'', ws_consecutive_failures = 0,
            ws_max_consecutive_failures = 5, ws_description = b_description input,
            ws_metadata = coalesce (b_metadata input) (JObj []), ws_created_by = wc_actorId ctx,
            ws_created_at = now, ws_updated_at = now, ws_deleted_at = None\<rparr>)"

fun SUBSCRIPTION_TRANSITIONS :: "string \<Rightarrow> string set" where
  "SUBSCRIPTION_TRANSITIONS s =
     (if s = ''active'' then {''paused'', ''disabled'', ''deleted''}
      else if s = ''paused'' then {''active'', ''deleted''}
      else if s = ''disabled'' then {''active'', ''deleted''}
      else {})"

definition canTransitionSub :: "string \<Rightarrow> string \<Rightarrow> bool" where
  "canTransitionSub currentStatus targetStatus \<longleftrightarrow> targetStatus \<in> SUBSCRIPTION_TRANSITIONS currentStatus"

definition applyStatusTransition :: "time \<Rightarrow> webhook_subscription \<Rightarrow> string \<Rightarrow> webhook_subscription result" where
  "applyStatusTransition now s status =
     bindE (throwIf (\<not> canTransitionSub (ws_status s) status)
              (codedError ''INVALID_STATUS_TRANSITION''
                 (''Cannot transition '' @ ws_status s @ '' to '' @ status))) (\<lambda>_.
     Inr (s\<lparr>ws_status := status, ws_updated_at := now\<rparr>))"

definition softDelete :: "time \<Rightarrow> webhook_subscription \<Rightarrow> webhook_subscription result" where
  "softDelete now s = bindE (applyStatusTransition now s ''deleted'') (\<lambda>r. Inr (r\<lparr>ws_deleted_at := Some now\<rparr>))"

section \<open>Deliveries\<close>

definition byteLength :: "string \<Rightarrow> nat" where
  "byteLength s = sum_list (map (\<lambda>c. if chr c < 128 then 1 else 2) s)"

text \<open>\<open>event.data ?? {}\<close>.\<close>

definition event_data :: "webhook_event \<Rightarrow> json" where
  "event_data e = (if ev_data e = JUndefined \<or> ev_data e = JNull then JObj [] else ev_data e)"

definition buildDeliveryRecord ::
  "string \<Rightarrow> time \<Rightarrow> webhook_subscription \<Rightarrow> webhook_event \<Rightarrow> jsnum \<Rightarrow> webhook_delivery" where
  "buildDeliveryRecord newId now s e maxAttempts =
     \<lparr>wd_id = newId, wd_subscription_id = ws_id s, wd_tenant_id = ws_tenant_id s,
      wd_workspace_id = ws_workspace_id s, wd_event_type = ev_type e, wd_event_id = ev_id e,
      wd_payload_ref = None, wd_payload_size = byteLength (js_stringify (event_data e)),
      wd_status = ''pending'', wd_attempt_count = 0, wd_max_attempts = Some maxAttempts,
      wd_next_attempt_at = Some now, wd_created_at = now, wd_updated_at = now\<rparr>"

definition buildDeliveryAttemptRecord ::
  "string \<Rightarrow> time \<Rightarrow> string \<Rightarrow> int \<Rightarrow> string \<Rightarrow> int option \<Rightarrow> int option \<Rightarrow> string option \<Rightarrow> webhook_attempt" where
  "buildDeliveryAttemptRecord newId now deliveryId attemptNum outcome httpStatus responseMs errorDetail =
     \<lparr>wa_id = newId, wa_delivery_id = deliveryId, wa_attempt_num = attemptNum, wa_attempted_at = now,
      wa_http_status = httpStatus, wa_response_ms = responseMs, wa_error_detail = errorDetail, wa_outcome = outcome\<rparr>"

definition isTerminalDelivery :: "webhook_delivery \<Rightarrow> bool" where
  "isTerminalDelivery d \<longleftrightarrow> wd_status d \<in> {''succeeded'', ''permanently_failed'', ''cancelled''}"

definition shouldAutoDisable :: "webhook_subscription \<Rightarrow> jsnum \<Rightarrow> bool" where
  "shouldAutoDisable s threshold = js_leq threshold (jsInt (ws_consecutive_failures s))"

text \<open>The envelope as the entries of its object; \<open>isoS\<close> prints a time.\<close>

definition js_optStr :: "string option \<Rightarrow> json" where
  "js_optStr x = (case x of None \<Rightarrow> JNull | Some s \<Rightarrow> JStr s)"

definition buildPayloadEnvelope ::
  "(time \<Rightarrow> string) \<Rightarrow> time \<Rightarrow> webhook_delivery \<Rightarrow> webhook_event \<Rightarrow> (string \<times> json) list" where
  "buildPayloadEnvelope isoS now d e =
     [(''id'', JStr (wd_id d)), (''timestamp'', JStr (isoS now)), (''eventType'', JStr (wd_event_type d)),
      (''workspaceId'', js_optStr (wd_workspace_id d)), (''data'', event_data e)]"

text \<open>\<open>{ ...x }\<close>: arrays and strings spread to their indices, other primitives to nothing.\<close>

definition js_spread :: "json \<Rightarrow> (string \<times> json) list" where
  "js_spread j =
     (case j of
        JObj kvs \<Rightarrow> kvs
      | JArr xs \<Rightarrow> zip (map show_nat [0..<length xs]) xs
      | JStr s \<Rightarrow> zip (map show_nat [0..<length s]) (map (\<lambda>c. JStr [c]) s)
      | _ \<Rightarrow> [])"

record payload_result =
  pr_payload :: "(string \<times> json) list"
  pr_ref :: "string option"
  pr_size :: nat
  pr_truncated :: bool

definition enforcePayloadSizeLimit :: "string \<Rightarrow> (string \<times> json) list \<Rightarrow> jsnum \<Rightarrow> payload_result" where
  "enforcePayloadSizeLimit newId payload maxBytes =
     (let size = byteLength (js_stringify (JObj payload)) in
      if js_leq (jsInt (int size)) maxBytes
      then \<lparr>pr_payload = payload, pr_ref = None, pr_size = size, pr_truncated = False\<rparr>
      else
        (let data = obj_set (js_spread (obj_get payload ''data'')) (''_truncated'', JBool True)
         in \<lparr>pr_payload = obj_set payload (''data'', JObj data),
             pr_ref = Some (''s3://webhook-payloads/'' @ newId), pr_size = size, pr_truncated = True\<rparr>))"

section \<open>Signing\<close>

text \<open>HMAC-SHA256 in hexadecimal is \<open>hmac secret body\<close>.\<close>

definition computeSignature :: "(string \<Rightarrow> string \<Rightarrow> string) \<Rightarrow> string \<Rightarrow> string \<Rightarrow> string" where
  "computeSignature hmac rawBody secret = ''sha256='' @ hmac secret rawBody"

definition verifySignature :: "(string \<Rightarrow> string \<Rightarrow> string) \<Rightarrow> string \<Rightarrow> string \<Rightarrow> string option \<Rightarrow> bool" where
  "verifySignature hmac rawBody secret header \<longleftrightarrow> computeSignature hmac rawBody secret = coalesce header []"

record secret_record =
  sr_status :: string
  sr_grace_expires_at :: "time option"
  sr_secret :: string

definition verifyAgainstSecretSet ::
  "(string \<Rightarrow> string \<Rightarrow> string) \<Rightarrow> time \<Rightarrow> string \<Rightarrow> string option \<Rightarrow> secret_record list \<Rightarrow> bool" where
  "verifyAgainstSecretSet hmac now rawBody signatureHeader records \<longleftrightarrow>
     list_ex (\<lambda>r.
       if sr_status r = ''revoked'' then False
       else if sr_status r = ''grace'' \<and> (case sr_grace_expires_at r of None \<Rightarrow> False | Some t \<Rightarrow> t < now) then False
       else verifySignature hmac rawBody (sr_secret r) signatureHeader) records"

text \<open>
  \<open>revealSecretRecords\<close>: rows encrypted under another key are refused; \<open>dec\<close> is AES-256-GCM
  decryption under the serving key, which may throw.
\<close>

fun revealSecretRecords ::
  "(string \<Rightarrow> string \<Rightarrow> string result) \<Rightarrow> string \<Rightarrow> webhook_secret list \<Rightarrow> secret_record list result" where
  "revealSecretRecords dec keyId [] = Inr []"
| "revealSecretRecords dec keyId (row # rows) =
     (if sk_key_id row \<noteq> keyId
      then Inl (codedError ''WEBHOOK_ROW_KEY_MISMATCH'' ''Webhook signing-secret key identity does not match the serving context'')
      else bindE (dec (sk_cipher row) (sk_iv row)) (\<lambda>secret.
           bindE (revealSecretRecords dec keyId rows) (\<lambda>rest.
           Inr (\<lparr>sr_status = sk_status row, sr_grace_expires_at = sk_grace_expires_at row, sr_secret = secret\<rparr> # rest))))"

section \<open>Audit events\<close>

record webhook_audit =
  wu_tenantId :: "string option"
  wu_workspaceId :: "string option"
  wu_actorId :: "string option"
  wu_action :: string
  wu_resourceId :: string
  wu_timestamp :: time

definition baseEvent :: "string \<Rightarrow> webhook_ctx \<Rightarrow> string \<Rightarrow> time \<Rightarrow> webhook_audit" where
  "baseEvent act ctx resourceId now =
     \<lparr>wu_tenantId = wc_tenantId ctx, wu_workspaceId = wc_workspaceId ctx, wu_actorId = wc_actorId ctx,
      wu_action = act, wu_resourceId = resourceId, wu_timestamp = now\<rparr>"

end
