(* ===== verification/Webhook_Delivery.thy ===== *)
theory Webhook_Delivery
  imports Webhook_Model
begin

text \<open>
  The delivery side of the webhook engine: \<open>actions/webhook-dispatcher.mjs\<close>,
  \<open>actions/webhook-delivery-worker.mjs\<close>, \<open>actions/webhook-retry-scheduler.mjs\<close> and their wiring in
  \<open>apps/control-plane/webhook-runtime.mjs\<close>.

  \<^item> The store of deliveries is injected and has no implementation in the repository: \<open>delivery_store\<close>
    holds its methods over an arbitrary state \<open>'d\<close>, a patch is a function on the row. Its calls do not
    fail in the model.
  \<^item> \<open>wh_env\<close> holds the other injected functions. The resolver and the receiver of requests are
    functions of how often they were asked before, so their answers may change from call to call.
  \<^item> \<open>sent\<close> records the requests in order, each with the address its connection is pinned to.
  \<^item> Worker and scheduler call each other through the invoker. A run is \<open>None\<close> when the fuel of
    \<open>runtime_invoke\<close> is used up.
\<close>

section \<open>Injected services\<close>

record 'd delivery_store =
  getDeliveryById :: "string \<Rightarrow> 'd \<Rightarrow> webhook_delivery option"
  getSubscriptionById :: "string \<Rightarrow> 'd \<Rightarrow> webhook_subscription option"
  listSecrets :: "string \<Rightarrow> string option \<Rightarrow> string option \<Rightarrow> 'd \<Rightarrow> webhook_secret list"
  getEvent :: "string \<Rightarrow> 'd \<Rightarrow> webhook_event option"
  insertAttempt :: "webhook_attempt \<Rightarrow> 'd \<Rightarrow> 'd"
  updateDelivery :: "string \<Rightarrow> (webhook_delivery \<Rightarrow> webhook_delivery) \<Rightarrow> 'd \<Rightarrow> webhook_delivery \<times> 'd"
  incrementSubscriptionFailures :: "string \<Rightarrow> 'd \<Rightarrow> webhook_subscription \<times> 'd"
  updateSubscriptionById :: "string \<Rightarrow> (webhook_subscription \<Rightarrow> webhook_subscription) \<Rightarrow> 'd \<Rightarrow> 'd"
  findSubscriptionsForEvent :: "string \<Rightarrow> string \<Rightarrow> string \<Rightarrow> 'd \<Rightarrow> webhook_subscription list"
  insertDelivery :: "webhook_delivery \<Rightarrow> 'd \<Rightarrow> bool \<times> 'd"
  storeRateCounter :: "(string \<Rightarrow> 'd \<Rightarrow> int \<times> 'd) option"

record webhook_request =
  rq_url :: string
  rq_address :: string
  rq_family :: nat
  rq_delivery :: string
  rq_event :: string
  rq_signature :: string
  rq_attempt :: int
  rq_timestamp :: int
  rq_body :: string

text \<open>A response with its status, \<open>Location\<close> header and duration, or what \<open>fetch\<close> throws.\<close>

datatype http_result =
  Responded int "string option" int
| Threw string

text \<open>An answer of the resolver: a bare address, or one with its family.\<close>

datatype dns_answer =
  Bare string
| Entry string "nat option"

record 'd wh_env =
  en_store :: "'d delivery_store"
  en_penv :: "string \<Rightarrow> string option"
  en_keyId :: "string result"
  en_decrypt :: "string \<Rightarrow> string \<Rightarrow> string result"
  en_hmac :: "string \<Rightarrow> string \<Rightarrow> string"
  en_parseUrl :: url_parser
  en_resolver :: "nat \<Rightarrow> string \<Rightarrow> dns_answer list option"
  en_http :: "nat \<Rightarrow> webhook_request \<Rightarrow> http_result"
  en_kafka :: bool
  en_uuid :: "nat \<Rightarrow> string"
  en_now :: time
  en_random :: rat
  en_iso :: "time \<Rightarrow> string"

record 'd wh_world =
  store :: 'd
  sent :: "webhook_request list"
  lookups :: nat
  published :: "(string \<times> webhook_audit) list"
  drawn_ids :: nat
  rate_counters :: counters

datatype outcome =
  Delivered
| PermanentlyFailed "string option"
| AutoDisabled
| RetryScheduled "time option"
| DeliveryCancelled
| DeliveryMissing

type_synonym 'd run = "(outcome result \<times> 'd wh_world) option"

definition publish_wh :: "'d wh_env \<Rightarrow> string \<Rightarrow> webhook_audit \<Rightarrow> 'd wh_world \<Rightarrow> 'd wh_world" where
  "publish_wh E topic a w = (if en_kafka E then w\<lparr>published := published w @ [(topic, a)]\<rparr> else w)"

definition systemCtx :: "webhook_delivery \<Rightarrow> webhook_ctx" where
  "systemCtx d = \<lparr>wc_tenantId = wd_tenant_id d, wc_workspaceId = wd_workspace_id d, wc_actorId = Some ''system''\<rparr>"

section \<open>Retry scheduler\<close>

definition retry_scheduler ::
  "'d wh_env \<Rightarrow> (string \<Rightarrow> time option \<Rightarrow> 'd wh_world \<Rightarrow> 'd run) option \<Rightarrow> string \<Rightarrow> int \<Rightarrow> 'd wh_world \<Rightarrow> 'd run" where
  "retry_scheduler E invoker deliveryId attemptCount w =
     (let db = en_store E; policy = buildRetryPolicy (en_penv E) in
      case getDeliveryById db deliveryId (store w) of
        None \<Rightarrow> Some (Inr DeliveryMissing, w)
      | Some delivery \<Rightarrow>
        (case getSubscriptionById db (wd_subscription_id delivery) (store w) of
           None \<Rightarrow> Some (Inr DeliveryCancelled, w)
         | Some subscription \<Rightarrow>
           if ws_status subscription = ''deleted'' \<or> ws_status subscription = ''paused''
           then Some (Inr DeliveryCancelled, w)
           else if hasRetriesRemaining attemptCount (coalesce (wd_max_attempts delivery) (rp_maxAttempts policy))
           then
             (case computeNextAttemptAt attemptCount policy (en_random E) (en_now E) of
                Inl e \<Rightarrow> Some (Inl e, w)
              | Inr nextAttemptAt \<Rightarrow>
                  (let w1 = w\<lparr>store := snd (updateDelivery db deliveryId
                        (\<lambda>d. d\<lparr>wd_status := ''pending'', wd_next_attempt_at := nextAttemptAt\<rparr>) (store w))\<rparr>
                   in case invoker of
                        None \<Rightarrow> Some (Inr (RetryScheduled nextAttemptAt), w1)
                      | Some invokeWebhookDelivery \<Rightarrow>
                          (case invokeWebhookDelivery deliveryId nextAttemptAt w1 of
                             None \<Rightarrow> None
                           | Some (Inl e, w2) \<Rightarrow> Some (Inl e, w2)
                           | Some (Inr _, w2) \<Rightarrow> Some (Inr (RetryScheduled nextAttemptAt), w2))))
           else
             (let (updatedDelivery, d1) = updateDelivery db deliveryId
                    (\<lambda>d. d\<lparr>wd_status := ''permanently_failed'', wd_next_attempt_at := None\<rparr>) (store w);
                  (updatedSubscription, d2) = incrementSubscriptionFailures db (ws_id subscription) d1;
                  ctx = systemCtx updatedDelivery;
                  w1 = publish_wh E ''console.webhook.delivery.permanently_failed''
                         (baseEvent ''delivery.permanently_failed'' ctx deliveryId (en_now E)) (w\<lparr>store := d2\<rparr>);
                  threshold = numberEnv (en_penv E) ''WEBHOOK_AUTO_DISABLE_THRESHOLD'' 5
              in if shouldAutoDisable updatedSubscription threshold
                 then Some (Inr AutoDisabled,
                        publish_wh E ''console.webhook.subscription.auto_disabled''
                          (baseEvent ''subscription.auto_disabled'' ctx (ws_id subscription) (en_now E))
                          (w1\<lparr>store := updateSubscriptionById db (ws_id subscription) (\<lambda>s. s\<lparr>ws_status := ''disabled''\<rparr>)
                                (store w1)\<rparr>))
                 else Some (Inr (PermanentlyFailed None), w1))))"

section \<open>Delivery worker\<close>

record delivery_target =
  tg_blocked :: bool
  tg_address :: string
  tg_family :: nat

definition blocked_target :: delivery_target where
  "blocked_target = \<lparr>tg_blocked = True, tg_address = [], tg_family = 4\<rparr>"

fun dns_entry :: "dns_answer \<Rightarrow> string \<times> nat" where
  "dns_entry (Bare a) = (a, if net_isIP a = 6 then 6 else 4)"
| "dns_entry (Entry a f) = (a, coalesce f (if net_isIP a = 6 then 6 else 4))"

definition resolveDeliveryTarget ::
  "'d wh_env \<Rightarrow> string \<Rightarrow> 'd wh_world \<Rightarrow> delivery_target \<times> 'd wh_world" where
  "resolveDeliveryTarget E targetUrl w =
     (case en_parseUrl E (Some targetUrl) of
        None \<Rightarrow> (blocked_target, w)
      | Some parsed \<Rightarrow>
          (let hostname = strip_brackets (url_hostname parsed); ipVersion = net_isIP hostname in
           if ipVersion \<noteq> 0
           then (if isBlockedIp hostname then (blocked_target\<lparr>tg_family := ipVersion\<rparr>, w)
                 else (\<lparr>tg_blocked = False, tg_address = hostname, tg_family = ipVersion\<rparr>, w))
           else
             (let w1 = w\<lparr>lookups := Suc (lookups w)\<rparr> in
              case en_resolver E (lookups w) hostname of
                None \<Rightarrow> (blocked_target, w1)
              | Some addresses \<Rightarrow>
                  (case map dns_entry addresses of
                     [] \<Rightarrow> (blocked_target, w1)
                   | entry # entries \<Rightarrow>
                       if list_ex (\<lambda>e. isBlockedIp (fst e)) (entry # entries) then (blocked_target, w1)
                       else (\<lparr>tg_blocked = False, tg_address = fst entry, tg_family = snd entry\<rparr>, w1)))))"

text \<open>\<open>insertAttempt(..)\<close> followed by \<open>updateDelivery(..)\<close>, as at the end of each branch.\<close>

definition record_attempt ::
  "'d wh_env \<Rightarrow> string \<Rightarrow> int \<Rightarrow> string \<Rightarrow> int option \<Rightarrow> int option \<Rightarrow> string option
   \<Rightarrow> (webhook_delivery \<Rightarrow> webhook_delivery) \<Rightarrow> 'd wh_world \<Rightarrow> 'd wh_world" where
  "record_attempt E deliveryId attemptNum outc httpStatus responseMs errorDetail patch w =
     (let db = en_store E;
          row = buildDeliveryAttemptRecord (en_uuid E (drawn_ids w)) (en_now E) deliveryId attemptNum outc
                  httpStatus responseMs errorDetail
      in w\<lparr>drawn_ids := Suc (drawn_ids w),
           store := snd (updateDelivery db deliveryId patch (insertAttempt db row (store w)))\<rparr>)"

text \<open>\<open>AbortSignal.timeout\<close> throws unless its argument is an unsigned 32-bit integer.\<close>

definition valid_timeout :: "jsnum \<Rightarrow> bool" where
  "valid_timeout n \<longleftrightarrow> isInteger n \<and> 0 \<le> toInt n \<and> toInt n \<le> 4294967295"

text \<open>The \<open>catch\<close> branch: the attempt timed out.\<close>

definition attempt_threw ::
  "'d wh_env \<Rightarrow> (string \<Rightarrow> int \<Rightarrow> 'd wh_world \<Rightarrow> 'd run) \<Rightarrow> string \<Rightarrow> int \<Rightarrow> string \<Rightarrow> 'd wh_world \<Rightarrow> 'd run" where
  "attempt_threw E schedule deliveryId attemptNum message w =
     schedule deliveryId attemptNum
       (record_attempt E deliveryId attemptNum ''timed_out'' None None (Some message)
          (\<lambda>d. d\<lparr>wd_status := ''failed'', wd_attempt_count := attemptNum\<rparr>) w)"

text \<open>What the worker does with a response.\<close>

definition handle_response ::
  "'d wh_env \<Rightarrow> (string \<Rightarrow> int \<Rightarrow> 'd wh_world \<Rightarrow> 'd run) \<Rightarrow> webhook_delivery \<Rightarrow> int \<Rightarrow> payload_result
   \<Rightarrow> int \<Rightarrow> string option \<Rightarrow> int \<Rightarrow> 'd wh_world \<Rightarrow> 'd run" where
  "handle_response E schedule delivery attemptNum payload status location ms w =
     (let failed = (\<lambda>v. schedule (wd_id delivery) attemptNum
            (record_attempt E (wd_id delivery) attemptNum ''failed'' (Some status) (Some ms) None
               (\<lambda>d. d\<lparr>wd_status := ''failed'', wd_attempt_count := attemptNum\<rparr>) v))
      in if 300 \<le> status \<and> status < 400 then
           (if truthyS location then
              (let (redirect, w1) = resolveDeliveryTarget E (the location) w in
               if tg_blocked redirect
               then Some (Inr (PermanentlyFailed (Some ''ssrf_redirect_blocked'')),
                      record_attempt E (wd_id delivery) attemptNum ''blocked'' (Some status) (Some ms)
                        (Some ''SSRF guard: redirect location resolved to blocked address'')
                        (\<lambda>d. d\<lparr>wd_status := ''permanently_failed'', wd_attempt_count := attemptNum\<rparr>) w1)
               else failed w1)
            else failed w)
         else if 200 \<le> status \<and> status < 300 then
           (let w1 = record_attempt E (wd_id delivery) attemptNum ''succeeded'' (Some status) (Some ms) None
                  (\<lambda>d. d\<lparr>wd_status := ''succeeded'', wd_attempt_count := attemptNum,
                         wd_payload_ref := pr_ref payload, wd_payload_size := pr_size payload\<rparr>) w
            in Some (Inr Delivered,
                 publish_wh E ''console.webhook.delivery.succeeded''
                   (baseEvent ''delivery.succeeded'' (systemCtx delivery) (wd_id delivery) (en_now E)) w1))
         else failed w)"

text \<open>The \<open>try\<close> block: sign, send, and handle the response.\<close>

definition post_webhook ::
  "'d wh_env \<Rightarrow> (string \<Rightarrow> int \<Rightarrow> 'd wh_world \<Rightarrow> 'd run) \<Rightarrow> webhook_subscription \<Rightarrow> webhook_delivery \<Rightarrow> int
   \<Rightarrow> payload_result \<Rightarrow> string \<Rightarrow> secret_record option \<Rightarrow> delivery_target \<Rightarrow> 'd wh_world \<Rightarrow> 'd run" where
  "post_webhook E schedule subscription delivery attemptNum payload rawBody secret resolved w =
     (case secret of
        None \<Rightarrow> attempt_threw E schedule (wd_id delivery) attemptNum (err_message typeError) w
      | Some s \<Rightarrow>
          if \<not> valid_timeout (numberEnv (en_penv E) ''WEBHOOK_RESPONSE_TIMEOUT_MS'' 30000)
          then attempt_threw E schedule (wd_id delivery) attemptNum (err_message rangeError) w
          else
            (let rq = \<lparr>rq_url = ws_target_url subscription, rq_address = tg_address resolved,
                   rq_family = tg_family resolved, rq_delivery = wd_id delivery, rq_event = wd_event_type delivery,
                   rq_signature = computeSignature (en_hmac E) rawBody (sr_secret s),
                   rq_attempt = attemptNum, rq_timestamp = en_now E div 1000, rq_body = rawBody\<rparr>;
                 w1 = w\<lparr>sent := sent w @ [rq]\<rparr>
             in case en_http E (length (sent w)) rq of
                  Threw message \<Rightarrow> attempt_threw E schedule (wd_id delivery) attemptNum message w1
                | Responded status location ms \<Rightarrow>
                    handle_response E schedule delivery attemptNum payload status location ms w1))"

definition delivery_worker ::
  "'d wh_env \<Rightarrow> (string \<Rightarrow> int \<Rightarrow> 'd wh_world \<Rightarrow> 'd run) \<Rightarrow> string \<Rightarrow> 'd wh_world \<Rightarrow> 'd run" where
  "delivery_worker E schedule deliveryId w =
     (let db = en_store E in
      case en_keyId E of
        Inl e \<Rightarrow> Some (Inl e, w)
      | Inr keyId \<Rightarrow>
      (case getDeliveryById db deliveryId (store w) of
        None \<Rightarrow> Some (Inl typeError, w)
      | Some delivery \<Rightarrow>
      (case getSubscriptionById db (wd_subscription_id delivery) (store w) of
        None \<Rightarrow> Some (Inl typeError, w)
      | Some subscription \<Rightarrow>
      (case revealSecretRecords (en_decrypt E) keyId
              (listSecrets db (ws_id subscription) (ws_tenant_id subscription) (ws_workspace_id subscription) (store w)) of
        Inl e \<Rightarrow> Some (Inl e, w)
      | Inr secretRows \<Rightarrow>
      (case getEvent db (wd_event_id delivery) (store w) of
        None \<Rightarrow> Some (Inl typeError, w)
      | Some event \<Rightarrow>
        (let secret = orElse (find (\<lambda>r. sr_status r = ''active'') secretRows) (find (\<lambda>_. True) secretRows);
             payload = enforcePayloadSizeLimit (en_uuid E (drawn_ids w))
                         (buildPayloadEnvelope (en_iso E) (en_now E) delivery event)
                         (numberEnv (en_penv E) ''WEBHOOK_MAX_PAYLOAD_BYTES'' 524288);
             w0 = (if pr_truncated payload then w\<lparr>drawn_ids := Suc (drawn_ids w)\<rparr> else w);
             rawBody = js_stringify (JObj (pr_payload payload));
             attemptNum = wd_attempt_count delivery + 1;
             (resolved, w1) = resolveDeliveryTarget E (ws_target_url subscription) w0
         in if tg_blocked resolved
            then Some (Inr (PermanentlyFailed (Some ''ssrf_blocked'')),
                   record_attempt E (wd_id delivery) attemptNum ''blocked'' None None
                     (Some ''SSRF guard: target resolved to blocked address'')
                     (\<lambda>d. d\<lparr>wd_status := ''permanently_failed'', wd_attempt_count := attemptNum\<rparr>) w1)
            else post_webhook E schedule subscription delivery attemptNum payload rawBody secret resolved w1))))))"

section \<open>Runtime wiring and dispatcher\<close>

definition runtimeError :: "string \<Rightarrow> js_error" where
  "runtimeError code = codedError code ''Webhook runtime is unavailable''"

text \<open>
  \<open>adapter.invokeWebhookDelivery\<close>: the message is checked, the worker runs with the scheduler, and the
  scheduler invokes the same adapter. The scheduled time of the message is not read.
\<close>

fun runtime_invoke :: "nat \<Rightarrow> 'd wh_env \<Rightarrow> string \<Rightarrow> 'd wh_world \<Rightarrow> 'd run" where
  "runtime_invoke 0 E deliveryId w = None"
| "runtime_invoke (Suc n) E deliveryId w =
     (if deliveryId = [] then Some (Inl (runtimeError ''WEBHOOK_DELIVERY_MESSAGE_INVALID''), w)
      else delivery_worker E
             (retry_scheduler E (Some (\<lambda>did scheduledFor v. runtime_invoke n E did v))) deliveryId w)"

definition incrementRateCounter :: "'d wh_env \<Rightarrow> string \<Rightarrow> 'd wh_world \<Rightarrow> int \<times> 'd wh_world" where
  "incrementRateCounter E workspaceId w =
     (case storeRateCounter (en_store E) of
        Some f \<Rightarrow> (let (n, d) = f workspaceId (store w) in (n, w\<lparr>store := d\<rparr>))
      | None \<Rightarrow> (let (n, cs) = incrementLocalCounter workspaceId (en_now E) (rate_counters w)
                in (n, w\<lparr>rate_counters := cs\<rparr>)))"

text \<open>The loop of the dispatcher; an exception of the invoker ends it.\<close>

fun dispatch_loop ::
  "'d wh_env \<Rightarrow> (string \<Rightarrow> 'd wh_world \<Rightarrow> 'd run) option \<Rightarrow> webhook_event \<Rightarrow> webhook_subscription list
   \<Rightarrow> nat \<Rightarrow> 'd wh_world \<Rightarrow> (nat result \<times> 'd wh_world) option" where
  "dispatch_loop E invoker event [] queued w = Some (Inr queued, w)"
| "dispatch_loop E invoker event (s # ss) queued w =
     (let (n, w1) = incrementRateCounter E (coalesce (ws_workspace_id s) []) w in
      if \<not> checkDeliveryRateLimit n (maxDeliveriesPerMinutePerWorkspace (getQuotaConfig (en_penv E)))
      then dispatch_loop E invoker event ss queued w1
      else
        (let delivery = buildDeliveryRecord (en_uuid E (drawn_ids w1)) (en_now E) s event
               (numberEnv (en_penv E) ''WEBHOOK_MAX_RETRY_ATTEMPTS'' 5);
             (inserted, d) = insertDelivery (en_store E) delivery (store w1);
             w2 = w1\<lparr>drawn_ids := Suc (drawn_ids w1), store := d\<rparr>
         in if \<not> inserted then dispatch_loop E invoker event ss queued w2
            else case invoker of
                   None \<Rightarrow> dispatch_loop E invoker event ss (Suc queued) w2
                 | Some invoke \<Rightarrow>
                     (case invoke (wd_id delivery) w2 of
                        None \<Rightarrow> None
                      | Some (Inl e, w3) \<Rightarrow> Some (Inl e, w3)
                      | Some (Inr _, w3) \<Rightarrow> dispatch_loop E invoker event ss (Suc queued) w3)))"

definition webhook_dispatch ::
  "'d wh_env \<Rightarrow> (string \<Rightarrow> 'd wh_world \<Rightarrow> 'd run) option \<Rightarrow> webhook_event \<Rightarrow> 'd wh_world
   \<Rightarrow> (nat result \<times> 'd wh_world) option" where
  "webhook_dispatch E invoker event w =
     (if coalesce (en_penv E ''WEBHOOK_ENGINE_ENABLED'') ''true'' \<noteq> ''true'' then Some (Inr 0, w)
      else dispatch_loop E invoker event
             (findSubscriptionsForEvent (en_store E) (ev_tenantId event) (ev_workspaceId event) (ev_type event) (store w))
             0 w)"

end
