(* ===== verification/JS_Numbers.thy ===== *)
theory JS_Numbers
  imports JS_Prelude
begin

text \<open>Decimal numbers: what \<open>show_nat\<close> prints is read back by \<open>Number\<close>.\<close>

section \<open>Numbers printed and read back\<close>

lemma digit_char_props:
  assumes "d < 10"
  shows "is_digit (digit_char d)" "digit_val (digit_char d) = Some d"
  using assms by (simp_all add: is_digit_def digit_char_def digit_val_def)

lemma show_nat_digits: "list_all is_digit (show_nat n)"
  by (induction n rule: show_nat.induct) (subst show_nat.simps, simp add: digit_char_props)

lemma show_nat_not_Nil [simp]: "show_nat n \<noteq> []"
  by (subst show_nat.simps) simp

lemma read_digits_append: "read_digits b (xs @ ys) acc = read_digits b ys (read_digits b xs acc)"
  by (induction xs arbitrary: acc) simp_all

lemma read_show_nat: "read_digits 10 (show_nat n) 0 = n"
proof (induction n rule: show_nat.induct)
  case (1 n)
  then show ?case
    by (subst show_nat.simps) (simp add: read_digits_append digit_char_props)
qed

lemma digits_props:
  assumes "list_all is_digit s"
  shows "takeWhile is_digit s = s" "dropWhile is_digit s = []"
  using assms by (simp_all add: list_all_iff takeWhile_eq_all_conv dropWhile_eq_Nil_conv)

lemma digit_not:
  "is_digit c \<Longrightarrow> \<not> is_ws c" "is_digit c \<Longrightarrow> toLower c = c" "is_digit c \<Longrightarrow> c \<noteq> CHR ''.''" "is_digit c \<Longrightarrow> c \<noteq> CHR '':''"
  "is_digit c \<Longrightarrow> c \<noteq> CHR ''x''" "is_digit c \<Longrightarrow> c \<noteq> CHR ''o''" "is_digit c \<Longrightarrow> c \<noteq> CHR ''b''"
  "is_digit c \<Longrightarrow> c \<noteq> CHR ''-''" "is_digit c \<Longrightarrow> c \<noteq> CHR ''+''" "is_digit c \<Longrightarrow> c \<noteq> CHR ''I''" "is_digit c \<Longrightarrow> c \<noteq> CHR ''%''"
  by (auto simp: is_digit_def is_ws_def toLower_def is_upper_def)

lemma js_trim_digits:
  assumes "list_all is_digit s"
  shows "js_trim s = s"
proof -
  have "dropWhile is_ws t = t" if "\<forall>c \<in> set t. is_digit c" for t
    using that by (cases t) (auto dest: digit_not)
  then show ?thesis using assms by (simp add: js_trim_def list_all_iff)
qed

lemma js_Number_digits:
  assumes "list_all is_digit s" and "s \<noteq> []"
  shows "js_Number s = Fin (of_nat (read_digits 10 s 0))"
proof -
  have low: "js_toLowerCase (take 2 s) = take 2 s"
    using assms(1) by (auto simp: js_toLowerCase_def list_all_iff intro!: map_idI dest: in_set_takeD digit_not)
  obtain c cs where s: "s = c # cs" using assms(2) by (cases s) auto
  have ne: "take 2 s \<noteq> ''0x'' \<and> take 2 s \<noteq> ''0o'' \<and> take 2 s \<noteq> ''0b''"
    using assms(1) by (cases cs) (auto simp: s dest: digit_not)
  have c: "hd s \<noteq> CHR ''-''" "hd s \<noteq> CHR ''+''" "s \<noteq> ''Infinity''"
    using assms(1) by (auto simp: s dest: digit_not)
  have "parse_decimal s = Some (of_nat (read_digits 10 s 0))"
    using assms by (simp add: parse_decimal_def digits_props parse_exponent_def Let_def)
  with ne c low assms(2) show ?thesis
    by (simp add: js_Number_def js_trim_digits [OF assms(1)] Let_def)
qed

lemma js_Number_show_nat: "js_Number (show_nat n) = jsInt (int n)"
  using js_Number_digits [OF show_nat_digits show_nat_not_Nil, of n] by (simp add: read_show_nat jsInt_def)

lemma show_nat_no_sep: "CHR ''.'' \<notin> set (show_nat n)" "CHR '':'' \<notin> set (show_nat n)" "CHR ''%'' \<notin> set (show_nat n)"
  using show_nat_digits [of n] by (auto simp: list_all_iff dest: digit_not)

lemma digit_char_0: "digit_char 0 = CHR ''0''"
  by code_simp

lemma digit_char_zero: "d < 10 \<Longrightarrow> digit_char d = CHR ''0'' \<longleftrightarrow> d = 0"
  using digit_char_props(2) [of d] digit_char_props(2) [of 0] digit_char_0 by auto

lemma show_nat_lead: "take 1 (show_nat n) = ''0'' \<longleftrightarrow> n = 0"
proof (induction n rule: show_nat.induct)
  case (1 n)
  show ?case
  proof (cases "n < 10")
    case True
    then show ?thesis by (subst show_nat.simps) (simp add: digit_char_zero)
  next
    case False
    with 1 show ?thesis
      by (subst show_nat.simps) (cases "show_nat (n div 10)"; simp)
  qed
qed

lemma show_int_not_Nil [simp]: "show_int i \<noteq> []"
  by (simp add: show_int_def)

lemma show_int_chars: "c \<in> set (show_int i) \<Longrightarrow> is_digit c \<or> c = CHR ''-''"
  using show_nat_digits by (auto simp: show_int_def list_all_iff split: if_splits)

lemma js_Number_minus:
  assumes "list_all is_digit s" and "s \<noteq> []"
  shows "js_Number (CHR ''-'' # s) = Fin (- of_nat (read_digits 10 s 0))"
proof -
  have ws: "dropWhile is_ws t = t" if "\<forall>c \<in> set t. is_digit c \<or> c = CHR ''-''" for t
  proof (cases t)
    case (Cons c cs)
    with that have "is_digit c \<or> c = CHR ''-''" by simp
    then have "\<not> is_ws c" by (auto dest: digit_not simp: is_ws_def)
    with Cons show ?thesis by simp
  qed simp
  have all: "\<forall>c \<in> set (CHR ''-'' # s). is_digit c \<or> c = CHR ''-''"
    using assms(1) by (auto simp: list_all_iff)
  then have "\<forall>c \<in> set (rev (CHR ''-'' # s)). is_digit c \<or> c = CHR ''-''"
    by (simp only: set_rev)
  then have trim: "js_trim (CHR ''-'' # s) = CHR ''-'' # s"
    unfolding js_trim_def ws [OF all] by (simp only: ws rev_rev_ident)
  have lower: "toLower CHR ''-'' = CHR ''-''"
    by (simp add: toLower_def is_upper_def)
  have "s \<noteq> ''Infinity''"
    using assms by (cases s) (auto dest: digit_not)
  moreover have "parse_decimal s = Some (of_nat (read_digits 10 s 0))"
    using assms by (simp add: parse_decimal_def digits_props parse_exponent_def Let_def)
  ultimately show ?thesis
    by (simp add: js_Number_def trim js_toLowerCase_def lower Let_def)
qed

lemma js_Number_show_int: "js_Number (show_int i) = jsInt i"
proof (cases "i < 0")
  case True
  then have "show_int i = CHR ''-'' # show_nat (nat (- i))" "(of_nat (nat (- i)) :: rat) = - of_int i"
    by (simp_all add: show_int_def)
  then show ?thesis
    by (simp only: js_Number_minus [OF show_nat_digits show_nat_not_Nil] read_show_nat jsInt_def minus_minus)
next
  case False
  then have "show_int i = show_nat (nat i)" "int (nat i) = i"
    by (simp_all add: show_int_def)
  then show ?thesis
    by (simp only: js_Number_show_nat)
qed

end
