(* ===== verification/Webhook_Numeric.thy ===== *)
theory Webhook_Numeric
  imports Webhook_Address JS_Numbers
begin

text \<open>
  The address filter against a reference: the octet tests
  of \<open>isBlockedIPv4\<close> are membership in the blocked CIDR ranges, and a numeric host is decided by the
  address \<open>inet_aton\<close> gives for it.
\<close>

unbundle bit_operations_syntax

lemma part_value_show_nat: "part_value (show_nat n) = Some n"
proof (cases "n = 0")
  case True
  then show ?thesis by (subst show_nat.simps) (simp add: part_value_def digit_char_props read_digits.simps digit_char_def, code_simp)
next
  case False
  have low: "js_toLowerCase (take 2 (show_nat n)) = take 2 (show_nat n)"
    using show_nat_digits [of n] by (auto simp: js_toLowerCase_def list_all_iff intro!: map_idI dest: in_set_takeD digit_not)
  have "take 2 (show_nat n) \<noteq> ''0x''"
    using show_nat_lead [of n] False by (cases "show_nat n") auto
  moreover have "take (Suc 0) (show_nat n) \<noteq> ''0''"
    using show_nat_lead [of n] False by simp
  ultimately show ?thesis
    using low by (simp add: part_value_def show_nat_digits read_show_nat)
qed

section \<open>Octets\<close>

lemma take_bit_unat [simp]: "take_bit 32 (unat (a :: 32 word)) = unat a"
  by (rule take_bit_nat_eq_self) (use unsigned_less [of a, where ?'a = nat] in simp)

lemma octet_div: "octet k a = unat a div 2 ^ k mod 256"
proof -
  have "(0xFF :: 32 word) = mask 8"
    by (simp add: mask_numeral)
  then have "drop_bit k a AND 0xFF = take_bit 8 (drop_bit k a)"
    by (simp add: take_bit_eq_mask)
  then have "octet k a = take_bit 8 (drop_bit k (unat a))"
    by (simp only: octet_def unsigned_take_bit_eq unsigned_drop_bit_eq) simp
  then show ?thesis
    by (simp add: take_bit_eq_mod drop_bit_eq_div)
qed

lemma octet_less: "octet k a < 256"
  by (simp add: octet_div)

lemma js_split_dotted: "js_split (CHR ''.'') (dotted a) = map show_nat [octet 24 a, octet 16 a, octet 8 a, octet 0 a]"
  unfolding dotted_def by (rule js_split_join) (auto simp: show_nat_no_sep)

section \<open>The blocked ranges\<close>

text \<open>The ranges of the comment in the source, as address and prefix length.\<close>

definition in_cidr :: "32 word \<Rightarrow> 32 word \<times> nat \<Rightarrow> bool" where
  "in_cidr a r \<longleftrightarrow> drop_bit (32 - snd r) a = drop_bit (32 - snd r) (fst r)"

definition blocked_ranges :: "(32 word \<times> nat) list" where
  "blocked_ranges =
     [(0x00000000, 8), (0x0A000000, 8), (0x64400000, 10), (0x7F000000, 8), (0xA9FE0000, 16), (0xAC100000, 12),
      (0xC0A80000, 16), (0xC6120000, 15)]"

definition addr_blocked :: "32 word \<Rightarrow> bool" where
  "addr_blocked a \<longleftrightarrow> list_ex (in_cidr a) blocked_ranges"

lemma in_cidr_div: "in_cidr a (b, n) \<longleftrightarrow> unat a div 2 ^ (32 - n) = unat b div 2 ^ (32 - n)"
proof -
  have "unat (drop_bit k c) = unat c div 2 ^ k" for k and c :: "32 word"
    by (simp only: unsigned_drop_bit_eq) (simp add: drop_bit_eq_div)
  then show ?thesis
    by (simp add: in_cidr_def word_unat_eq_iff)
qed

lemma block_div:
  fixes r :: nat
  assumes "r < 256" and "w * m = 256" and "s < m"
  shows "(q * 256 + r) div w = Q * m + s \<longleftrightarrow> q = Q \<and> s * w \<le> r \<and> r < s * w + w"
proof -
  have w: "0 < w" using assms(2) by (cases w) auto
  have "(q * 256 + r) div w = q * m + r div w"
  proof -
    have "q * 256 = q * m * w" using assms(2) by (simp add: mult.assoc mult.commute [of m])
    then show ?thesis using w by (simp only: div_mult_self3)
  qed
  moreover have small: "r div w < m"
    using assms(1,2) w by (simp add: less_mult_imp_div_less mult.commute)
  moreover have "q * m + r div w = Q * m + s \<longleftrightarrow> q = Q \<and> r div w = s"
  proof
    assume e: "q * m + r div w = Q * m + s"
    have "(q * m + r div w) div m = q" and "(Q * m + s) div m = Q"
      using small assms(3) by simp_all
    with e show "q = Q \<and> r div w = s" by auto
  qed simp
  moreover have "r div w = s \<longleftrightarrow> s * w \<le> r \<and> r < s * w + w"
    using w div_nat_eqI [of w s r] dividend_less_div_times [OF w, of r] by (auto simp: ac_simps)
  ultimately show ?thesis by simp
qed

lemma addr_blocked_octets:
  "addr_blocked a \<longleftrightarrow>
     octet 24 a \<in> {0, 10, 127} \<or> octet 24 a = 100 \<and> octet 16 a \<in> {64..127} \<or> octet 24 a = 169 \<and> octet 16 a = 254
     \<or> octet 24 a = 172 \<and> octet 16 a \<in> {16..31} \<or> octet 24 a = 192 \<and> octet 16 a = 168
     \<or> octet 24 a = 198 \<and> octet 16 a \<in> {18, 19}"
proof -
  define n where "n = unat a div 65536"
  have bound: "n < 65536"
    using unsigned_less [of a, where ?'a = nat] by (simp add: n_def less_mult_imp_div_less)
  have divs: "unat a div 16777216 = n div 256" "unat a div 4194304 = n div 64" "unat a div 1048576 = n div 16"
    "unat a div 131072 = n div 2"
    by (simp_all add: n_def div_mult2_eq [symmetric])
  define q r where "q = n div 256" and "r = n mod 256"
  have n: "n = q * 256 + r" and r: "r < 256"
    by (simp_all add: q_def r_def)
  have eqs: "n div 64 = 401 \<longleftrightarrow> q = 100 \<and> 64 \<le> r \<and> r \<le> 127"
    "n = 43518 \<longleftrightarrow> q = 169 \<and> r = 254"
    "n div 16 = 2753 \<longleftrightarrow> q = 172 \<and> 16 \<le> r \<and> r \<le> 31"
    "n = 49320 \<longleftrightarrow> q = 192 \<and> r = 168"
    "n div 2 = 25353 \<longleftrightarrow> q = 198 \<and> (r = 18 \<or> r = 19)"
    subgoal using block_div [of r 64 4 1 q 100] r by (simp add: n) linarith
    subgoal using block_div [of r 1 256 254 q 169] r by (simp add: n) linarith
    subgoal using block_div [of r 16 16 1 q 172] r by (simp add: n) linarith
    subgoal using block_div [of r 1 256 168 q 192] r by (simp add: n) linarith
    subgoal using block_div [of r 2 128 9 q 198] r by (simp add: n) linarith
    done
  have oct: "octet 24 a = q" "octet 16 a = r"
    using bound by (simp_all add: octet_div divs q_def r_def) (simp add: n_def)
  show ?thesis
    unfolding oct
    by (simp add: addr_blocked_def blocked_ranges_def in_cidr_div divs n_def [symmetric] eqs q_def [symmetric]) blast
qed

lemma isBlockedIPv4_dotted: "isBlockedIPv4 (dotted a) \<longleftrightarrow> addr_blocked a"
  unfolding addr_blocked_octets
  by (auto simp: isBlockedIPv4_def js_split_dotted js_Number_show_nat Let_def jsInt_def js_between_def)

section \<open>Assembling\<close>

text \<open>What \<open>inet_aton\<close> makes of one to four numbers.\<close>

fun inet_aton :: "nat list \<Rightarrow> nat option" where
  "inet_aton [n] = (if n < 2 ^ 32 then Some n else None)"
| "inet_aton [a, b] = (if a < 256 \<and> b < 2 ^ 24 then Some (a * 2 ^ 24 + b) else None)"
| "inet_aton [a, b, c] = (if a < 256 \<and> b < 256 \<and> c < 2 ^ 16 then Some (a * 2 ^ 24 + b * 2 ^ 16 + c) else None)"
| "inet_aton [a, b, c, d] =
     (if a < 256 \<and> b < 256 \<and> c < 256 \<and> d < 256 then Some (a * 2 ^ 24 + b * 2 ^ 16 + c * 2 ^ 8 + d) else None)"
| "inet_aton _ = None"

lemma word_or_add:
  assumes "n < 2 ^ k"
  shows "push_bit k (word_of_nat m :: 32 word) OR word_of_nat n = word_of_nat (m * 2 ^ k + n)"
proof -
  have "push_bit k (word_of_nat m :: 32 word) AND word_of_nat n = 0"
  proof (rule bit_eqI)
    fix i
    have "\<not> bit n i" if "k \<le> i"
      using assms that by (simp add: bit_iff_odd div_less less_le_trans [of n "2 ^ k" "2 ^ i"])
    then show "bit (push_bit k (word_of_nat m :: 32 word) AND word_of_nat n) i = bit (0 :: 32 word) i"
      by (auto simp: bit_simps)
  qed
  then have "push_bit k (word_of_nat m :: 32 word) OR word_of_nat n = push_bit k (word_of_nat m) + word_of_nat n"
    by (rule disjunctive_add_eq_or [symmetric])
  then show ?thesis by (simp add: push_bit_eq_mult)
qed

lemma push_or: "push_bit k (push_bit j a OR b) = push_bit (k + j) a OR push_bit k (b :: 32 word)"
  by (simp add: push_bit_or add.commute)

lemma assemble_inet: "assemble ns = map_option word_of_nat (inet_aton ns)"
proof (cases ns rule: assemble.cases)
  case (2 a b)
  then show ?thesis using word_or_add [of b 24 a] by auto
next
  case (3 a b c)
  have "push_bit 24 (word_of_nat a :: 32 word) OR push_bit 16 (word_of_nat b) = push_bit 16 (word_of_nat (a * 256 + b))"
    if "b < 256"
    using word_or_add [of b 8 a] that push_or [of 16 8 "word_of_nat a" "word_of_nat b"] by simp
  then show ?thesis using 3 word_or_add [of c 16 "a * 256 + b"]
    by (auto simp: or.assoc [symmetric] algebra_simps)
next
  case (4 a b c d)
  have 1: "push_bit 24 (word_of_nat a :: 32 word) OR push_bit 16 (word_of_nat b) = push_bit 16 (word_of_nat (a * 256 + b))"
    if "b < 256"
    using word_or_add [of b 8 a] that push_or [of 16 8 "word_of_nat a" "word_of_nat b"] by simp
  have 2: "push_bit 16 (word_of_nat m :: 32 word) OR push_bit 8 (word_of_nat c) = push_bit 8 (word_of_nat (m * 256 + c))"
    if "c < 256" for m
    using word_or_add [of c 8 m] that push_or [of 8 8 "word_of_nat m" "word_of_nat c"] by simp
  show ?thesis using 4 1 2 [of "a * 256 + b"] word_or_add [of d 8 "(a * 256 + b) * 256 + c"]
    by (auto simp: or.assoc [symmetric] algebra_simps)
qed auto


lemma inet_aton_less: "inet_aton ns = Some n \<Longrightarrow> n < 2 ^ 32"
  by (cases ns rule: inet_aton.cases) (auto split: if_splits)

section \<open>Numeric hosts\<close>

lemma js_split_digits: "CHR ''.'' \<notin> set s \<Longrightarrow> js_split (CHR ''.'') s = [s]"
  by (rule js_split_single)

lemma hex_not_colon: "\<not> is_digit_in 16 CHR '':''" "\<not> is_digit CHR '':''"
  by code_simp+

lemma lower_colon: "CHR '':'' \<in> set s \<Longrightarrow> CHR '':'' \<in> set (js_toLowerCase s)"
proof -
  have "toLower CHR '':'' = CHR '':''" by code_simp
  then show "CHR '':'' \<in> set s \<Longrightarrow> CHR '':'' \<in> set (js_toLowerCase s)"
    by (force simp: js_toLowerCase_def)
qed

lemma part_value_no_colon:
  assumes "part_value p = Some n"
  shows "CHR '':'' \<notin> set p"
proof
  assume c: "CHR '':'' \<in> set p"
  then have "\<not> list_all is_digit p" using hex_not_colon(2) by (auto simp: list_all_iff)
  with assms have h: "js_toLowerCase (take 2 p) = ''0x''" "list_all (is_digit_in 16) (drop 2 p)"
    by (auto simp: part_value_def split: if_splits)
  from c have "CHR '':'' \<in> set (take 2 p) \<or> CHR '':'' \<in> set (drop 2 p)"
    by (metis append_take_drop_id set_append Un_iff)
  with h hex_not_colon(1) lower_colon [of "take 2 p"] show False
    by (auto simp: list_all_iff)
qed

lemma part_values_no_colon:
  "part_values ps = Some ns \<Longrightarrow> p \<in> set ps \<Longrightarrow> CHR '':'' \<notin> set p"
  by (induction ps arbitrary: ns rule: part_values.induct) (auto split: option.splits dest: part_value_no_colon)

lemma part_values_length: "part_values ps = Some ns \<Longrightarrow> length ns = length ps"
  by (induction ps arbitrary: ns rule: part_values.induct) (auto split: option.splits)

lemma split_set: "set s \<subseteq> insert c (\<Union> (set ` set (js_split c s)))"
proof (induction s)
  case (Cons x s)
  obtain y ys where "js_split c s = y # ys" by (cases "js_split c s") auto
  with Cons show ?case by (auto simp: subset_iff)
qed simp

lemma numeric_no_colon:
  assumes "part_values (js_split (CHR ''.'') s) = Some ns"
  shows "CHR '':'' \<notin> set s"
  using split_set [of s "CHR ''.''"] part_values_no_colon [OF assms] by auto

lemma split_colons_single: "CHR '':'' \<notin> set s \<Longrightarrow> split_colons s = [s]"
  by (induction s rule: split_colons.induct) auto

lemma not_v6: "CHR '':'' \<notin> set s \<Longrightarrow> \<not> is_v6 s"
proof -
  assume c: "CHR '':'' \<notin> set s"
  define a where "a = takeWhile (\<lambda>c. c \<noteq> CHR ''%'') s"
  have a: "CHR '':'' \<notin> set a" using c by (auto simp: a_def dest: set_takeWhileD)
  then have "\<not> is_v6_addr a"
    by (auto simp: is_v6_addr_def split_colons_single v6_count_def js_split_single Let_def split: if_splits)
  then show "\<not> is_v6 s" by (simp add: is_v6_def a_def Let_def)
qed

lemma net_isIP_no_colon: "CHR '':'' \<notin> set s \<Longrightarrow> net_isIP s \<noteq> 6"
  by (simp add: net_isIP_def not_v6)

lemma normalize_inet:
  assumes "part_values (js_split (CHR ''.'') s) = Some ns"
  shows "normalizeNumericIPv4 s = map_option (\<lambda>n. dotted (word_of_nat n)) (inet_aton ns)"
proof (cases "4 < length ns")
  case True
  then have "inet_aton ns = None" by (cases ns rule: inet_aton.cases) auto
  with True part_values_length [OF assms] show ?thesis
    by (simp add: normalizeNumericIPv4_def Let_def)
next
  case False
  with assms part_values_length [OF assms] show ?thesis
    by (simp add: normalizeNumericIPv4_def Let_def assemble_inet option.map_comp comp_def)
qed

lemma private_numeric:
  assumes "part_values (js_split (CHR ''.'') (strip_brackets (js_toLowerCase h))) = Some ns"
  shows "isPrivateHostname h \<longleftrightarrow> (case inet_aton ns of None \<Rightarrow> False | Some n \<Rightarrow> addr_blocked (word_of_nat n))"
proof -
  define s where "s = strip_brackets (js_toLowerCase h)"
  have p: "part_values (js_split (CHR ''.'') s) = Some ns" using assms by (simp add: s_def)
  have "part_value ''localhost'' = None" by code_simp
  then have l: "s \<noteq> ''localhost''" using p by auto
  show ?thesis
    using l net_isIP_no_colon [OF numeric_no_colon [OF p]]
    by (simp add: isPrivateHostname_def s_def [symmetric] normalize_inet [OF p] isBlockedIPv4_dotted
        split: option.splits)
qed


section \<open>Embedded addresses\<close>

lemma dotted_eq: "dotted a = show_nat (octet 24 a) @ ''.'' @ show_nat (octet 16 a) @ ''.'' @ show_nat (octet 8 a) @ ''.''
    @ show_nat (octet 0 a)"
  by (simp add: dotted_def)

lemma dotted_chars: "c \<in> set (dotted a) \<Longrightarrow> is_digit c \<or> c = CHR ''.''"
  using show_nat_digits by (auto simp: dotted_eq list_all_iff)

lemma dot_props: "toLower CHR ''.'' = CHR ''.''" "\<not> is_digit CHR ''.''" "\<not> is_digit_in 16 CHR ''.''"
  by code_simp+

lemma dotted_no: "CHR '':'' \<notin> set (dotted a)" "CHR ''%'' \<notin> set (dotted a)" "CHR ''.'' \<in> set (dotted a)" "dotted a \<noteq> []"
  by (auto dest!: dotted_chars dest: digit_not) (simp_all add: dotted_eq)

lemma lower_dotted: "js_toLowerCase (dotted a) = dotted a"
  unfolding js_toLowerCase_def by (rule map_idI) (auto dest!: dotted_chars simp: digit_not dot_props)

lemma show_nat_length:
  assumes "n < 1000"
  shows "length (show_nat n) \<le> 3"
proof -
  have one: "length (show_nat k) = 1" if "k < 10" for k
    using that by (subst show_nat.simps) simp
  have two: "length (show_nat k) \<le> 2" if "k < 100" for k
    using that one [of "k div 10"] one [of k] by (subst show_nat.simps) simp
  show ?thesis
    using assms two [of "n div 10"] by (subst show_nat.simps) simp
qed

lemma v4_octet_show: "n < 256 \<Longrightarrow> is_v4_octet (show_nat n)"
proof -
  assume n: "n < 256"
  have "length (show_nat 0) = 1" by (subst show_nat.simps) simp
  with n show_nat_lead [of n] show_nat_length [of n] show ?thesis
    by (auto simp: is_v4_octet_def show_nat_digits read_show_nat)
qed

lemma is_v4_dotted: "is_v4 (dotted a)"
  by (simp add: is_v4_def js_split_dotted v4_octet_show octet_less)

lemma isBlockedIp_dotted: "isBlockedIp (dotted a) \<longleftrightarrow> addr_blocked a"
  by (simp add: isBlockedIp_def net_isIP_def is_v4_dotted isBlockedIPv4_dotted)

lemma octets_sum: "octet 24 a * 2 ^ 24 + octet 16 a * 2 ^ 16 + octet 8 a * 2 ^ 8 + octet 0 a = unat a"
proof -
  define n where "n = unat a"
  define k where "k = n div 256"
  define l where "l = k div 256"
  have "l div 256 < 256"
    using unsigned_less [of a, where ?'a = nat] by (simp add: l_def k_def n_def div_mult2_eq [symmetric] less_mult_imp_div_less)
  then have o: "octet 24 a = l div 256" "octet 16 a = l mod 256" "octet 8 a = k mod 256" "octet 0 a = n mod 256"
    by (simp_all add: octet_div l_def k_def n_def div_mult2_eq [symmetric])
  have "n = k * 256 + n mod 256" "k = l * 256 + k mod 256" "l = l div 256 * 256 + l mod 256"
    by (simp_all add: k_def l_def)
  then have "l div 256 * 16777216 + l mod 256 * 65536 + k mod 256 * 256 + n mod 256 = n"
    by linarith
  then show ?thesis unfolding o n_def [symmetric] by simp
qed

lemma inet_aton_octets: "inet_aton [octet 24 a, octet 16 a, octet 8 a, octet 0 a] = Some (unat a)"
  using octets_sum [of a] by (simp add: octet_less)

lemma strip_dotted: "strip_brackets (dotted a) = dotted a"
proof -
  have c: "c \<noteq> CHR '']'' \<and> c \<noteq> CHR ''[''" if "c \<in> set (dotted a)" for c
    using dotted_chars [OF that] by (auto simp: is_digit_def)
  obtain d ds where d: "dotted a = d # ds" using dotted_no(4) [of a] by (cases "dotted a") auto
  have "last (dotted a) \<noteq> CHR '']''" "take 1 (dotted a) \<noteq> ''[''"
    using c [OF last_in_set [OF dotted_no(4)]] c [of d] by (simp_all add: d)
  then show ?thesis by (simp add: strip_brackets_def Let_def)
qed

lemma private_dotted: "isPrivateHostname (dotted a) \<longleftrightarrow> addr_blocked a"
  using private_numeric [of "dotted a", unfolded lower_dotted strip_dotted js_split_dotted] inet_aton_octets [of a]
  by (simp add: part_value_show_nat)

end
