(* ===== verification/Webhook_Embedded.thy ===== *)
theory Webhook_Embedded
  imports Webhook_Numeric
begin

text \<open>
  IPv6 literals that carry an IPv4 address: the mapped prefix \<open>::ffff:0:0/96\<close> and the NAT64 prefix
  \<open>64:ff9b::/96\<close>, with the address in dotted or in hexadecimal form, are blocked exactly when the
  IPv4 address is.
\<close>

unbundle bit_operations_syntax

section \<open>Hexadecimal groups\<close>

lemma hex_char_table:
  "list_all (\<lambda>d. is_digit_in 16 (hex_char d) \<and> digit_val (hex_char d) = Some d \<and> \<not> is_upper (hex_char d)
      \<and> hex_char d \<noteq> CHR '':'' \<and> hex_char d \<noteq> CHR ''.'' \<and> hex_char d \<noteq> CHR ''%'' \<and> toLower (hex_char d) = hex_char d)
    [0, 1, 2, 3, 4, 5, 6, 7, 8, 9, 10, 11, 12, 13, 14, 15]"
  by code_simp

lemma hex_char_props:
  assumes "d < 16"
  shows "is_digit_in 16 (hex_char d)" "digit_val (hex_char d) = Some d" "\<not> is_upper (hex_char d)" "hex_char d \<noteq> CHR '':''"
    "hex_char d \<noteq> CHR ''.''" "hex_char d \<noteq> CHR ''%''" "toLower (hex_char d) = hex_char d"
proof -
  have "d \<in> set [0, 1, 2, 3, 4, 5, 6, 7, 8, 9, 10, 11, 12, 13, 14, 15]"
    using assms by simp arith
  with hex_char_table show "is_digit_in 16 (hex_char d)" "digit_val (hex_char d) = Some d" "\<not> is_upper (hex_char d)"
    "hex_char d \<noteq> CHR '':''" "hex_char d \<noteq> CHR ''.''" "hex_char d \<noteq> CHR ''%''" "toLower (hex_char d) = hex_char d"
    unfolding list_all_iff by blast+
qed

lemma show_hex_chars:
  "list_all (\<lambda>c. is_digit_in 16 c \<and> \<not> is_upper c \<and> c \<noteq> CHR '':'' \<and> c \<noteq> CHR ''.'' \<and> c \<noteq> CHR ''%'' \<and> toLower c = c) (show_hex n)"
  by (induction n rule: show_hex.induct) (subst show_hex.simps, simp add: hex_char_props)

lemma show_hex_not_Nil [simp]: "show_hex n \<noteq> []"
  by (subst show_hex.simps) simp

lemma read_show_hex: "read_digits 16 (show_hex n) 0 = n"
proof (induction n rule: show_hex.induct)
  case (1 n)
  then show ?case
    by (subst show_hex.simps) (simp add: read_digits_append hex_char_props)
qed

lemma show_hex_length:
  assumes "n < 65536"
  shows "length (show_hex n) \<le> 4"
proof -
  have one: "length (show_hex k) \<le> 1" if "k < 16" for k
    using that by (subst show_hex.simps) simp
  have two: "length (show_hex k) \<le> 2" if "k < 256" for k
    using that one [of "k div 16"] by (subst show_hex.simps) simp
  have three: "length (show_hex k) \<le> 3" if "k < 4096" for k
    using that two [of "k div 16"] by (subst show_hex.simps) simp
  show ?thesis
    using assms three [of "n div 16"] by (subst show_hex.simps) simp
qed

lemma hextet_show: "n < 65536 \<Longrightarrow> hextet (show_hex n) = Some n"
  using show_hex_chars [of n] show_hex_length [of n] by (auto simp: hextet_def read_show_hex list_all_iff)

lemma seg_show: "n < 65536 \<Longrightarrow> is_v6_seg (show_hex n)"
  using show_hex_chars [of n] show_hex_length [of n] by (auto simp: is_v6_seg_def list_all_iff)

lemma hex_no: "CHR '':'' \<notin> set (show_hex n)" "CHR ''.'' \<notin> set (show_hex n)" "CHR ''%'' \<notin> set (show_hex n)"
  using show_hex_chars [of n] by (auto simp: list_all_iff)

lemma lower_hex: "js_toLowerCase (show_hex n) = show_hex n"
  using show_hex_chars [of n] by (auto simp: js_toLowerCase_def list_all_iff intro!: map_idI)

text \<open>The two groups of an address, as the code prints them.\<close>

definition hex_pair :: "32 word \<Rightarrow> string" where
  "hex_pair a = show_hex (unat a div 65536) @ '':'' @ show_hex (unat a mod 65536)"

lemma nat_or_add:
  fixes n :: nat
  assumes "n < 2 ^ k"
  shows "push_bit k m OR n = m * 2 ^ k + n"
proof -
  have "push_bit k m AND n = 0"
  proof (rule bit_eqI)
    fix i
    have "\<not> bit n i" if "k \<le> i"
      using assms that by (simp add: bit_iff_odd div_less less_le_trans [of n "2 ^ k" "2 ^ i"])
    then show "bit (push_bit k m AND n) i = bit (0 :: nat) i"
      by (auto simp: bit_simps)
  qed
  then have "push_bit k m OR n = push_bit k m + n"
    by (rule disjunctive_add_eq_or [symmetric])
  then show ?thesis by (simp add: push_bit_eq_mult)
qed

lemma split_block:
  fixes l :: nat
  assumes "l < m"
  shows "(h * m + l) div m = h" "(h * m + l) mod m = l"
  using assms by simp_all

lemma pair_groups:
  "push_bit 8 (octet 24 a) OR octet 16 a = unat a div 65536" "push_bit 8 (octet 8 a) OR octet 0 a = unat a mod 65536"
proof -
  have or_add: "push_bit 8 m OR n = m * 256 + n" if "n < 256" for m n :: nat
    using nat_or_add [of n 8 m] that by simp
  have s: "unat a = (octet 24 a * 256 + octet 16 a) * 65536 + (octet 8 a * 256 + octet 0 a)"
    using octets_sum [of a] by simp
  have l: "octet 8 a * 256 + octet 0 a < 65536"
    using octet_less [of 8 a] octet_less [of 0 a] by linarith
  show "push_bit 8 (octet 24 a) OR octet 16 a = unat a div 65536" "push_bit 8 (octet 8 a) OR octet 0 a = unat a mod 65536"
    unfolding s or_add [OF octet_less] by (simp_all only: split_block [OF l])
qed

lemma pair_less: "unat a div 65536 < 65536" "unat (a :: 32 word) mod 65536 < 65536"
  using unsigned_less [of a, where ?'a = nat] by (simp_all add: less_mult_imp_div_less)


section \<open>Mapped and NAT64 addresses\<close>

text \<open>The prefixes \<open>::ffff:0:0/96\<close> and \<open>64:ff9b::/96\<close>, each followed by the dotted or the hexadecimal form.\<close>

lemma prefix_hex: "show_hex 0xffff = ''ffff''" "show_hex 0x64 = ''64''" "show_hex 0xff9b = ''ff9b''"
  by (simp_all add: show_hex.simps hex_char_def)

lemmas prefix_groups =
  hextet_show [of "0xffff", unfolded prefix_hex] hextet_show [of "0x64", unfolded prefix_hex] hextet_show [of "0xff9b", unfolded prefix_hex]
  seg_show [of "0xffff", unfolded prefix_hex] seg_show [of "0x64", unfolded prefix_hex] seg_show [of "0xff9b", unfolded prefix_hex]

lemma dotted_no_seg: "\<not> is_v6_seg (dotted a)"
  using dotted_no(3) [of a] dot_props(3) by (auto simp: is_v6_seg_def list_all_iff)

lemma split_colons_cons:
  assumes "s \<noteq> []" and "c \<noteq> CHR '':'' \<or> hd s \<noteq> CHR '':''" and "split_colons s = y # ys"
  shows "split_colons (c # s) = (c # y) # ys"
  using assms by (cases s) auto

lemma split_colons_front: "CHR '':'' \<notin> set t \<Longrightarrow> split_colons (t @ '':'' @ '':'' @ s) = t # split_colons s"
proof (induction t)
  case (Cons c t)
  then show ?case using split_colons_cons [of "t @ '':'' @ '':'' @ s" c t "split_colons s"] by auto
qed simp

lemma split_colons_join:
  assumes "CHR '':'' \<notin> set t" and "s \<noteq> []" and "hd s \<noteq> CHR '':''" and "split_colons s = y # ys"
  shows "split_colons (t @ '':'' @ s) = (t @ '':'' @ y) # ys"
  using assms
proof (induction t)
  case Nil
  then show ?case using split_colons_cons [of s "CHR '':''" y ys] by simp
next
  case (Cons c t)
  then show ?case using split_colons_cons [of "t @ '':'' @ s" c "t @ '':'' @ y" ys] by auto
qed

lemma hd_not_colon: "CHR '':'' \<notin> set s \<Longrightarrow> s \<noteq> [] \<Longrightarrow> hd s \<noteq> CHR '':''"
  by (cases s) auto

definition tail_ok :: "32 word \<Rightarrow> string \<Rightarrow> bool" where
  "tail_ok a t \<longleftrightarrow> t = dotted a \<or> t = hex_pair a"

lemma hex_pair_colons:
  "split_colons (hex_pair a) = [hex_pair a]" "hex_pair a \<noteq> []" "hd (hex_pair a) \<noteq> CHR '':''"
  "js_split (CHR '':'') (hex_pair a) = [show_hex (unat a div 65536), show_hex (unat a mod 65536)]"
proof -
  have n: "hd (show_hex n) \<noteq> CHR '':''" for n by (rule hd_not_colon) (simp_all add: hex_no)
  show "split_colons (hex_pair a) = [hex_pair a]"
    unfolding hex_pair_def by (rule split_colons_join) (simp_all add: hex_no split_colons_single n)
  show "hex_pair a \<noteq> []" "hd (hex_pair a) \<noteq> CHR '':''"
    using n by (simp_all add: hex_pair_def)
  have "js_split (CHR '':'') (js_join '':'' [show_hex (unat a div 65536), show_hex (unat a mod 65536)])
      = [show_hex (unat a div 65536), show_hex (unat a mod 65536)]"
    by (rule js_split_join) (auto simp: hex_no)
  then show "js_split (CHR '':'') (hex_pair a) = [show_hex (unat a div 65536), show_hex (unat a mod 65536)]"
    by (simp add: hex_pair_def)
qed

lemma js_split_cons_sep: "CHR '':'' \<notin> set t \<Longrightarrow> js_split (CHR '':'') (t @ '':'' @ s) = t # js_split (CHR '':'') s"
  by (induction t) auto

lemma dotted_colons:
  "split_colons (dotted a) = [dotted a]" "hd (dotted a) \<noteq> CHR '':''" "js_split (CHR '':'') (dotted a) = [dotted a]"
  using dotted_no [of a] by (simp_all add: split_colons_single js_split_single hd_not_colon)

lemma v6_count_tail:
  "v6_count True (dotted a) = Some 2" "v6_count True (''ffff:'' @ dotted a) = Some 3"
  "v6_count True (hex_pair a) = Some 2" "v6_count True (''ffff:'' @ hex_pair a) = Some 3"
proof -
  have f: "''ffff:'' @ s = ''ffff'' @ '':'' @ s" for s by simp
  have c: "CHR '':'' \<notin> set ''ffff''" by simp
  show "v6_count True (dotted a) = Some 2" "v6_count True (''ffff:'' @ dotted a) = Some 3"
    unfolding f v6_count_def
    by (simp_all only: js_split_cons_sep [OF c] dotted_colons)
       (simp_all add: dotted_no dotted_no_seg prefix_groups is_v4_dotted)
  show "v6_count True (hex_pair a) = Some 2" "v6_count True (''ffff:'' @ hex_pair a) = Some 3"
    unfolding f v6_count_def
    by (simp_all only: js_split_cons_sep [OF c] hex_pair_colons)
       (simp_all add: prefix_groups seg_show pair_less hex_pair_colons)
qed


lemma colons_of_prefix:
  assumes "split_colons t = [t]" and "t \<noteq> []" and "hd t \<noteq> CHR '':''"
  shows "split_colons (''::ffff:'' @ t) = [[], ''ffff:'' @ t]" "split_colons (''64:ff9b::'' @ t) = [''64:ff9b'', t]"
proof -
  have "split_colons (''ffff'' @ '':'' @ t) = [''ffff'' @ '':'' @ t]"
    by (rule split_colons_join) (use assms in auto)
  then show "split_colons (''::ffff:'' @ t) = [[], ''ffff:'' @ t]" by simp
  have "split_colons (''ff9b'' @ '':'' @ '':'' @ t) = ''ff9b'' # [t]"
    using split_colons_front [of "''ff9b''" t] assms(1) by simp
  then have "split_colons (''64'' @ '':'' @ ''ff9b'' @ '':'' @ '':'' @ t) = (''64'' @ '':'' @ ''ff9b'') # [t]"
    by (intro split_colons_join) auto
  then show "split_colons (''64:ff9b::'' @ t) = [''64:ff9b'', t]" by simp
qed

lemma dotted_not_Nil [simp]: "dotted a \<noteq> []"
  by (rule dotted_no(4))

lemma hex_pair_no: "CHR ''%'' \<notin> set (hex_pair a)" "CHR ''.'' \<notin> set (hex_pair a)"
  by (auto simp: hex_pair_def hex_no)

lemma v6_count_prefix: "v6_count False ''64:ff9b'' = Some 2"
proof -
  have "js_split (CHR '':'') ''64:ff9b'' = [''64'', ''ff9b'']" by simp
  then show ?thesis by (simp add: v6_count_def prefix_groups)
qed

lemma takeWhile_no: "c \<notin> set s \<Longrightarrow> takeWhile (\<lambda>x. x \<noteq> c) s = s" "c \<notin> set s \<Longrightarrow> dropWhile (\<lambda>x. x \<noteq> c) s = []"
  by (auto simp: takeWhile_eq_all_conv dropWhile_eq_Nil_conv)

lemma is_v6_no_zone: "CHR ''%'' \<notin> set s \<Longrightarrow> is_v6 s = is_v6_addr s"
  by (simp add: is_v6_def takeWhile_no)

lemma is_v6_prefixed:
  assumes "t = dotted a \<or> t = hex_pair a"
  shows "is_v6 (''::ffff:'' @ t)" "is_v6 (''64:ff9b::'' @ t)"
proof -
  have t: "split_colons t = [t]" "t \<noteq> []" "hd t \<noteq> CHR '':''" "CHR ''%'' \<notin> set t" "v6_count True t = Some 2"
    "v6_count True (''ffff:'' @ t) = Some 3"
    using assms by (elim disjE; simp add: dotted_colons hex_pair_colons dotted_no hex_pair_no v6_count_tail del: append.simps)+
  have "is_v6_addr (''::ffff:'' @ t)"
    unfolding is_v6_addr_def colons_of_prefix(1) [OF t(1-3)] using t(6) by (simp add: v6_count_def)
  moreover have "is_v6_addr (''64:ff9b::'' @ t)"
    unfolding is_v6_addr_def colons_of_prefix(2) [OF t(1-3)] using t(5) v6_count_prefix by simp
  ultimately show "is_v6 (''::ffff:'' @ t)" "is_v6 (''64:ff9b::'' @ t)"
    using t(4) by (simp_all add: is_v6_no_zone)
qed

lemma is_v4_no_colon: "is_v4 s \<Longrightarrow> CHR '':'' \<notin> set s"
proof
  assume v: "is_v4 s" and c: "CHR '':'' \<in> set s"
  then obtain p where "p \<in> set (js_split (CHR ''.'') s)" "CHR '':'' \<in> set p"
    using split_set [of s "CHR ''.''"] by auto
  with v have "is_digit CHR '':''" by (auto simp: is_v4_def is_v4_octet_def Let_def list_all_iff)
  then show False using hex_not_colon by simp
qed

lemma isIP_prefixed:
  assumes "t = dotted a \<or> t = hex_pair a"
  shows "net_isIP (''::ffff:'' @ t) = 6" "net_isIP (''64:ff9b::'' @ t) = 6"
  using is_v6_prefixed [OF assms] is_v4_no_colon [of "''::ffff:'' @ t"] is_v4_no_colon [of "''64:ff9b::'' @ t"]
  unfolding net_isIP_def by auto


section \<open>The embedded address\<close>

lemma nat_and_255: "k AND 0xFF = k mod 256" for k :: nat
  using take_bit_eq_mask [of 8 k] take_bit_eq_mod [of 8 k] by (simp add: mask_eq_exp_minus_1)

lemma fold_quad_dotted: "fold_quad (q @ '':'' @ dotted a) = Some (q @ '':'' @ hex_pair a)"
proof -
  have r: "rev (q @ '':'' @ dotted a) = rev (dotted a) @ CHR '':'' # rev q" by simp
  have "takeWhile (\<lambda>c. c \<noteq> CHR '':'') (rev (q @ '':'' @ dotted a)) = rev (dotted a)"
    "dropWhile (\<lambda>c. c \<noteq> CHR '':'') (rev (q @ '':'' @ dotted a)) = CHR '':'' # rev q"
    unfolding r by (subst takeWhile_append2 dropWhile_append2; use dotted_no(1) [of a] in force)+
  then show ?thesis
    unfolding fold_quad_def Let_def
    by (simp add: dotted_no js_split_dotted show_nat_digits read_show_nat octet_less less_imp_le hex_pair_def pair_groups
        octet_less [THEN Suc_leI, simplified])
qed

lemma fold_quad_pair: "fold_quad (q @ '':'' @ hex_pair a) = Some (q @ '':'' @ hex_pair a)"
proof -
  define y where "y = show_hex (unat a mod 65536)"
  obtain u where u: "q @ '':'' @ hex_pair a = u @ '':'' @ y" by (simp add: hex_pair_def y_def)
  have y: "\<forall>c \<in> set y. c \<noteq> CHR '':''" "CHR ''.'' \<notin> set y" using hex_no by (auto simp: y_def)
  have "takeWhile (\<lambda>c. c \<noteq> CHR '':'') (rev y @ CHR '':'' # rev u) = rev y"
    by (subst takeWhile_append2) (use y in auto)
  then show ?thesis
    unfolding u fold_quad_def Let_def using y by simp
qed

lemma groups_prefixed:
  "groups_of (''::ffff:'' @ hex_pair a)
     = Some (replicate 5 (Some 0) @ [Some 0xffff, Some (unat a div 65536), Some (unat a mod 65536)])"
  "groups_of (''64:ff9b::'' @ hex_pair a)
     = Some ([Some 0x64, Some 0xff9b] @ replicate 4 (Some 0) @ [Some (unat a div 65536), Some (unat a mod 65536)])"
proof -
  have "js_split (CHR '':'') (''ffff'' @ '':'' @ hex_pair a) = ''ffff'' # js_split (CHR '':'') (hex_pair a)"
    by (rule js_split_cons_sep) simp
  then have g: "toGroups (''ffff:'' @ hex_pair a) = [Some 0xffff, Some (unat a div 65536), Some (unat a mod 65536)]"
    by (simp add: toGroups_def hex_pair_colons hextet_show pair_less prefix_groups)
  have p: "toGroups ''64:ff9b'' = [Some 0x64, Some 0xff9b]"
  proof -
    have "js_split (CHR '':'') ''64:ff9b'' = [''64'', ''ff9b'']" by simp
    then show ?thesis by (simp add: toGroups_def prefix_groups)
  qed
  have h: "toGroups (hex_pair a) = [Some (unat a div 65536), Some (unat a mod 65536)]"
    by (simp add: toGroups_def hex_pair_colons hextet_show pair_less)
  have n: "toGroups [] = []" by (simp add: toGroups_def)
  show "groups_of (''::ffff:'' @ hex_pair a)
     = Some (replicate 5 (Some 0) @ [Some 0xffff, Some (unat a div 65536), Some (unat a mod 65536)])"
    unfolding groups_of_def colons_of_prefix(1) [OF hex_pair_colons(1-3)] list.case g n by simp
  show "groups_of (''64:ff9b::'' @ hex_pair a)
     = Some ([Some 0x64, Some 0xff9b] @ replicate 4 (Some 0) @ [Some (unat a div 65536), Some (unat a mod 65536)])"
    unfolding groups_of_def colons_of_prefix(2) [OF hex_pair_colons(1-3)] list.case h p by simp
qed

lemma pair_octets:
  "unat a div 65536 div 256 mod 256 = octet 24 a" "unat a div 65536 mod 256 = octet 16 a"
  "unat a mod 65536 div 256 mod 256 = octet 8 a" "unat a mod 65536 mod 256 = octet 0 a"
proof -
  have s: "unat a = (octet 24 a * 256 + octet 16 a) * 65536 + (octet 8 a * 256 + octet 0 a)"
    using octets_sum [of a] by simp
  have l: "octet 8 a * 256 + octet 0 a < 65536"
    using octet_less [of 8 a] octet_less [of 0 a] by linarith
  have d: "unat a div 65536 = octet 24 a * 256 + octet 16 a" "unat a mod 65536 = octet 8 a * 256 + octet 0 a"
    unfolding s by (simp_all only: split_block [OF l])
  show "unat a div 65536 div 256 mod 256 = octet 24 a" "unat a div 65536 mod 256 = octet 16 a"
    "unat a mod 65536 div 256 mod 256 = octet 8 a" "unat a mod 65536 mod 256 = octet 0 a"
    unfolding d split_block [OF octet_less] by (simp_all add: octet_less)
qed


lemma expand_prefixed:
  assumes "t = dotted a \<or> t = hex_pair a"
  shows "expandIPv6ToBytes (''::ffff:'' @ t) = Some (MAPPED_PREFIX @ [octet 24 a, octet 16 a, octet 8 a, octet 0 a])"
    "expandIPv6ToBytes (''64:ff9b::'' @ t) = Some (NAT64_PREFIX @ [octet 24 a, octet 16 a, octet 8 a, octet 0 a])"
proof -
  have f: "fold_quad (''::ffff:'' @ t) = Some (''::ffff:'' @ hex_pair a)" "fold_quad (''64:ff9b::'' @ t) = Some (''64:ff9b::'' @ hex_pair a)"
    using assms fold_quad_dotted [of "''::ffff''" a] fold_quad_dotted [of "''64:ff9b:''" a]
      fold_quad_pair [of "''::ffff''" a] fold_quad_pair [of "''64:ff9b:''" a] by auto
  have zeros: "concat (replicate 5 [0, 0]) = replicate 10 (0 :: nat)" "concat (replicate 4 [0, 0]) = [0, 0, 0, 0, 0, 0, 0, 0 :: nat]"
    by code_simp+
  show "expandIPv6ToBytes (''::ffff:'' @ t) = Some (MAPPED_PREFIX @ [octet 24 a, octet 16 a, octet 8 a, octet 0 a])"
    unfolding expandIPv6ToBytes_def f option.case groups_prefixed
    by (simp add: nat_and_255 drop_bit_eq_div pair_octets MAPPED_PREFIX_def zeros)
  show "expandIPv6ToBytes (''64:ff9b::'' @ t) = Some (NAT64_PREFIX @ [octet 24 a, octet 16 a, octet 8 a, octet 0 a])"
    unfolding expandIPv6ToBytes_def f option.case groups_prefixed
    by (simp add: nat_and_255 drop_bit_eq_div pair_octets NAT64_PREFIX_def zeros)
qed

lemma embedded_prefixed:
  assumes "t = dotted a \<or> t = hex_pair a"
  shows "embeddedIPv4 (''::ffff:'' @ t) = Some (dotted a)" "embeddedIPv4 (''64:ff9b::'' @ t) = Some (dotted a)"
  unfolding embeddedIPv4_def expand_prefixed [OF assms] by (simp_all add: MAPPED_PREFIX_def NAT64_PREFIX_def dotted_def)

lemma lower_prefixed:
  assumes "t = dotted a \<or> t = hex_pair a"
  shows "js_toLowerCase (''::ffff:'' @ t) = ''::ffff:'' @ t" "js_toLowerCase (''64:ff9b::'' @ t) = ''64:ff9b::'' @ t"
proof -
  have "js_toLowerCase t = t"
    using assms lower_dotted [of a] lower_hex by (auto simp: hex_pair_def js_toLowerCase_def toLower_def is_upper_def)
  moreover have "js_toLowerCase ''::ffff:'' = ''::ffff:''" "js_toLowerCase ''64:ff9b::'' = ''64:ff9b::''"
    by code_simp+
  ultimately show "js_toLowerCase (''::ffff:'' @ t) = ''::ffff:'' @ t" "js_toLowerCase (''64:ff9b::'' @ t) = ''64:ff9b::'' @ t"
    by (simp_all add: js_toLowerCase_def)
qed

lemma isBlockedIp_prefixed:
  assumes "t = dotted a \<or> t = hex_pair a"
  shows "isBlockedIp (''::ffff:'' @ t) \<longleftrightarrow> addr_blocked a" "isBlockedIp (''64:ff9b::'' @ t) \<longleftrightarrow> addr_blocked a"
proof -
  have "t \<noteq> []" using assms dotted_not_Nil hex_pair_colons(2) by metis
  then show "isBlockedIp (''::ffff:'' @ t) \<longleftrightarrow> addr_blocked a" "isBlockedIp (''64:ff9b::'' @ t) \<longleftrightarrow> addr_blocked a"
    unfolding isBlockedIp_def isIP_prefixed [OF assms] lower_prefixed [OF assms] Let_def embedded_prefixed [OF assms] option.case
    by (simp_all add: isBlockedIPv4_dotted)
qed

lemma private_prefixed:
  assumes "t = dotted a \<or> t = hex_pair a"
  shows "isPrivateHostname (''['' @ ''::ffff:'' @ t @ '']'') \<longleftrightarrow> addr_blocked a"
    "isPrivateHostname (''['' @ ''64:ff9b::'' @ t @ '']'') \<longleftrightarrow> addr_blocked a"
proof -
  have b: "toLower CHR ''['' = CHR ''[''" "toLower CHR '']'' = CHR '']''" by code_simp+
  have s: "strip_brackets (js_toLowerCase (''['' @ p @ t @ '']'')) = p @ t" if "js_toLowerCase (p @ t) = p @ t" for p
    using that b by (simp add: js_toLowerCase_def strip_brackets_def butlast_append)
  have n: "normalizeNumericIPv4 (p @ t) = None" if "CHR '':'' \<in> set p" for p
    using numeric_no_colon [of "p @ t"] that
    by (cases "part_values (js_split (CHR ''.'') (p @ t))") (auto simp: normalizeNumericIPv4_def Let_def)
  show "isPrivateHostname (''['' @ ''::ffff:'' @ t @ '']'') \<longleftrightarrow> addr_blocked a"
    unfolding isPrivateHostname_def s [OF lower_prefixed(1) [OF assms]] Let_def
    using n [of "''::ffff:''"] isIP_prefixed(1) [OF assms] isBlockedIp_prefixed(1) [OF assms] by simp
  show "isPrivateHostname (''['' @ ''64:ff9b::'' @ t @ '']'') \<longleftrightarrow> addr_blocked a"
    unfolding isPrivateHostname_def s [OF lower_prefixed(2) [OF assms]] Let_def
    using n [of "''64:ff9b::''"] isIP_prefixed(2) [OF assms] isBlockedIp_prefixed(2) [OF assms] by simp
qed

end
