(* ===== verification/Webhook_Runs.thy ===== *)
theory Webhook_Runs
  imports Webhook_Delivery Webhook_Embedded
begin

text \<open>
  Runs of the delivery runtime: which requests leave the process, and that worker and scheduler stop.
\<close>

section \<open>Requests of a run\<close>

text \<open>The signature is made with a secret listed for the subscription within its own tenant and workspace.\<close>

definition signed_for :: "'d wh_env \<Rightarrow> webhook_request \<Rightarrow> bool" where
  "signed_for E q \<longleftrightarrow>
     (\<exists>(s :: webhook_subscription) d row secret. row \<in> set (listSecrets (en_store E) (ws_id s) (ws_tenant_id s) (ws_workspace_id s) d)
        \<and> en_keyId E = Inr (sk_key_id row) \<and> en_decrypt E (sk_cipher row) (sk_iv row) = Inr secret
        \<and> rq_url q = ws_target_url s \<and> rq_signature q = computeSignature (en_hmac E) (rq_body q) secret)"

definition good_request :: "'d wh_env \<Rightarrow> webhook_request \<Rightarrow> bool" where
  "good_request E q \<longleftrightarrow> \<not> isBlockedIp (rq_address q) \<and> signed_for E q"

text \<open>From \<open>w\<close> to \<open>w'\<close> only good requests were sent, and the rate counters did not change.\<close>

definition good_step :: "'d wh_env \<Rightarrow> 'd wh_world \<Rightarrow> 'd wh_world \<Rightarrow> bool" where
  "good_step E w w' \<longleftrightarrow>
     (\<exists>rs. sent w' = sent w @ rs \<and> list_all (good_request E) rs) \<and> rate_counters w' = rate_counters w"

lemma good_step_refl [simp, intro]: "good_step E w w"
  by (simp add: good_step_def)

lemma good_step_trans [trans]: "good_step E u v \<Longrightarrow> good_step E v w \<Longrightarrow> good_step E u w"
  by (force simp: good_step_def)

lemma good_step_same: "sent w' = sent w \<Longrightarrow> rate_counters w' = rate_counters w \<Longrightarrow> good_step E w w'"
  by (simp add: good_step_def)

lemma publish_wh_frame [simp]:
  "sent (publish_wh E t a w) = sent w" "store (publish_wh E t a w) = store w"
  "rate_counters (publish_wh E t a w) = rate_counters w"
  by (simp_all add: publish_wh_def)

lemma record_attempt_frame [simp]:
  "sent (record_attempt E i n out h m e f w) = sent w" "rate_counters (record_attempt E i n out h m e f w) = rate_counters w"
  by (simp_all add: record_attempt_def Let_def)

lemma resolve_frame:
  assumes "resolveDeliveryTarget E u w = (t, w')"
  shows "sent w' = sent w" "store w' = store w" "rate_counters w' = rate_counters w"
  using assms by (auto simp: resolveDeliveryTarget_def Let_def split: option.splits if_splits list.splits)

lemma resolve_sent:
  "resolveDeliveryTarget E u w = (t, w') \<Longrightarrow> sent w' = sent w \<and> rate_counters w' = rate_counters w"
  using resolve_frame by blast

lemma resolve_not_blocked:
  assumes "resolveDeliveryTarget E u w = (t, w')" and "\<not> tg_blocked t"
  shows "\<not> isBlockedIp (tg_address t)"
  using assms
  by (auto simp: resolveDeliveryTarget_def blocked_target_def Let_def split: option.splits if_splits list.splits)

text \<open>What a scheduler or invoker may do.\<close>

definition well_behaved :: "'d wh_env \<Rightarrow> ('d wh_world \<Rightarrow> 'd run) \<Rightarrow> bool" where
  "well_behaved E f \<longleftrightarrow> (\<forall>v r v'. f v = Some (r, v') \<longrightarrow> good_step E v v')"

lemma well_behavedD: "well_behaved E f \<Longrightarrow> f v = Some (r, v') \<Longrightarrow> good_step E v v'"
  by (auto simp: well_behaved_def)

lemma scheduler_good:
  assumes inv: "\<And>f i t. invoker = Some f \<Longrightarrow> well_behaved E (f i t)"
  shows "well_behaved E (retry_scheduler E invoker i n)"
  unfolding well_behaved_def
proof (intro allI impI)
  fix w r w'
  assume run: "retry_scheduler E invoker i n w = Some (r, w')"
  have step: "good_step E w v" if "good_step E (w\<lparr>store := d\<rparr>) v" for d v
    using that by (simp add: good_step_def)
  show "good_step E w w'"
    using run
    by (auto simp: retry_scheduler_def Let_def good_step_def split: option.splits if_splits sum.splits prod.splits
        dest!: well_behavedD [OF inv])
qed

lemma threw_good:
  assumes "\<And>i n. well_behaved E (schedule i n)" and "attempt_threw E schedule i n m w = Some (r, w')"
  shows "good_step E w w'"
  using well_behavedD [OF assms(1) assms(2) [unfolded attempt_threw_def]]
  by (simp add: good_step_def)

lemma response_good:
  assumes sch: "\<And>i n. well_behaved E (schedule i n)"
    and run: "handle_response E schedule d n p st loc ms w = Some (r, w')"
  shows "good_step E w w'"
proof -
  have failed: "good_step E v w'"
    if "schedule i n (record_attempt E i n out h m e f v) = Some (r, w')" for i out h m e f v
    using well_behavedD [OF sch that] by (simp add: good_step_def)
  show ?thesis
    using run
    by (auto simp: handle_response_def Let_def good_step_def split: if_splits prod.splits
        dest!: failed resolve_sent)
qed

lemma reveal_in:
  assumes "revealSecretRecords dec key rows = Inr srs" and "s \<in> set srs"
  shows "\<exists>row \<in> set rows. sk_key_id row = key \<and> dec (sk_cipher row) (sk_iv row) = Inr (sr_secret s)"
  using assms by (induction rows arbitrary: srs) (auto simp: bindE_eq_Inr split: if_splits)


lemma post_good:
  assumes sch: "\<And>i n. well_behaved E (schedule i n)"
    and t: "\<not> isBlockedIp (tg_address t)"
    and sec: "\<And>x. sec = Some x \<Longrightarrow> \<exists>d row. row \<in> set (listSecrets (en_store E) (ws_id s) (ws_tenant_id s) (ws_workspace_id s) d)
        \<and> en_keyId E = Inr (sk_key_id row) \<and> en_decrypt E (sk_cipher row) (sk_iv row) = Inr (sr_secret x)"
    and run: "post_webhook E schedule s d n p body sec t w = Some (r, w')"
  shows "good_step E w w'"
proof (cases "\<exists>x. sec = Some x \<and> valid_timeout (numberEnv (en_penv E) ''WEBHOOK_RESPONSE_TIMEOUT_MS'' 30000)")
  case False
  with run show ?thesis
    by (auto simp: post_webhook_def split: option.splits dest: threw_good [OF sch])
next
  case True
  then obtain x where x: "sec = Some x" and v: "valid_timeout (numberEnv (en_penv E) ''WEBHOOK_RESPONSE_TIMEOUT_MS'' 30000)"
    by blast
  define rq where "rq = \<lparr>rq_url = ws_target_url s, rq_address = tg_address t,
                   rq_family = tg_family t, rq_delivery = wd_id d, rq_event = wd_event_type d,
                   rq_signature = computeSignature (en_hmac E) body (sr_secret x),
                   rq_attempt = n, rq_timestamp = en_now E div 1000, rq_body = body\<rparr>"
  have "good_request E rq"
    using sec [OF x] t unfolding good_request_def signed_for_def rq_def by (simp, blast)
  then have g: "good_step E w (w\<lparr>sent := sent w @ [rq]\<rparr>)"
    by (simp add: good_step_def)
  have "good_step E (w\<lparr>sent := sent w @ [rq]\<rparr>) w'"
    using run v unfolding post_webhook_def x option.case Let_def rq_def [symmetric]
    by (auto split: http_result.splits dest: threw_good [OF sch] response_good [OF sch])
  with g show ?thesis by (rule good_step_trans)
qed

lemma chosen_secret:
  assumes "orElse (find (\<lambda>r. sr_status r = ''active'') rows) (find (\<lambda>_. True) rows) = Some x"
  shows "x \<in> set rows"
  using assms by (cases "find (\<lambda>r. sr_status r = ''active'') rows") (auto dest: find_Some_iff_in)

lemma worker_good:
  assumes sch: "\<And>i n. well_behaved E (schedule i n)"
  shows "well_behaved E (delivery_worker E schedule i)"
  unfolding well_behaved_def
proof (intro allI impI)
  fix w r w'
  assume run: "delivery_worker E schedule i w = Some (r, w')"
  have mono: "good_step E w w'"
    if res: "resolveDeliveryTarget E u w0 = (t, w1)" and w0: "sent w0 = sent w" "rate_counters w0 = rate_counters w"
      and post: "post_webhook E schedule s d n p body sec t w1 = Some (r, w')" and nb: "\<not> tg_blocked t"
      and key: "en_keyId E = Inr keyId"
      and rows: "revealSecretRecords (en_decrypt E) keyId
           (listSecrets (en_store E) (ws_id s) (ws_tenant_id s) (ws_workspace_id s) (store w)) = Inr rows"
      and sec: "orElse (find (\<lambda>r. sr_status r = ''active'') rows) (find (\<lambda>_. True) rows) = sec"
    for u w0 t w1 s d n p body sec keyId rows
  proof -
    have "good_step E w1 w'"
    proof (rule post_good [OF sch resolve_not_blocked [OF res nb] _ post])
      fix x assume "sec = Some x"
      with sec reveal_in [OF rows chosen_secret [of rows x]]
      show "\<exists>d row. row \<in> set (listSecrets (en_store E) (ws_id s) (ws_tenant_id s) (ws_workspace_id s) d)
        \<and> en_keyId E = Inr (sk_key_id row) \<and> en_decrypt E (sk_cipher row) (sk_iv row) = Inr (sr_secret x)"
        using key by auto
    qed
    moreover have "good_step E w w1"
      using resolve_sent [OF res] w0 by (intro good_step_same) auto
    ultimately show ?thesis using good_step_trans by blast
  qed
  have blk: "good_step E w (record_attempt E j n out h m e f w1)"
    if "resolveDeliveryTarget E u w0 = (t, w1)" and "sent w0 = sent w" "rate_counters w0 = rate_counters w"
    for u w0 t w1 j n out h m e f
    using resolve_sent [OF that(1)] that(2,3) by (intro good_step_same) auto
  show "good_step E w w'"
    using run unfolding delivery_worker_def Let_def
    by (auto split: sum.splits option.splits prod.splits if_splits
        intro: mono blk simp del: js_stringify.simps)
qed


lemma runtime_good: "well_behaved E (runtime_invoke n E i)"
proof (induction n arbitrary: i)
  case 0
  show ?case by (simp add: well_behaved_def)
next
  case (Suc n)
  have "well_behaved E (retry_scheduler E (Some (\<lambda>did scheduledFor v. runtime_invoke n E did v)) j k)" for j k
    by (rule scheduler_good) (use Suc in auto)
  then have "well_behaved E (delivery_worker E (retry_scheduler E (Some (\<lambda>did scheduledFor v. runtime_invoke n E did v))) i)"
    by (rule worker_good)
  then show ?case by (auto simp: well_behaved_def)
qed

section \<open>Termination\<close>

text \<open>What the store promises: an update changes the row of its key, an attempt changes no delivery.\<close>

definition keeps_deliveries :: "'d delivery_store \<Rightarrow> bool" where
  "keeps_deliveries db \<longleftrightarrow>
     (\<forall>i f d. (\<forall>r. wd_id (f r) = wd_id r) \<longrightarrow>
        getDeliveryById db i (snd (updateDelivery db i f d)) = map_option f (getDeliveryById db i d))
     \<and> (\<forall>i a d. getDeliveryById db i (insertAttempt db a d) = getDeliveryById db i d)
     \<and> (\<forall>i d r. getDeliveryById db i d = Some r \<longrightarrow> wd_id r = i)"

text \<open>The number of attempts left; \<open>None\<close> when the limit is infinite.\<close>

fun attempts_left :: "jsnum \<Rightarrow> int \<Rightarrow> nat" where
  "attempts_left (Fin x) n = nat (ceiling x - n)"
| "attempts_left _ n = 0"

definition row_left :: "'d wh_env \<Rightarrow> webhook_delivery \<Rightarrow> nat" where
  "row_left E r = attempts_left (coalesce (wd_max_attempts r) (rp_maxAttempts (buildRetryPolicy (en_penv E)))) (wd_attempt_count r)"


text \<open>A run that returns, sends at most \<open>k\<close> requests, and numbers them upwards from above \<open>a\<close>.\<close>

definition bounded_run :: "int \<Rightarrow> nat \<Rightarrow> 'd wh_world \<Rightarrow> 'd run \<Rightarrow> bool" where
  "bounded_run a k v f \<longleftrightarrow>
     (\<exists>res v' rs. f = Some (res, v') \<and> sent v' = sent v @ rs \<and> length rs \<le> k
        \<and> sorted_wrt (<) (map rq_attempt rs) \<and> (\<forall>q \<in> set rs. a < rq_attempt q))"

lemma bounded_silent: "sent v' = sent v \<Longrightarrow> bounded_run a k v (Some (res, v'))"
  by (auto simp: bounded_run_def)

lemma bounded_same_sent: "bounded_run a k v f \<Longrightarrow> sent v = sent w \<Longrightarrow> bounded_run a k w f"
  by (simp add: bounded_run_def)

lemma bounded_mono: "bounded_run a k v f \<Longrightarrow> k \<le> k' \<Longrightarrow> a' \<le> a \<Longrightarrow> bounded_run a' k' v f"
  by (force simp: bounded_run_def)

lemma bounded_send:
  assumes "bounded_run n k (w\<lparr>sent := sent w @ [q]\<rparr>) f" and "rq_attempt q = n" and "a < n"
  shows "bounded_run a (Suc k) w f"
proof -
  obtain res v' rs where "f = Some (res, v')" "sent v' = sent w @ [q] @ rs" "length rs \<le> k"
    "sorted_wrt (<) (map rq_attempt rs)" "\<forall>q \<in> set rs. n < rq_attempt q"
    using assms(1) by (auto simp: bounded_run_def)
  then show ?thesis
    unfolding bounded_run_def using assms(2,3)
    by (intro exI [of _ res] exI [of _ v'] exI [of _ "q # rs"]) (auto intro: less_trans)
qed

text \<open>The row of delivery \<open>i\<close> with its count and limit.\<close>

definition row_at :: "'d wh_env \<Rightarrow> string \<Rightarrow> int \<Rightarrow> jsnum \<Rightarrow> 'd wh_world \<Rightarrow> bool" where
  "row_at E i n m v \<longleftrightarrow>
     (\<exists>r. getDeliveryById (en_store E) i (store v) = Some r \<and> wd_attempt_count r = n
        \<and> coalesce (wd_max_attempts r) (rp_maxAttempts (buildRetryPolicy (en_penv E))) = m)"

lemma row_after_attempt:
  assumes db: "keeps_deliveries (en_store E)" and row: "row_at E i a m v"
    and patch: "\<And>r. wd_attempt_count (f r) = n \<and> wd_max_attempts (f r) = wd_max_attempts r \<and> wd_id (f r) = wd_id r"
  shows "row_at E i n m (record_attempt E i n out h ms e f v)"
  using db row patch by (auto simp: keeps_deliveries_def row_at_def record_attempt_def Let_def)

lemma scheduler_bounded:
  assumes db: "keeps_deliveries (en_store E)" and fin: "m \<noteq> Infty True" and row: "row_at E i n m v"
    and inv: "\<And>t v. 1 \<le> attempts_left m n \<Longrightarrow> row_at E i n m v \<Longrightarrow> bounded_run n (attempts_left m n) v (f i t v)"
  shows "bounded_run n (attempts_left m n) v (retry_scheduler E (Some f) i n v)"
proof -
  obtain r where r: "getDeliveryById (en_store E) i (store v) = Some r" "wd_attempt_count r = n"
    "coalesce (wd_max_attempts r) (rp_maxAttempts (buildRetryPolicy (en_penv E))) = m"
    using row by (auto simp: row_at_def)
  have more: "1 \<le> attempts_left m n" if "hasRetriesRemaining n m"
    using that fin by (cases m) (auto simp: hasRetriesRemaining_def jsInt_def less_ceiling_iff [symmetric] Suc_le_eq)
  have again: "bounded_run n (attempts_left m n) v (case f i t w of None \<Rightarrow> None | Some (Inl e, u) \<Rightarrow> Some (Inl e, u)
      | Some (Inr x, u) \<Rightarrow> Some (Inr y, u))"
    if "hasRetriesRemaining n m" and w: "w = v\<lparr>store := snd (updateDelivery (en_store E) i g (store v))\<rparr>"
      and g: "\<And>r. wd_attempt_count (g r) = wd_attempt_count r \<and> wd_max_attempts (g r) = wd_max_attempts r \<and> wd_id (g r) = wd_id r" for t w g y
  proof -
    have "row_at E i n m w"
      using db r g by (auto simp: keeps_deliveries_def row_at_def w)
    from inv [OF more [OF that(1)] this, of t] show ?thesis
      by (auto simp: bounded_run_def w split: sum.splits)
  qed
  show ?thesis
  proof (cases "hasRetriesRemaining n m")
    case True
    show ?thesis
    proof (cases "getSubscriptionById (en_store E) (wd_subscription_id r) (store v)")
      case None
      then show ?thesis by (simp add: retry_scheduler_def Let_def r bounded_silent)
    next
      case (Some s)
      show ?thesis
      proof (cases "computeNextAttemptAt n (buildRetryPolicy (en_penv E)) (en_random E) (en_now E)")
        case (Inl e)
        then show ?thesis by (simp add: retry_scheduler_def Let_def r Some True bounded_silent)
      next
        case (Inr t)
        show ?thesis
          by (simp add: retry_scheduler_def r Some True Inr Let_def bounded_silent)
             (auto intro!: again [OF True, of _ "\<lambda>d. d\<lparr>wd_status := ''pending'', wd_next_attempt_at := t\<rparr>"])
      qed
    qed
  next
    case False
    show ?thesis
      unfolding retry_scheduler_def Let_def
      using False by (auto simp: r split: option.splits prod.splits intro!: bounded_silent)
  qed
qed


text \<open>A schedule that takes over at attempt \<open>n\<close> of delivery \<open>i\<close>.\<close>

definition takes_over :: "'d wh_env \<Rightarrow> (string \<Rightarrow> int \<Rightarrow> 'd wh_world \<Rightarrow> 'd run) \<Rightarrow> string \<Rightarrow> int \<Rightarrow> jsnum \<Rightarrow> bool" where
  "takes_over E schedule i n m \<longleftrightarrow>
     (\<forall>v. row_at E i n m v \<longrightarrow> bounded_run n (attempts_left m n) v (schedule i n v))"

lemma takes_over_attempt:
  assumes "takes_over E schedule i n m" and "keeps_deliveries (en_store E)" and "row_at E i a m v"
    and "\<And>r. wd_attempt_count (f r) = n \<and> wd_max_attempts (f r) = wd_max_attempts r \<and> wd_id (f r) = wd_id r"
  shows "bounded_run n (attempts_left m n) v (schedule i n (record_attempt E i n out h ms e f v))"
  using assms(1) row_after_attempt [OF assms(2-4)] bounded_same_sent
  unfolding takes_over_def by fastforce

lemma row_at_store: "store w = store v \<Longrightarrow> row_at E i n m w = row_at E i n m v"
  by (simp add: row_at_def)

lemma response_bounded:
  assumes sch: "takes_over E schedule (wd_id d) n m" and db: "keeps_deliveries (en_store E)"
    and row: "row_at E (wd_id d) a m v"
  shows "bounded_run n (attempts_left m n) v (handle_response E schedule d n p st loc ms v)"
proof -
  have failed: "bounded_run n (attempts_left m n) v (schedule (wd_id d) n
      (record_attempt E (wd_id d) n out h t e (\<lambda>d. d\<lparr>wd_status := s, wd_attempt_count := n\<rparr>) w))"
    if "store w = store v" and "sent w = sent v" for w out h t e s
  proof -
    have w: "row_at E (wd_id d) a m w" using row row_at_store [OF that(1)] by blast
    show ?thesis
      by (rule bounded_same_sent [OF takes_over_attempt [OF sch db w]]) (simp_all add: that(2))
  qed
  have red: "store w = store v \<and> sent w = sent v" if "resolveDeliveryTarget E u v = (t, w)" for u t w
    using resolve_frame [OF that] by simp
  show ?thesis
    unfolding handle_response_def Let_def
    by (auto split: prod.splits intro!: bounded_silent failed dest: red)
qed

lemma threw_bounded:
  assumes "takes_over E schedule i n m" and "keeps_deliveries (en_store E)" and "row_at E i a m v"
  shows "bounded_run n (attempts_left m n) v (attempt_threw E schedule i n msg v)"
  unfolding attempt_threw_def by (rule takes_over_attempt [OF assms]) simp

lemma post_bounded:
  assumes sch: "takes_over E schedule (wd_id d) n m" and db: "keeps_deliveries (en_store E)"
    and row: "row_at E (wd_id d) a m v" and less: "a < n"
  shows "bounded_run a (Suc (attempts_left m n)) v (post_webhook E schedule s d n p body sec t v)"
proof -
  have threw: "bounded_run n (attempts_left m n) w (attempt_threw E schedule (wd_id d) n msg w)"
    if "store w = store v" for w msg
    using threw_bounded [OF sch db] row row_at_store [OF that] by blast
  have resp: "bounded_run n (attempts_left m n) w (handle_response E schedule d n p st loc ms w)"
    if "store w = store v" for w st loc ms
    using response_bounded [OF sch db] row row_at_store [OF that] by blast
  have none: "bounded_run a (Suc (attempts_left m n)) v (attempt_threw E schedule (wd_id d) n msg v)" for msg
    using threw [of v msg] less by (auto intro: bounded_mono)
  show ?thesis
    unfolding post_webhook_def Let_def using less
    by (auto split: option.splits http_result.splits intro!: none bounded_send [where n = n] threw resp)
qed

lemma worker_bounded:
  assumes db: "keeps_deliveries (en_store E)" and row: "row_at E i a m v"
    and sch: "takes_over E schedule i (a + 1) m"
  shows "bounded_run a (Suc (attempts_left m (a + 1))) v (delivery_worker E schedule i v)"
proof -
  obtain r where r: "getDeliveryById (en_store E) i (store v) = Some r" "wd_attempt_count r = a" "wd_id r = i"
    using row db by (auto simp: row_at_def keeps_deliveries_def)
  have post: "bounded_run a (Suc (attempts_left m (a + 1))) v (post_webhook E schedule s r (a + 1) p body sec t w)"
    if "resolveDeliveryTarget E u w0 = (t, w)" and "store w0 = store v" and "sent w0 = sent v" for u w0 w s p body sec t
  proof -
    have w: "store w = store v" "sent w = sent v"
      using resolve_frame [OF that(1)] that by simp_all
    have "bounded_run a (Suc (attempts_left m (a + 1))) w (post_webhook E schedule s r (a + 1) p body sec t w)"
      by (rule post_bounded [where a = a]) (use sch db row w r in \<open>simp_all add: row_at_store [of w v]\<close>)
    then show ?thesis using w by (auto intro: bounded_same_sent)
  qed
  have blk: "bounded_run a k v (Some (x, record_attempt E j n out h ms e f w))"
    if "resolveDeliveryTarget E u w0 = (t, w)" and "sent w0 = sent v" for u w0 t w x j n out h ms e f k
    using resolve_frame [OF that(1)] that(2) by (intro bounded_silent) simp
  show ?thesis
    unfolding delivery_worker_def Let_def
    by (auto simp: r split: sum.splits option.splits prod.splits if_splits intro: bounded_silent post blk
        simp del: js_stringify.simps)
qed

lemma runtime_bounded:
  assumes db: "keeps_deliveries (en_store E)" and fin: "m \<noteq> Infty True"
    and row: "row_at E i a m w" and fuel: "max 1 (attempts_left m a) \<le> n"
  shows "bounded_run a (max 1 (attempts_left m a)) w (runtime_invoke n E i w)"
  using row fuel
proof (induction n arbitrary: a w)
  case 0
  then show ?case by simp
next
  case (Suc n)
  have left: "attempts_left m (a + 1) = attempts_left m a - 1"
    by (cases m) auto
  have "takes_over E (retry_scheduler E (Some (\<lambda>did scheduledFor v. runtime_invoke n E did v))) i (a + 1) m"
    unfolding takes_over_def
  proof (intro allI impI)
    fix v assume v: "row_at E i (a + 1) m v"
    show "bounded_run (a + 1) (attempts_left m (a + 1)) v
        (retry_scheduler E (Some (\<lambda>did scheduledFor v. runtime_invoke n E did v)) i (a + 1) v)"
    proof (rule scheduler_bounded [OF db fin v])
      fix t :: "time option" and u
      assume "1 \<le> attempts_left m (a + 1)" and "row_at E i (a + 1) m u"
      then show "bounded_run (a + 1) (attempts_left m (a + 1)) u (runtime_invoke n E i u)"
        using Suc.IH [of "a + 1" u] Suc.prems(2) left by (simp add: max_def split: if_splits)
    qed
  qed
  from worker_bounded [OF db Suc.prems(1) this] left show ?case
    by (cases "i = []") (auto simp: max_def intro: bounded_silent bounded_mono)
qed

end
