(* ===== verification/Webhook_Management.thy ===== *)
theory Webhook_Management
  imports Webhook_Model
begin

text \<open>
  The management side of the webhook engine: the PostgreSQL adapter
  \<open>apps/control-plane/webhook-db.mjs\<close> over the tables of \<open>packages/webhook-engine/migrations\<close>, and the
  action \<open>actions/webhook-management.mjs\<close>.

  \<^item> \<open>wh_admin\<close> holds the tables, the key identity that the write fence compares with, the published
    events and a counter for random values. A failing transaction leaves the tables unchanged.
  \<^item> \<open>ma_between\<close> is what other clients do between the first read of a request and its write.
  \<^item> Columns of type \<open>uuid\<close> hold lower-case identifiers; an identifier in a statement is folded.
\<close>

section \<open>Tables\<close>

record wh_admin =
  subscription_rows :: "webhook_subscription list"
  secret_rows :: "webhook_secret list"
  delivery_rows :: "webhook_delivery list"
  serving_key :: "string option"
  admin_events :: "(string \<times> webhook_audit) list"
  admin_drawn :: nat

type_synonym 'a tx = "wh_admin \<Rightarrow> 'a result \<times> wh_admin"

definition scopeError :: js_error where
  "scopeError = codedError ''WEBHOOK_SCOPE_REQUIRED'' ''Webhook tenant and workspace scope are required''"

definition writeError :: js_error where
  "writeError = codedError ''WEBHOOK_SECRET_WRITE_FAILED'' ''Webhook signing secret could not be stored''"

definition fenceError :: js_error where
  "fenceError = codedError ''WEBHOOK_KEY_UNAVAILABLE'' ''Webhook key lifecycle is not ready''"

definition requireScope :: "string option \<Rightarrow> string result" where
  "requireScope v = (if truthyS v then Inr (the v) else Inl scopeError)"

definition withRuntimeScope :: "string option \<Rightarrow> string option \<Rightarrow> 'a tx \<Rightarrow> 'a tx" where
  "withRuntimeScope tenantId workspaceId work T =
     (case bindE (requireScope tenantId) (\<lambda>_. requireScope workspaceId) of
        Inl e \<Rightarrow> (Inl e, T)
      | Inr _ \<Rightarrow> (case work T of (Inl e, _) \<Rightarrow> (Inl e, T) | (Inr x, T') \<Rightarrow> (Inr x, T')))"

text \<open>The fence accepts only the key identity that is serving.\<close>

definition acquireWebhookKeyWriteFence :: "string \<Rightarrow> wh_admin \<Rightarrow> unit result" where
  "acquireWebhookKeyWriteFence expectedKeyId T =
     throwIf (expectedKeyId = [] \<or> serving_key T \<noteq> Some expectedKeyId) fenceError"

definition boundedSigningSecretWriteError :: "js_error \<Rightarrow> js_error" where
  "boundedSigningSecretWriteError e =
     (if e = fenceError then e
      else if err_code e = Some ''55000'' \<or> err_message e = ''WEBHOOK_KEY_WRITE_FENCED'' then fenceError
      else writeError)"

definition withSigningSecretWrite :: "string \<Rightarrow> 'a tx \<Rightarrow> 'a tx" where
  "withSigningSecretWrite encryptionKeyId write T =
     (case acquireWebhookKeyWriteFence encryptionKeyId T of
        Inl e \<Rightarrow> (Inl (boundedSigningSecretWriteError e), T)
      | Inr _ \<Rightarrow> (case write T of (Inl e, _) \<Rightarrow> (Inl (boundedSigningSecretWriteError e), T) | (Inr x, T') \<Rightarrow> (Inr x, T')))"

text \<open>A row violating a constraint makes its statement fail with a PostgreSQL error.\<close>

definition pgError :: "string \<Rightarrow> js_error" where
  "pgError code = codedError code ''constraint violation''"

definition insertSubscription :: "webhook_subscription \<Rightarrow> unit tx" where
  "insertSubscription r T =
     (if ws_id r \<in> ws_id ` set (subscription_rows T) then (Inl (pgError ''23505''), T)
      else if ws_tenant_id r = None \<or> ws_workspace_id r = None \<or> ws_created_by r = None then (Inl (pgError ''23502''), T)
      else (Inr (), T\<lparr>subscription_rows := subscription_rows T @ [r]\<rparr>))"

definition insertSigningSecret :: "string \<Rightarrow> string \<times> string \<Rightarrow> string option \<Rightarrow> string option \<Rightarrow> string \<Rightarrow> unit tx" where
  "insertSigningSecret subscriptionId encrypted tenantId workspaceId encryptionKeyId T =
     (if subscriptionId \<notin> ws_id ` set (subscription_rows T) then (Inl (pgError ''23503''), T)
      else if tenantId = None \<or> workspaceId = None then (Inl (pgError ''23502''), T)
      else (Inr (), T\<lparr>secret_rows := secret_rows T @
             [\<lparr>sk_subscription_id = subscriptionId, sk_cipher = fst encrypted, sk_iv = snd encrypted,
               sk_status = ''active'', sk_grace_expires_at = None, sk_tenant_id = tenantId,
               sk_workspace_id = workspaceId, sk_key_id = encryptionKeyId\<rparr>]\<rparr>))"

definition insertSubscriptionWithSecret :: "webhook_subscription \<Rightarrow> string \<times> string \<Rightarrow> string \<Rightarrow> webhook_subscription tx" where
  "insertSubscriptionWithSecret r encrypted encryptionKeyId =
     withSigningSecretWrite encryptionKeyId (\<lambda>T.
       case insertSubscription r T of
         (Inl e, T1) \<Rightarrow> (Inl e, T1)
       | (Inr _, T1) \<Rightarrow>
           (case insertSigningSecret (ws_id r) encrypted (ws_tenant_id r) (ws_workspace_id r) encryptionKeyId T1 of
              (Inl e, T2) \<Rightarrow> (Inl e, T2)
            | (Inr _, T2) \<Rightarrow> (Inr r, T2)))"

definition sub_in_scope :: "string option \<Rightarrow> string option \<Rightarrow> webhook_subscription \<Rightarrow> bool" where
  "sub_in_scope tenantId workspaceId s \<longleftrightarrow> ws_tenant_id s = tenantId \<and> ws_workspace_id s = workspaceId"

definition getWorkspaceSubscriptionCount :: "string option \<Rightarrow> string option \<Rightarrow> int tx" where
  "getWorkspaceSubscriptionCount tenantId workspaceId =
     withRuntimeScope tenantId workspaceId (\<lambda>T.
       (Inr (int (length (filter (\<lambda>s. sub_in_scope tenantId workspaceId s \<and> ws_deleted_at s = None) (subscription_rows T)))), T))"

text \<open>\<open>Math.min(Number(query.limit) || 100, 200)\<close> as a \<open>LIMIT\<close>.\<close>

definition pageLimit :: "jsnum option \<Rightarrow> jsnum" where
  "pageLimit q =
     (let n = coalesce q NaN in js_min (if n = NaN \<or> n = jsInt 0 then jsInt 100 else n) (jsInt 200))"

definition pgLimit :: "jsnum \<Rightarrow> nat result" where
  "pgLimit n =
     (if \<not> isInteger n then Inl (pgError ''22P02'')
      else if toInt n < 0 then Inl (pgError ''2201W'')
      else Inr (nat (toInt n)))"

definition listSubscriptions :: "webhook_ctx \<Rightarrow> jsnum option \<Rightarrow> webhook_subscription list tx" where
  "listSubscriptions ctx q =
     withRuntimeScope (wc_tenantId ctx) (wc_workspaceId ctx) (\<lambda>T.
       (bindE (pgLimit (pageLimit q)) (\<lambda>n.
          Inr (take n (sort_key (\<lambda>s. - ws_created_at s)
            (filter (\<lambda>s. sub_in_scope (wc_tenantId ctx) (wc_workspaceId ctx) s \<and> ws_deleted_at s = None) (subscription_rows T))))), T))"

definition getSubscription :: "string \<Rightarrow> string option \<Rightarrow> string option \<Rightarrow> webhook_subscription option tx" where
  "getSubscription i tenantId workspaceId =
     withRuntimeScope tenantId workspaceId (\<lambda>T.
       (Inr (find (\<lambda>s. ws_id s = js_toLowerCase i \<and> sub_in_scope tenantId workspaceId s) (subscription_rows T)), T))"

text \<open>An \<open>UPDATE .. WHERE id AND scope RETURNING *\<close> on subscriptions, and \<open>rows[0]\<close>.\<close>

definition update_sub ::
  "string \<Rightarrow> string option \<Rightarrow> string option \<Rightarrow> (webhook_subscription \<Rightarrow> webhook_subscription)
   \<Rightarrow> webhook_subscription option tx" where
  "update_sub i tenantId workspaceId f =
     withRuntimeScope tenantId workspaceId (\<lambda>T.
       let p = (\<lambda>s. ws_id s = i \<and> sub_in_scope tenantId workspaceId s)
       in (Inr (case returning p f (subscription_rows T) of [] \<Rightarrow> None | s # _ \<Rightarrow> Some s),
           T\<lparr>subscription_rows := updWhere p f (subscription_rows T)\<rparr>))"

definition updateSubscription ::
  "time \<Rightarrow> string \<Rightarrow> webhook_body \<Rightarrow> string \<times> string list \<Rightarrow> string option \<Rightarrow> string option \<Rightarrow> webhook_subscription option tx" where
  "updateSubscription now i patch validated tenantId workspaceId =
     update_sub i tenantId workspaceId (\<lambda>s.
       s\<lparr>ws_target_url := fst validated, ws_event_types := snd validated,
         ws_description := orElse (b_description patch) (ws_description s),
         ws_metadata := coalesce (b_metadata patch) (ws_metadata s), ws_updated_at := now\<rparr>)"

definition replaceSubscription :: "webhook_subscription \<Rightarrow> webhook_subscription option tx" where
  "replaceSubscription r =
     update_sub (ws_id r) (ws_tenant_id r) (ws_workspace_id r) (\<lambda>s.
       s\<lparr>ws_status := ws_status r, ws_updated_at := ws_updated_at r, ws_deleted_at := ws_deleted_at r\<rparr>)"

definition cancelPendingDeliveries :: "time \<Rightarrow> string \<Rightarrow> string option \<Rightarrow> string option \<Rightarrow> unit tx" where
  "cancelPendingDeliveries now subscriptionId tenantId workspaceId =
     withRuntimeScope tenantId workspaceId (\<lambda>T.
       (Inr (), T\<lparr>delivery_rows := updWhere
          (\<lambda>d. wd_subscription_id d = subscriptionId \<and> wd_status d = ''pending'' \<and> wd_tenant_id d = tenantId
               \<and> wd_workspace_id d = workspaceId)
          (\<lambda>d. d\<lparr>wd_status := ''cancelled'', wd_updated_at := now\<rparr>) (delivery_rows T)\<rparr>))"

definition rotateSecret ::
  "string \<Rightarrow> string \<times> string \<Rightarrow> time \<Rightarrow> string option \<Rightarrow> string option \<Rightarrow> string \<Rightarrow> unit tx" where
  "rotateSecret subscriptionId encrypted graceExpiresAt tenantId workspaceId encryptionKeyId =
     withSigningSecretWrite encryptionKeyId (\<lambda>T.
       insertSigningSecret subscriptionId encrypted tenantId workspaceId encryptionKeyId
         (T\<lparr>secret_rows := updWhere
             (\<lambda>k. sk_subscription_id k = subscriptionId \<and> sk_status k = ''active'' \<and> sk_tenant_id k = tenantId
                  \<and> sk_workspace_id k = workspaceId)
             (\<lambda>k. k\<lparr>sk_status := ''grace'', sk_grace_expires_at := Some graceExpiresAt\<rparr>) (secret_rows T)\<rparr>))"

definition delivery_in_scope :: "string \<Rightarrow> string option \<Rightarrow> string option \<Rightarrow> webhook_delivery \<Rightarrow> bool" where
  "delivery_in_scope subscriptionId tenantId workspaceId d \<longleftrightarrow>
     wd_subscription_id d = subscriptionId \<and> wd_tenant_id d = tenantId \<and> wd_workspace_id d = workspaceId"

definition listDeliveries :: "string \<Rightarrow> jsnum option \<Rightarrow> string option \<Rightarrow> string option \<Rightarrow> webhook_delivery list tx" where
  "listDeliveries subscriptionId q tenantId workspaceId =
     withRuntimeScope tenantId workspaceId (\<lambda>T.
       (bindE (pgLimit (pageLimit q)) (\<lambda>n.
          Inr (take n (sort_key (\<lambda>d. - wd_created_at d)
            (filter (delivery_in_scope subscriptionId tenantId workspaceId) (delivery_rows T))))), T))"

definition getDelivery :: "string \<Rightarrow> string \<Rightarrow> string option \<Rightarrow> string option \<Rightarrow> webhook_delivery option tx" where
  "getDelivery subscriptionId deliveryId tenantId workspaceId =
     withRuntimeScope tenantId workspaceId (\<lambda>T.
       (Inr (find (\<lambda>d. delivery_in_scope subscriptionId tenantId workspaceId d \<and> wd_id d = js_toLowerCase deliveryId)
          (delivery_rows T)), T))"

section \<open>The management action\<close>

record subscription_view =
  sv_subscriptionId :: string
  sv_targetUrl :: string
  sv_eventTypes :: "string list"
  sv_description :: "string option"
  sv_status :: string
  sv_consecutiveFailures :: int
  sv_createdAt :: time
  sv_updatedAt :: time

definition responseSubscription :: "webhook_subscription \<Rightarrow> subscription_view" where
  "responseSubscription r =
     \<lparr>sv_subscriptionId = ws_id r, sv_targetUrl = ws_target_url r, sv_eventTypes = ws_event_types r,
      sv_description = ws_description r, sv_status = ws_status r, sv_consecutiveFailures = ws_consecutive_failures r,
      sv_createdAt = ws_created_at r, sv_updatedAt = ws_updated_at r\<rparr>"

datatype webhook_reply =
  NoBody
| ErrorBody string string
| EventTypesBody "(string \<times> string) list"
| CreatedBody subscription_view string
| SubscriptionBody subscription_view
| SubscriptionsBody "subscription_view list"
| RotatedBody string jsnum time
| DeliveriesBody "webhook_delivery list"
| DeliveryBody webhook_delivery

type_synonym webhook_response = "int \<times> webhook_reply"

definition errorReply :: "int \<Rightarrow> string \<Rightarrow> string \<Rightarrow> webhook_response" where
  "errorReply statusCode code message = (statusCode, ErrorBody code message)"

definition is_sqlstate :: "string \<Rightarrow> bool" where
  "is_sqlstate c \<longleftrightarrow> length c = 5 \<and> list_all (\<lambda>x. is_digit x \<or> is_upper x) c"

definition keyUnavailable :: "js_error \<Rightarrow> bool" where
  "keyUnavailable e \<longleftrightarrow> err_code e = Some ''WEBHOOK_KEY_UNAVAILABLE'' \<or> err_code e = Some ''55000''
     \<or> err_message e = ''WEBHOOK_KEY_WRITE_FENCED''"

definition boundedCreateError :: "js_error \<Rightarrow> webhook_response" where
  "boundedCreateError e =
     (if keyUnavailable e
      then errorReply 503 ''WEBHOOK_KEY_UNAVAILABLE'' ''Webhook key lifecycle is not ready''
      else if err_code e = Some ''WEBHOOK_SECRET_WRITE_FAILED'' \<or> is_sqlstate (coalesce (err_code e) [])
      then errorReply 500 ''WEBHOOK_CREATE_FAILED'' ''Webhook subscription could not be created''
      else errorReply 400 (coalesce (err_code e) ''BAD_REQUEST'') (err_message e))"

definition boundedRotationError :: "js_error \<Rightarrow> webhook_response" where
  "boundedRotationError e =
     (if keyUnavailable e
      then errorReply 503 ''WEBHOOK_KEY_UNAVAILABLE'' ''Webhook key lifecycle is not ready''
      else errorReply 500 ''WEBHOOK_ROTATE_FAILED'' ''Webhook signing secret could not be rotated'')"

definition isUuid :: "string option \<Rightarrow> bool" where
  "isUuid i \<longleftrightarrow>
     (let parts = js_split (CHR ''-'') (coalesce i [])
      in map length parts = [8, 4, 4, 4, 12] \<and> list_all (list_all (\<lambda>c. is_digit_in 16 c)) parts)"

definition assertTenantScoped :: "webhook_subscription \<Rightarrow> unit result" where
  "assertTenantScoped r =
     bindE (throwIf (\<not> truthyS (ws_tenant_id r))
              (codedError ''TENANT_SCOPE_REQUIRED'' ''Signing secret requires a tenant_id'')) (\<lambda>_.
     throwIf (\<not> truthyS (ws_workspace_id r))
              (codedError ''TENANT_SCOPE_REQUIRED'' ''Signing secret requires a workspace_id''))"

definition pathParts :: "string \<Rightarrow> string list" where
  "pathParts path =
     (let p = (if js_startsWith path ''/v1/webhooks''
               then (let r = drop 12 path in if take 1 r = ''/'' then drop 1 r else r) else path)
      in filter (\<lambda>x. x \<noteq> []) (js_split (CHR ''/'') p))"

record admin_env =
  ma_penv :: "string \<Rightarrow> string option"
  ma_keyId :: "string result"
  ma_parseUrl :: url_parser
  ma_resolver :: "string \<Rightarrow> string list option"
  ma_uuid :: "nat \<Rightarrow> string"
  ma_signingSecret :: "nat \<Rightarrow> string"
  ma_encrypt :: "nat \<Rightarrow> string \<Rightarrow> string \<times> string"
  ma_kafka :: bool
  ma_now :: time
  ma_between :: "wh_admin \<Rightarrow> wh_admin"

record webhook_api_request =
  mq_method :: string
  mq_path :: string
  mq_body :: webhook_body
  mq_limit :: "jsnum option"
  mq_auth :: webhook_ctx

definition publish_admin :: "admin_env \<Rightarrow> string \<Rightarrow> webhook_audit \<Rightarrow> wh_admin \<Rightarrow> wh_admin" where
  "publish_admin E topic a T = (if ma_kafka E then T\<lparr>admin_events := admin_events T @ [(topic, a)]\<rparr> else T)"

definition announce :: "admin_env \<Rightarrow> string \<Rightarrow> webhook_ctx \<Rightarrow> string \<Rightarrow> wh_admin \<Rightarrow> wh_admin" where
  "announce E act ctx i T = publish_admin E (''console.webhook.'' @ act) (baseEvent act ctx i (ma_now E)) T"

definition requireSubscription :: "webhook_ctx \<Rightarrow> string option \<Rightarrow> wh_admin \<Rightarrow> webhook_subscription option result" where
  "requireSubscription ctx i T =
     (if \<not> isUuid i then Inr None
      else bindE (fst (getSubscription (the i) (wc_tenantId ctx) (wc_workspaceId ctx) T)) (\<lambda>row.
        Inr (case row of
               None \<Rightarrow> None
             | Some s \<Rightarrow>
                 if ws_tenant_id s \<noteq> wc_tenantId ctx \<or> ws_workspace_id s \<noteq> wc_workspaceId ctx \<or> ws_deleted_at s \<noteq> None
                 then None else Some s)))"

text \<open>\<open>POST /subscriptions\<close>.\<close>

definition create_webhook :: "admin_env \<Rightarrow> string \<Rightarrow> webhook_body \<Rightarrow> webhook_ctx \<Rightarrow> wh_admin \<Rightarrow> webhook_response \<times> wh_admin" where
  "create_webhook E keyId body ctx T =
     (case fst (getWorkspaceSubscriptionCount (wc_tenantId ctx) (wc_workspaceId ctx) T) of
        Inl e \<Rightarrow> (boundedCreateError e, T)
      | Inr currentCount \<Rightarrow>
        if \<not> checkSubscriptionQuota currentCount (maxSubscriptionsPerWorkspace (getQuotaConfig (ma_penv E)))
        then (errorReply 409 ''QUOTA_EXCEEDED'' ''Workspace subscription quota reached'', T)
        else
          (case bindE (buildSubscriptionRecord (ma_parseUrl E) (ma_resolver E) (ma_uuid E (admin_drawn T)) (ma_now E) body ctx)
                  (\<lambda>r. bindE (assertTenantScoped r) (\<lambda>_. Inr r)) of
             Inl e \<Rightarrow> (boundedCreateError e, T)
           | Inr r \<Rightarrow>
               (let signingSecret = ma_signingSecret E (admin_drawn T);
                    encrypted = ma_encrypt E (admin_drawn T) signingSecret;
                    T1 = ma_between E (T\<lparr>admin_drawn := Suc (admin_drawn T)\<rparr>)
                in case insertSubscriptionWithSecret r encrypted keyId T1 of
                     (Inl e, T2) \<Rightarrow> (boundedCreateError e, T2)
                   | (Inr _, T2) \<Rightarrow>
                       ((201, CreatedBody (responseSubscription r) signingSecret),
                        announce E ''subscription.created'' ctx (ws_id r) T2))))"

text \<open>\<open>PATCH /subscriptions/:id\<close>.\<close>

definition patch_webhook ::
  "admin_env \<Rightarrow> webhook_body \<Rightarrow> webhook_ctx \<Rightarrow> webhook_subscription \<Rightarrow> wh_admin \<Rightarrow> webhook_response \<times> wh_admin" where
  "patch_webhook E body ctx s T =
     (let failed = (\<lambda>e. errorReply 400 (coalesce (err_code e) ''BAD_REQUEST'') (err_message e)) in
      case validateSubscriptionInput (ma_parseUrl E) (ma_resolver E)
             (Some (coalesce (b_targetUrl body) (ws_target_url s)))
             (if b_eventTypes body = JUndefined \<or> b_eventTypes body = JNull then JArr (map JStr (ws_event_types s))
              else b_eventTypes body) of
        Inl e \<Rightarrow> (failed e, T)
      | Inr validated \<Rightarrow>
          (case updateSubscription (ma_now E) (ws_id s) body validated (ws_tenant_id s) (ws_workspace_id s) (ma_between E T) of
             (Inl e, T1) \<Rightarrow> (failed e, T1)
           | (Inr updated, T1) \<Rightarrow>
               (let T2 = announce E ''subscription.updated'' ctx (ws_id s) T1
                in case updated of
                     None \<Rightarrow> (failed typeError, T2)
                   | Some r \<Rightarrow> ((200, SubscriptionBody (responseSubscription r)), T2))))"

text \<open>\<open>POST /subscriptions/:id/pause\<close> and \<open>/resume\<close>.\<close>

definition transition_webhook ::
  "admin_env \<Rightarrow> string \<Rightarrow> string \<Rightarrow> webhook_ctx \<Rightarrow> webhook_subscription \<Rightarrow> wh_admin \<Rightarrow> webhook_response \<times> wh_admin" where
  "transition_webhook E target act ctx s T =
     (let failed = (\<lambda>e. errorReply 409 (coalesce (err_code e) ''INVALID_STATUS_TRANSITION'') (err_message e)) in
      case applyStatusTransition (ma_now E) s target of
        Inl e \<Rightarrow> (failed e, T)
      | Inr r \<Rightarrow>
          (case replaceSubscription r (ma_between E T) of
             (Inl e, T1) \<Rightarrow> (failed e, T1)
           | (Inr updated, T1) \<Rightarrow>
               (let T2 = announce E act ctx (ws_id s) T1
                in case updated of
                     None \<Rightarrow> (failed typeError, T2)
                   | Some r' \<Rightarrow> ((200, SubscriptionBody (responseSubscription r')), T2))))"

text \<open>\<open>DELETE /subscriptions/:id\<close>.\<close>

definition delete_webhook ::
  "admin_env \<Rightarrow> webhook_ctx \<Rightarrow> webhook_subscription \<Rightarrow> wh_admin \<Rightarrow> webhook_response result \<times> wh_admin" where
  "delete_webhook E ctx s T =
     (case softDelete (ma_now E) s of
        Inl e \<Rightarrow> (Inl e, T)
      | Inr r \<Rightarrow>
          (case replaceSubscription r (ma_between E T) of
             (Inl e, T1) \<Rightarrow> (Inl e, T1)
           | (Inr _, T1) \<Rightarrow>
               (case cancelPendingDeliveries (ma_now E) (ws_id s) (ws_tenant_id s) (ws_workspace_id s) T1 of
                  (Inl e, T2) \<Rightarrow> (Inl e, T2)
                | (Inr _, T2) \<Rightarrow> (Inr (204, NoBody), announce E ''subscription.deleted'' ctx (ws_id s) T2))))"

text \<open>\<open>POST /subscriptions/:id/rotate-secret\<close>.\<close>

definition rotate_webhook ::
  "admin_env \<Rightarrow> string \<Rightarrow> webhook_body \<Rightarrow> webhook_ctx \<Rightarrow> webhook_subscription \<Rightarrow> wh_admin
   \<Rightarrow> webhook_response result \<times> wh_admin" where
  "rotate_webhook E keyId body ctx s T =
     (let gracePeriodSeconds = coalesce (b_gracePeriodSeconds body)
            (numberEnv (ma_penv E) ''WEBHOOK_SECRET_GRACE_PERIOD_SECONDS'' 86400);
          newSigningSecret = ma_signingSecret E (admin_drawn T);
          encrypted = ma_encrypt E (admin_drawn T) newSigningSecret;
          T0 = T\<lparr>admin_drawn := Suc (admin_drawn T)\<rparr>
      in case toDate (js_add (jsInt (ma_now E)) (js_scale 1000 gracePeriodSeconds)) of
           Inl e \<Rightarrow> (Inl e, T0)
         | Inr graceExpiresAt \<Rightarrow>
             (case rotateSecret (ws_id s) encrypted graceExpiresAt (ws_tenant_id s) (ws_workspace_id s) keyId (ma_between E T0) of
                (Inl e, T1) \<Rightarrow> (Inr (boundedRotationError e), T1)
              | (Inr _, T1) \<Rightarrow>
                  (Inr (200, RotatedBody newSigningSecret gracePeriodSeconds graceExpiresAt),
                   announce E ''secret.rotated'' ctx (ws_id s) T1)))"

text \<open>The \<open>i\<close>-th part of the path.\<close>

definition path_part :: "webhook_api_request \<Rightarrow> nat \<Rightarrow> string option" where
  "path_part q i = (let parts = pathParts (mq_path q) in if i < length parts then Some (parts ! i) else None)"

definition webhookNotFound :: "string \<Rightarrow> wh_admin \<Rightarrow> webhook_response result \<times> wh_admin" where
  "webhookNotFound m T = (Inr (errorReply 404 ''NOT_FOUND'' m), T)"

text \<open>The routes below one subscription, from \<open>GET /subscriptions/:id\<close> to the end of \<open>main\<close>.\<close>

definition subscription_routes ::
  "admin_env \<Rightarrow> string \<Rightarrow> webhook_api_request \<Rightarrow> webhook_subscription \<Rightarrow> wh_admin \<Rightarrow> webhook_response result \<times> wh_admin" where
  "subscription_routes E keyId q s T =
     (let ctx = mq_auth q; meth = mq_method q; n = length (pathParts (mq_path q)) in
      if meth = ''GET'' \<and> n = 2 then (Inr (200, SubscriptionBody (responseSubscription s)), T)
      else if meth = ''PATCH'' \<and> n = 2 then
        (case patch_webhook E (mq_body q) ctx s T of (r, T') \<Rightarrow> (Inr r, T'))
      else if meth = ''POST'' \<and> path_part q 2 = Some ''pause'' then
        (case transition_webhook E ''paused'' ''subscription.paused'' ctx s T of (r, T') \<Rightarrow> (Inr r, T'))
      else if meth = ''POST'' \<and> path_part q 2 = Some ''resume'' then
        (case transition_webhook E ''active'' ''subscription.resumed'' ctx s T of (r, T') \<Rightarrow> (Inr r, T'))
      else if meth = ''DELETE'' \<and> n = 2 then delete_webhook E ctx s T
      else if meth = ''POST'' \<and> path_part q 2 = Some ''rotate-secret'' then rotate_webhook E keyId (mq_body q) ctx s T
      else if meth = ''GET'' \<and> path_part q 2 = Some ''deliveries'' \<and> n = 3 then
        (bindE (fst (listDeliveries (ws_id s) (mq_limit q) (ws_tenant_id s) (ws_workspace_id s) T)) (\<lambda>rows.
           Inr (200, DeliveriesBody rows)), T)
      else if meth = ''GET'' \<and> path_part q 2 = Some ''deliveries'' \<and> n = 4 then
        (if \<not> isUuid (path_part q 3) then webhookNotFound ''Delivery not found'' T
         else case fst (getDelivery (ws_id s) (the (path_part q 3)) (ws_tenant_id s) (ws_workspace_id s) T) of
                Inl e \<Rightarrow> (Inl e, T)
              | Inr None \<Rightarrow> webhookNotFound ''Delivery not found'' T
              | Inr (Some d) \<Rightarrow> (Inr (200, DeliveryBody d), T))
      else webhookNotFound ''Route not found'' T)"

definition webhook_management ::
  "admin_env \<Rightarrow> webhook_api_request \<Rightarrow> wh_admin \<Rightarrow> webhook_response result \<times> wh_admin" where
  "webhook_management E q T =
     (case ma_keyId E of
        Inl e \<Rightarrow> (Inl e, T)
      | Inr keyId \<Rightarrow>
        (let ctx = mq_auth q; meth = mq_method q; n = length (pathParts (mq_path q))
         in if meth = ''GET'' \<and> path_part q 0 = Some ''event-types'' then (Inr (200, EventTypesBody EVENT_CATALOGUE), T)
            else if path_part q 0 \<noteq> Some ''subscriptions'' then webhookNotFound ''Route not found'' T
            else if meth = ''POST'' \<and> n = 1 then
              (case create_webhook E keyId (mq_body q) ctx T of (r, T') \<Rightarrow> (Inr r, T'))
            else if meth = ''GET'' \<and> n = 1 then
              (bindE (fst (listSubscriptions ctx (mq_limit q) T)) (\<lambda>rows.
                 Inr (200, SubscriptionsBody (map responseSubscription rows))), T)
            else
              (case requireSubscription ctx (path_part q 1) T of
                 Inl e \<Rightarrow> (Inl e, T)
               | Inr None \<Rightarrow> webhookNotFound ''Subscription not found'' T
               | Inr (Some s) \<Rightarrow> subscription_routes E keyId q s T)))"

end
