(* ===== verification/Webhook_Tables.thy ===== *)
theory Webhook_Tables
  imports Webhook_Management
begin

text \<open>
  The tables of the webhook engine under management requests: the invariant that ties signing secrets
  to their subscriptions, its preservation by every request with other clients in between, and the
  frame of a request, which is the caller's tenant and workspace.
\<close>

named_theorems wh_ops \<open>definitions of the adapter and the request handlers\<close>

declare withRuntimeScope_def [wh_ops] withSigningSecretWrite_def [wh_ops] update_sub_def [wh_ops]
  updateSubscription_def [wh_ops] replaceSubscription_def [wh_ops] cancelPendingDeliveries_def [wh_ops]
  rotateSecret_def [wh_ops] insertSubscriptionWithSecret_def [wh_ops] insertSubscription_def [wh_ops]
  insertSigningSecret_def [wh_ops] Let_def [wh_ops]

section \<open>The invariant\<close>

definition active_secrets :: "wh_admin \<Rightarrow> string \<Rightarrow> webhook_secret list" where
  "active_secrets T i = filter (\<lambda>k. sk_subscription_id k = i \<and> sk_status k = ''active'') (secret_rows T)"

definition secret_owned :: "wh_admin \<Rightarrow> webhook_secret \<Rightarrow> bool" where
  "secret_owned T k \<longleftrightarrow>
     (\<exists>s \<in> set (subscription_rows T). ws_id s = sk_subscription_id k \<and> ws_tenant_id s = sk_tenant_id k
        \<and> ws_workspace_id s = sk_workspace_id k)"

definition webhook_inv :: "wh_admin \<Rightarrow> bool" where
  "webhook_inv T \<longleftrightarrow>
     distinct (map ws_id (subscription_rows T))
     \<and> (\<forall>k \<in> set (secret_rows T). secret_owned T k)
     \<and> (\<forall>s \<in> set (subscription_rows T). length (active_secrets T (ws_id s)) = 1)
     \<and> (\<forall>s \<in> set (subscription_rows T). ws_status s = ''deleted'' \<longleftrightarrow> ws_deleted_at s \<noteq> None)"

text \<open>An update of subscriptions that keeps key and scope.\<close>

definition keeps_scope :: "(webhook_subscription \<Rightarrow> webhook_subscription) \<Rightarrow> bool" where
  "keeps_scope f \<longleftrightarrow>
     (\<forall>s. ws_id (f s) = ws_id s \<and> ws_tenant_id (f s) = ws_tenant_id s \<and> ws_workspace_id (f s) = ws_workspace_id s)"

lemma inv_update_sub:
  assumes inv: "webhook_inv T" and f: "keeps_scope f"
    and st: "\<And>s. s \<in> set (subscription_rows T) \<Longrightarrow> p s \<Longrightarrow> (ws_status (f s) = ''deleted'' \<longleftrightarrow> ws_deleted_at (f s) \<noteq> None)"
  shows "webhook_inv (T\<lparr>subscription_rows := updWhere p f (subscription_rows T)\<rparr>)"
proof -
  define U where "U = T\<lparr>subscription_rows := updWhere p f (subscription_rows T)\<rparr>"
  have "map ws_id (subscription_rows U) = map ws_id (subscription_rows T)"
    using f by (simp add: U_def keeps_scope_def map_updWhere_same)
  moreover have "secret_owned U k \<longleftrightarrow> secret_owned T k" for k
    using f by (auto simp: secret_owned_def U_def bex_updWhere keeps_scope_def)
  moreover have "active_secrets U i = active_secrets T i" for i
    by (simp add: active_secrets_def U_def)
  moreover have "secret_rows U = secret_rows T" by (simp add: U_def)
  moreover have "\<forall>s \<in> set (subscription_rows U). length (active_secrets U (ws_id s)) = 1"
    using inv f by (auto simp: webhook_inv_def U_def ball_updWhere keeps_scope_def active_secrets_def)
  moreover have "\<forall>s \<in> set (subscription_rows U). ws_status s = ''deleted'' \<longleftrightarrow> ws_deleted_at s \<noteq> None"
    using inv st unfolding webhook_inv_def U_def by (simp add: ball_updWhere)
  ultimately show ?thesis
    using inv unfolding U_def [symmetric] webhook_inv_def by simp
qed

lemma inv_same:
  assumes "webhook_inv T" and "subscription_rows U = subscription_rows T" and "secret_rows U = secret_rows T"
  shows "webhook_inv U"
  using assms by (simp add: webhook_inv_def secret_owned_def active_secrets_def)

lemma inv_create:
  assumes inv: "webhook_inv T" and new: "ws_id r \<notin> ws_id ` set (subscription_rows T)"
    and st: "ws_status r = ''active''" "ws_deleted_at r = None"
    and k: "sk_subscription_id k = ws_id r" "sk_tenant_id k = ws_tenant_id r" "sk_workspace_id k = ws_workspace_id r"
      "sk_status k = ''active''"
  shows "webhook_inv (T\<lparr>subscription_rows := subscription_rows T @ [r], secret_rows := secret_rows T @ [k]\<rparr>)"
proof -
  have none: "active_secrets T (ws_id r) = []"
  proof -
    have "sk_subscription_id x \<noteq> ws_id r" if x: "x \<in> set (secret_rows T)" for x
    proof -
      obtain s where "s \<in> set (subscription_rows T)" "ws_id s = sk_subscription_id x"
        using inv x by (auto simp: webhook_inv_def secret_owned_def)
      with new show ?thesis by (auto simp: rev_image_eqI)
    qed
    then show ?thesis by (simp add: active_secrets_def filter_empty_conv)
  qed
  define U where "U = T\<lparr>subscription_rows := subscription_rows T @ [r], secret_rows := secret_rows T @ [k]\<rparr>"
  have act: "active_secrets U i = (if i = ws_id r then [k] else active_secrets T i)" for i
    using none k by (simp add: U_def active_secrets_def)
  have rows: "subscription_rows U = subscription_rows T @ [r]" "secret_rows U = secret_rows T @ [k]"
    by (simp_all add: U_def)
  have own: "secret_owned U x" if "x \<in> set (secret_rows U)" for x
  proof (cases "x = k")
    case True
    then show ?thesis using k by (auto simp: secret_owned_def rows)
  next
    case False
    with that have "x \<in> set (secret_rows T)" by (simp add: rows)
    with inv have "secret_owned T x" by (simp add: webhook_inv_def)
    then show ?thesis by (auto simp: secret_owned_def rows)
  qed
  have "length (active_secrets U (ws_id s)) = 1" if "s \<in> set (subscription_rows U)" for s
    using that inv new by (auto simp: act rows webhook_inv_def)
  moreover have "ws_status s = ''deleted'' \<longleftrightarrow> ws_deleted_at s \<noteq> None" if "s \<in> set (subscription_rows U)" for s
    using that inv st by (auto simp: rows webhook_inv_def)
  moreover have "distinct (map ws_id (subscription_rows U))"
    using inv new by (simp add: rows webhook_inv_def)
  ultimately show ?thesis
    using own unfolding U_def [symmetric] by (simp add: webhook_inv_def)
qed

lemma inv_rotate:
  assumes inv: "webhook_inv T" and s: "s \<in> set (subscription_rows T)"
    and k: "sk_subscription_id k = ws_id s" "sk_tenant_id k = ws_tenant_id s" "sk_workspace_id k = ws_workspace_id s"
      "sk_status k = ''active''"
    and p: "p = (\<lambda>x. sk_subscription_id x = ws_id s \<and> sk_status x = ''active'' \<and> sk_tenant_id x = ws_tenant_id s
              \<and> sk_workspace_id x = ws_workspace_id s)"
  shows "webhook_inv (T\<lparr>secret_rows := updWhere p (\<lambda>x. x\<lparr>sk_status := ''grace'', sk_grace_expires_at := g\<rparr>) (secret_rows T) @ [k]\<rparr>)"
    (is "webhook_inv ?U")
proof -
  let ?f = "\<lambda>x. x\<lparr>sk_status := ''grace'', sk_grace_expires_at := g\<rparr>"
  have own: "secret_owned T x" if "x \<in> set (secret_rows T)" for x
    using inv that by (simp add: webhook_inv_def)
  have scope: "sk_tenant_id x = ws_tenant_id s \<and> sk_workspace_id x = ws_workspace_id s"
    if x: "x \<in> set (secret_rows T)" "sk_subscription_id x = ws_id s" for x
  proof -
    obtain s' where s': "s' \<in> set (subscription_rows T)" "ws_id s' = ws_id s" "ws_tenant_id s' = sk_tenant_id x"
      "ws_workspace_id s' = sk_workspace_id x"
      using own [OF x(1)] x(2) by (auto simp: secret_owned_def)
    have "s' = s" using inv s s' distinct_map_inj [of ws_id "subscription_rows T" s' s] by (simp add: webhook_inv_def)
    with s' show ?thesis by simp
  qed
  have act: "active_secrets ?U i = (if i = ws_id s then [k] else active_secrets T i)" for i
  proof (cases "i = ws_id s")
    case True
    have "filter (\<lambda>x. sk_subscription_id x = i \<and> sk_status x = ''active'') (updWhere p ?f (secret_rows T)) = []"
      using scope by (auto simp: filter_empty_conv set_updWhere p True)
    with True k show ?thesis by (simp add: active_secrets_def)
  next
    case False
    have "filter (\<lambda>x. sk_subscription_id x = i \<and> sk_status x = ''active'') (updWhere p ?f (secret_rows T))
        = filter (\<lambda>x. sk_subscription_id x = i \<and> sk_status x = ''active'') (secret_rows T)"
      by (rule filter_updWhere_disjoint) (auto simp: p False)
    with False k show ?thesis by (simp add: active_secrets_def)
  qed
  have "secret_owned ?U x" if "x \<in> set (secret_rows ?U)" for x
    using that own s k by (auto simp: set_updWhere secret_owned_def split: if_splits)
  then show ?thesis
    using inv unfolding webhook_inv_def by (simp add: act)
qed


section \<open>Requests keep the invariant\<close>

text \<open>Subscriptions are never removed and keep their scope.\<close>

definition grows :: "wh_admin \<Rightarrow> wh_admin \<Rightarrow> bool" where
  "grows T U \<longleftrightarrow>
     (\<forall>s \<in> set (subscription_rows T). \<exists>s' \<in> set (subscription_rows U). ws_id s' = ws_id s \<and> ws_tenant_id s' = ws_tenant_id s
        \<and> ws_workspace_id s' = ws_workspace_id s)"

lemma grows_refl [simp, intro]: "grows T T"
  by (auto simp: grows_def)

lemma grows_trans: "grows T U \<Longrightarrow> grows U V \<Longrightarrow> grows T V"
  unfolding grows_def by metis

lemma grows_same: "subscription_rows U = subscription_rows T \<Longrightarrow> grows T U"
  by (auto simp: grows_def)

text \<open>A step of the tables: it keeps the invariant and removes nothing.\<close>

definition sound_step :: "wh_admin \<Rightarrow> wh_admin \<Rightarrow> bool" where
  "sound_step T U \<longleftrightarrow> (webhook_inv T \<longrightarrow> webhook_inv U) \<and> grows T U"

lemma sound_step_refl [simp, intro]: "sound_step T T"
  by (simp add: sound_step_def)

lemma sound_step_trans: "sound_step T U \<Longrightarrow> sound_step U V \<Longrightarrow> sound_step T V"
  by (auto simp: sound_step_def intro: grows_trans)

lemma sound_step_same: "subscription_rows U = subscription_rows T \<Longrightarrow> secret_rows U = secret_rows T \<Longrightarrow> sound_step T U"
  by (auto simp: sound_step_def intro: inv_same grows_same)

lemma sound_update_sub:
  assumes "update_sub i t w f T = (r, T')" and f: "keeps_scope f"
    and st: "\<And>s. ws_status s = ''deleted'' \<longleftrightarrow> ws_deleted_at s \<noteq> None \<Longrightarrow> (ws_status (f s) = ''deleted'' \<longleftrightarrow> ws_deleted_at (f s) \<noteq> None)"
  shows "sound_step T T'"
proof -
  consider "T' = T" | p where "T' = T\<lparr>subscription_rows := updWhere p f (subscription_rows T)\<rparr>"
    using assms(1) by (auto simp: wh_ops split: sum.splits)
  then show ?thesis
  proof cases
    case 1
    then show ?thesis by simp
  next
    case (2 p)
    have "webhook_inv T \<Longrightarrow> webhook_inv T'"
      unfolding 2 by (rule inv_update_sub [OF _ f], assumption, rule st, simp add: webhook_inv_def)
    moreover have "grows T T'"
      using f by (auto simp: grows_def 2 bex_updWhere keeps_scope_def)
    ultimately show ?thesis by (simp add: sound_step_def)
  qed
qed

lemma sound_update:
  assumes "updateSubscription now i body v t w T = (r, T')"
  shows "sound_step T T'"
  by (rule sound_update_sub [OF assms [unfolded updateSubscription_def]]) (simp_all add: keeps_scope_def)

lemma sound_replace:
  assumes "replaceSubscription x T = (r, T')" and "ws_status x = ''deleted'' \<longleftrightarrow> ws_deleted_at x \<noteq> None"
  shows "sound_step T T'"
  by (rule sound_update_sub [OF assms(1) [unfolded replaceSubscription_def]]) (use assms(2) in \<open>simp_all add: keeps_scope_def\<close>)

lemma sound_cancel:
  assumes "cancelPendingDeliveries now i t w T = (r, T')"
  shows "sound_step T T'"
  using assms by (auto simp: wh_ops split: sum.splits intro!: sound_step_same)

lemma sound_insert:
  assumes "insertSubscriptionWithSecret x enc key T = (r, T')" and "ws_status x = ''active''" "ws_deleted_at x = None"
  shows "sound_step T T'"
proof -
  define k where "k = \<lparr>sk_subscription_id = ws_id x, sk_cipher = fst enc, sk_iv = snd enc,
               sk_status = ''active'', sk_grace_expires_at = None, sk_tenant_id = ws_tenant_id x,
               sk_workspace_id = ws_workspace_id x, sk_key_id = key\<rparr>"
  have "T' = T \<or> ws_id x \<notin> ws_id ` set (subscription_rows T)
      \<and> T' = T\<lparr>subscription_rows := subscription_rows T @ [x], secret_rows := secret_rows T @ [k]\<rparr>"
    using assms(1) unfolding insertSubscriptionWithSecret_def withSigningSecretWrite_def insertSubscription_def insertSigningSecret_def
    by (simp add: k_def split: sum.splits if_splits)
  then consider "T' = T" | "ws_id x \<notin> ws_id ` set (subscription_rows T)"
      "T' = T\<lparr>subscription_rows := subscription_rows T @ [x], secret_rows := secret_rows T @ [k]\<rparr>"
    by blast
  then show ?thesis
  proof cases
    case 1
    then show ?thesis by simp
  next
    case 2
    then show ?thesis
      using inv_create [of T x k] assms(2,3) by (auto simp: sound_step_def grows_def k_def)
  qed
qed

lemma sound_rotate:
  assumes run: "rotateSecret i enc g t w key T = (r, T')"
    and s: "s \<in> set (subscription_rows T)" "ws_id s = i" "ws_tenant_id s = t" "ws_workspace_id s = w"
  shows "sound_step T T'"
proof -
  define k where "k = \<lparr>sk_subscription_id = i, sk_cipher = fst enc, sk_iv = snd enc,
               sk_status = ''active'', sk_grace_expires_at = None, sk_tenant_id = t,
               sk_workspace_id = w, sk_key_id = key\<rparr>"
  consider "T' = T" | "T' = T\<lparr>secret_rows := updWhere
             (\<lambda>k. sk_subscription_id k = i \<and> sk_status k = ''active'' \<and> sk_tenant_id k = t \<and> sk_workspace_id k = w)
             (\<lambda>k. k\<lparr>sk_status := ''grace'', sk_grace_expires_at := Some g\<rparr>) (secret_rows T) @ [k]\<rparr>"
    using run by (auto simp: wh_ops k_def split: sum.splits if_splits)
  then show ?thesis
  proof cases
    case 1
    then show ?thesis by simp
  next
    case 2
    then show ?thesis
      using inv_rotate [of T s k, OF _ s(1) _ _ _ _ refl] s(2-4) by (auto simp: sound_step_def grows_same k_def)
  qed
qed


section \<open>Handlers\<close>

definition sound_env :: "admin_env \<Rightarrow> bool" where
  "sound_env E \<longleftrightarrow> (\<forall>T. sound_step T (ma_between E T))"

lemma sound_between: "sound_env E \<Longrightarrow> sound_step T U \<Longrightarrow> sound_step T (ma_between E U)"
  by (auto simp: sound_env_def intro: sound_step_trans)

lemma announce_frame [simp]:
  "subscription_rows (announce E a c i T) = subscription_rows T" "secret_rows (announce E a c i T) = secret_rows T"
  "delivery_rows (announce E a c i T) = delivery_rows T" "serving_key (announce E a c i T) = serving_key T"
  by (simp_all add: announce_def publish_admin_def)

lemma sound_announce: "sound_step T U \<Longrightarrow> sound_step T (announce E a c i U)"
  by (rule sound_step_trans [of T U]) (auto intro: sound_step_same)

lemma sound_drawn: "sound_step T (T\<lparr>admin_drawn := n\<rparr>)"
  by (rule sound_step_same) simp_all

lemma build_active:
  assumes "bindE (buildSubscriptionRecord pu rs i now body ctx) (\<lambda>r. bindE (assertTenantScoped r) (\<lambda>_. Inr r)) = Inr r"
  shows "ws_status r = ''active''" "ws_deleted_at r = None" "ws_id r = i" "ws_tenant_id r = wc_tenantId ctx"
    "ws_workspace_id r = wc_workspaceId ctx"
  using assms by (auto simp: buildSubscriptionRecord_def bindE_eq_Inr)

lemma transition_deleted:
  "applyStatusTransition now s target = Inr r \<Longrightarrow> ws_status s \<noteq> ''deleted'' \<and> ws_status r = target
     \<and> ws_deleted_at r = ws_deleted_at s \<and> ws_id r = ws_id s \<and> ws_tenant_id r = ws_tenant_id s
     \<and> ws_workspace_id r = ws_workspace_id s"
  by (auto simp: applyStatusTransition_def canTransitionSub_def bindE_eq_Inr)

lemma sound_create:
  assumes "sound_env E" and "create_webhook E key body ctx T = (r, T')"
  shows "sound_step T T'"
proof -
  have ins: "sound_step T U"
    if "insertSubscriptionWithSecret x enc key (ma_between E (T\<lparr>admin_drawn := n\<rparr>)) = (y, U)"
      and "ws_status x = ''active''" "ws_deleted_at x = None" for x enc n y U
    using sound_step_trans [OF sound_between [OF assms(1) sound_drawn] sound_insert [OF that]] .
  show ?thesis
    using assms(2) unfolding create_webhook_def Let_def
    by (auto split: sum.splits if_splits prod.splits intro!: sound_announce dest: build_active ins)
qed

lemma sound_patch:
  assumes "sound_env E" and "patch_webhook E body ctx s T = (r, T')"
  shows "sound_step T T'"
proof -
  have upd: "sound_step T U" if "updateSubscription now i b v t w (ma_between E T) = (y, U)" for now i b v t w y U
    using sound_step_trans [OF sound_between [OF assms(1) sound_step_refl] sound_update [OF that]] .
  show ?thesis
    using assms(2) unfolding patch_webhook_def Let_def
    by (auto split: sum.splits prod.splits option.splits intro!: sound_announce dest: upd)
qed

lemma sound_transition:
  assumes "sound_env E" and "transition_webhook E target act ctx s T = (r, T')" and "ws_deleted_at s = None"
    and "target \<noteq> ''deleted''"
  shows "sound_step T T'"
proof -
  have rep: "sound_step T U"
    if "replaceSubscription x (ma_between E T) = (y, U)" and "applyStatusTransition now s target = Inr x" for x y U now
    using sound_step_trans [OF sound_between [OF assms(1) sound_step_refl] sound_replace [OF that(1)]]
      transition_deleted [OF that(2)] assms(3,4) by simp
  show ?thesis
    using assms(2) unfolding transition_webhook_def Let_def
    by (auto split: sum.splits prod.splits option.splits intro!: sound_announce dest: rep)
qed

lemma sound_delete:
  assumes "sound_env E" and "delete_webhook E ctx s T = (r, T')"
  shows "sound_step T T'"
proof -
  have rep: "sound_step T U"
    if "replaceSubscription x (ma_between E T) = (y, U)" and "softDelete now s = Inr x" for x y U now
  proof -
    have "ws_status x = ''deleted''" "ws_deleted_at x \<noteq> None"
      using that(2) by (auto simp: softDelete_def bindE_eq_Inr dest: transition_deleted)
    then show ?thesis
      using sound_step_trans [OF sound_between [OF assms(1) sound_step_refl] sound_replace [OF that(1)]] by simp
  qed
  have can: "sound_step T V" if "sound_step T U" and "cancelPendingDeliveries now i t w U = (y, V)" for U now i t w y V
    using sound_step_trans [OF that(1) sound_cancel [OF that(2)]] .
  show ?thesis
    using assms(2) unfolding delete_webhook_def Let_def
    by (auto split: sum.splits prod.splits intro!: sound_announce dest: rep intro: can)
qed

lemma sound_rotate_webhook:
  assumes "sound_env E" and "rotate_webhook E key body ctx s T = (r, T')" and "s \<in> set (subscription_rows T)"
  shows "sound_step T T'"
proof -
  have rot: "sound_step T U"
    if run: "rotateSecret (ws_id s) enc g (ws_tenant_id s) (ws_workspace_id s) key (ma_between E (T\<lparr>admin_drawn := n\<rparr>)) = (y, U)"
    for enc g n y U
  proof -
    have b: "sound_step T (ma_between E (T\<lparr>admin_drawn := n\<rparr>))"
      by (rule sound_between [OF assms(1) sound_drawn])
    then obtain s' where "s' \<in> set (subscription_rows (ma_between E (T\<lparr>admin_drawn := n\<rparr>)))" "ws_id s' = ws_id s"
      "ws_tenant_id s' = ws_tenant_id s" "ws_workspace_id s' = ws_workspace_id s"
      using assms(3) by (auto simp: sound_step_def grows_def)
    from sound_step_trans [OF b sound_rotate [OF run this]] show ?thesis .
  qed
  show ?thesis
    using assms(2) unfolding rotate_webhook_def Let_def
    by (auto split: sum.splits prod.splits intro!: sound_announce sound_drawn dest: rot)
qed

lemma required_subscription:
  assumes "requireSubscription ctx i T = Inr (Some s)"
  shows "s \<in> set (subscription_rows T)" "ws_deleted_at s = None" "ws_tenant_id s = wc_tenantId ctx"
    "ws_workspace_id s = wc_workspaceId ctx" "truthyS (wc_tenantId ctx)" "truthyS (wc_workspaceId ctx)"
  using assms
  by (auto simp: requireSubscription_def getSubscription_def withRuntimeScope_def requireScope_def bindE_eq_Inr
      split: if_splits option.splits dest!: find_Some_iff_in)

lemma sound_routes:
  assumes E: "sound_env E" and s: "s \<in> set (subscription_rows T)" "ws_deleted_at s = None"
    and run: "subscription_routes E key q s T = (r, T')"
  shows "sound_step T T'"
  using run unfolding subscription_routes_def Let_def webhookNotFound_def
  by (auto split: sum.splits prod.splits option.splits if_splits
      dest: sound_patch [OF E] sound_delete [OF E]
      intro: sound_transition [OF E _ s(2)] sound_rotate_webhook [OF E _ s(1)])

lemma sound_management:
  assumes E: "sound_env E" and run: "webhook_management E q T = (r, T')"
  shows "sound_step T T'"
  using run unfolding webhook_management_def Let_def webhookNotFound_def
  by (auto split: sum.splits prod.splits option.splits if_splits
      dest: sound_create [OF E] intro: sound_routes [OF E required_subscription(1,2)])

end
