(* ===== verification/Webhook_Scope.thy ===== *)
theory Webhook_Scope
  imports Webhook_Tables
begin

text \<open>
  The reach of a management request: rows outside the caller's tenant and workspace stay as they are,
  and a reply shows rows of the caller's scope only.
\<close>

section \<open>Rows of other scopes\<close>

definition foreign_same :: "webhook_ctx \<Rightarrow> wh_admin \<Rightarrow> wh_admin \<Rightarrow> bool" where
  "foreign_same c T U \<longleftrightarrow>
     filter (\<lambda>s. \<not> sub_in_scope (wc_tenantId c) (wc_workspaceId c) s) (subscription_rows U)
       = filter (\<lambda>s. \<not> sub_in_scope (wc_tenantId c) (wc_workspaceId c) s) (subscription_rows T)
     \<and> filter (\<lambda>k. \<not> (sk_tenant_id k = wc_tenantId c \<and> sk_workspace_id k = wc_workspaceId c)) (secret_rows U)
       = filter (\<lambda>k. \<not> (sk_tenant_id k = wc_tenantId c \<and> sk_workspace_id k = wc_workspaceId c)) (secret_rows T)
     \<and> filter (\<lambda>d. \<not> (wd_tenant_id d = wc_tenantId c \<and> wd_workspace_id d = wc_workspaceId c)) (delivery_rows U)
       = filter (\<lambda>d. \<not> (wd_tenant_id d = wc_tenantId c \<and> wd_workspace_id d = wc_workspaceId c)) (delivery_rows T)"

lemma foreign_refl [simp, intro]: "foreign_same c T T"
  by (simp add: foreign_same_def)

lemma foreign_trans: "foreign_same c T U \<Longrightarrow> foreign_same c U V \<Longrightarrow> foreign_same c T V"
  by (simp add: foreign_same_def)

lemma foreign_rows:
  "subscription_rows U = subscription_rows T \<Longrightarrow> secret_rows U = secret_rows T \<Longrightarrow> delivery_rows U = delivery_rows T
   \<Longrightarrow> foreign_same c T U"
  by (simp add: foreign_same_def)

lemma foreign_announce: "foreign_same c T U \<Longrightarrow> foreign_same c T (announce E a x i U)"
  by (simp add: foreign_same_def)

lemma foreign_update_sub:
  assumes "update_sub i (wc_tenantId c) (wc_workspaceId c) f T = (r, T')" and f: "keeps_scope f"
  shows "foreign_same c T T'"
    and "\<And>s. r = Inr (Some s) \<Longrightarrow> sub_in_scope (wc_tenantId c) (wc_workspaceId c) s"
proof -
  define p where "p = (\<lambda>s :: webhook_subscription. ws_id s = i \<and> sub_in_scope (wc_tenantId c) (wc_workspaceId c) s)"
  have *: "T' = T \<or> T' = T\<lparr>subscription_rows := updWhere p f (subscription_rows T)\<rparr>"
    using assms(1) by (auto simp: update_sub_def withRuntimeScope_def Let_def p_def split: sum.splits)
  have "filter (\<lambda>s. \<not> sub_in_scope (wc_tenantId c) (wc_workspaceId c) s) (updWhere p f (subscription_rows T))
      = filter (\<lambda>s. \<not> sub_in_scope (wc_tenantId c) (wc_workspaceId c) s) (subscription_rows T)"
    using f by (intro filter_updWhere_disjoint) (auto simp: p_def keeps_scope_def sub_in_scope_def)
  with * show "foreign_same c T T'" by (auto simp: foreign_same_def)
  fix s assume "r = Inr (Some s)"
  then have "s \<in> set (returning p f (subscription_rows T))"
    using assms(1)
    by (auto simp: update_sub_def withRuntimeScope_def Let_def p_def split: sum.splits list.splits)
  with f show "sub_in_scope (wc_tenantId c) (wc_workspaceId c) s"
    by (auto simp: returning_def p_def keeps_scope_def sub_in_scope_def)
qed

lemma foreign_update:
  assumes "updateSubscription now i b v (wc_tenantId c) (wc_workspaceId c) T = (r, T')"
  shows "foreign_same c T T'" "\<And>s. r = Inr (Some s) \<Longrightarrow> sub_in_scope (wc_tenantId c) (wc_workspaceId c) s"
  using foreign_update_sub [OF assms [unfolded updateSubscription_def]] by (simp_all add: keeps_scope_def)

lemma foreign_replace:
  assumes "replaceSubscription x T = (r, T')" and "ws_tenant_id x = wc_tenantId c" "ws_workspace_id x = wc_workspaceId c"
  shows "foreign_same c T T'" "\<And>s. r = Inr (Some s) \<Longrightarrow> sub_in_scope (wc_tenantId c) (wc_workspaceId c) s"
  using foreign_update_sub [OF assms(1) [unfolded replaceSubscription_def assms(2,3)]] by (simp_all add: keeps_scope_def)

lemma foreign_cancel:
  assumes "cancelPendingDeliveries now i (wc_tenantId c) (wc_workspaceId c) T = (r, T')"
  shows "foreign_same c T T'"
proof -
  define p where "p = (\<lambda>d :: webhook_delivery. wd_subscription_id d = i \<and> wd_status d = ''pending'' \<and> wd_tenant_id d = wc_tenantId c
               \<and> wd_workspace_id d = wc_workspaceId c)"
  define f where "f = (\<lambda>d :: webhook_delivery. d\<lparr>wd_status := ''cancelled'', wd_updated_at := now\<rparr>)"
  have *: "T' = T \<or> T' = T\<lparr>delivery_rows := updWhere p f (delivery_rows T)\<rparr>"
    using assms by (auto simp: cancelPendingDeliveries_def withRuntimeScope_def Let_def p_def f_def split: sum.splits)
  have "filter (\<lambda>d. \<not> (wd_tenant_id d = wc_tenantId c \<and> wd_workspace_id d = wc_workspaceId c)) (updWhere p f (delivery_rows T))
      = filter (\<lambda>d. \<not> (wd_tenant_id d = wc_tenantId c \<and> wd_workspace_id d = wc_workspaceId c)) (delivery_rows T)"
    by (intro filter_updWhere_disjoint) (auto simp: p_def f_def)
  with * show ?thesis by (auto simp: foreign_same_def)
qed

lemma foreign_insert:
  assumes "insertSubscriptionWithSecret x enc key T = (r, T')"
    and "ws_tenant_id x = wc_tenantId c" "ws_workspace_id x = wc_workspaceId c"
  shows "foreign_same c T T'"
proof -
  define k where "k = \<lparr>sk_subscription_id = ws_id x, sk_cipher = fst enc, sk_iv = snd enc,
               sk_status = ''active'', sk_grace_expires_at = None, sk_tenant_id = ws_tenant_id x,
               sk_workspace_id = ws_workspace_id x, sk_key_id = key\<rparr>"
  have "T' = T \<or> T' = T\<lparr>subscription_rows := subscription_rows T @ [x], secret_rows := secret_rows T @ [k]\<rparr>"
    using assms(1) unfolding insertSubscriptionWithSecret_def withSigningSecretWrite_def insertSubscription_def insertSigningSecret_def
    by (simp add: k_def split: sum.splits if_splits)
  then show ?thesis using assms(2,3) by (auto simp: foreign_same_def sub_in_scope_def k_def)
qed

lemma foreign_rotate:
  assumes "rotateSecret i enc g (wc_tenantId c) (wc_workspaceId c) key T = (r, T')"
  shows "foreign_same c T T'"
proof -
  define k where "k = \<lparr>sk_subscription_id = i, sk_cipher = fst enc, sk_iv = snd enc,
               sk_status = ''active'', sk_grace_expires_at = None, sk_tenant_id = wc_tenantId c,
               sk_workspace_id = wc_workspaceId c, sk_key_id = key\<rparr>"
  define p where "p = (\<lambda>k :: webhook_secret. sk_subscription_id k = i \<and> sk_status k = ''active'' \<and> sk_tenant_id k = wc_tenantId c
                  \<and> sk_workspace_id k = wc_workspaceId c)"
  define f where "f = (\<lambda>k :: webhook_secret. k\<lparr>sk_status := ''grace'', sk_grace_expires_at := Some g\<rparr>)"
  have *: "T' = T \<or> T' = T\<lparr>secret_rows := updWhere p f (secret_rows T) @ [k]\<rparr>"
    using assms unfolding rotateSecret_def withSigningSecretWrite_def insertSigningSecret_def
    by (simp add: k_def p_def f_def split: sum.splits if_splits)
  have "filter (\<lambda>k. \<not> (sk_tenant_id k = wc_tenantId c \<and> sk_workspace_id k = wc_workspaceId c)) (updWhere p f (secret_rows T))
      = filter (\<lambda>k. \<not> (sk_tenant_id k = wc_tenantId c \<and> sk_workspace_id k = wc_workspaceId c)) (secret_rows T)"
    by (intro filter_updWhere_disjoint) (auto simp: p_def f_def)
  with * show ?thesis by (auto simp: foreign_same_def k_def)
qed

section \<open>Replies\<close>

definition view_own :: "webhook_ctx \<Rightarrow> subscription_view \<Rightarrow> bool" where
  "view_own c v \<longleftrightarrow> (\<exists>s. v = responseSubscription s \<and> sub_in_scope (wc_tenantId c) (wc_workspaceId c) s)"

lemma view_ownI: "sub_in_scope (wc_tenantId c) (wc_workspaceId c) s \<Longrightarrow> view_own c (responseSubscription s)"
  by (auto simp: view_own_def)

lemma updated_own:
  "updateSubscription now i b v (wc_tenantId c) (wc_workspaceId c) T = (Inr (Some s), T') \<Longrightarrow> view_own c (responseSubscription s)"
  by (rule view_ownI) (rule foreign_update(2) [OF _ refl])

lemma replaced_own:
  "replaceSubscription x T = (Inr (Some s), T') \<Longrightarrow> ws_tenant_id x = wc_tenantId c \<Longrightarrow> ws_workspace_id x = wc_workspaceId c
   \<Longrightarrow> view_own c (responseSubscription s)"
  by (rule view_ownI) (rule foreign_replace(2) [OF _ _ _ refl])

fun reply_own :: "webhook_ctx \<Rightarrow> wh_admin \<Rightarrow> webhook_reply \<Rightarrow> bool" where
  "reply_own c T (CreatedBody v x) = view_own c v"
| "reply_own c T (SubscriptionBody v) = view_own c v"
| "reply_own c T (SubscriptionsBody vs) =
     (\<forall>v \<in> set vs. \<exists>s \<in> set (subscription_rows T). v = responseSubscription s \<and> sub_in_scope (wc_tenantId c) (wc_workspaceId c) s)"
| "reply_own c T (DeliveriesBody ds) =
     (\<forall>d \<in> set ds. d \<in> set (delivery_rows T) \<and> wd_tenant_id d = wc_tenantId c \<and> wd_workspace_id d = wc_workspaceId c)"
| "reply_own c T (DeliveryBody d) =
     (d \<in> set (delivery_rows T) \<and> wd_tenant_id d = wc_tenantId c \<and> wd_workspace_id d = wc_workspaceId c)"
| "reply_own c T _ = True"

definition own_request :: "webhook_ctx \<Rightarrow> wh_admin \<Rightarrow> webhook_response result \<times> wh_admin \<Rightarrow> bool" where
  "own_request c T res \<longleftrightarrow>
     foreign_same c T (snd res) \<and> (case fst res of Inr (st, b) \<Rightarrow> reply_own c T b | Inl _ \<Rightarrow> True)"

lemma own_error [simp]: "reply_own c T (snd (errorReply st code m))"
  by (simp add: errorReply_def)

lemma own_bounded [simp]: "reply_own c T (snd (boundedCreateError e))" "reply_own c T (snd (boundedRotationError e))"
  by (simp_all add: boundedCreateError_def boundedRotationError_def)

lemma own_rotation_error: "boundedRotationError e = (st, b) \<Longrightarrow> reply_own c T b"
  using own_bounded(2) [of c T e] by simp

lemma own_create:
  assumes "ma_between E = (\<lambda>T. T)" and "create_webhook E key body c T = (r, T')"
  shows "foreign_same c T T' \<and> reply_own c T (snd r)"
proof -
  have ins: "foreign_same c T U" if "insertSubscriptionWithSecret x enc key (T\<lparr>admin_drawn := n\<rparr>) = (y, U)"
      and "ws_tenant_id x = wc_tenantId c" "ws_workspace_id x = wc_workspaceId c" for x enc n y U
    using foreign_insert [OF that] by (simp add: foreign_same_def)
  have built: "ws_tenant_id x = wc_tenantId c \<and> ws_workspace_id x = wc_workspaceId c"
    if "bindE (buildSubscriptionRecord pu rs i now body c) (\<lambda>r. bindE (assertTenantScoped r) (\<lambda>_. Inr r)) = Inr x"
    for pu rs i now x
    using build_active [OF that] by simp
  show ?thesis
    using assms(2) unfolding create_webhook_def Let_def assms(1)
    by (auto simp: sub_in_scope_def split: sum.splits if_splits prod.splits intro!: foreign_announce view_ownI dest!: built dest: ins)
qed

lemma own_patch:
  assumes "ma_between E = (\<lambda>T. T)" and "patch_webhook E body c s T = (r, T')"
    and "ws_tenant_id s = wc_tenantId c" "ws_workspace_id s = wc_workspaceId c"
  shows "foreign_same c T T' \<and> reply_own c T (snd r)"
  using assms(2) unfolding patch_webhook_def Let_def assms(1) assms(3,4)
  by (auto split: sum.splits prod.splits option.splits intro!: foreign_announce dest: foreign_update(1) updated_own)

lemma own_transition:
  assumes "ma_between E = (\<lambda>T. T)" and "transition_webhook E target act c s T = (r, T')"
    and "ws_tenant_id s = wc_tenantId c" "ws_workspace_id s = wc_workspaceId c"
  shows "foreign_same c T T' \<and> reply_own c T (snd r)"
proof -
  have sc: "ws_tenant_id x = wc_tenantId c \<and> ws_workspace_id x = wc_workspaceId c"
    if "applyStatusTransition now s target = Inr x" for x now
    using transition_deleted [OF that] assms(3,4) by simp
  show ?thesis
    using assms(2) unfolding transition_webhook_def Let_def assms(1)
    by (auto split: sum.splits prod.splits option.splits intro!: foreign_announce dest: foreign_replace(1) replaced_own sc)
qed

lemma own_delete:
  assumes "ma_between E = (\<lambda>T. T)" and "delete_webhook E c s T = (r, T')"
    and "ws_tenant_id s = wc_tenantId c" "ws_workspace_id s = wc_workspaceId c"
  shows "own_request c T (r, T')"
proof -
  have sc: "ws_tenant_id x = wc_tenantId c \<and> ws_workspace_id x = wc_workspaceId c"
    if "softDelete now s = Inr x" for x now
    using that assms(3,4) by (auto simp: softDelete_def bindE_eq_Inr dest!: transition_deleted)
  show ?thesis
    using assms(2) unfolding delete_webhook_def Let_def assms(1) assms(3,4) own_request_def
    by (auto split: sum.splits prod.splits intro!: foreign_announce dest: foreign_replace sc
        intro: foreign_trans dest!: foreign_cancel)
qed

lemma own_rotate:
  assumes "ma_between E = (\<lambda>T. T)" and "rotate_webhook E key body c s T = (r, T')"
    and "ws_tenant_id s = wc_tenantId c" "ws_workspace_id s = wc_workspaceId c"
  shows "own_request c T (r, T')"
proof -
  have rot: "foreign_same c T U"
    if "rotateSecret (ws_id s) enc g (wc_tenantId c) (wc_workspaceId c) key (T\<lparr>admin_drawn := n\<rparr>) = (y, U)" for enc g n y U
    using foreign_rotate [OF that] by (simp add: foreign_same_def)
  have n: "foreign_same c T (T\<lparr>admin_drawn := n\<rparr>)" for n by (simp add: foreign_same_def)
  show ?thesis
    using assms(2) unfolding rotate_webhook_def Let_def assms(1) assms(3,4) own_request_def
    by (auto split: sum.splits prod.splits intro!: foreign_announce n dest: rot own_rotation_error)
qed


lemma listed_own:
  assumes "fst (listSubscriptions c n T) = Inr rows" and "s \<in> set rows"
  shows "s \<in> set (subscription_rows T) \<and> sub_in_scope (wc_tenantId c) (wc_workspaceId c) s"
  using assms
  by (auto simp: listSubscriptions_def withRuntimeScope_def bindE_eq_Inr split: sum.splits prod.splits dest: in_set_takeD)

lemma deliveries_own:
  assumes "fst (listDeliveries i n t w T) = Inr rows" and "d \<in> set rows"
  shows "d \<in> set (delivery_rows T) \<and> wd_tenant_id d = t \<and> wd_workspace_id d = w"
  using assms
  by (auto simp: listDeliveries_def withRuntimeScope_def delivery_in_scope_def bindE_eq_Inr
      split: sum.splits prod.splits dest: in_set_takeD)

lemma delivery_own:
  assumes "fst (getDelivery i j t w T) = Inr (Some d)"
  shows "d \<in> set (delivery_rows T) \<and> wd_tenant_id d = t \<and> wd_workspace_id d = w"
  using assms
  by (auto simp: getDelivery_def withRuntimeScope_def delivery_in_scope_def
      split: sum.splits prod.splits dest!: find_Some_iff_in)

lemma own_webhookNotFound: "own_request c T (webhookNotFound m T)"
  by (simp add: own_request_def webhookNotFound_def errorReply_def)

lemma own_pair: "foreign_same c T T' \<and> reply_own c T (snd r) \<Longrightarrow> own_request c T (Inr r, T')"
  by (auto simp: own_request_def)

lemma own_Inl: "own_request c T (Inl e, T)"
  by (simp add: own_request_def)

lemma own_delivery:
  "d \<in> set (delivery_rows T) \<Longrightarrow> wd_tenant_id d = wc_tenantId c \<Longrightarrow> wd_workspace_id d = wc_workspaceId c
   \<Longrightarrow> own_request c T (Inr (200, DeliveryBody d), T)"
  by (simp add: own_request_def)

lemma own_routes:
  assumes E: "ma_between E = (\<lambda>T. T)" and s: "ws_tenant_id s = wc_tenantId (mq_auth q)" "ws_workspace_id s = wc_workspaceId (mq_auth q)"
  shows "own_request (mq_auth q) T (subscription_routes E key q s T)"
proof -
  let ?c = "mq_auth q"
  have pa: "own_request ?c T (case patch_webhook E b ?c s T of (r, T') \<Rightarrow> (Inr r, T'))" for b
    using own_patch [OF E _ s] own_pair by (cases "patch_webhook E b ?c s T") auto
  have tr: "own_request ?c T (case transition_webhook E t a ?c s T of (r, T') \<Rightarrow> (Inr r, T'))" for t a
    using own_transition [OF E _ s] own_pair by (cases "transition_webhook E t a ?c s T") auto
  have de: "own_request ?c T (delete_webhook E ?c s T)"
    using own_delete [OF E _ s] by (cases "delete_webhook E ?c s T") auto
  have ro: "own_request ?c T (rotate_webhook E key b ?c s T)" for b
    using own_rotate [OF E _ s] by (cases "rotate_webhook E key b ?c s T") auto
  have dels: "own_request ?c T (bindE (fst (listDeliveries i n (ws_tenant_id s) (ws_workspace_id s) T))
      (\<lambda>rows. Inr (200, DeliveriesBody rows)), T)" for i n
    using s by (cases "fst (listDeliveries i n (ws_tenant_id s) (ws_workspace_id s) T)") (auto simp: own_request_def dest: deliveries_own)
  have di: "own_request ?c T (case fst (getDelivery i j (ws_tenant_id s) (ws_workspace_id s) T) of Inl e \<Rightarrow> (Inl e, T)
      | Inr None \<Rightarrow> webhookNotFound m T | Inr (Some d) \<Rightarrow> (Inr (200, DeliveryBody d), T))" for i j m
    using s by (auto intro!: own_webhookNotFound own_Inl own_delivery dest!: delivery_own split: sum.split option.split)
  have one: "own_request ?c T (Inr (200, SubscriptionBody (responseSubscription s)), T)"
    using s by (auto simp: own_request_def sub_in_scope_def intro!: view_ownI)
  show ?thesis
    unfolding subscription_routes_def Let_def
    by (simp only: split: if_split) (intro conjI impI pa tr de ro dels di one own_webhookNotFound)
qed

lemma own_management:
  assumes E: "ma_between E = (\<lambda>T. T)"
  shows "own_request (mq_auth q) T (webhook_management E q T)"
proof -
  let ?c = "mq_auth q"
  have cr: "own_request ?c T (case create_webhook E key b ?c T of (r, T') \<Rightarrow> (Inr r, T'))" for key b
    using own_create [OF E] own_pair by (cases "create_webhook E key b ?c T") auto
  have subs: "own_request ?c T (bindE (fst (listSubscriptions ?c n T)) (\<lambda>rows. Inr (200, SubscriptionsBody (map responseSubscription rows))), T)" for n
    by (cases "fst (listSubscriptions ?c n T)") (auto simp: own_request_def dest: listed_own)
  have by_id: "own_request ?c T (case requireSubscription ?c i T of Inl e \<Rightarrow> (Inl e, T)
      | Inr None \<Rightarrow> webhookNotFound m T | Inr (Some s) \<Rightarrow> subscription_routes E key q s T)" for i m key
    by (auto intro!: own_webhookNotFound own_Inl own_routes [OF E] dest: required_subscription split: sum.split option.split)
  have ty: "own_request ?c T (Inr (200, EventTypesBody x), T)" for x
    by (simp add: own_request_def)
  show ?thesis
    unfolding webhook_management_def Let_def
    by (cases "ma_keyId E"; simp only: sum.case split: if_split) (intro conjI impI cr subs by_id ty own_Inl own_webhookNotFound)+
qed

end
