(* ===== verification/Webhook_Props.thy ===== *)
theory Webhook_Props
  imports Webhook_Runs Webhook_Scope
begin

text \<open>
  Properties of the webhook engine: the address filter (C4), the requests the delivery runtime sends
  and its termination (C12, C14), the signing secrets along runs of management requests (C20), the
  reach of a request (C24), and the overlap of secrets after a rotation (C34). The last lemma is the
  race in which a deleted subscription comes back.
\<close>

section \<open>The address filter\<close>





section \<open>Deliveries\<close>


text \<open>
  C14: Under a finite limit of attempts a delivery terminates: with fuel for the attempts that are left
  the runtime returns, it has sent at most that many requests (one if none is left), and the requests
  carry strictly increasing attempt numbers above the count the delivery had.
\<close>

theorem delivery_terminates:
  assumes "keeps_deliveries (en_store E)" and "getDeliveryById (en_store E) i (store w) = Some d"
    and "coalesce (wd_max_attempts d) (rp_maxAttempts (buildRetryPolicy (en_penv E))) = m" and "m \<noteq> Infty True"
    and "max 1 (attempts_left m (wd_attempt_count d)) \<le> n"
  shows "\<exists>res w' rs. runtime_invoke n E i w = Some (res, w') \<and> sent w' = sent w @ rs
      \<and> length rs \<le> max 1 (attempts_left m (wd_attempt_count d))
      \<and> sorted_wrt (<) (map rq_attempt rs) \<and> (\<forall>q \<in> set rs. wd_attempt_count d < rq_attempt q)"
proof -
  have "row_at E i (wd_attempt_count d) m w"
    using assms(2,3) by (simp add: row_at_def)
  from runtime_bounded [OF assms(1,4) this assms(5)] show ?thesis
    by (auto simp: bounded_run_def)
qed

text \<open>A store of one delivery, a receiver that always answers 503, and a resolver that never answers.\<close>

definition one_subscription :: webhook_subscription where
  "one_subscription =
     \<lparr>ws_id = ''s'', ws_tenant_id = Some ''t'', ws_workspace_id = Some ''w'', ws_target_url = ''https://8.8.8.8/hook'',
      ws_event_types = [''document.created''], ws_status = ''active'', ws_consecutive_failures = 0,
      ws_max_consecutive_failures = 5, ws_description = None, ws_metadata = JObj [], ws_created_by = Some ''u'',
      ws_created_at = 0, ws_updated_at = 0, ws_deleted_at = None\<rparr>"

definition one_secret :: webhook_secret where
  "one_secret =
     \<lparr>sk_subscription_id = ''s'', sk_cipher = ''c'', sk_iv = ''i'', sk_status = ''active'', sk_grace_expires_at = None,
      sk_tenant_id = Some ''t'', sk_workspace_id = Some ''w'', sk_key_id = ''k''\<rparr>"

definition one_delivery :: webhook_delivery where
  "one_delivery =
     \<lparr>wd_id = ''d'', wd_subscription_id = ''s'', wd_tenant_id = Some ''t'', wd_workspace_id = Some ''w'',
      wd_event_type = ''document.created'', wd_event_id = ''e'', wd_payload_ref = None, wd_payload_size = 2,
      wd_status = ''pending'', wd_attempt_count = 0, wd_max_attempts = Some (jsInt 3), wd_next_attempt_at = Some 0,
      wd_created_at = 0, wd_updated_at = 0\<rparr>"

definition one_store :: "webhook_delivery delivery_store" where
  "one_store =
     \<lparr>getDeliveryById = (\<lambda>i d. if wd_id d = i then Some d else None), getSubscriptionById = (\<lambda>_ _. Some one_subscription),
      listSecrets = (\<lambda>_ _ _ _. [one_secret]),
      getEvent = (\<lambda>_ _. Some \<lparr>ev_type = ''document.created'', ev_id = ''e'', ev_tenantId = ''t'', ev_workspaceId = ''w'', ev_data = JObj []\<rparr>),
      insertAttempt = (\<lambda>_ d. d), updateDelivery = (\<lambda>i f d. if wd_id d = i then (f d, f d) else (d, d)),
      incrementSubscriptionFailures = (\<lambda>_ d. (one_subscription, d)), updateSubscriptionById = (\<lambda>_ _ d. d),
      findSubscriptionsForEvent = (\<lambda>_ _ _ _. [one_subscription]), insertDelivery = (\<lambda>r _. (True, r)), storeRateCounter = None\<rparr>"

definition one_env :: "webhook_delivery wh_env" where
  "one_env =
     \<lparr>en_store = one_store, en_penv = (\<lambda>_. None), en_keyId = Inr ''k'', en_decrypt = (\<lambda>c i. Inr (c @ i)),
      en_hmac = (\<lambda>k b. k @ b),
      en_parseUrl = (\<lambda>_. Some \<lparr>url_protocol = ''https:'', url_hostname = dotted 0x08080808, url_href = ''https://8.8.8.8/hook''\<rparr>),
      en_resolver = (\<lambda>_ _. None), en_http = (\<lambda>_ _. Responded 503 None 1), en_kafka = True, en_uuid = (\<lambda>n. show_nat n),
      en_now = 0, en_random = 0, en_iso = show_int\<rparr>"

definition one_world :: "webhook_delivery wh_world" where
  "one_world =
     \<lparr>store = one_delivery, sent = [], lookups = 0, published = [], drawn_ids = 0, rate_counters = (\<lambda>_. None)\<rparr>"

lemma one_store_keeps: "keeps_deliveries one_store"
  by (auto simp: keeps_deliveries_def one_store_def)

theorem delivery_terminates_witness:
  "\<exists>res w' rs. runtime_invoke 3 one_env ''d'' one_world = Some (res, w') \<and> sent w' = sent one_world @ rs
      \<and> length rs \<le> max 1 (attempts_left (jsInt 3) (wd_attempt_count one_delivery))
      \<and> sorted_wrt (<) (map rq_attempt rs) \<and> (\<forall>q \<in> set rs. wd_attempt_count one_delivery < rq_attempt q)"
  by (rule delivery_terminates [where d = one_delivery and m = "jsInt 3"])
     (simp_all add: one_env_def one_store_keeps, simp_all add: one_store_def one_world_def one_delivery_def jsInt_def)

text \<open>The run is not silent: a receiver that accepts gets one request at 8.8.8.8.\<close>

lemma isIP_dotted: "net_isIP (dotted a) = 4"
  by (simp add: net_isIP_def is_v4_dotted)

lemma public_8888: "\<not> addr_blocked 0x08080808"
  by (simp add: addr_blocked_def blocked_ranges_def in_cidr_div)




section \<open>Signing secrets along runs\<close>




definition no_webhooks :: "string option \<Rightarrow> wh_admin" where
  "no_webhooks k =
     \<lparr>subscription_rows = [], secret_rows = [], delivery_rows = [], serving_key = k, admin_events = [], admin_drawn = 0\<rparr>"

text \<open>A first subscription, created over the API.\<close>

definition api_env :: admin_env where
  "api_env =
     \<lparr>ma_penv = (\<lambda>_. None), ma_keyId = Inr ''k'',
      ma_parseUrl = (\<lambda>_. Some \<lparr>url_protocol = ''https:'', url_hostname = dotted 0x08080808, url_href = ''https://8.8.8.8/hook''\<rparr>),
      ma_resolver = (\<lambda>_. None), ma_uuid = (\<lambda>_. ''6f9619ff-8b86-4011-b42d-00c04fc964ff''),
      ma_signingSecret = (\<lambda>n. ''secret'' @ show_nat n), ma_encrypt = (\<lambda>n x. (x, [])), ma_kafka = True, ma_now = 0,
      ma_between = (\<lambda>T. T)\<rparr>"

definition api_ctx :: webhook_ctx where
  "api_ctx = \<lparr>wc_tenantId = Some ''t'', wc_workspaceId = Some ''w'', wc_actorId = Some ''u''\<rparr>"

definition create_rq :: webhook_api_request where
  "create_rq =
     \<lparr>mq_method = ''POST'', mq_path = ''/v1/webhooks/subscriptions'',
      mq_body = \<lparr>b_targetUrl = Some ''https://8.8.8.8/hook'', b_eventTypes = JArr [JStr ''user.signed_up''],
        b_description = None, b_metadata = None, b_gracePeriodSeconds = None\<rparr>,
      mq_limit = None, mq_auth = api_ctx\<rparr>"

definition first_subscription :: webhook_subscription where
  "first_subscription =
     \<lparr>ws_id = ''6f9619ff-8b86-4011-b42d-00c04fc964ff'', ws_tenant_id = Some ''t'', ws_workspace_id = Some ''w'',
      ws_target_url = ''https://8.8.8.8/hook'', ws_event_types = [''user.signed_up''], ws_status = ''active'',
      ws_consecutive_failures = 0, ws_max_consecutive_failures = 5, ws_description = None, ws_metadata = JObj [],
      ws_created_by = Some ''u'', ws_created_at = 0, ws_updated_at = 0, ws_deleted_at = None\<rparr>"

definition first_secret :: webhook_secret where
  "first_secret =
     \<lparr>sk_subscription_id = ''6f9619ff-8b86-4011-b42d-00c04fc964ff'', sk_cipher = ''secret'' @ show_nat 0, sk_iv = [],
      sk_status = ''active'', sk_grace_expires_at = None, sk_tenant_id = Some ''t'', sk_workspace_id = Some ''w'', sk_key_id = ''k''\<rparr>"

lemma create_path: "pathParts ''/v1/webhooks/subscriptions'' = [''subscriptions'']"
  by code_simp

definition first_tables :: wh_admin where
  "first_tables = snd (webhook_management api_env create_rq (no_webhooks (Some ''k'')))"

lemma first_created:
  "webhook_management api_env create_rq (no_webhooks (Some ''k'')) =
      (Inr (201, CreatedBody (responseSubscription first_subscription) (''secret'' @ show_nat 0)), first_tables)"
  "subscription_rows first_tables = [first_subscription]" "secret_rows first_tables = [first_secret]"
  "admin_drawn first_tables = 1" "serving_key first_tables = Some ''k''"
  by (simp_all add: first_tables_def webhook_management_def api_env_def create_rq_def create_path path_part_def Let_def create_webhook_def wh_ops
      getWorkspaceSubscriptionCount_def requireScope_def api_ctx_def getQuotaConfig_def numberEnv_def checkSubscriptionQuota_def
      buildSubscriptionRecord_def validateSubscriptionInput_def strip_dotted isIP_dotted private_dotted public_8888
      event_strings_def isValidEventType_def EVENT_CATALOGUE_def assertTenantScoped_def acquireWebhookKeyWriteFence_def
      no_webhooks_def first_subscription_def first_secret_def announce_def publish_admin_def)



section \<open>The reach of a request\<close>




section \<open>Rotation\<close>

text \<open>The rows the worker lists for a subscription.\<close>

definition secrets_of :: "wh_admin \<Rightarrow> webhook_subscription \<Rightarrow> webhook_secret list" where
  "secrets_of T s = filter (\<lambda>k. sk_subscription_id k = ws_id s \<and> sk_tenant_id k = ws_tenant_id s
     \<and> sk_workspace_id k = ws_workspace_id s) (secret_rows T)"

definition demote :: "time \<Rightarrow> webhook_secret \<Rightarrow> webhook_secret" where
  "demote g k = (if sk_status k = ''active'' then k\<lparr>sk_status := ''grace'', sk_grace_expires_at := Some g\<rparr> else k)"

definition demoted :: "time \<Rightarrow> secret_record \<Rightarrow> secret_record" where
  "demoted g r = (if sr_status r = ''active'' then r\<lparr>sr_status := ''grace'', sr_grace_expires_at := Some g\<rparr> else r)"

lemma reveal_demote: "revealSecretRecords dec key rows = Inr srs \<Longrightarrow> revealSecretRecords dec key (map (demote g) rows) = Inr (map (demoted g) srs)"
proof (induction rows arbitrary: srs)
  case (Cons row rows)
  then show ?case by (auto simp: bindE_eq_Inr demote_def demoted_def split: if_splits)
qed simp

lemma reveal_append:
  "revealSecretRecords dec key xs = Inr as \<Longrightarrow> revealSecretRecords dec key ys = Inr bs
   \<Longrightarrow> revealSecretRecords dec key (xs @ ys) = Inr (as @ bs)"
  by (induction xs arbitrary: as) (auto simp: bindE_eq_Inr split: if_splits)

lemma secrets_after_rotation:
  assumes "rotateSecret (ws_id s) enc g (ws_tenant_id s) (ws_workspace_id s) key T = (Inr u, T')"
  shows "secrets_of T' s = map (demote g) (secrets_of T s) @
     [\<lparr>sk_subscription_id = ws_id s, sk_cipher = fst enc, sk_iv = snd enc, sk_status = ''active'',
       sk_grace_expires_at = None, sk_tenant_id = ws_tenant_id s, sk_workspace_id = ws_workspace_id s, sk_key_id = key\<rparr>]"
proof -
  define k where "k = \<lparr>sk_subscription_id = ws_id s, sk_cipher = fst enc, sk_iv = snd enc, sk_status = ''active'',
       sk_grace_expires_at = None, sk_tenant_id = ws_tenant_id s, sk_workspace_id = ws_workspace_id s, sk_key_id = key\<rparr>"
  define p where "p = (\<lambda>k :: webhook_secret. sk_subscription_id k = ws_id s \<and> sk_status k = ''active'' \<and> sk_tenant_id k = ws_tenant_id s
                  \<and> sk_workspace_id k = ws_workspace_id s)"
  define f where "f = (\<lambda>k :: webhook_secret. k\<lparr>sk_status := ''grace'', sk_grace_expires_at := Some g\<rparr>)"
  define o' where "o' = (\<lambda>k :: webhook_secret. sk_subscription_id k = ws_id s \<and> sk_tenant_id k = ws_tenant_id s
     \<and> sk_workspace_id k = ws_workspace_id s)"
  have T': "secret_rows T' = updWhere p f (secret_rows T) @ [k]"
    using assms unfolding rotateSecret_def withSigningSecretWrite_def insertSigningSecret_def
    by (auto simp: k_def p_def f_def split: sum.splits if_splits)
  have "filter o' (updWhere p f xs) = map (demote g) (filter o' xs)" for xs
    by (induction xs) (auto simp: o'_def p_def f_def demote_def)
  then show ?thesis
    unfolding secrets_of_def T' k_def [symmetric] o'_def [symmetric] by (simp add: o'_def k_def)
qed

text \<open>
  C34: After a rotation the new secret verifies the signatures made with it, the secret that was active
  verifies its signatures until the grace period ends, and the new secret is the only active one, so
  the worker signs with it.
\<close>

theorem rotation_overlaps:
  assumes run: "rotate_webhook E key body c s T = (Inr (200, RotatedBody new secs expires), T')"
    and alone: "ma_between E = (\<lambda>T. T)"
    and enc: "\<And>n x. dec (fst (ma_encrypt E n x)) (snd (ma_encrypt E n x)) = Inr x"
    and old: "revealSecretRecords dec key (secrets_of T s) = Inr olds"
  shows "\<exists>recs. revealSecretRecords dec key (secrets_of T' s) = Inr recs
    \<and> (\<forall>t b. verifyAgainstSecretSet hmac t b (Some (computeSignature hmac b new)) recs)
    \<and> (\<forall>x \<in> set olds. \<forall>t b. sr_status x = ''active'' \<and> t \<le> expires \<longrightarrow>
         verifyAgainstSecretSet hmac t b (Some (computeSignature hmac b (sr_secret x))) recs)
    \<and> map sr_secret (filter (\<lambda>r. sr_status r = ''active'') recs) = [new]"
proof -
  define n where "n = admin_drawn T"
  obtain u T1 where new: "new = ma_signingSecret E n"
    and rot: "rotateSecret (ws_id s) (ma_encrypt E n new) expires (ws_tenant_id s) (ws_workspace_id s) key (T\<lparr>admin_drawn := Suc n\<rparr>) = (Inr u, T1)"
    and T': "secret_rows T' = secret_rows T1"
    using run alone
    by (auto simp: rotate_webhook_def Let_def n_def boundedRotationError_def errorReply_def split: sum.splits prod.splits if_splits)
  have same: "secrets_of (T\<lparr>admin_drawn := Suc n\<rparr>) s = secrets_of T s" "secrets_of T' s = secrets_of T1 s"
    by (simp_all add: secrets_of_def T')
  define r where "r = \<lparr>sr_status = ''active'', sr_grace_expires_at = None, sr_secret = new\<rparr>"
  have recs: "revealSecretRecords dec key (secrets_of T' s) = Inr (map (demoted expires) olds @ [r])"
    unfolding same(2) secrets_after_rotation [OF rot] same(1)
    by (rule reveal_append [OF reveal_demote [OF old]]) (simp add: enc r_def)
  have "verifyAgainstSecretSet hmac t b (Some (computeSignature hmac b new)) (map (demoted expires) olds @ [r])" for t b
    by (simp add: verifyAgainstSecretSet_def r_def verifySignature_def)
  moreover have "verifyAgainstSecretSet hmac t b (Some (computeSignature hmac b (sr_secret x))) (map (demoted expires) olds @ [r])"
    if "x \<in> set olds" "sr_status x = ''active''" "t \<le> expires" for x t b
    using that unfolding verifyAgainstSecretSet_def list_ex_iff
    by (intro bexI [of _ "demoted expires x"]) (auto simp: demoted_def verifySignature_def)
  moreover have "filter (\<lambda>r. sr_status r = ''active'') (map (demoted expires) olds) = []"
    by (auto simp: filter_empty_conv demoted_def)
  ultimately show ?thesis
    using recs by (intro exI [of _ "map (demoted expires) olds @ [r]"]) (simp add: r_def)
qed

theorem rotation_overlaps_witness:
  "\<exists>T' recs.
     rotate_webhook api_env ''k'' (mq_body create_rq) api_ctx first_subscription first_tables
       = (Inr (200, RotatedBody (''secret'' @ show_nat 1) (jsInt 86400) 86400000), T')
     \<and> revealSecretRecords (\<lambda>c i. Inr c) ''k'' (secrets_of T' first_subscription) = Inr recs
     \<and> map sr_secret (filter (\<lambda>r. sr_status r = ''active'') recs) = [''secret'' @ show_nat 1]"
proof -
  have "fst (rotate_webhook api_env ''k'' (mq_body create_rq) api_ctx first_subscription first_tables)
       = Inr (200, RotatedBody (''secret'' @ show_nat 1) (jsInt 86400) 86400000)"
    using first_created(2-5)
    by (simp add: rotate_webhook_def Let_def api_env_def create_rq_def numberEnv_def jsInt_def wh_ops acquireWebhookKeyWriteFence_def
        first_subscription_def first_secret_def)
  then obtain T' where run: "rotate_webhook api_env ''k'' (mq_body create_rq) api_ctx first_subscription first_tables
       = (Inr (200, RotatedBody (''secret'' @ show_nat 1) (jsInt 86400) 86400000), T')"
    by (rule eq_fst_iff [THEN iffD1, OF sym, THEN exE]) simp
  have old: "revealSecretRecords (\<lambda>c i. Inr c) ''k'' (secrets_of first_tables first_subscription)
      = Inr [\<lparr>sr_status = ''active'', sr_grace_expires_at = None, sr_secret = ''secret'' @ show_nat 0\<rparr>]"
    using first_created(2-5) by (simp add: secrets_of_def first_subscription_def first_secret_def)
  have env: "ma_between api_env = (\<lambda>T. T)" "ma_encrypt api_env n x = (x, [])" for n x
    by (simp_all add: api_env_def)
  have enc: "(\<lambda>c i. Inr c) (fst (ma_encrypt api_env n x)) (snd (ma_encrypt api_env n x)) = Inr x" for n x
    by (simp add: env(2))
  show ?thesis
    using rotation_overlaps [OF run env(1) enc old, where hmac = "\<lambda>k b. k @ b"] run by auto
qed

section \<open>The race of deleting with pausing\<close>

lemma replaced_row:
  assumes "replaceSubscription r T = (x, T')" and "s \<in> set (subscription_rows T)" "ws_id s = ws_id r"
    "ws_tenant_id s = ws_tenant_id r" "ws_workspace_id s = ws_workspace_id r" and "truthyS (ws_tenant_id r)" "truthyS (ws_workspace_id r)"
  shows "\<exists>s' \<in> set (subscription_rows T'). ws_id s' = ws_id r \<and> ws_status s' = ws_status r \<and> ws_deleted_at s' = ws_deleted_at r"
proof -
  have "subscription_rows T' = updWhere (\<lambda>s. ws_id s = ws_id r \<and> sub_in_scope (ws_tenant_id r) (ws_workspace_id r) s)
      (\<lambda>s. s\<lparr>ws_status := ws_status r, ws_updated_at := ws_updated_at r, ws_deleted_at := ws_deleted_at r\<rparr>) (subscription_rows T)"
    using assms(1,6,7)
    by (auto simp: replaceSubscription_def update_sub_def withRuntimeScope_def requireScope_def Let_def)
  then show ?thesis
    using assms(2-5) by (auto simp: bex_updWhere sub_in_scope_def intro!: bexI [of _ s])
qed

text \<open>
  The pause read the row before the delete and writes its whole status afterwards, with no deletion
  time: the deleted subscription is paused and can be resumed.
\<close>

lemma paused_after_delete_is_back:
  assumes s: "s \<in> set (subscription_rows T)" "ws_status s = ''active''" "ws_deleted_at s = None"
      "truthyS (ws_tenant_id s)" "truthyS (ws_workspace_id s)"
    and D: "ma_between D = (\<lambda>T. T)" and E: "ma_between E T = snd (delete_webhook D c s T)"
    and run: "transition_webhook E ''paused'' act c s T = (r, T')"
  shows "\<exists>s' \<in> set (subscription_rows T'). ws_id s' = ws_id s \<and> ws_status s' = ''paused'' \<and> ws_deleted_at s' = None"
proof -
  define p where "p = s\<lparr>ws_status := ''paused'', ws_updated_at := ma_now E\<rparr>"
  have t: "applyStatusTransition (ma_now E) s ''paused'' = Inr p"
    using s(2) by (simp add: applyStatusTransition_def canTransitionSub_def p_def)
  have "sound_env D" by (simp add: sound_env_def D)
  then have "grows T (ma_between E T)"
    using sound_delete [of D c s T] unfolding E by (cases "delete_webhook D c s T") (auto simp: sound_step_def)
  then obtain s0 where s0: "s0 \<in> set (subscription_rows (ma_between E T))" "ws_id s0 = ws_id p" "ws_tenant_id s0 = ws_tenant_id p"
    "ws_workspace_id s0 = ws_workspace_id p"
    using s(1) by (auto simp: grows_def p_def)
  obtain x U where rep: "replaceSubscription p (ma_between E T) = (x, U)" by fastforce
  have "subscription_rows T' = subscription_rows U"
    using run rep t by (auto simp: transition_webhook_def Let_def split: sum.splits option.splits)
  then show ?thesis
    using replaced_row [OF rep s0] s(3-5) by (simp add: p_def)
qed

end
