(* ===== verification/Spec2Isabelle.thy ===== *)
theory Spec2Isabelle
  imports Sched_Runs Async_Claims Async_Recovery Async_Retry Saga_Runs Saga_Engine_Props Quota_Props Webhook_Props
begin

text \<open>
  \<^bold>\<open>Falcone\<close> is a multi-tenant backend platform: a control plane and its executor
  (\<open>apps/control-plane\<close>, \<open>apps/control-plane-executor\<close>) manage workspaces, databases, functions and
  topics of tenants, with packages for scheduling, provisioning, plans and quotas, webhooks and data
  access (\<open>packages/*\<close>). This development models the parts that keep state of their own and decide
  over it: scheduled jobs, asynchronous operations, sagas, quotas with plans, and webhooks.

  \<^bold>\<open>How the parts interact.\<close> Requests reach actions that authorize the caller, validate, and write
  PostgreSQL tables. Long-running work is an asynchronous operation: its row moves through a status
  machine, is retried, cancelled or timed out. Provisioning steps that touch several systems run as a
  saga, which records how to undo each step and mirrors its status into the operation tables. What a
  tenant may use is given by its plan, its overrides and the allocations of its workspaces. Scheduled
  jobs are created within a quota and executed by a periodic trigger. Events of a workspace reach the
  webhooks its tenants subscribed, signed, with retries, and only at public addresses.

  \<^bold>\<open>Shared theories.\<close> \<open>JS_Prelude\<close>: exceptions as sums (\<open>bindE\<close>), missing values as options, the
  string and number functions the code uses, tables as lists of rows (\<open>updWhere\<close> is
  \<open>UPDATE .. WHERE\<close>). \<open>JS_Json\<close>: JSON values and \<open>JSON.stringify\<close>. \<open>Lifecycle\<close>: the interfaces
  (locales) for status machines, keyed updates, admission tests and sources of run times.
  \<open>Quota_Index\<close>: the interface of partial unique indexes. Every locale is interpreted on the model's
  own definitions where the component is defined.

  \<^bold>\<open>Scheduling\<close> (\<open>packages/scheduling-engine\<close>). \<open>Cron\<close> is \<open>src/cron-validator.mjs\<close>;
  \<open>Sched_Model\<close> the job, execution, quota, configuration and audit models under \<open>src\<close>;
  \<open>Sched_Actions\<close> the management API, trigger and runner under \<open>actions\<close>. \<open>Sched_Props\<close> and
  \<open>Sched_Runs\<close> show that the next run is the first match (C1), that tenants are isolated and the quota
  of active jobs is kept (C5, C6), that a job has one execution per slot and an execution runs once
  (C8, C10), and where the code falls short (C3, C13).

  \<^bold>\<open>Asynchronous operations\<close> (\<open>packages/provisioning-orchestrator\<close>). \<open>Async_Model\<close> holds the
  models, \<open>Async_Repo\<close> the tables and repositories, \<open>Async_Events\<close> the events and
  \<open>Async_Actions\<close> the actions and sweeps. \<open>Async_Props\<close> and \<open>Async_Runs\<close> define the step relation of
  all actions and prove its invariants (C15 to C17); \<open>Async_Claims\<close> idempotent creation (C18, C19);
  \<open>Async_Recovery\<close> the sweeps (C21, C22); \<open>Async_Retry\<close> retries, overrides and cancellation (C23,
  C25, C26).

  \<^bold>\<open>Durable sagas\<close> (\<open>apps/control-plane/saga.mjs\<close> and the database provisioning saga of
  \<open>b-handlers.mjs\<close>). \<open>Saga_Durable\<close> is the code; \<open>Saga_Rollback\<close> an abstract rollback and the proof
  that the select, claim, call, mark loop implements it (C27); \<open>Saga_Workers\<close> the interleavings of
  several replicas with crashes, under which a compensator is called at most once per step (C28);
  \<open>Saga_Runs\<close> the outcomes of a failing saga and of provisioning (C29, C30) and the two windows in
  which an effect is never undone (C31 and \<open>unrecorded_effect_survives\<close>).

  \<^bold>\<open>Workflow sagas\<close> (\<open>apps/control-plane-executor/src/saga\<close>, \<open>src/workflows\<close>). \<open>Saga_Engine\<close> holds
  store, compensation, engine, idempotency, recovery and status queries; \<open>Saga_Engine_Props\<close> the
  reverse-order rollback with bounded attempts (C32), replay of completed sagas (C33), what is lost
  without a query function (\<open>without_backend_runs_again\<close>), and isolation of the status queries (C35).

  \<^bold>\<open>Quotas and plans\<close> (\<open>packages/provisioning-orchestrator\<close>). \<open>Quota_Model\<close> holds the models of
  dimensions, overrides, enforcement, sub-quotas, plans and assignments; \<open>Quota_Repo\<close> the tables with
  their constraints and the repositories; \<open>Quota_Actions\<close> the actions. \<open>Quota_Inv\<close> and \<open>Quota_Steps\<close>
  prove the invariant of the tables for every action and every interleaving of their statements;
  \<open>Quota_Props\<close> states that enforcement follows the precedence override, plan, default (C36) and agrees
  with the entitlement report (C37), that allocations stay within the limit (C38), what runs keep (C39,
  C40), and the race of archiving with assigning.

  \<^bold>\<open>Webhooks\<close> (\<open>packages/webhook-engine\<close>, with \<open>webhook-db.mjs\<close> and \<open>webhook-runtime.mjs\<close> of
  \<open>apps/control-plane\<close>). \<open>Webhook_Address\<close> is the address filter; \<open>Webhook_Numeric\<close> and
  \<open>Webhook_Embedded\<close> prove that it decides numeric hosts and embedded addresses by the blocked ranges
  (C4). \<open>Webhook_Model\<close> holds the models, \<open>Webhook_Delivery\<close> dispatcher, worker, retry scheduler and
  their wiring; \<open>Webhook_Runs\<close> shows that requests reach public addresses only (C12) and that a delivery
  terminates (C14). \<open>Webhook_Management\<close> is the PostgreSQL adapter and the management action;
  \<open>Webhook_Tables\<close> the invariant of subscriptions and secrets (C20), \<open>Webhook_Scope\<close> the reach of a
  request (C24), \<open>Webhook_Props\<close> the statements, the overlap of secrets after a rotation (C34), and the
  race in which a deleted subscription comes back.

  \<^bold>\<open>Bounds and fuel.\<close> The only loop with a limit of the code's own is the search for the next run,
  which steps through the minutes of 366 days (\<open>cron_window\<close>), the bound in the source; the loop that
  records missed runs stops at the cap of the source (\<open>cap_rounds\<close>); compensation attempts are
  counted down from \<open>maxRetries\<close>. The webhook worker and the retry scheduler invoke each other;
  \<open>runtime_invoke\<close> has fuel for the nesting, and C14 shows that the attempts left are enough. All other
  recursions are structural or have a measure.

  \<^bold>\<open>Concurrency.\<close> A transaction is one function on the tables. Where an action has several statements
  outside a transaction, the effect of other clients between them is an argument (\<open>interleave\<close>,
  \<open>between\<close>) or the step relation has one step per statement. Identifiers from \<open>randomUUID\<close> are
  arguments that are fresh where a property needs it; clocks are arguments.

  \<^bold>\<open>Not modelled.\<close> HTTP servers and handlers, consoles, adapters for PostgreSQL, MongoDB, OpenWhisk and
  storage, change-data-capture bridges, the realtime gateway, backup status, generators of SDKs and
  documentation, and container runtimes: these build requests and perform input and output, or are
  later components. Of the modelled components: log lines and metrics; the content of the audit
  records of the workflow sagas; the master-key lifecycle of webhooks; failures of the injected
  delivery store; the plan change history and its impact report (a parameter of
  \<open>plan_assign\<close>); the hash chain of the audit log; the in-memory stores used by tests; rounding of
  64-bit floating-point numbers; characters outside 8 bits.
\<close>

end
